(* ===== verification/Prelude.thy ===== *)
theory Prelude
  imports Main "HOL-Library.Word" "HOL-Library.List_Lexorder" "HOL-Library.Multiset"
    "HOL-Library.AList"
begin

text \<open>
  The part of ECMAScript the observatory sources rely on, shared by every component theory:
  strings as sequences of 16-bit code units, dynamically typed values, property access, string
  conversion, truthiness, strict equality, insertion-ordered dictionaries, the stable
  \<open>Array.prototype.sort\<close> and the string form of \<open>JSON.stringify\<close>.

  Numbers are integers: every number the modelled code computes with is a sequence number, an
  ordinal, an index, a count or a millisecond instant, all of them integers within the range
  in which a double is exact. Values are the ones \<open>JSON.parse\<close> can produce, and
  \<open>undefined\<close>. Property names inherited from \<open>Object.prototype\<close> are outside the model.
\<close>

named_theorems js_eval \<open>equations that evaluate string literals and value accessors\<close>
named_theorems sort_laws \<open>what a consistent comparator gives \<open>Array.prototype.sort\<close>\<close>

section \<open>Strings\<close>

type_synonym code_unit = "16 word"
type_synonym jsstring = "code_unit list"

definition unit_of :: "char \<Rightarrow> code_unit" where
  "unit_of c = word_of_nat (of_char c)"

definition js :: "string \<Rightarrow> jsstring" where
  "js s = map unit_of s"

definition em_dash :: jsstring where
  "em_dash = [0x2014]"

fun nat_digits :: "nat \<Rightarrow> jsstring" where
  "nat_digits n = (if n < 10 then [word_of_nat (48 + n)]
     else nat_digits (n div 10) @ [word_of_nat (48 + n mod 10)])"

declare nat_digits.simps [simp del]

definition show_int :: "int \<Rightarrow> jsstring" where
  "show_int n = (if n < 0 then js ''-'' @ nat_digits (nat (- n)) else nat_digits (nat n))"

definition show_nat :: "nat \<Rightarrow> jsstring" where
  "show_nat n = nat_digits n"

fun js_join :: "jsstring \<Rightarrow> jsstring list \<Rightarrow> jsstring" where
  "js_join sep [] = []"
| "js_join sep [x] = x"
| "js_join sep (x # y # zs) = x @ sep @ js_join sep (y # zs)"

definition startsWith :: "jsstring \<Rightarrow> jsstring \<Rightarrow> bool" where
  "startsWith s p = (take (length p) s = p)"

definition endsWith :: "jsstring \<Rightarrow> jsstring \<Rightarrow> bool" where
  "endsWith s p = (length p \<le> length s \<and> drop (length s - length p) s = p)"

definition upper_unit :: "code_unit \<Rightarrow> code_unit" where
  "upper_unit c = (if 97 \<le> c \<and> c \<le> 122 then c - 32 else c)"

text \<open>\<open>toUpperCase\<close> on the ASCII channel states it is applied to.\<close>

definition toUpperCase :: "jsstring \<Rightarrow> jsstring" where
  "toUpperCase s = map upper_unit s"

text \<open>The code units that \<open>trim\<close> and \<open>\s\<close> treat as white space.\<close>

definition is_space :: "code_unit \<Rightarrow> bool" where
  "is_space c \<longleftrightarrow> (9 \<le> c \<and> c \<le> 13) \<or> c = 32 \<or> c = 160 \<or> c = 0x1680 \<or> (0x2000 \<le> c \<and> c \<le> 0x200A) \<or>
     c = 0x2028 \<or> c = 0x2029 \<or> c = 0x202F \<or> c = 0x205F \<or> c = 0x3000 \<or> c = 0xFEFF"

definition trim :: "jsstring \<Rightarrow> jsstring" where
  "trim s = rev (dropWhile is_space (rev (dropWhile is_space s)))"

section \<open>Values\<close>

datatype json =
    JUndef
  | JNull
  | JBool bool
  | JNum int
  | JStr jsstring
  | JArr "json list"
  | JObj "(jsstring \<times> json) list"

fun jfield :: "json \<Rightarrow> jsstring \<Rightarrow> json" where
  "jfield (JObj kvs) k = (case map_of kvs k of None \<Rightarrow> JUndef | Some v \<Rightarrow> v)"
| "jfield _ k = JUndef"

definition fld :: "json \<Rightarrow> string \<Rightarrow> json" where
  "fld v k = jfield v (js k)"

text \<open>\<open>o.k = v\<close> on an object value: an existing property keeps its place.\<close>

fun jput :: "string \<Rightarrow> json \<Rightarrow> json \<Rightarrow> json" where
  "jput k v (JObj kvs) = JObj (AList.update (js k) v kvs)"
| "jput k v w = w"

fun truthy :: "json \<Rightarrow> bool" where
  "truthy JUndef = False"
| "truthy JNull = False"
| "truthy (JBool b) = b"
| "truthy (JNum n) = (n \<noteq> 0)"
| "truthy (JStr s) = (s \<noteq> [])"
| "truthy (JArr _) = True"
| "truthy (JObj _) = True"

fun nullish :: "json \<Rightarrow> bool" where
  "nullish JUndef = True"
| "nullish JNull = True"
| "nullish _ = False"

text \<open>\<open>v && typeof v === "object"\<close>\<close>

fun is_object :: "json \<Rightarrow> bool" where
  "is_object (JArr _) = True"
| "is_object (JObj _) = True"
| "is_object _ = False"

fun num_of :: "json \<Rightarrow> int option" where
  "num_of (JNum n) = Some n"
| "num_of _ = None"

fun str_of :: "json \<Rightarrow> jsstring option" where
  "str_of (JStr s) = Some s"
| "str_of _ = None"

text \<open>
  \<open>===\<close>: by value on primitives. Two separately obtained objects or arrays are never
  identical.
\<close>

fun strict_eq :: "json \<Rightarrow> json \<Rightarrow> bool" where
  "strict_eq JUndef JUndef = True"
| "strict_eq JNull JNull = True"
| "strict_eq (JBool a) (JBool b) = (a = b)"
| "strict_eq (JNum a) (JNum b) = (a = b)"
| "strict_eq (JStr a) (JStr b) = (a = b)"
| "strict_eq _ _ = False"

text \<open>\<open>String(v)\<close>, also the conversion of a property key and of a template literal hole.\<close>

fun jsString :: "json \<Rightarrow> jsstring" where
  "jsString JUndef = js ''undefined''"
| "jsString JNull = js ''null''"
| "jsString (JBool b) = (if b then js ''true'' else js ''false'')"
| "jsString (JNum n) = show_int n"
| "jsString (JStr s) = s"
| "jsString (JArr vs) = js_join (js '','') (map (\<lambda>v. if nullish v then [] else jsString v) vs)"
| "jsString (JObj _) = js ''[object Object]''"

section \<open>Dictionaries\<close>

text \<open>
  A \<open>Record\<close> built by assignments is an association list without repeated keys:
  \<open>AList.update\<close> replaces in place and appends new keys, as property assignment does.
\<close>

type_synonym 'v dict = "(jsstring \<times> 'v) list"

definition dict_get :: "'v dict \<Rightarrow> jsstring \<Rightarrow> 'v option" where
  "dict_get m k = map_of m k"

definition dict_put :: "jsstring \<Rightarrow> 'v \<Rightarrow> 'v dict \<Rightarrow> 'v dict" where
  "dict_put k v m = AList.update k v m"

text \<open>\<open>m[k] = (m[k] || 0) + 1\<close>\<close>

definition dict_incr :: "jsstring \<Rightarrow> nat dict \<Rightarrow> nat dict" where
  "dict_incr k m = dict_put k (case dict_get m k of None \<Rightarrow> 1 | Some n \<Rightarrow> n + 1) m"

section \<open>Sorting\<close>

text \<open>\<open>Array.prototype.sort\<close>: stable, driven by the sign of the comparator.\<close>

fun js_insert :: "('a \<Rightarrow> 'a \<Rightarrow> int) \<Rightarrow> 'a \<Rightarrow> 'a list \<Rightarrow> 'a list" where
  "js_insert cmp x [] = [x]"
| "js_insert cmp x (y # ys) = (if cmp x y \<le> 0 then x # y # ys else y # js_insert cmp x ys)"

definition js_sort :: "('a \<Rightarrow> 'a \<Rightarrow> int) \<Rightarrow> 'a list \<Rightarrow> 'a list" where
  "js_sort cmp xs = foldr (js_insert cmp) xs []"

text \<open>The default comparator of \<open>sort()\<close>: code unit order.\<close>

definition cmp_units :: "jsstring \<Rightarrow> jsstring \<Rightarrow> int" where
  "cmp_units a b = (if a < b then -1 else if a = b then 0 else 1)"

section \<open>JSON text\<close>

definition hex_digit :: "nat \<Rightarrow> code_unit" where
  "hex_digit d = (if d < 10 then word_of_nat (48 + d) else word_of_nat (87 + d))"

definition hex4 :: "nat \<Rightarrow> jsstring" where
  "hex4 n = [hex_digit (n div 4096 mod 16), hex_digit (n div 256 mod 16),
     hex_digit (n div 16 mod 16), hex_digit (n mod 16)]"

definition is_high_surrogate :: "code_unit \<Rightarrow> bool" where
  "is_high_surrogate c = (0xD800 \<le> c \<and> c \<le> 0xDBFF)"

definition is_low_surrogate :: "code_unit \<Rightarrow> bool" where
  "is_low_surrogate c = (0xDC00 \<le> c \<and> c \<le> 0xDFFF)"

definition escape_unit :: "code_unit \<Rightarrow> jsstring" where
  "escape_unit c =
     (if c = 34 then [92, 34]
      else if c = 92 then [92, 92]
      else if c = 8 then [92, 98]
      else if c = 9 then [92, 116]
      else if c = 10 then [92, 110]
      else if c = 12 then [92, 102]
      else if c = 13 then [92, 114]
      else if c < 32 then [92, 117] @ hex4 (unat c)
      else [c])"

text \<open>Surrogate pairs are copied, lone surrogates are escaped.\<close>

fun escape_units :: "jsstring \<Rightarrow> jsstring" where
  "escape_units [] = []"
| "escape_units (c # s) =
     (if is_high_surrogate c then
        (case s of
           [] \<Rightarrow> [92, 117] @ hex4 (unat c)
         | d # s' \<Rightarrow> if is_low_surrogate d then c # d # escape_units s'
                     else [92, 117] @ hex4 (unat c) @ escape_units (d # s'))
      else if is_low_surrogate c then [92, 117] @ hex4 (unat c) @ escape_units s
      else escape_unit c @ escape_units s)"

definition json_quote :: "jsstring \<Rightarrow> jsstring" where
  "json_quote s = [34] @ escape_units s @ [34]"

section \<open>Lemmas\<close>

lemma of_char_lt_256: "(of_char c :: nat) < 256"
  using of_char_mod_256 [of c, where 'a = nat] by (metis mod_less_divisor zero_less_numeral)

lemma unat_unit_of: "unat (unit_of c) = of_char c"
proof -
  have "(of_char c :: nat) < 65536" using of_char_lt_256 [of c] by linarith
  then show ?thesis by (simp add: unit_of_def unat_of_nat)
qed

lemma unit_of_inj [simp]: "unit_of c = unit_of d \<longleftrightarrow> c = d"
  by (metis of_char_eq_iff unat_unit_of)

lemma js_eq_iff [simp]: "js s = js t \<longleftrightarrow> s = t"
  by (simp add: js_def inj_map_eq_map inj_def)

lemma js_eq_Nil [simp]: "js s = [] \<longleftrightarrow> s = []" "[] = js s \<longleftrightarrow> s = []"
  by (auto simp: js_def)

lemma js_append: "js (s @ t) = js s @ js t"
  by (simp add: js_def)

lemma unit_of_ne_big: "unit_of c \<noteq> 0x2014"
proof
  assume "unit_of c = 0x2014"
  then have "unat (unit_of c) = 0x2014" by simp
  then show False using of_char_lt_256 [of c] by (simp add: unat_unit_of)
qed

lemma js_ne_em_dash [simp]: "js s \<noteq> em_dash" "em_dash \<noteq> js s"
  using unit_of_ne_big by (fastforce simp: js_def em_dash_def)+

lemma em_dash_ne_Nil [simp]: "em_dash \<noteq> []"
  by (simp add: em_dash_def)

lemma fld_JObj [js_eval]:
  "fld (JObj kvs) k = (case map_of kvs (js k) of None \<Rightarrow> JUndef | Some v \<Rightarrow> v)"
  by (simp add: fld_def)

lemma fld_jput [simp]:
  "fld (jput k v (JObj kvs)) k' = (if k' = k then v else fld (JObj kvs) k')"
  by (auto simp: fld_def update_conv')

lemma num_of_eq_Some [simp]: "num_of v = Some n \<longleftrightarrow> v = JNum n"
  by (cases v) auto

lemma str_of_eq_Some [simp]: "str_of v = Some s \<longleftrightarrow> v = JStr s"
  by (cases v) auto

subsection \<open>Dictionaries\<close>

lemma dict_get_put [simp]: "dict_get (dict_put k v m) k' = (if k' = k then Some v else dict_get m k')"
  by (simp add: dict_get_def dict_put_def update_conv')

lemma dict_get_Nil [simp]: "dict_get [] k = None"
  by (simp add: dict_get_def)

lemma dict_keys_put [simp]: "fst ` set (dict_put k v m) = insert k (fst ` set m)"
  by (simp add: dict_put_def dom_update)

lemma distinct_dict_put [simp]: "distinct (map fst m) \<Longrightarrow> distinct (map fst (dict_put k v m))"
  by (simp add: dict_put_def distinct_update)

subsection \<open>Sorting\<close>

lemma mset_js_insert [simp]: "mset (js_insert cmp x ys) = add_mset x (mset ys)"
  by (induction ys) auto

lemma mset_js_sort [simp]: "mset (js_sort cmp xs) = mset xs"
  by (induction xs) (auto simp: js_sort_def)

lemma set_js_sort [simp]: "set (js_sort cmp xs) = set xs"
  by (metis mset_js_sort set_mset_mset)

lemma length_js_sort [simp]: "length (js_sort cmp xs) = length xs"
  by (metis mset_js_sort size_mset)

lemma js_sort_Nil [simp]: "js_sort cmp [] = []"
  by (simp add: js_sort_def)

lemma js_sort_Cons: "js_sort cmp (x # xs) = js_insert cmp x (js_sort cmp xs)"
  by (simp add: js_sort_def)

lemma js_insert_filter:
  assumes "\<And>y. y \<in> set ys \<Longrightarrow> P x \<Longrightarrow> P y \<Longrightarrow> cmp x y \<le> 0"
  shows "filter P (js_insert cmp x ys) = (if P x then x # filter P ys else filter P ys)"
  using assms by (induction ys) auto

text \<open>Elements the comparator does not separate keep their relative order.\<close>

lemma js_sort_stable:
  assumes "\<And>x y. x \<in> set xs \<Longrightarrow> y \<in> set xs \<Longrightarrow> P x \<Longrightarrow> P y \<Longrightarrow> cmp x y \<le> 0"
  shows "filter P (js_sort cmp xs) = filter P xs"
  using assms
proof (induction xs)
  case (Cons x xs)
  have "filter P (js_insert cmp x (js_sort cmp xs)) =
      (if P x then x # filter P (js_sort cmp xs) else filter P (js_sort cmp xs))"
    by (rule js_insert_filter) (simp add: Cons.prems)
  with Cons show ?case by (simp add: js_sort_Cons)
qed simp

lemma js_sort_idle: "sorted_wrt (\<lambda>a b. cmp a b \<le> 0) xs \<Longrightarrow> js_sort cmp xs = xs"
proof (induction xs)
  case (Cons x xs)
  then show ?case by (cases xs) (auto simp: js_sort_Cons)
qed simp

text \<open>
  The contract of a comparator: the sign order is a total preorder. Every comparator the sources
  pass to \<open>sort\<close> has to satisfy it for the result to be determined by the language.
\<close>

locale js_comparator =
  fixes cmp :: "'a \<Rightarrow> 'a \<Rightarrow> int"
  assumes cmp_total: "cmp a b \<le> 0 \<or> cmp b a \<le> 0"
    and cmp_trans: "cmp a b \<le> 0 \<Longrightarrow> cmp b c \<le> 0 \<Longrightarrow> cmp a c \<le> 0"
begin

abbreviation le :: "'a \<Rightarrow> 'a \<Rightarrow> bool" where
  "le a b \<equiv> cmp a b \<le> 0"

lemma insert_sorted: "sorted_wrt le ys \<Longrightarrow> sorted_wrt le (js_insert cmp x ys)"
proof (induction ys)
  case (Cons y ys)
  have set_ins: "set (js_insert cmp x ys) = insert x (set ys)"
    by (metis mset_js_insert set_mset_add_mset_insert set_mset_mset)
  show ?case
  proof (cases "le x y")
    case True
    with Cons.prems show ?thesis by (auto intro: cmp_trans)
  next
    case False
    then have "le y x" using cmp_total by blast
    with Cons False set_ins show ?thesis by auto
  qed
qed simp

lemma sort_sorted: "sorted_wrt le (js_sort cmp xs)"
  by (induction xs) (auto simp: js_sort_Cons insert_sorted)

lemma sort_idem: "js_sort cmp (js_sort cmp xs) = js_sort cmp xs"
  by (rule js_sort_idle) (rule sort_sorted)

lemma sort_equiv_stable: "filter (\<lambda>y. le x y \<and> le y x) (js_sort cmp xs) = filter (\<lambda>y. le x y \<and> le y x) xs"
  by (rule js_sort_stable) (blast intro: cmp_trans)

end

interpretation unit_order: js_comparator cmp_units
  by unfold_locales (auto simp: cmp_units_def split: if_splits)

lemma filter_unique:
  assumes "distinct (map f xs)" and "x \<in> set xs" and "\<And>y. y \<in> set xs \<Longrightarrow> P y \<longleftrightarrow> f y = f x"
  shows "filter P xs = [x]"
  using assms
proof (induction xs)
  case (Cons z zs)
  show ?case
  proof (cases "z = x")
    case True
    then have "filter P zs = []" using Cons.prems by (auto simp: filter_empty_conv image_iff)
    with True Cons.prems show ?thesis by simp
  next
    case False
    with Cons show ?thesis by (auto simp: image_iff)
  qed
qed simp

section \<open>Players\<close>

text \<open>
  The contract of a player: a firing of its interval takes it from position \<open>k\<close> to position \<open>k + 1\<close>,
  and from the last position to rest.
\<close>

locale tick_player =
  fixes step :: "'s \<Rightarrow> 's"
    and at :: "nat \<Rightarrow> 's \<Rightarrow> bool"
    and rests :: "'s \<Rightarrow> bool"
    and len :: nat
  assumes advance: "at k s \<Longrightarrow> Suc k < len \<Longrightarrow> at (Suc k) (step s)"
    and finish: "at k s \<Longrightarrow> Suc k = len \<Longrightarrow> rests (step s)"
begin

lemma advances: "at 0 s \<Longrightarrow> k < len \<Longrightarrow> at k ((step ^^ k) s)"
proof (induction k)
  case (Suc k)
  then show ?case using advance by simp
qed simp

lemma plays_through:
  assumes "at 0 s" and "len > 0"
  shows "(\<forall>k<len. at k ((step ^^ k) s)) \<and> rests ((step ^^ len) s)"
proof -
  obtain m where m: "len = Suc m" using assms(2) by (cases len) auto
  have "at m ((step ^^ m) s)" using advances [OF assms(1)] m by simp
  with finish m have "rests ((step ^^ len) s)" by simp
  with advances [OF assms(1)] show ?thesis by blast
qed

end

end
