(* ===== verification/Live.thy ===== *)
theory Live
  imports Prelude
begin

text \<open>
  The live projection client of \<open>lib/live.ts\<close>: the durable order, the per-source high-water
  mark and the client that merges the durable history with broadcast frames.

  An operation of the class is a function on the record \<open>client\<close>. The three asynchronous
  operations (\<open>bootstrap\<close>, \<open>resync\<close>, \<open>reconnectResync\<close>) are split at their
  \<open>await\<close>: calling one adds a task to \<open>c_pending\<close>, and a later step with the result of
  \<open>store.loadAll\<close> runs the rest. Any other operation may run in between, as it may in the
  event loop. \<open>c_observed\<close> records what the change listener reads at each notification.
\<close>

section \<open>Data\<close>

datatype liveState = UNAVAILABLE | LIVE | CATCHING_UP | DEGRADED | PROJECTION_UNAVAILABLE

type_synonym event = json

datatype anomalyKind = DUPLICATE | OUT_OF_ORDER | STALE | GAP

record liveAnomaly =
  a_kind :: anomalyKind
  a_at_index :: nat
  a_source_system :: json
  a_source_event_id :: json
  a_message :: jsstring

datatype receiveKind = R_APPENDED | R_DUPLICATE | R_GAP | R_STALE | R_REJECTED | R_BUFFERED

record receiveResult =
  r_kind :: receiveKind
  r_anomaly :: "liveAnomaly option"
  r_appended :: "bool option"

datatype loadResult = Loaded "event list" | LoadFailed jsstring

datatype task = TBootstrap | TResync | TReconnect | TReconnectCont bool

text \<open>What the change listener reads off the client.\<close>

record liveView =
  v_state :: liveState
  v_anomalies :: "(anomalyKind \<times> jsstring) list"
  v_eventCount :: nat
  v_lastError :: "jsstring option"

record client =
  c_runId :: jsstring
  c_state :: liveState
  c_events :: "event list"
  c_highWater :: "int dict"
  c_anomalies :: "liveAnomaly list"
  c_lastError :: "jsstring option"
  c_onChange :: bool
  c_observed :: "liveView list"
  c_durableReady :: bool
  c_transportReady :: bool
  c_hasConnected :: bool
  c_bootstrapped :: bool
  c_preBootstrapBuffer :: "json list"
  c_pending :: "task list"

section \<open>High water and durable order\<close>

definition hw_get :: "int dict \<Rightarrow> jsstring \<Rightarrow> int" where
  "hw_get hw s = (case dict_get hw s of None \<Rightarrow> -1 | Some n \<Rightarrow> n)"

definition seq_or_low :: "event \<Rightarrow> int" where
  "seq_or_low e = (case num_of (fld e ''sequence'') of Some n \<Rightarrow> n | None \<Rightarrow> -1)"

definition source_key :: "event \<Rightarrow> jsstring" where
  "source_key e = jsString (fld e ''source_system'')"

fun highWaterFrom :: "int dict \<Rightarrow> event list \<Rightarrow> int dict" where
  "highWaterFrom hw [] = hw"
| "highWaterFrom hw (e # es) =
     highWaterFrom (dict_put (source_key e) (max (hw_get hw (source_key e)) (seq_or_low e)) hw) es"

definition highWaterOf :: "event list \<Rightarrow> int dict" where
  "highWaterOf es = highWaterFrom [] es"

definition ordinal_of :: "event \<Rightarrow> int option" where
  "ordinal_of e = num_of (fld e ''projection_ordinal'')"

fun durable_cmp :: "event \<times> nat \<Rightarrow> event \<times> nat \<Rightarrow> int" where
  "durable_cmp (a, i) (b, j) =
     (case (ordinal_of a, ordinal_of b) of
        (Some oa, Some ob) \<Rightarrow> oa - ob
      | (Some _, None) \<Rightarrow> -1
      | (None, Some _) \<Rightarrow> 1
      | (None, None) \<Rightarrow> int i - int j)"

definition globalDurableOrder :: "event list \<Rightarrow> event list" where
  "globalDurableOrder es = map fst (js_sort durable_cmp (zip es [0..<length es]))"

section \<open>The client\<close>

definition new_client :: "jsstring \<Rightarrow> client" where
  "new_client rid = \<lparr> c_runId = rid, c_state = UNAVAILABLE, c_events = [], c_highWater = [],
     c_anomalies = [], c_lastError = None, c_onChange = False, c_observed = [],
     c_durableReady = False, c_transportReady = False, c_hasConnected = False,
     c_bootstrapped = False, c_preBootstrapBuffer = [], c_pending = [] \<rparr>"

definition view_of :: "client \<Rightarrow> liveView" where
  "view_of c = \<lparr> v_state = c_state c, v_anomalies = map (\<lambda>a. (a_kind a, a_message a)) (c_anomalies c),
     v_eventCount = length (c_events c), v_lastError = c_lastError c \<rparr>"

definition emitChange :: "client \<Rightarrow> client" where
  "emitChange c = (if c_onChange c then c\<lparr>c_observed := c_observed c @ [view_of c]\<rparr> else c)"

definition recomputeState :: "client \<Rightarrow> client" where
  "recomputeState c =
     (if c_events c = [] then
        c\<lparr>c_state := if c_durableReady c then PROJECTION_UNAVAILABLE else UNAVAILABLE\<rparr>
      else if c_durableReady c \<and> c_transportReady c then c\<lparr>c_state := LIVE\<rparr>
      else if c_durableReady c \<and> \<not> c_transportReady c then c\<lparr>c_state := PROJECTION_UNAVAILABLE\<rparr>
      else c\<lparr>c_state := CATCHING_UP\<rparr>)"

definition normalizeEnvelope :: "json \<Rightarrow> event option" where
  "normalizeEnvelope m =
     (if \<not> is_object m then None
      else if (strict_eq (fld m ''type'') (JStr (js ''broadcast'')) \<or> fld m ''type'' = JUndef) \<and>
              strict_eq (fld m ''event'') (JStr (js ''projection_event'')) \<and>
              is_object (fld m ''payload'')
      then Some (fld m ''payload'')
      else if is_object (fld m ''event'') \<and> truthy (fld (fld m ''event'') ''source_system'')
      then Some (fld m ''event'')
      else if truthy (fld m ''source_system'') then Some m
      else None)"

definition same_identity :: "event \<Rightarrow> event \<Rightarrow> bool" where
  "same_identity e e' \<longleftrightarrow> strict_eq (fld e ''source_system'') (fld e' ''source_system'') \<and>
     strict_eq (fld e ''source_event_id'') (fld e' ''source_event_id'')"

definition startLoad :: "task \<Rightarrow> client \<Rightarrow> client" where
  "startLoad t c = c\<lparr>c_pending := c_pending c @ [t]\<rparr>"

definition gap_anomaly :: "event \<Rightarrow> int \<Rightarrow> int \<Rightarrow> nat \<Rightarrow> liveAnomaly" where
  "gap_anomaly evt seq expected idx = \<lparr> a_kind = GAP, a_at_index = idx,
     a_source_system = fld evt ''source_system'', a_source_event_id = fld evt ''source_event_id'',
     a_message = js ''live sequence gap at ('' @ source_key evt @ js ''): seq='' @ show_int seq @
       js '' expected next '' @ show_int expected @ js ''; awaiting historical catch-up'' \<rparr>"

definition stale_anomaly :: "event \<Rightarrow> int \<Rightarrow> int \<Rightarrow> nat \<Rightarrow> liveAnomaly" where
  "stale_anomaly evt seq hw idx = \<lparr> a_kind = STALE, a_at_index = idx,
     a_source_system = fld evt ''source_system'', a_source_event_id = fld evt ''source_event_id'',
     a_message = js ''stale live event at ('' @ source_key evt @ js ''): seq='' @ show_int seq @
       js '' behind high-water '' @ show_int hw \<rparr>"

text \<open>The sequenced part of \<open>receiveLive\<close>: gap, append, stale.\<close>

definition receiveSequenced :: "event \<Rightarrow> int \<Rightarrow> client \<Rightarrow> receiveResult \<times> client" where
  "receiveSequenced evt seq c =
     (let src = source_key evt; hw = hw_get (c_highWater c) src; expected = hw + 1 in
      if hw \<ge> 0 \<and> seq > expected then
        let a = gap_anomaly evt seq expected (length (c_events c));
            c1 = emitChange (c\<lparr>c_anomalies := c_anomalies c @ [a], c_state := CATCHING_UP\<rparr>)
        in (\<lparr>r_kind = R_GAP, r_anomaly = Some a, r_appended = None\<rparr>, startLoad TResync c1)
      else
        let prev = length (c_events c);
            c1 = c\<lparr>c_events := globalDurableOrder (c_events c @ [evt]),
                   c_highWater := dict_put src (max hw seq) (c_highWater c)\<rparr>;
            c2 = (recomputeState c1)\<lparr>c_lastError := None\<rparr>
        in if seq < hw \<and> hw \<ge> 0 then
             let a = stale_anomaly evt seq hw prev
             in (\<lparr>r_kind = R_STALE, r_anomaly = Some a, r_appended = None\<rparr>,
                 emitChange (c2\<lparr>c_anomalies := c_anomalies c2 @ [a]\<rparr>))
           else (\<lparr>r_kind = R_APPENDED, r_anomaly = None, r_appended = Some True\<rparr>, emitChange c2))"

definition rejected :: receiveResult where
  "rejected = \<lparr>r_kind = R_REJECTED, r_anomaly = None, r_appended = None\<rparr>"

definition receiveEvent :: "event \<Rightarrow> client \<Rightarrow> receiveResult \<times> client" where
  "receiveEvent evt c =
     (if \<not> truthy (fld evt ''source_system'') \<or> \<not> truthy (fld evt ''source_event_id'') then
        (rejected, emitChange (c\<lparr>c_lastError := Some (js ''invalid live envelope (missing source identity)'')\<rparr>))
      else if \<not> strict_eq (fld evt ''run_id'') (JStr (c_runId c)) then (rejected, c)
      else if \<exists>e \<in> set (c_events c). same_identity e evt then
        (\<lparr>r_kind = R_DUPLICATE, r_anomaly = None, r_appended = None\<rparr>, emitChange c)
      else case num_of (fld evt ''sequence'') of
        None \<Rightarrow>
          (\<lparr>r_kind = R_APPENDED, r_anomaly = None, r_appended = Some True\<rparr>,
           emitChange ((recomputeState (c\<lparr>c_events := c_events c @ [evt]\<rparr>))\<lparr>c_lastError := None\<rparr>))
      | Some seq \<Rightarrow> receiveSequenced evt seq c)"

definition receiveLive :: "json \<Rightarrow> client \<Rightarrow> receiveResult \<times> client" where
  "receiveLive message c =
     (if \<not> c_bootstrapped c then
        (\<lparr>r_kind = R_BUFFERED, r_anomaly = None, r_appended = Some False\<rparr>,
         c\<lparr>c_preBootstrapBuffer := c_preBootstrapBuffer c @ [message]\<rparr>)
      else case normalizeEnvelope message of
        None \<Rightarrow> (rejected, emitChange (c\<lparr>c_lastError := Some (js ''live frame missing valid envelope'')\<rparr>))
      | Some evt \<Rightarrow> receiveEvent evt c)"

fun receiveAll :: "json list \<Rightarrow> client \<Rightarrow> client" where
  "receiveAll [] c = c"
| "receiveAll (m # ms) c = receiveAll ms (snd (receiveLive m c))"

definition empty_error :: "event list \<Rightarrow> jsstring option" where
  "empty_error es = (if es \<noteq> [] then None else Some (js ''historical store empty or read denied''))"

definition bootstrap :: "client \<Rightarrow> client" where
  "bootstrap c = startLoad TBootstrap c"

definition bootstrap_loaded :: "event list \<Rightarrow> client \<Rightarrow> client" where
  "bootstrap_loaded loaded c =
     (let es = globalDurableOrder loaded;
          buffered = c_preBootstrapBuffer c;
          c1 = c\<lparr>c_events := es, c_highWater := highWaterOf es, c_durableReady := True,
                 c_bootstrapped := True, c_preBootstrapBuffer := []\<rparr>;
          c2 = (recomputeState c1)\<lparr>c_lastError := empty_error es\<rparr>
      in emitChange (receiveAll buffered c2))"

definition resync :: "client \<Rightarrow> client" where
  "resync c = startLoad TResync c"

fun resync_loaded :: "loadResult \<Rightarrow> client \<Rightarrow> bool \<times> client" where
  "resync_loaded (Loaded fresh) c =
     (let es = globalDurableOrder fresh;
          buffered = c_preBootstrapBuffer c;
          c1 = c\<lparr>c_preBootstrapBuffer := [], c_events := es, c_highWater := highWaterOf es,
                 c_durableReady := True\<rparr>;
          c2 = (recomputeState c1)\<lparr>c_lastError := empty_error es\<rparr>
      in (True, emitChange (receiveAll buffered c2)))"
| "resync_loaded (LoadFailed err) c =
     (False, emitChange (c\<lparr>
        c_state := if c_events c \<noteq> [] then PROJECTION_UNAVAILABLE else UNAVAILABLE,
        c_lastError := Some (js ''durable store unreachable during resync: '' @ err)\<rparr>))"

definition reconnectResync :: "client \<Rightarrow> client" where
  "reconnectResync c = startLoad TReconnect c"

definition reconnectResync_cont :: "bool \<Rightarrow> client \<Rightarrow> client" where
  "reconnectResync_cont ok c =
     emitChange (if ok then recomputeState (c\<lparr>c_transportReady := True\<rparr>)
                 else c\<lparr>c_transportReady := False\<rparr>)"

definition handleStatus :: "jsstring \<Rightarrow> client \<Rightarrow> client" where
  "handleStatus rawStatus c =
     (let status = toUpperCase rawStatus in
      if status = js ''SUBSCRIBED'' then
        if \<not> c_hasConnected c then
          emitChange (recomputeState (c\<lparr>c_hasConnected := True, c_transportReady := True\<rparr>))
        else
          reconnectResync (emitChange (c\<lparr>c_state := CATCHING_UP, c_transportReady := False,
            c_durableReady := False\<rparr>))
      else if status = js ''CHANNEL_ERROR'' \<or> status = js ''TIMED_OUT'' \<or> status = js ''CLOSED'' then
        emitChange (recomputeState (c\<lparr>c_transportReady := False\<rparr>))
      else emitChange (recomputeState c))"

text \<open>
  The status callback the constructor and \<open>bindTransport\<close> attach to the transport: the client's
  own handler, then the listener registered with \<open>setStatusListener\<close>, if any.
\<close>

definition onStatus ::
    "(jsstring \<Rightarrow> liveState \<Rightarrow> client \<Rightarrow> client) option \<Rightarrow> jsstring \<Rightarrow> liveState \<Rightarrow> client \<Rightarrow> client" where
  "onStatus listener status suggested c =
     (case listener of None \<Rightarrow> handleStatus status c
      | Some cb \<Rightarrow> cb status suggested (handleStatus status c))"

definition markTransportDown :: "client \<Rightarrow> client" where
  "markTransportDown c =
     emitChange ((recomputeState (c\<lparr>c_transportReady := False\<rparr>))
       \<lparr>c_lastError := Some (js ''realtime transport unavailable'')\<rparr>)"

section \<open>Steps of the event loop\<close>

datatype action =
    AFrame json
  | AStatus jsstring
  | ABootstrap
  | ABootstrapLoaded "event list"
  | ABootstrapFailed
  | AResyncLoaded loadResult
  | AReconnectLoaded loadResult
  | AReconnectCont bool
  | ATransportDown

definition finish :: "task \<Rightarrow> client \<Rightarrow> client" where
  "finish t c = c\<lparr>c_pending := remove1 t (c_pending c)\<rparr>"

fun client_act :: "action \<Rightarrow> client \<Rightarrow> client option" where
  "client_act (AFrame m) c = Some (snd (receiveLive m c))"
| "client_act (AStatus s) c = Some (handleStatus s c)"
| "client_act ABootstrap c = Some (bootstrap c)"
| "client_act (ABootstrapLoaded es) c =
     (if TBootstrap \<in> set (c_pending c) then Some (bootstrap_loaded es (finish TBootstrap c)) else None)"
| "client_act ABootstrapFailed c =
     (if TBootstrap \<in> set (c_pending c) then Some (finish TBootstrap c) else None)"
| "client_act (AResyncLoaded r) c =
     (if TResync \<in> set (c_pending c) then Some (snd (resync_loaded r (finish TResync c))) else None)"
| "client_act (AReconnectLoaded r) c =
     (if TReconnect \<in> set (c_pending c) then
        (case resync_loaded r (finish TReconnect c) of
           (ok, c') \<Rightarrow> Some (startLoad (TReconnectCont ok) c'))
      else None)"
| "client_act (AReconnectCont ok) c =
     (if TReconnectCont ok \<in> set (c_pending c)
      then Some (reconnectResync_cont ok (finish (TReconnectCont ok) c)) else None)"
| "client_act ATransportDown c = Some (markTransportDown c)"

fun client_run :: "action list \<Rightarrow> client \<Rightarrow> client option" where
  "client_run [] c = Some c"
| "client_run (a # as) c = (case client_act a c of None \<Rightarrow> None | Some c' \<Rightarrow> client_run as c')"

text \<open>
  The event store is a parameter: \<open>S es\<close> says that \<open>store.loadAll\<close> may return
  \<open>es\<close>.
\<close>

fun loads_ok :: "(event list \<Rightarrow> bool) \<Rightarrow> action \<Rightarrow> bool" where
  "loads_ok S (ABootstrapLoaded es) = S es"
| "loads_ok S (AResyncLoaded (Loaded es)) = S es"
| "loads_ok S (AReconnectLoaded (Loaded es)) = S es"
| "loads_ok S _ = True"

inductive client_step :: "(event list \<Rightarrow> bool) \<Rightarrow> client \<Rightarrow> client \<Rightarrow> bool" for S where
  act: "client_act a c = Some c' \<Longrightarrow> loads_ok S a \<Longrightarrow> client_step S c c'"

inductive reachable :: "(event list \<Rightarrow> bool) \<Rightarrow> client \<Rightarrow> client \<Rightarrow> bool" for S c0 where
  start: "reachable S c0 c0"
| step: "reachable S c0 c \<Longrightarrow> client_step S c c' \<Longrightarrow> reachable S c0 c'"

section \<open>Durable order\<close>

definition has_ordinal :: "event \<Rightarrow> bool" where
  "has_ordinal e = (ordinal_of e \<noteq> None)"

definition ordinal_key :: "event \<Rightarrow> int" where
  "ordinal_key e = (case ordinal_of e of Some n \<Rightarrow> n | None \<Rightarrow> 0)"

text \<open>The reference: durable events by ordinal, then the others in input order.\<close>

definition durable_spec :: "event list \<Rightarrow> event list" where
  "durable_spec es = sort_key ordinal_key (filter has_ordinal es) @ filter (\<lambda>e. \<not> has_ordinal e) es"

lemma insert_durable_ordinal:
  assumes "has_ordinal (fst p)" and "\<forall>q \<in> set xs. has_ordinal (fst q)"
    and "\<forall>q \<in> set ys. \<not> has_ordinal (fst q)"
  shows "js_insert durable_cmp p (xs @ ys) = insort_key (\<lambda>p. ordinal_key (fst p)) p xs @ ys"
  using assms
proof (induction xs)
  case Nil
  then show ?case by (cases p; cases ys) (auto simp: has_ordinal_def ordinal_key_def split: option.splits)
next
  case (Cons q xs)
  then show ?case by (cases p; cases q) (auto simp: has_ordinal_def ordinal_key_def split: option.splits)
qed

lemma insert_durable_plain:
  assumes "\<not> has_ordinal (fst p)" and "\<forall>q \<in> set xs. has_ordinal (fst q)"
    and "\<forall>q \<in> set ys. \<not> has_ordinal (fst q) \<and> snd p < snd q"
  shows "js_insert durable_cmp p (xs @ ys) = xs @ p # ys"
  using assms
proof (induction xs)
  case Nil
  then show ?case by (cases p; cases ys) (auto simp: has_ordinal_def ordinal_key_def split: option.splits)
next
  case (Cons q xs)
  then show ?case by (cases p; cases q) (auto simp: has_ordinal_def ordinal_key_def split: option.splits)
qed

lemma sort_durable_pairs:
  assumes "sorted_wrt (<) (map snd ps)"
  shows "js_sort durable_cmp ps =
    sort_key (\<lambda>p. ordinal_key (fst p)) (filter (\<lambda>p. has_ordinal (fst p)) ps) @
    filter (\<lambda>p. \<not> has_ordinal (fst p)) ps"
  using assms
proof (induction ps)
  case (Cons p ps)
  let ?xs = "sort_key (\<lambda>p. ordinal_key (fst p)) (filter (\<lambda>p. has_ordinal (fst p)) ps)"
  let ?ys = "filter (\<lambda>p. \<not> has_ordinal (fst p)) ps"
  have sorted: "js_sort durable_cmp ps = ?xs @ ?ys" using Cons by simp
  show ?case
  proof (cases "has_ordinal (fst p)")
    case True
    then have "js_insert durable_cmp p (?xs @ ?ys) = insort_key (\<lambda>p. ordinal_key (fst p)) p ?xs @ ?ys"
      by (intro insert_durable_ordinal) auto
    with True sorted show ?thesis by (simp add: js_sort_Cons)
  next
    case False
    then have "js_insert durable_cmp p (?xs @ ?ys) = ?xs @ p # ?ys"
      using Cons.prems by (intro insert_durable_plain) auto
    with False sorted show ?thesis by (simp add: js_sort_Cons)
  qed
qed simp

lemma map_insort_key_comp: "map f (insort_key (\<lambda>p. k (f p)) x xs) = insort_key k (f x) (map f xs)"
  by (induction xs) auto

lemma map_sort_key_comp: "map f (sort_key (\<lambda>p. k (f p)) xs) = sort_key k (map f xs)"
  by (induction xs) (auto simp: map_insort_key_comp)

lemma map_fst_filter_comp: "map fst (filter (\<lambda>p. P (fst p)) ps) = filter P (map fst ps)"
  by (induction ps) auto

lemma globalDurableOrder_eq: "globalDurableOrder es = durable_spec es"
proof -
  let ?ps = "zip es [0..<length es]"
  have "sorted_wrt (<) (map snd ?ps)" by simp
  then have "js_sort durable_cmp ?ps = sort_key (\<lambda>p. ordinal_key (fst p)) (filter (\<lambda>p. has_ordinal (fst p)) ?ps) @
      filter (\<lambda>p. \<not> has_ordinal (fst p)) ?ps"
    by (rule sort_durable_pairs)
  then show ?thesis
    using map_fst_filter_comp [of "\<lambda>e. \<not> has_ordinal e" ?ps]
    by (simp add: globalDurableOrder_def durable_spec_def map_sort_key_comp map_fst_filter_comp)
qed

lemma mset_globalDurableOrder [simp]: "mset (globalDurableOrder es) = mset es"
proof -
  have "mset (filter has_ordinal es) + mset (filter (\<lambda>e. \<not> has_ordinal e) es) = mset es"
    by (induction es) auto
  then show ?thesis by (simp add: globalDurableOrder_eq durable_spec_def)
qed

lemma set_globalDurableOrder [simp]: "set (globalDurableOrder es) = set es"
  by (metis mset_globalDurableOrder set_mset_mset)

lemma length_globalDurableOrder [simp]: "length (globalDurableOrder es) = length es"
  by (metis mset_globalDurableOrder size_mset)

lemma globalDurableOrder_Nil_iff [simp]: "globalDurableOrder es = [] \<longleftrightarrow> es = []"
  by (metis length_0_conv length_globalDurableOrder)

lemma sort_key_append_stable: "sort_key k (sort_key k xs @ ys) = sort_key k (xs @ ys)"
proof (rule properties_for_sort_key)
  show "mset (sort_key k (xs @ ys)) = mset (sort_key k xs @ ys)" by simp
  show "filter (\<lambda>y. k x = k y) (sort_key k (xs @ ys)) = filter (\<lambda>y. k x = k y) (sort_key k xs @ ys)" for x
    using sort_key_stable [of k "k x"] by (simp add: eq_commute)
  show "sorted (map k (sort_key k (xs @ ys)))" by simp
qed

text \<open>Ordering an ordered list with new events at its end is ordering everything at once.\<close>

lemma globalDurableOrder_absorb:
  "globalDurableOrder (globalDurableOrder xs @ ys) = globalDurableOrder (xs @ ys)"
proof -
  have 1: "filter has_ordinal (durable_spec xs) = sort_key ordinal_key (filter has_ordinal xs)"
    by (simp add: durable_spec_def filter_sort [symmetric])
  have 2: "filter (\<lambda>e. \<not> has_ordinal e) (durable_spec xs) = filter (\<lambda>e. \<not> has_ordinal e) xs"
    by (simp add: durable_spec_def filter_sort [symmetric])
  have "durable_spec (durable_spec xs @ ys) = durable_spec (xs @ ys)"
    by (simp add: durable_spec_def [of "durable_spec xs @ ys"] durable_spec_def [of "xs @ ys"]
        1 2 sort_key_append_stable)
  then show ?thesis by (simp add: globalDurableOrder_eq)
qed

section \<open>High water\<close>

lemma hw_get_put [simp]: "hw_get (dict_put k n hw) s = (if s = k then n else hw_get hw s)"
  by (simp add: hw_get_def)

lemma hw_get_Nil [simp]: "hw_get [] s = -1"
  by (simp add: hw_get_def)

definition source_seqs :: "jsstring \<Rightarrow> event list \<Rightarrow> int set" where
  "source_seqs s es = {seq_or_low e | e. e \<in> set es \<and> source_key e = s}"

lemma finite_source_seqs [simp]: "finite (source_seqs s es)"
  by (simp add: source_seqs_def)

lemma source_seqs_Cons:
  "source_seqs s (e # es) = (if source_key e = s then insert (seq_or_low e) (source_seqs s es) else source_seqs s es)"
  by (auto simp: source_seqs_def)

lemma Max_insert_max:
  fixes A :: "int set"
  assumes "finite A"
  shows "Max (insert (max a b) A) = max a (Max (insert b A))"
  using assms by (cases "A = {}") (auto simp: max.assoc)

lemma hw_get_highWaterFrom:
  "hw_get (highWaterFrom hw es) s = Max (insert (hw_get hw s) (source_seqs s es))"
proof (induction es arbitrary: hw)
  case Nil
  then show ?case by (simp add: source_seqs_def)
next
  case (Cons e es)
  then show ?case
    by (cases "source_key e = s") (auto simp: source_seqs_Cons Max_insert_max)
qed

text \<open>The high-water mark of a source is the largest sequence seen from it, and \<open>-1\<close> without one.\<close>

lemma hw_get_highWaterOf: "hw_get (highWaterOf es) s = Max (insert (-1) (source_seqs s es))"
  by (simp add: highWaterOf_def hw_get_highWaterFrom)

lemma source_seqs_set_cong: "set es = set es' \<Longrightarrow> source_seqs s es = source_seqs s es'"
  by (simp add: source_seqs_def)

lemma hw_get_highWaterOf_append:
  "hw_get (highWaterOf (es @ [e])) s =
    (if source_key e = s then max (hw_get (highWaterOf es) s) (seq_or_low e) else hw_get (highWaterOf es) s)"
proof -
  have "source_seqs s (es @ [e]) = source_seqs s (e # es)"
    by (rule source_seqs_set_cong) auto
  then show ?thesis
    by (auto simp: hw_get_highWaterOf source_seqs_Cons insert_commute [of "-1"] max.commute
        simp flip: Max_insert)
qed

lemma hw_get_highWaterOf_order [simp]:
  "hw_get (highWaterOf (globalDurableOrder es)) s = hw_get (highWaterOf es) s"
  by (simp add: hw_get_highWaterOf source_seqs_set_cong [OF set_globalDurableOrder])

section \<open>Frames that do not depend on the listener\<close>

lemmas client_defs = emitChange_def recomputeState_def startLoad_def finish_def bootstrap_def
  resync_def reconnectResync_def

lemma emitChange_simps [simp]:
  "c_runId (emitChange c) = c_runId c" "c_state (emitChange c) = c_state c"
  "c_events (emitChange c) = c_events c" "c_highWater (emitChange c) = c_highWater c"
  "c_anomalies (emitChange c) = c_anomalies c" "c_lastError (emitChange c) = c_lastError c"
  "c_onChange (emitChange c) = c_onChange c" "c_durableReady (emitChange c) = c_durableReady c"
  "c_transportReady (emitChange c) = c_transportReady c"
  "c_hasConnected (emitChange c) = c_hasConnected c"
  "c_bootstrapped (emitChange c) = c_bootstrapped c"
  "c_preBootstrapBuffer (emitChange c) = c_preBootstrapBuffer c"
  "c_pending (emitChange c) = c_pending c"
  by (simp_all add: emitChange_def)

lemma recomputeState_simps [simp]:
  "c_runId (recomputeState c) = c_runId c"
  "c_events (recomputeState c) = c_events c" "c_highWater (recomputeState c) = c_highWater c"
  "c_anomalies (recomputeState c) = c_anomalies c" "c_lastError (recomputeState c) = c_lastError c"
  "c_onChange (recomputeState c) = c_onChange c" "c_observed (recomputeState c) = c_observed c"
  "c_durableReady (recomputeState c) = c_durableReady c"
  "c_transportReady (recomputeState c) = c_transportReady c"
  "c_hasConnected (recomputeState c) = c_hasConnected c"
  "c_bootstrapped (recomputeState c) = c_bootstrapped c"
  "c_preBootstrapBuffer (recomputeState c) = c_preBootstrapBuffer c"
  "c_pending (recomputeState c) = c_pending c"
  by (simp_all add: recomputeState_def)

lemma recomputeState_LIVE [simp]:
  "c_state (recomputeState c) = LIVE \<longleftrightarrow> c_events c \<noteq> [] \<and> c_durableReady c \<and> c_transportReady c"
  by (simp add: recomputeState_def)

section \<open>Invariants of the event loop\<close>

text \<open>
  The contract between the client's operations and its runs: a predicate every operation keeps
  holds in every reachable state, whatever the interleaving. \<open>S\<close> is what the store may return.
\<close>

locale client_invariant =
  fixes I :: "client \<Rightarrow> bool" and S :: "event list \<Rightarrow> bool"
  assumes I_frame: "I c \<Longrightarrow> I (snd (receiveLive m c))"
    and I_status: "I c \<Longrightarrow> I (handleStatus s c)"
    and I_start: "I c \<Longrightarrow> I (startLoad t c)"
    and I_finish: "I c \<Longrightarrow> I (finish t c)"
    and I_bootstrap: "I c \<Longrightarrow> S es \<Longrightarrow> I (bootstrap_loaded es c)"
    and I_resync: "I c \<Longrightarrow> (\<And>es. r = Loaded es \<Longrightarrow> S es) \<Longrightarrow> I (snd (resync_loaded r c))"
    and I_cont: "I c \<Longrightarrow> I (reconnectResync_cont ok c)"
    and I_down: "I c \<Longrightarrow> I (markTransportDown c)"
begin

lemma I_act:
  assumes "client_act a c = Some c'" and "loads_ok S a" and "I c"
  shows "I c'"
proof (cases a)
  case (AResyncLoaded r)
  with assms have "\<And>es. r = Loaded es \<Longrightarrow> S es" by auto
  with AResyncLoaded assms show ?thesis by (auto simp: I_resync I_finish split: if_splits)
next
  case (AReconnectLoaded r)
  with assms have "\<And>es. r = Loaded es \<Longrightarrow> S es" by auto
  with assms(3) have "I (snd (resync_loaded r (finish TReconnect c)))"
    by (simp add: I_resync I_finish)
  with AReconnectLoaded assms show ?thesis by (auto simp: I_start split: if_splits prod.splits)
qed (use assms in \<open>auto simp: bootstrap_def I_frame I_status I_start I_finish I_bootstrap I_cont I_down
      split: if_splits\<close>)

lemma I_step: "client_step S c c' \<Longrightarrow> I c \<Longrightarrow> I c'"
  by (auto elim!: client_step.cases intro: I_act)

lemma I_reachable: "reachable S c0 c \<Longrightarrow> I c0 \<Longrightarrow> I c"
  by (induction rule: reachable.induct) (auto intro: I_step)

end

subsection \<open>LIVE is gated on durable history\<close>

definition live_gated :: "client \<Rightarrow> bool" where
  "live_gated c \<longleftrightarrow> (c_state c = LIVE \<longrightarrow> c_durableReady c \<and> c_events c \<noteq> [])"

lemma live_gated_receiveSequenced: "live_gated c \<Longrightarrow> live_gated (snd (receiveSequenced e n c))"
  by (auto simp: receiveSequenced_def live_gated_def Let_def startLoad_def)

lemma live_gated_receiveEvent: "live_gated c \<Longrightarrow> live_gated (snd (receiveEvent e c))"
  by (simp add: receiveEvent_def live_gated_receiveSequenced split: option.split)
    (simp add: live_gated_def)

lemma live_gated_receiveLive: "live_gated c \<Longrightarrow> live_gated (snd (receiveLive m c))"
  by (simp add: receiveLive_def live_gated_receiveEvent split: option.split)
    (simp add: live_gated_def)

lemma live_gated_receiveAll: "live_gated c \<Longrightarrow> live_gated (receiveAll ms c)"
  by (induction ms arbitrary: c) (auto simp: live_gated_receiveLive)

lemma live_gated_emitChange [simp]: "live_gated (emitChange c) = live_gated c"
  by (simp add: live_gated_def)

interpretation live_gate: client_invariant live_gated "\<lambda>_. True"
proof unfold_locales
  fix c m s t es r ok
  assume inv: "live_gated c"
  show "live_gated (snd (receiveLive m c))" by (rule live_gated_receiveLive [OF inv])
  show "live_gated (handleStatus s c)"
    using inv by (auto simp: handleStatus_def Let_def reconnectResync_def startLoad_def) (auto simp: live_gated_def)
  show "live_gated (startLoad t c)" "live_gated (finish t c)"
    using inv by (auto simp: live_gated_def startLoad_def finish_def)
  show "live_gated (bootstrap_loaded es c)"
    by (auto simp: bootstrap_loaded_def Let_def intro!: live_gated_receiveAll) (auto simp: live_gated_def)
  show "live_gated (snd (resync_loaded r c))"
    by (cases r) (auto simp: Let_def live_gated_def [of "c\<lparr>c_state := _, c_lastError := _\<rparr>"]
        intro!: live_gated_receiveAll, auto simp: live_gated_def)
  show "live_gated (reconnectResync_cont ok c)"
    using inv by (auto simp: reconnectResync_cont_def) (auto simp: live_gated_def)
  show "live_gated (markTransportDown c)"
    by (auto simp: markTransportDown_def) (auto simp: live_gated_def)
qed

subsection \<open>The high-water mark agrees with the events held\<close>

definition hw_agrees :: "client \<Rightarrow> bool" where
  "hw_agrees c \<longleftrightarrow> (\<forall>s. hw_get (c_highWater c) s = hw_get (highWaterOf (c_events c)) s)"

lemma hw_get_ge: "-1 \<le> hw_get (highWaterOf es) s"
  by (simp add: hw_get_highWaterOf)

lemma hw_agrees_emitChange [simp]: "hw_agrees (emitChange c) = hw_agrees c"
  by (simp add: hw_agrees_def)

lemma hw_agrees_receiveLive: "hw_agrees c \<Longrightarrow> hw_agrees (snd (receiveLive m c))"
  by (auto simp: receiveLive_def receiveEvent_def receiveSequenced_def Let_def startLoad_def hw_agrees_def
      hw_get_highWaterOf_append seq_or_low_def hw_get_ge max_def dest: antisym [OF _ hw_get_ge]
      split: option.splits)

lemma hw_agrees_receiveAll: "hw_agrees c \<Longrightarrow> hw_agrees (receiveAll ms c)"
  by (induction ms arbitrary: c) (auto simp: hw_agrees_receiveLive)

interpretation high_water: client_invariant hw_agrees "\<lambda>_. True"
proof unfold_locales
  fix c m s t es r ok
  assume inv: "hw_agrees c"
  show "hw_agrees (snd (receiveLive m c))" by (rule hw_agrees_receiveLive [OF inv])
  show "hw_agrees (bootstrap_loaded es c)"
    by (auto simp: bootstrap_loaded_def Let_def intro!: hw_agrees_receiveAll) (simp add: hw_agrees_def)
  show "hw_agrees (snd (resync_loaded r c))"
    using inv by (cases r) (auto simp: Let_def intro!: hw_agrees_receiveAll, auto simp: hw_agrees_def)
qed (auto simp: hw_agrees_def handleStatus_def markTransportDown_def reconnectResync_cont_def Let_def
    client_defs)

subsection \<open>The listener has always seen the current state\<close>

definition shown :: "client \<Rightarrow> liveView" where
  "shown c = (if c_observed c = [] then view_of (new_client (c_runId c)) else last (c_observed c))"

definition view_synced :: "client \<Rightarrow> bool" where
  "view_synced c \<longleftrightarrow> c_onChange c \<and> shown c = view_of c"

lemma view_synced_emitChange: "c_onChange c \<Longrightarrow> view_synced (emitChange c)"
  by (simp add: view_synced_def shown_def emitChange_def view_of_def)

lemma view_synced_cong:
  "view_synced c \<Longrightarrow> c_onChange c' = c_onChange c \<Longrightarrow> c_observed c' = c_observed c \<Longrightarrow>
   view_of c' = view_of c \<Longrightarrow> view_synced c'"
  by (simp add: view_synced_def shown_def new_client_def view_of_def split: if_splits)

lemma view_synced_startLoad: "view_synced c \<Longrightarrow> view_synced (startLoad t c)"
  by (erule view_synced_cong) (auto simp: startLoad_def view_of_def)

lemma onChange_receiveLive [simp]: "c_onChange (snd (receiveLive m c)) = c_onChange c"
  by (auto simp: receiveLive_def receiveEvent_def receiveSequenced_def Let_def startLoad_def
      split: option.splits)

lemma onChange_receiveAll [simp]: "c_onChange (receiveAll ms c) = c_onChange c"
  by (induction ms arbitrary: c) auto

lemma view_synced_receiveSequenced:
  "c_onChange c \<Longrightarrow> view_synced (snd (receiveSequenced e n c))"
  by (auto simp: receiveSequenced_def Let_def intro!: view_synced_startLoad view_synced_emitChange)

lemma view_synced_receiveEvent: "view_synced c \<Longrightarrow> view_synced (snd (receiveEvent e c))"
proof -
  assume inv: "view_synced c"
  then have on: "c_onChange c" by (simp add: view_synced_def)
  show ?thesis
    unfolding receiveEvent_def
    using inv on
    by (simp add: view_synced_emitChange view_synced_receiveSequenced split: option.split)
qed

lemma view_synced_receiveLive:
  assumes "view_synced c"
  shows "view_synced (snd (receiveLive m c))"
proof (cases "c_bootstrapped c")
  case True
  have "c_onChange c" using assms by (simp add: view_synced_def)
  with True assms show ?thesis
    by (simp add: receiveLive_def view_synced_emitChange view_synced_receiveEvent split: option.split)
next
  case False
  then show ?thesis
    using assms by (simp add: receiveLive_def) (erule view_synced_cong, simp_all add: view_of_def)
qed

interpretation view: client_invariant view_synced "\<lambda>_. True"
proof unfold_locales
  fix c m s t es r ok
  assume inv: "view_synced c"
  then have on: "c_onChange c" by (simp add: view_synced_def)
  show "view_synced (snd (receiveLive m c))" by (rule view_synced_receiveLive [OF inv])
  show "view_synced (handleStatus s c)"
    using on by (auto simp: handleStatus_def Let_def reconnectResync_def
        intro!: view_synced_startLoad view_synced_emitChange)
  show "view_synced (startLoad t c)" by (rule view_synced_startLoad [OF inv])
  show "view_synced (finish t c)"
    using inv by (rule view_synced_cong) (auto simp: finish_def view_of_def)
  show "view_synced (bootstrap_loaded es c)"
    using on by (auto simp: bootstrap_loaded_def Let_def intro!: view_synced_emitChange)
  show "view_synced (snd (resync_loaded r c))"
    using on by (cases r) (auto simp: Let_def intro!: view_synced_emitChange)
  show "view_synced (reconnectResync_cont ok c)" "view_synced (markTransportDown c)"
    using on by (auto simp: reconnectResync_cont_def markTransportDown_def intro!: view_synced_emitChange)
qed

subsection \<open>No event is held twice\<close>

lemma strict_eq_sym: "strict_eq a b \<Longrightarrow> strict_eq b a"
  by (cases a; cases b) auto

lemma strict_eq_trans: "strict_eq a b \<Longrightarrow> strict_eq b c \<Longrightarrow> strict_eq a c"
  by (cases a; cases b; cases c) auto

lemma same_identity_sym: "same_identity a b \<Longrightarrow> same_identity b a"
  by (auto simp: same_identity_def intro: strict_eq_sym)

lemma same_identity_trans: "same_identity a b \<Longrightarrow> same_identity b c \<Longrightarrow> same_identity a c"
  by (auto simp: same_identity_def intro: strict_eq_trans)

definition no_dup :: "event list \<Rightarrow> bool" where
  "no_dup es \<longleftrightarrow> (\<forall>e. length (filter (same_identity e) es) \<le> 1)"

lemma no_dup_mset: "mset es = mset es' \<Longrightarrow> no_dup es = no_dup es'"
  by (simp add: no_dup_def) (metis mset_filter size_mset)

lemma no_dup_Nil [simp]: "no_dup []"
  by (simp add: no_dup_def)

lemma no_dup_append:
  assumes "no_dup es" and "\<forall>e \<in> set es. \<not> same_identity e evt"
  shows "no_dup (es @ [evt])"
  unfolding no_dup_def
proof
  fix e
  show "length (filter (same_identity e) (es @ [evt])) \<le> 1"
  proof (cases "same_identity e evt")
    case True
    then have "\<forall>x \<in> set es. \<not> same_identity e x"
      using assms(2) by (meson same_identity_sym same_identity_trans)
    then have "filter (same_identity e) es = []" by (simp add: filter_empty_conv)
    with True show ?thesis by simp
  next
    case False
    then show ?thesis using assms(1) by (simp add: no_dup_def)
  qed
qed

lemma no_dup_order [simp]: "no_dup (globalDurableOrder es) = no_dup es"
  by (rule no_dup_mset) simp

definition holds_once :: "client \<Rightarrow> bool" where
  "holds_once c \<longleftrightarrow> no_dup (c_events c)"

lemma holds_once_receiveLive: "holds_once c \<Longrightarrow> holds_once (snd (receiveLive m c))"
  by (auto simp: receiveLive_def receiveEvent_def receiveSequenced_def Let_def startLoad_def
      holds_once_def no_dup_append split: option.splits)

lemma holds_once_receiveAll: "holds_once c \<Longrightarrow> holds_once (receiveAll ms c)"
  by (induction ms arbitrary: c) (auto simp: holds_once_receiveLive)

lemma holds_once_emitChange [simp]: "holds_once (emitChange c) = holds_once c"
  by (simp add: holds_once_def)

interpretation identity: client_invariant holds_once no_dup
proof unfold_locales
  fix c m s t es r ok
  assume inv: "holds_once c"
  show "holds_once (snd (receiveLive m c))" by (rule holds_once_receiveLive [OF inv])
  show "holds_once (bootstrap_loaded es c)" if "no_dup es"
    using that by (auto simp: bootstrap_loaded_def Let_def intro!: holds_once_receiveAll)
      (simp add: holds_once_def)
  show "holds_once (snd (resync_loaded r c))" if "\<And>es. r = Loaded es \<Longrightarrow> no_dup es"
    using that inv by (cases r) (auto simp: Let_def intro!: holds_once_receiveAll, auto simp: holds_once_def)
qed (auto simp: holds_once_def handleStatus_def markTransportDown_def reconnectResync_cont_def Let_def
    client_defs)

subsection \<open>A reconnect waits for the durable store\<close>

definition awaiting :: "client \<Rightarrow> bool" where
  "awaiting c \<longleftrightarrow> \<not> c_durableReady c \<and> c_state c \<noteq> LIVE"

lemma awaiting_receiveLive: "awaiting c \<Longrightarrow> awaiting (snd (receiveLive m c))"
  by (auto simp: receiveLive_def receiveEvent_def receiveSequenced_def Let_def startLoad_def
      awaiting_def split: option.splits)

interpretation await: client_invariant awaiting "\<lambda>_. False"
proof unfold_locales
  fix c m s t es r ok
  assume inv: "awaiting c"
  show "awaiting (snd (receiveLive m c))" by (rule awaiting_receiveLive [OF inv])
  show "awaiting (snd (resync_loaded r c))" if "\<And>es. r = Loaded es \<Longrightarrow> False"
    using that inv by (cases r) (auto simp: awaiting_def)
qed (auto simp: awaiting_def handleStatus_def markTransportDown_def reconnectResync_cont_def Let_def
    startLoad_def finish_def reconnectResync_def)

section \<open>Erasing the listener\<close>

definition core :: "client \<Rightarrow> client" where
  "core c = c\<lparr>c_onChange := False, c_observed := []\<rparr>"

lemma core_emitChange [simp]: "core (emitChange c) = core c"
  by (simp add: core_def emitChange_def)

lemma core_recomputeState: "core (recomputeState c) = recomputeState (core c)"
  by (simp add: core_def recomputeState_def)

lemma core_simps [simp]:
  "c_runId (core c) = c_runId c" "c_state (core c) = c_state c" "c_events (core c) = c_events c"
  "c_highWater (core c) = c_highWater c" "c_anomalies (core c) = c_anomalies c"
  "c_durableReady (core c) = c_durableReady c" "c_transportReady (core c) = c_transportReady c"
  "c_bootstrapped (core c) = c_bootstrapped c" "c_onChange (core c) = False"
  "c_preBootstrapBuffer (core c) = c_preBootstrapBuffer c" "c_pending (core c) = c_pending c"
  by (simp_all add: core_def)

lemma emitChange_idle: "\<not> c_onChange c \<Longrightarrow> emitChange c = c"
  by (simp add: emitChange_def)

lemma core_updates [simp]:
  "core (c\<lparr>c_events := es\<rparr>) = (core c)\<lparr>c_events := es\<rparr>"
  "core (c\<lparr>c_state := st\<rparr>) = (core c)\<lparr>c_state := st\<rparr>"
  "core (c\<lparr>c_highWater := hw\<rparr>) = (core c)\<lparr>c_highWater := hw\<rparr>"
  "core (c\<lparr>c_anomalies := as\<rparr>) = (core c)\<lparr>c_anomalies := as\<rparr>"
  "core (c\<lparr>c_lastError := er\<rparr>) = (core c)\<lparr>c_lastError := er\<rparr>"
  "core (c\<lparr>c_pending := ts\<rparr>) = (core c)\<lparr>c_pending := ts\<rparr>"
  "core (c\<lparr>c_preBootstrapBuffer := ms\<rparr>) = (core c)\<lparr>c_preBootstrapBuffer := ms\<rparr>"
  by (simp_all add: core_def)

lemma core_receiveSequenced: "core (snd (receiveSequenced e n c)) = snd (receiveSequenced e n (core c))"
  by (simp add: receiveSequenced_def Let_def startLoad_def core_recomputeState emitChange_idle)

lemma core_receiveEvent: "core (snd (receiveEvent e c)) = snd (receiveEvent e (core c))"
  by (simp add: receiveEvent_def core_receiveSequenced core_recomputeState emitChange_idle
      split: option.split)

lemma core_receiveLive: "core (snd (receiveLive m c)) = snd (receiveLive m (core c))"
  by (simp add: receiveLive_def core_receiveEvent emitChange_idle split: option.split)

lemma core_receiveAll: "core (receiveAll ms c) = receiveAll ms (core c)"
  by (induction ms arbitrary: c) (auto simp: core_receiveLive)

lemma receiveAll_append: "receiveAll (ms @ ms') c = receiveAll ms' (receiveAll ms c)"
  by (induction ms arbitrary: c) auto

lemma receiveAll_buffered:
  "\<not> c_bootstrapped c \<Longrightarrow> receiveAll ms c = c\<lparr>c_preBootstrapBuffer := c_preBootstrapBuffer c @ ms\<rparr>"
  by (induction ms arbitrary: c) (auto simp: receiveLive_def)

lemma run_reachable:
  "client_run as c = Some c' \<Longrightarrow> list_all (loads_ok S) as \<Longrightarrow> reachable S c0 c \<Longrightarrow> reachable S c0 c'"
proof (induction as arbitrary: c)
  case (Cons a as)
  then obtain c1 where c1: "client_act a c = Some c1" "client_run as c1 = Some c'"
    by (auto split: option.splits)
  with Cons.prems have "reachable S c0 c1"
    by (auto intro: reachable.step client_step.act)
  with Cons c1 show ?case by auto
qed simp

section \<open>Evaluation\<close>

lemma toUpperCase_statuses [js_eval]:
  "toUpperCase (js ''SUBSCRIBED'') = js ''SUBSCRIBED''" "toUpperCase (js ''CLOSED'') = js ''CLOSED''"
  "toUpperCase (js ''CHANNEL_ERROR'') = js ''CHANNEL_ERROR''" "toUpperCase (js ''TIMED_OUT'') = js ''TIMED_OUT''"
  "toUpperCase (js ''idle'') = js ''IDLE''" "toUpperCase (js ''connecting'') = js ''CONNECTING''"
  by code_simp+

lemmas client_eval = handleStatus_def receiveLive_def receiveEvent_def receiveSequenced_def
  bootstrap_loaded_def bootstrap_def normalizeEnvelope_def Let_def new_client_def recomputeState_def
  emitChange_def view_of_def startLoad_def finish_def same_identity_def source_key_def
  globalDurableOrder_eq durable_spec_def has_ordinal_def ordinal_key_def ordinal_of_def
  highWaterOf_def seq_or_low_def empty_error_def hw_get_def dict_put_def dict_get_def
  reconnectResync_def reconnectResync_cont_def markTransportDown_def js_eval

end
