(* ===== verification/LiveProps.thy ===== *)
theory LiveProps
  imports Live
begin

text \<open>
  The properties of the live projection client, each derived from the invariants and the lemmas
  of theory Live, with the concrete runs their witnesses use.
\<close>

section \<open>Concrete frames and runs\<close>

definition sample_event :: "string \<Rightarrow> string \<Rightarrow> int \<Rightarrow> event" where
  "sample_event src eid n = JObj [(js ''run_id'', JStr (js ''R'')), (js ''source_system'', JStr (js src)),
     (js ''source_event_id'', JStr (js eid)), (js ''sequence'', JNum n),
     (js ''projection_ordinal'', JNum n)]"

definition sample_frame :: "event \<Rightarrow> json" where
  "sample_frame e = JObj [(js ''type'', JStr (js ''broadcast'')),
     (js ''event'', JStr (js ''projection_event'')), (js ''payload'', e)]"

definition sample_client :: client where
  "sample_client = (new_client (js ''R''))\<lparr>c_onChange := True\<rparr>"

definition sample_run :: "action list" where
  "sample_run = [AStatus (js ''SUBSCRIBED''), ABootstrap, AFrame (sample_frame (sample_event ''tc'' ''b'' 2)),
     ABootstrapLoaded [sample_event ''tc'' ''a'' 1]]"

definition sample_view :: "liveState \<Rightarrow> nat \<Rightarrow> liveView" where
  "sample_view st n = \<lparr>v_state = st, v_anomalies = [], v_eventCount = n, v_lastError = None\<rparr>"

definition sample_state :: client where
  "sample_state = \<lparr> c_runId = js ''R'', c_state = LIVE,
     c_events = [sample_event ''tc'' ''a'' 1, sample_event ''tc'' ''b'' 2],
     c_highWater = [(js ''tc'', 2)], c_anomalies = [], c_lastError = None, c_onChange = True,
     c_observed = [sample_view UNAVAILABLE 0, sample_view LIVE 2, sample_view LIVE 2],
     c_durableReady = True, c_transportReady = True, c_hasConnected = True, c_bootstrapped = True,
     c_preBootstrapBuffer = [], c_pending = [] \<rparr>"

lemmas sample_defs = sample_event_def sample_frame_def sample_client_def sample_run_def
  sample_view_def sample_state_def

lemma sample_run_ok: "client_run sample_run sample_client = Some sample_state"
  by (simp add: sample_defs client_eval)

lemma sample_reachable: "S [sample_event ''tc'' ''a'' 1] \<Longrightarrow> reachable S sample_client sample_state"
  by (rule run_reachable [OF sample_run_ok]) (auto simp: sample_run_def intro: reachable.start)

section \<open>Ordering\<close>

text \<open>
  C7. \<open>globalDurableOrder\<close> is a stable ordering by the durable ordinal: it permutes its input,
  lists the events that carry a \<open>projection_ordinal\<close> by ordinal and before all others, keeps the
  relative input order of the events without one and of events with equal ordinals, and ordering
  again after appending new events gives the same list as ordering everything at once.
\<close>
theorem durable_order_correct:
  "mset (globalDurableOrder es) = mset es \<and>
   globalDurableOrder es = filter has_ordinal (globalDurableOrder es) @ filter (\<lambda>e. \<not> has_ordinal e) es \<and>
   sorted (map ordinal_key (filter has_ordinal (globalDurableOrder es))) \<and>
   filter (\<lambda>e. ordinal_of e = Some n) (globalDurableOrder es) = filter (\<lambda>e. ordinal_of e = Some n) es \<and>
   globalDurableOrder (globalDurableOrder es @ new) = globalDurableOrder (es @ new)"
proof -
  have f: "filter has_ordinal (durable_spec es) = sort_key ordinal_key (filter has_ordinal es)"
    by (simp add: durable_spec_def filter_sort [symmetric])
  have split: "filter (\<lambda>e. ordinal_of e = Some n) xs =
      filter (\<lambda>e. ordinal_key e = n) (filter has_ordinal xs)" for xs
    by (auto simp: has_ordinal_def ordinal_key_def intro!: filter_cong)
  have "filter (\<lambda>e. ordinal_of e = Some n) (durable_spec es) = filter (\<lambda>e. ordinal_of e = Some n) es"
    unfolding split f by (rule sort_key_stable)
  then show ?thesis
    using globalDurableOrder_absorb [of es new]
    by (simp add: globalDurableOrder_eq [of es] f) (simp add: durable_spec_def)
qed

section \<open>Receiving a frame\<close>

text \<open>
  C2. What \<open>receiveLive\<close> does with a well-formed frame of its own run once the history is
  loaded. A known identity is a duplicate and changes no event. An event without a numeric
  sequence is appended at the end and leaves the high-water mark alone. A sequence more than one
  past a known high-water mark is a gap: no event changes, the state becomes CATCHING\_UP and a
  durable resync is started. Any other sequence is merged in durable order and advances the
  high-water mark of its source by \<open>max\<close>, reported as stale exactly when it is behind it.
\<close>
theorem receiveLive_outcome:
  assumes "c_bootstrapped c" and "normalizeEnvelope m = Some evt"
    and "truthy (fld evt ''source_system'')" and "truthy (fld evt ''source_event_id'')"
    and "fld evt ''run_id'' = JStr (c_runId c)"
  shows "let r = r_kind (fst (receiveLive m c)); c' = snd (receiveLive m c);
      hw = hw_get (c_highWater c) (source_key evt);
      known = (\<exists>e \<in> set (c_events c). same_identity e evt) in
    (r = R_DUPLICATE \<longleftrightarrow> known) \<and> (known \<longrightarrow> core c' = core c) \<and>
    (\<not> known \<longrightarrow> (case num_of (fld evt ''sequence'') of
       None \<Rightarrow> r = R_APPENDED \<and> c_events c' = c_events c @ [evt] \<and> c_highWater c' = c_highWater c
     | Some n \<Rightarrow>
         if 0 \<le> hw \<and> hw + 1 < n then
           r = R_GAP \<and> c_events c' = c_events c \<and> c_highWater c' = c_highWater c \<and>
           c_state c' = CATCHING_UP \<and> c_pending c' = c_pending c @ [TResync]
         else
           r = (if 0 \<le> hw \<and> n < hw then R_STALE else R_APPENDED) \<and>
           c_events c' = globalDurableOrder (c_events c @ [evt]) \<and>
           (\<forall>s. hw_get (c_highWater c') s =
              (if s = source_key evt then max hw n else hw_get (c_highWater c) s))))"
proof -
  have live: "receiveLive m c =
     (if \<exists>e \<in> set (c_events c). same_identity e evt
      then (\<lparr>r_kind = R_DUPLICATE, r_anomaly = None, r_appended = None\<rparr>, emitChange c)
      else case num_of (fld evt ''sequence'') of
        None \<Rightarrow> (\<lparr>r_kind = R_APPENDED, r_anomaly = None, r_appended = Some True\<rparr>,
           emitChange ((recomputeState (c\<lparr>c_events := c_events c @ [evt]\<rparr>))\<lparr>c_lastError := None\<rparr>))
      | Some seq \<Rightarrow> receiveSequenced evt seq c)"
    using assms by (simp add: receiveLive_def receiveEvent_def)
  show ?thesis
  proof (cases "\<exists>e \<in> set (c_events c). same_identity e evt")
    case True
    then show ?thesis by (simp add: live Let_def)
  next
    case False
    show ?thesis
    proof (cases "num_of (fld evt ''sequence'')")
      case None
      then show ?thesis using False by (simp add: live Let_def)
    next
      case (Some n)
      have r: "receiveLive m c = receiveSequenced evt n c"
        using False by (simp only: live Some if_False option.case)
      show ?thesis
        using False unfolding r Some
        by (auto simp: receiveSequenced_def Let_def startLoad_def)
    qed
  qed
qed

theorem receiveLive_outcome_witness:
  "c_bootstrapped sample_state \<and>
   r_kind (fst (receiveLive (sample_frame (sample_event ''tc'' ''z'' 9)) sample_state)) = R_GAP \<and>
   c_state (snd (receiveLive (sample_frame (sample_event ''tc'' ''z'' 9)) sample_state)) = CATCHING_UP"
proof -
  let ?e = "sample_event ''tc'' ''z'' 9"
  have h: "c_bootstrapped sample_state" "normalizeEnvelope (sample_frame ?e) = Some ?e"
    "truthy (fld ?e ''source_system'')" "truthy (fld ?e ''source_event_id'')"
    "fld ?e ''run_id'' = JStr (c_runId sample_state)"
    by (simp_all add: sample_defs normalizeEnvelope_def js_eval)
  have k: "\<not> (\<exists>e \<in> set (c_events sample_state). same_identity e ?e)"
    "num_of (fld ?e ''sequence'') = Some 9" "hw_get (c_highWater sample_state) (source_key ?e) = 2"
    by (simp_all add: sample_defs same_identity_def hw_get_def dict_get_def source_key_def js_eval)
  show ?thesis using receiveLive_outcome [OF h] h(1) k(1) by (simp add: Let_def k)
qed

section \<open>Reachable states\<close>

text \<open>
  C1. In every state the event loop can reach, whatever the interleaving of frames, channel
  states, loads and failures, LIVE is shown only when the durable history has been read
  successfully since the last reconnect and at least one event is held.
\<close>
theorem live_requires_durable_history:
  assumes "reachable (\<lambda>_. True) ((new_client rid)\<lparr>c_onChange := b\<rparr>) c" and "c_state c = LIVE"
  shows "c_durableReady c \<and> c_events c \<noteq> []"
proof -
  have "live_gated ((new_client rid)\<lparr>c_onChange := b\<rparr>)" by (simp add: live_gated_def new_client_def)
  with assms(1) have "live_gated c" by (rule live_gate.I_reachable)
  with assms(2) show ?thesis by (simp add: live_gated_def)
qed

theorem live_requires_durable_history_witness:
  "c_state sample_state = LIVE \<and> c_durableReady sample_state \<and> c_events sample_state \<noteq> []"
proof -
  have live: "c_state sample_state = LIVE" by (simp add: sample_state_def)
  have "reachable (\<lambda>_. True) ((new_client (js ''R''))\<lparr>c_onChange := True\<rparr>) sample_state"
    using sample_reachable [of "\<lambda>_. True"] by (simp add: sample_client_def)
  from live_requires_durable_history [OF this live] live show ?thesis by simp
qed

text \<open>
  C4. A second SUBSCRIBED on a connected client is a reconnect: the client enters CATCHING\_UP and
  cannot show LIVE again, through any number of frames, further channel states, failed loads or
  finished reconnects, until the durable store has been read successfully.
\<close>
theorem reconnect_waits_for_store:
  assumes "c_hasConnected c" and "toUpperCase s = js ''SUBSCRIBED''"
    and "reachable (\<lambda>_. False) (handleStatus s c) c'"
  shows "c_state (handleStatus s c) = CATCHING_UP \<and> c_pending (handleStatus s c) = c_pending c @ [TReconnect] \<and>
    c_state c' \<noteq> LIVE"
proof -
  have h: "handleStatus s c = reconnectResync (emitChange (c\<lparr>c_state := CATCHING_UP,
      c_transportReady := False, c_durableReady := False\<rparr>))"
    using assms(1,2) by (simp add: handleStatus_def)
  then have "awaiting (handleStatus s c)" by (simp add: awaiting_def reconnectResync_def startLoad_def)
  with assms(3) have "awaiting c'" by (rule await.I_reachable)
  with h show ?thesis by (simp add: awaiting_def reconnectResync_def startLoad_def)
qed

theorem reconnect_waits_for_store_witness:
  "c_state sample_state = LIVE \<and> c_state (handleStatus (js ''Subscribed'') sample_state) = CATCHING_UP"
proof -
  have h: "c_hasConnected sample_state" "toUpperCase (js ''Subscribed'') = js ''SUBSCRIBED''"
    "c_state sample_state = LIVE"
    by (simp add: sample_state_def, code_simp, simp add: sample_state_def)
  show ?thesis
    using reconnect_waits_for_store [OF h(1,2) reachable.start] h(3) by simp
qed

text \<open>
  C5. The high-water mark the gap and stale decisions use is exact in every reachable state: for
  every source it is the largest sequence among the events held from that source, and \<open>-1\<close> when
  none of them carries a sequence.
\<close>
theorem high_water_exact:
  assumes "reachable (\<lambda>_. True) ((new_client rid)\<lparr>c_onChange := b\<rparr>) c"
  shows "hw_get (c_highWater c) s = Max (insert (-1) (source_seqs s (c_events c)))"
proof -
  have "hw_agrees ((new_client rid)\<lparr>c_onChange := b\<rparr>)"
    by (simp add: hw_agrees_def new_client_def highWaterOf_def)
  with assms have "hw_agrees c" by (rule high_water.I_reachable)
  then show ?thesis by (simp add: hw_agrees_def hw_get_highWaterOf)
qed

theorem high_water_exact_witness:
  "hw_get (c_highWater sample_state) (js ''tc'') = Max (insert (-1) (source_seqs (js ''tc'') (c_events sample_state)))"
proof -
  have "reachable (\<lambda>_. True) ((new_client (js ''R''))\<lparr>c_onChange := True\<rparr>) sample_state"
    using sample_reachable [of "\<lambda>_. True"] by (simp add: sample_client_def)
  then show ?thesis by (rule high_water_exact)
qed

text \<open>
  C6. An event is never held twice: if no result of the durable store repeats a source identity,
  then in every reachable state no two events held share source system and event id.
\<close>
theorem no_duplicate_events:
  assumes "reachable no_dup ((new_client rid)\<lparr>c_onChange := b\<rparr>) c"
  shows "length (filter (same_identity e) (c_events c)) \<le> 1"
proof -
  have "holds_once ((new_client rid)\<lparr>c_onChange := b\<rparr>)" by (simp add: holds_once_def new_client_def)
  with assms have "holds_once c" by (rule identity.I_reachable)
  then show ?thesis by (simp add: holds_once_def no_dup_def)
qed

theorem no_duplicate_events_witness:
  "length (c_events sample_state) = 2 \<and>
   length (filter (same_identity (sample_event ''tc'' ''a'' 1)) (c_events sample_state)) \<le> 1"
proof -
  have "reachable no_dup ((new_client (js ''R''))\<lparr>c_onChange := True\<rparr>) sample_state"
    using sample_reachable [of no_dup] by (simp add: sample_client_def no_dup_def)
  from no_duplicate_events [OF this] have
    "length (filter (same_identity (sample_event ''tc'' ''a'' 1)) (c_events sample_state)) \<le> 1" .
  moreover have "length (c_events sample_state) = 2" by (simp add: sample_state_def)
  ultimately show ?thesis by simp
qed

text \<open>
  A listener registered before the first operation has always been shown the current state:
  in every reachable state the last view it read is the view of the client (the initial one, if it
  was never notified).
\<close>
theorem listener_sees_every_change:
  assumes "reachable (\<lambda>_. True) ((new_client rid)\<lparr>c_onChange := True\<rparr>) c"
  shows "shown c = view_of c"
proof -
  have "view_synced ((new_client rid)\<lparr>c_onChange := True\<rparr>)"
    by (simp add: view_synced_def shown_def new_client_def view_of_def)
  with assms have "view_synced c" by (rule view.I_reachable)
  then show ?thesis by (simp add: view_synced_def)
qed

theorem listener_sees_every_change_witness:
  "c_observed sample_state \<noteq> [] \<and> shown sample_state = view_of sample_state"
proof -
  have "reachable (\<lambda>_. True) ((new_client (js ''R''))\<lparr>c_onChange := True\<rparr>) sample_state"
    using sample_reachable [of "\<lambda>_. True"] by (simp add: sample_client_def)
  then have "shown sample_state = view_of sample_state" by (rule listener_sees_every_change)
  moreover have "c_observed sample_state \<noteq> []" by (simp add: sample_state_def)
  ultimately show ?thesis by simp
qed

section \<open>Bootstrap and resync\<close>

text \<open>
  C8. The bootstrap window loses and reorders nothing: receiving frames before the history is
  loaded and then completing the bootstrap leaves the client in the state it would have if the
  bootstrap had completed first and the same frames had been received, in the same order, after it.
\<close>
theorem bootstrap_window_closed:
  assumes "\<not> c_bootstrapped c" and "c_preBootstrapBuffer c = []"
  shows "core (bootstrap_loaded es (receiveAll ms c)) = core (receiveAll ms (bootstrap_loaded es c))"
proof -
  have "receiveAll ms c = c\<lparr>c_preBootstrapBuffer := ms\<rparr>"
    using assms by (simp add: receiveAll_buffered)
  moreover have "core (emitChange x) = core x" for x by simp
  ultimately show ?thesis
    using assms(2) by (simp add: bootstrap_loaded_def Let_def core_receiveAll recomputeState_def)
qed

theorem bootstrap_window_closed_witness:
  "core (bootstrap_loaded [sample_event ''tc'' ''a'' 1]
      (receiveAll [sample_frame (sample_event ''tc'' ''b'' 2)] sample_client)) =
   core (receiveAll [sample_frame (sample_event ''tc'' ''b'' 2)]
      (bootstrap_loaded [sample_event ''tc'' ''a'' 1] sample_client))"
proof -
  have "\<not> c_bootstrapped sample_client" "c_preBootstrapBuffer sample_client = []"
    by (simp_all add: sample_client_def new_client_def)
  then show ?thesis by (rule bootstrap_window_closed)
qed

text \<open>
  A completed resync of a bootstrapped client makes the durable store the only source: the
  events are exactly the loaded ones in durable order, the high-water mark is theirs, and LIVE is
  shown exactly when there are events and the transport is connected. A failed one keeps every
  event and the high-water mark, never shows LIVE and reports the failure.
\<close>
theorem resync_outcome:
  assumes "c_bootstrapped c" and "c_preBootstrapBuffer c = []"
  shows "case r of
      Loaded es \<Rightarrow> fst (resync_loaded r c) \<and>
        c_events (snd (resync_loaded r c)) = globalDurableOrder es \<and>
        c_highWater (snd (resync_loaded r c)) = highWaterOf (globalDurableOrder es) \<and>
        (c_state (snd (resync_loaded r c)) = LIVE \<longleftrightarrow> es \<noteq> [] \<and> c_transportReady c)
    | LoadFailed err \<Rightarrow> \<not> fst (resync_loaded r c) \<and>
        c_events (snd (resync_loaded r c)) = c_events c \<and>
        c_highWater (snd (resync_loaded r c)) = c_highWater c \<and>
        c_state (snd (resync_loaded r c)) \<noteq> LIVE \<and> c_lastError (snd (resync_loaded r c)) \<noteq> None"
  using assms by (cases r) (auto simp: Let_def)

theorem resync_outcome_witness:
  "c_events (snd (resync_loaded (Loaded [sample_event ''tc'' ''c'' 3]) sample_state)) =
     globalDurableOrder [sample_event ''tc'' ''c'' 3] \<and>
   c_state (snd (resync_loaded (LoadFailed []) sample_state)) \<noteq> LIVE"
proof -
  have h: "c_bootstrapped sample_state" "c_preBootstrapBuffer sample_state = []"
    by (simp_all add: sample_state_def)
  show ?thesis
    using resync_outcome [OF h, of "Loaded [sample_event ''tc'' ''c'' 3]"]
      resync_outcome [OF h, of "LoadFailed []"] by simp
qed

section \<open>Where the code departs from its comments\<close>

definition stuck_run :: "action list" where
  "stuck_run = [AStatus (js ''SUBSCRIBED''), ABootstrap, ABootstrapFailed, ATransportDown,
     AStatus (js ''CLOSED''), AStatus (js ''SUBSCRIBED''),
     AReconnectLoaded (Loaded [sample_event ''tc'' ''a'' 1]), AReconnectCont True]"

text \<open>
  \<open>resync\<close> never sets \<open>bootstrapped\<close>. When the first load fails and a later reconnect
  succeeds, the client shows LIVE and yet every further frame is put in the bootstrap buffer
  and none reaches the events.
\<close>
theorem live_but_buffering:
  "\<exists>c. client_run stuck_run (new_client (js ''R'')) = Some c \<and> c_state c = LIVE \<and>
     (\<forall>m. r_kind (fst (receiveLive m c)) = R_BUFFERED \<and>
       c_events (snd (receiveLive m c)) = c_events c)"
proof -
  have "\<exists>c. client_run stuck_run (new_client (js ''R'')) = Some c \<and> c_state c = LIVE \<and> \<not> c_bootstrapped c"
    by (simp add: stuck_run_def sample_event_def client_eval)
  then show ?thesis by (auto simp: receiveLive_def)
qed

definition race_run :: "action list" where
  "race_run = [AStatus (js ''SUBSCRIBED''), ABootstrap, ABootstrapLoaded [sample_event ''tc'' ''a'' 1],
     AStatus (js ''SUBSCRIBED''), AStatus (js ''SUBSCRIBED''),
     AReconnectLoaded (Loaded [sample_event ''tc'' ''a'' 1]), AReconnectLoaded (LoadFailed []),
     AReconnectCont True, AReconnectCont False]"

text \<open>
  The failure branch of \<open>reconnectResync\<close> clears \<open>transportReady\<close> without recomputing the
  state. With two reconnects in flight, of which one succeeds and the other fails, the client
  settles, with nothing pending, in LIVE with the transport not ready, against the readiness
  latch that requires both.
\<close>
theorem overlapping_reconnects_break_latch:
  "\<exists>c. client_run race_run (new_client (js ''R'')) = Some c \<and> c_state c = LIVE \<and>
     \<not> c_transportReady c \<and> c_pending c = []"
  by (simp add: race_run_def sample_event_def client_eval)

end
