(* ===== verification/Broadcast.thy ===== *)
theory Broadcast
  imports Live
begin

text \<open>
  The producer side of the broadcast contract, \<open>lib/broadcastContract.ts\<close>. Producer events and
  delivered envelopes are untyped values, as the subscriber receives them.
\<close>

definition producerTopic :: "jsstring \<Rightarrow> jsstring \<Rightarrow> jsstring" where
  "producerTopic topicPrefix runId = topicPrefix @ js '':'' @ runId"

definition PRODUCER_EVENT :: jsstring where
  "PRODUCER_EVENT = js ''projection_event''"

definition toBroadcastEnvelope :: "jsstring \<Rightarrow> event \<Rightarrow> json" where
  "toBroadcastEnvelope topicPrefix evt =
     JObj [(js ''type'', JStr (js ''broadcast'')), (js ''event'', JStr PRODUCER_EVENT),
       (js ''topic'', JStr (producerTopic topicPrefix (jsString (fld evt ''run_id'')))),
       (js ''payload'', evt)]"

definition fromBroadcastEnvelope :: "json \<Rightarrow> event" where
  "fromBroadcastEnvelope env = fld env ''payload''"

definition isValidProducerEnvelope :: "json \<Rightarrow> jsstring \<Rightarrow> bool" where
  "isValidProducerEnvelope env topicPrefix =
     (if str_of (fld env ''event'') = None \<or> \<not> truthy (fld env ''payload'') then False
      else
        let payload = fld env ''payload'';
            expectedTopic = producerTopic topicPrefix (jsString (fld payload ''run_id''))
        in strict_eq (fld env ''event'') (JStr PRODUCER_EVENT) \<and>
           strict_eq (fld env ''topic'') (JStr expectedTopic) \<and>
           truthy (fld payload ''source_system'') \<and> truthy (fld payload ''source_event_id''))"

lemma fld_envelope [simp]:
  "fld (toBroadcastEnvelope p e) ''type'' = JStr (js ''broadcast'')"
  "fld (toBroadcastEnvelope p e) ''event'' = JStr PRODUCER_EVENT"
  "fld (toBroadcastEnvelope p e) ''topic'' = JStr (producerTopic p (jsString (fld e ''run_id'')))"
  "fld (toBroadcastEnvelope p e) ''payload'' = e"
  by (simp_all add: toBroadcastEnvelope_def js_eval)

lemma is_object_truthy: "is_object v \<Longrightarrow> truthy v"
  by (cases v) auto

lemma normalize_envelope:
  "is_object e \<Longrightarrow> normalizeEnvelope (toBroadcastEnvelope p e) = Some e"
  by (simp add: normalizeEnvelope_def PRODUCER_EVENT_def)
    (simp add: toBroadcastEnvelope_def)

text \<open>
  Producer and subscriber agree on the frame: the envelope the producer contract builds round
  trips to its event, is valid under the contract exactly when the event carries a source
  identity, and a bootstrapped subscriber that receives it processes exactly that event.
\<close>
theorem broadcast_round_trip:
  assumes "is_object e" and "c_bootstrapped c"
  shows "fromBroadcastEnvelope (toBroadcastEnvelope p e) = e \<and>
    (isValidProducerEnvelope (toBroadcastEnvelope p e) p \<longleftrightarrow>
       truthy (fld e ''source_system'') \<and> truthy (fld e ''source_event_id'')) \<and>
    receiveLive (toBroadcastEnvelope p e) c = receiveEvent e c"
  using assms normalize_envelope [OF assms(1)]
  by (auto simp: fromBroadcastEnvelope_def isValidProducerEnvelope_def receiveLive_def
      is_object_truthy Let_def)

theorem broadcast_round_trip_witness:
  "fromBroadcastEnvelope (toBroadcastEnvelope (js ''observatory'') (JObj [])) = JObj [] \<and>
   \<not> isValidProducerEnvelope (toBroadcastEnvelope (js ''observatory'') (JObj [])) (js ''observatory'')"
proof -
  have h: "is_object (JObj [])" "c_bootstrapped ((new_client [])\<lparr>c_bootstrapped := True\<rparr>)" by simp_all
  show ?thesis using broadcast_round_trip [OF h, of "js ''observatory''"] by (simp add: js_eval)
qed

end
