(* ===== verification/Store.thy ===== *)
theory Store
  imports Live
begin

text \<open>
  The read side: the row mapper and the store of \<open>lib/postgresEventStore.ts\<close>, the historical
  read of \<open>lib/serverHistoricalRead.ts\<close> and the run list and detail reads of
  \<open>lib/serverRunRead.ts\<close>.

  The Supabase client is a parameter: \<open>mk url key\<close> is \<open>createClient\<close> and
  \<open>run cl q\<close> the awaited result of the query \<open>q\<close>, its data and whether it reports an error.
  A query is a value of type \<open>query\<close>, which can only describe a SELECT. The process
  environment is the function \<open>env\<close>.
\<close>

section \<open>Rows\<close>

definition SELECT_BY_RUN :: jsstring where
  "SELECT_BY_RUN = js_join [10] [[],
     js ''  SELECT run_id, source_system, source_event_id, sequence, projection_ordinal,'',
     js ''         event_type, occurred_at, gate, node_id, actor, outcome, before, after,'',
     js ''         evidence_refs, authority_ref, source_digest, read_only_projection'',
     js ''  FROM projection_events'',
     js ''  WHERE run_id = $1'',
     js ''  ORDER BY projection_ordinal'']"

definition opt_string :: "json \<Rightarrow> json \<Rightarrow> json" where
  "opt_string v d = (if nullish v then d else JStr (jsString v))"

definition opt_value :: "json \<Rightarrow> json" where
  "opt_value v = (if nullish v then JUndef else v)"

definition mapRowToProjectionEvent :: "json \<Rightarrow> event" where
  "mapRowToProjectionEvent row = JObj (
     [(js ''run_id'', JStr (jsString (fld row ''run_id''))),
      (js ''source_system'', JStr (jsString (fld row ''source_system''))),
      (js ''source_event_id'', JStr (jsString (fld row ''source_event_id'')))] @
     (case num_of (fld row ''sequence'') of Some n \<Rightarrow> [(js ''sequence'', JNum n)] | None \<Rightarrow> []) @
     (case num_of (fld row ''projection_ordinal'') of
        Some n \<Rightarrow> [(js ''projection_ordinal'', JNum n)] | None \<Rightarrow> []) @
     [(js ''event_type'', opt_string (fld row ''event_type'') (JStr [])),
      (js ''occurred_at'', opt_string (fld row ''occurred_at'') (JStr [])),
      (js ''gate'', opt_string (fld row ''gate'') JUndef),
      (js ''node_id'', opt_string (fld row ''node_id'') JUndef),
      (js ''actor'', opt_value (fld row ''actor'')),
      (js ''outcome'', opt_string (fld row ''outcome'') JUndef),
      (js ''before'', opt_value (fld row ''before'')),
      (js ''after'', opt_value (fld row ''after'')),
      (js ''evidence_refs'', case fld row ''evidence_refs'' of
         JArr rs \<Rightarrow> JArr (map (\<lambda>r. JStr (jsString r)) rs) | _ \<Rightarrow> JArr []),
      (js ''authority_ref'', opt_string (fld row ''authority_ref'') JUndef),
      (js ''source_digest'', opt_string (fld row ''source_digest'') JUndef)])"

record pgStore =
  pg_read :: "jsstring \<Rightarrow> loadResult"
  pg_runId :: jsstring

text \<open>\<open>sql\<close> is the injected \<open>SqlQuery\<close>: rows, or the rejection of its promise.\<close>

definition fromSql :: "(jsstring \<Rightarrow> json list \<Rightarrow> jsstring + json list) \<Rightarrow> jsstring \<Rightarrow> pgStore" where
  "fromSql sql runId = \<lparr> pg_read = (\<lambda>rid. case sql SELECT_BY_RUN [JStr rid] of
       Inl err \<Rightarrow> LoadFailed err
     | Inr rows \<Rightarrow> Loaded (map mapRowToProjectionEvent rows)), pg_runId = runId \<rparr>"

definition pg_loadAll :: "pgStore \<Rightarrow> loadResult" where
  "pg_loadAll st = pg_read st (pg_runId st)"

section \<open>Queries and configuration\<close>

record query =
  q_from :: jsstring
  q_select :: jsstring
  q_eq :: "(jsstring \<times> jsstring) option"
  q_order :: "jsstring option"
  q_maybeSingle :: bool

record serverConfig =
  cfg_url :: "jsstring option"
  cfg_publishableKey :: "jsstring option"
  cfg_serviceKey :: "jsstring option"

text \<open>\<open>process.env?.NAME || undefined\<close>: an empty value counts as absent.\<close>

definition env_value :: "(string \<Rightarrow> jsstring option) \<Rightarrow> string \<Rightarrow> jsstring option" where
  "env_value env name = (case env name of Some [] \<Rightarrow> None | v \<Rightarrow> v)"

datatype backend = Supabase_publishable | Supabase_service | Backend_none

definition hist_readServerConfig :: "(string \<Rightarrow> jsstring option) \<Rightarrow> serverConfig" where
  "hist_readServerConfig env = \<lparr> cfg_url = env_value env ''SUPABASE_URL'',
     cfg_publishableKey = env_value env ''SUPABASE_READ_PUBLISHABLE_KEY'',
     cfg_serviceKey = env_value env ''SUPABASE_SERVICE_ROLE_KEY'' \<rparr>"

definition given :: "jsstring option \<Rightarrow> bool" where
  "given v = (case v of None \<Rightarrow> False | Some s \<Rightarrow> s \<noteq> [])"

definition hist_createServerClient ::
    "(jsstring \<Rightarrow> jsstring \<Rightarrow> 'cl) \<Rightarrow> serverConfig \<Rightarrow> ('cl \<times> backend) option" where
  "hist_createServerClient mk cfg =
     (if \<not> given (cfg_url cfg) then None
      else if \<not> given (cfg_publishableKey cfg) then None
      else
        let key = the (cfg_publishableKey cfg);
            b = (if given (cfg_publishableKey cfg) then Supabase_publishable else Supabase_service)
        in Some (mk (the (cfg_url cfg)) key, b))"

record historicalResult =
  hr_events :: "event list"
  hr_backend :: backend
  hr_degraded :: bool

definition HIST_COLUMNS :: jsstring where
  "HIST_COLUMNS = js ''run_id, source_system, source_event_id, sequence, projection_ordinal, event_type, occurred_at, gate, node_id, actor, outcome, before, after, evidence_refs, authority_ref, source_digest''"

fun rows_of :: "json \<Rightarrow> json list" where
  "rows_of (JArr rs) = rs"
| "rows_of _ = []"

definition readHistoricalEvents ::
    "(jsstring \<Rightarrow> jsstring \<Rightarrow> 'cl) \<Rightarrow> ('cl \<Rightarrow> query \<Rightarrow> json \<times> bool) \<Rightarrow> (string \<Rightarrow> jsstring option) \<Rightarrow>
     jsstring \<Rightarrow> 'cl option \<Rightarrow> historicalResult" where
  "readHistoricalEvents mk run env runId clientOverride =
     (let cfg = hist_readServerConfig env;
          built = (case clientOverride of Some cl \<Rightarrow> Some (cl, Supabase_publishable)
                   | None \<Rightarrow> hist_createServerClient mk cfg)
      in case built of
           None \<Rightarrow> \<lparr>hr_events = [], hr_backend = Backend_none, hr_degraded = True\<rparr>
         | Some (cl, b) \<Rightarrow>
             (case run cl \<lparr>q_from = js ''projection_events'', q_select = HIST_COLUMNS,
                    q_eq = Some (js ''run_id'', runId), q_order = Some (js ''projection_ordinal''),
                    q_maybeSingle = False\<rparr> of
                (data, error) \<Rightarrow>
                  if error then \<lparr>hr_events = [], hr_backend = Backend_none, hr_degraded = True\<rparr>
                  else \<lparr>hr_events = map mapRowToProjectionEvent (rows_of data), hr_backend = b,
                        hr_degraded = False\<rparr>))"

section \<open>Run list and run detail\<close>

definition run_readServerConfig :: "(string \<Rightarrow> jsstring option) \<Rightarrow> serverConfig" where
  "run_readServerConfig env = \<lparr> cfg_url = env_value env ''SUPABASE_URL'',
     cfg_publishableKey = env_value env ''SUPABASE_READ_PUBLISHABLE_KEY'',
     cfg_serviceKey = env_value env ''SUPABASE_SERVICE_ROLE_KEY'' \<rparr>"

definition run_createServerClient ::
    "(jsstring \<Rightarrow> jsstring \<Rightarrow> 'cl) \<Rightarrow> serverConfig \<Rightarrow> ('cl \<times> backend) option" where
  "run_createServerClient mk cfg =
     (if \<not> given (cfg_url cfg) \<or> \<not> given (cfg_publishableKey cfg) then None
      else Some (mk (the (cfg_url cfg)) (the (cfg_publishableKey cfg)), Supabase_publishable))"

fun toRows :: "json \<Rightarrow> json list" where
  "toRows (JArr rs) = rs"
| "toRows v = (if is_object v then [v] else [])"

datatype projectionStatus = AVAILABLE | STATUS_UNAVAILABLE

record runListResult =
  rl_degraded :: bool
  rl_runs :: "json list"

record runDetail =
  rd_degraded :: bool
  rd_backend :: backend
  rd_run :: json
  rd_gates :: "json list"
  rd_nodes :: "json list"
  rd_events :: "event list"
  rd_canonicalHistoryAvailable :: bool
  rd_projectionStatus :: projectionStatus

definition degradedDetail :: "backend \<Rightarrow> runDetail" where
  "degradedDetail b = \<lparr> rd_degraded = True, rd_backend = b, rd_run = JNull, rd_gates = [],
     rd_nodes = [], rd_events = [], rd_canonicalHistoryAvailable = False,
     rd_projectionStatus = STATUS_UNAVAILABLE \<rparr>"

definition built_client ::
    "(jsstring \<Rightarrow> jsstring \<Rightarrow> 'cl) \<Rightarrow> (string \<Rightarrow> jsstring option) \<Rightarrow> 'cl option \<Rightarrow> ('cl \<times> backend) option" where
  "built_client mk env clientOverride =
     (case clientOverride of Some cl \<Rightarrow> Some (cl, Supabase_publishable)
      | None \<Rightarrow> run_createServerClient mk (run_readServerConfig env))"

definition RUN_LIST_COLUMNS :: jsstring where
  "RUN_LIST_COLUMNS = js ''run_id, run_kind, source_system, base_sha, head_sha, branch, pr_number, ci_run_id, ci_status, started_at, completed_at, confidence, evidence_quality''"

definition readServerRunList ::
    "(jsstring \<Rightarrow> jsstring \<Rightarrow> 'cl) \<Rightarrow> ('cl \<Rightarrow> query \<Rightarrow> json \<times> bool) \<Rightarrow> (string \<Rightarrow> jsstring option) \<Rightarrow>
     'cl option \<Rightarrow> runListResult" where
  "readServerRunList mk run env clientOverride =
     (case built_client mk env clientOverride of
        None \<Rightarrow> \<lparr>rl_degraded = True, rl_runs = []\<rparr>
      | Some (cl, b) \<Rightarrow>
          (case run cl \<lparr>q_from = js ''runs'', q_select = RUN_LIST_COLUMNS, q_eq = None,
                 q_order = Some (js ''started_at''), q_maybeSingle = False\<rparr> of
             (data, error) \<Rightarrow> if error then \<lparr>rl_degraded = True, rl_runs = []\<rparr>
                              else \<lparr>rl_degraded = False, rl_runs = toRows data\<rparr>))"

definition RUN_COLUMNS :: jsstring where
  "RUN_COLUMNS = js ''run_id, run_kind, source_system, epic_id, jira_key, base_sha, head_sha, merge_sha, base_branch, branch, pr_number, ci_run_id, ci_status, started_at, completed_at, reconstruction_basis, source_refs, confidence, evidence_quality, reconstructed_by, reconstructed_at, payload''"

definition GATE_COLUMNS :: jsstring where
  "GATE_COLUMNS = js ''gate_id, run_id, gate_label, boundary, authority_ref, state, summary, node_count, artifact_count, source_refs''"

definition NODE_COLUMNS :: jsstring where
  "NODE_COLUMNS = js ''node_id, run_id, gate_id, family, boundary, state, label, source_refs''"

definition EVENT_COLUMNS :: jsstring where
  "EVENT_COLUMNS = js ''run_id, source_system, source_event_id, sequence, projection_ordinal, event_type, occurred_at, gate, node_id, actor, outcome, before, after, evidence_refs, authority_ref, source_digest, read_only_projection''"

definition by_run :: "jsstring \<Rightarrow> jsstring \<Rightarrow> jsstring \<Rightarrow> jsstring option \<Rightarrow> bool \<Rightarrow> query" where
  "by_run tbl cols runId ord single = \<lparr>q_from = tbl, q_select = cols,
     q_eq = Some (js ''run_id'', runId), q_order = ord, q_maybeSingle = single\<rparr>"

definition detail_event :: "json \<Rightarrow> event" where
  "detail_event row =
     (let evt = mapRowToProjectionEvent row in
      if nullish (fld row ''read_only_projection'') then evt
      else jput ''read_only_projection'' (JBool (truthy (fld row ''read_only_projection''))) evt)"

definition readServerRunDetail ::
    "(jsstring \<Rightarrow> jsstring \<Rightarrow> 'cl) \<Rightarrow> ('cl \<Rightarrow> query \<Rightarrow> json \<times> bool) \<Rightarrow> (string \<Rightarrow> jsstring option) \<Rightarrow>
     jsstring \<Rightarrow> 'cl option \<Rightarrow> runDetail" where
  "readServerRunDetail mk run env runId clientOverride =
     (case built_client mk env clientOverride of
        None \<Rightarrow> degradedDetail Backend_none
      | Some (cl, b) \<Rightarrow>
          let runRes = run cl (by_run (js ''runs'') RUN_COLUMNS runId None True) in
          if snd runRes then degradedDetail b
          else let rw = (if nullish (fst runRes) then JNull else fst runRes);
            gatesRes = run cl (by_run (js ''run_gates'') GATE_COLUMNS runId (Some (js ''gate_id'')) False) in
          if snd gatesRes then (degradedDetail b)\<lparr>rd_run := rw\<rparr>
          else let gates = toRows (fst gatesRes);
            nodesRes = run cl (by_run (js ''run_nodes'') NODE_COLUMNS runId (Some (js ''node_id'')) False) in
          if snd nodesRes then (degradedDetail b)\<lparr>rd_run := rw, rd_gates := gates\<rparr>
          else let nodes = toRows (fst nodesRes);
            eventsRes = run cl (by_run (js ''projection_events'') EVENT_COLUMNS runId
              (Some (js ''projection_ordinal'')) False) in
          if snd eventsRes then (degradedDetail b)\<lparr>rd_run := rw, rd_gates := gates, rd_nodes := nodes\<rparr>
          else let evs = map detail_event (toRows (fst eventsRes)); avail = (evs \<noteq> []) in
          \<lparr> rd_degraded = False, rd_backend = b, rd_run = rw, rd_gates = gates, rd_nodes = nodes,
            rd_events = evs, rd_canonicalHistoryAvailable = avail,
            rd_projectionStatus = (if avail then AVAILABLE else STATUS_UNAVAILABLE) \<rparr>)"

section \<open>The store interface\<close>

text \<open>
  What the live client needs of an \<open>EventStore\<close>: the events it returns carry their source
  identity as strings. Then the identity comparison of the client is exact on stored events.
\<close>

locale event_store =
  fixes loadAll :: "jsstring \<Rightarrow> loadResult"
  assumes identity_strings: "loadAll rid = Loaded es \<Longrightarrow> e \<in> set es \<Longrightarrow>
    \<exists>s i. fld e ''source_system'' = JStr s \<and> fld e ''source_event_id'' = JStr i"
begin

lemma same_identity_stored:
  assumes "loadAll rid = Loaded es" and "e \<in> set es"
    and "fld evt ''source_system'' = fld e ''source_system''"
    and "fld evt ''source_event_id'' = fld e ''source_event_id''"
  shows "same_identity e evt"
  using identity_strings [OF assms(1,2)] assms(3,4) by (auto simp: same_identity_def)

lemma stored_frame_known:
  assumes "loadAll rid = Loaded es" and "e \<in> set es" and "c_preBootstrapBuffer c = []"
    and "fld evt ''source_system'' = fld e ''source_system''"
    and "fld evt ''source_event_id'' = fld e ''source_event_id''"
  shows "\<exists>x \<in> set (c_events (bootstrap_loaded es c)). same_identity x evt"
  using same_identity_stored [OF assms(1,2,4,5)] assms(2,3)
  by (auto simp: bootstrap_loaded_def Let_def)

end

lemma fld_mapRow [simp]:
  "fld (mapRowToProjectionEvent row) ''run_id'' = JStr (jsString (fld row ''run_id''))"
  "fld (mapRowToProjectionEvent row) ''source_system'' = JStr (jsString (fld row ''source_system''))"
  "fld (mapRowToProjectionEvent row) ''source_event_id'' = JStr (jsString (fld row ''source_event_id''))"
  by (simp_all add: mapRowToProjectionEvent_def js_eval)

lemma num_mapRow [simp]:
  "num_of (fld (mapRowToProjectionEvent row) ''sequence'') = num_of (fld row ''sequence'')"
  "num_of (fld (mapRowToProjectionEvent row) ''projection_ordinal'') = num_of (fld row ''projection_ordinal'')"
  by (cases "num_of (fld row ''sequence'')"; cases "num_of (fld row ''projection_ordinal'')";
      simp add: mapRowToProjectionEvent_def js_eval del: num_of_eq_Some)+

lemma fld_mapRow_opt:
  "fld (mapRowToProjectionEvent row) ''event_type'' = opt_string (fld row ''event_type'') (JStr [])"
  "fld (mapRowToProjectionEvent row) ''occurred_at'' = opt_string (fld row ''occurred_at'') (JStr [])"
  "fld (mapRowToProjectionEvent row) ''gate'' = opt_string (fld row ''gate'') JUndef"
  "fld (mapRowToProjectionEvent row) ''node_id'' = opt_string (fld row ''node_id'') JUndef"
  "fld (mapRowToProjectionEvent row) ''outcome'' = opt_string (fld row ''outcome'') JUndef"
  "fld (mapRowToProjectionEvent row) ''authority_ref'' = opt_string (fld row ''authority_ref'') JUndef"
  by (auto simp: mapRowToProjectionEvent_def js_eval split: option.split)

interpretation sql_store: event_store "\<lambda>rid. pg_loadAll (fromSql sql rid)" for sql
  by unfold_locales (auto simp: pg_loadAll_def fromSql_def split: sum.splits)

section \<open>Properties\<close>

text \<open>
  The row mapper invents nothing: sequence and ordinal are present exactly when the row has
  them as numbers, and then unchanged; source identity and run are the row's; an event field the
  row leaves null stays absent, and only \<open>event_type\<close> and \<open>occurred_at\<close> become the empty
  string.
\<close>
theorem map_row_invents_nothing:
  "num_of (fld (mapRowToProjectionEvent row) ''sequence'') = num_of (fld row ''sequence'') \<and>
   num_of (fld (mapRowToProjectionEvent row) ''projection_ordinal'') = num_of (fld row ''projection_ordinal'') \<and>
   (\<forall>k \<in> {''run_id'', ''source_system'', ''source_event_id''}.
      fld (mapRowToProjectionEvent row) k = JStr (jsString (fld row k))) \<and>
   (\<forall>k \<in> {''gate'', ''node_id'', ''outcome'', ''authority_ref''}.
      fld (mapRowToProjectionEvent row) k = (if nullish (fld row k) then JUndef else JStr (jsString (fld row k)))) \<and>
   (\<forall>k \<in> {''event_type'', ''occurred_at''}.
      fld (mapRowToProjectionEvent row) k = JStr (if nullish (fld row k) then [] else jsString (fld row k)))"
  by (simp add: fld_mapRow_opt opt_string_def)

theorem map_row_invents_nothing_witness:
  "fld (mapRowToProjectionEvent (JObj [(js ''gate'', JNull)])) ''gate'' = JUndef \<and>
   num_of (fld (mapRowToProjectionEvent (JObj [(js ''sequence'', JStr (js ''7''))])) ''sequence'') = None"
  using map_row_invents_nothing [of "JObj [(js ''gate'', JNull)]"]
    map_row_invents_nothing [of "JObj [(js ''sequence'', JStr (js ''7''))]"]
  by (simp add: js_eval)



text \<open>
  C24. The detail read never presents a degraded or empty history as available: the status is
  AVAILABLE exactly when the read is not degraded and returned events, a degraded result has no
  events, and a result is degraded exactly when there is no client or one of the four reads
  reports an error.
\<close>
theorem run_detail_contract:
  "let d = readServerRunDetail mk run env rid ov in
   (rd_projectionStatus d = AVAILABLE \<longleftrightarrow> \<not> rd_degraded d \<and> rd_events d \<noteq> []) \<and>
   (rd_canonicalHistoryAvailable d \<longleftrightarrow> rd_projectionStatus d = AVAILABLE) \<and>
   (rd_degraded d \<longrightarrow> rd_events d = []) \<and>
   (rd_degraded d \<longleftrightarrow> (case built_client mk env ov of None \<Rightarrow> True
      | Some (cl, b) \<Rightarrow>
          snd (run cl (by_run (js ''runs'') RUN_COLUMNS rid None True)) \<or>
          snd (run cl (by_run (js ''run_gates'') GATE_COLUMNS rid (Some (js ''gate_id'')) False)) \<or>
          snd (run cl (by_run (js ''run_nodes'') NODE_COLUMNS rid (Some (js ''node_id'')) False)) \<or>
          snd (run cl (by_run (js ''projection_events'') EVENT_COLUMNS rid (Some (js ''projection_ordinal'')) False))))"
proof (cases "built_client mk env ov")
  case None
  then show ?thesis by (simp add: readServerRunDetail_def degradedDetail_def)
next
  case (Some p)
  then show ?thesis
    by (cases p) (simp add: readServerRunDetail_def degradedDetail_def Let_def)
qed

theorem run_detail_contract_witness:
  "rd_degraded (readServerRunDetail (\<lambda>u k. ()) (\<lambda>_ q. (JArr [], q_from q = js ''run_nodes'')) (\<lambda>_. None) [] (Some ())) \<and>
   rd_events (readServerRunDetail (\<lambda>u k. ()) (\<lambda>_ q. (JArr [], q_from q = js ''run_nodes'')) (\<lambda>_. None) [] (Some ())) = []"
  using run_detail_contract [of "\<lambda>u k. ()" "\<lambda>_ q. (JArr [], q_from q = js ''run_nodes'')" "\<lambda>_. None" "[]" "Some ()"]
  by (simp add: Let_def built_client_def by_run_def)

text \<open>
  C28. A frame that repeats an event of the SQL store is recognised: after a bootstrap from the
  rows of the store, every frame with the source system and event id of a stored row is a
  DUPLICATE and changes nothing the listener does not already show.
\<close>
theorem stored_event_frame_is_duplicate:
  assumes "pg_loadAll (fromSql sql rid) = Loaded es" and "e \<in> set es"
    and "c_preBootstrapBuffer c = []" and "normalizeEnvelope m = Some evt"
    and "fld evt ''source_system'' = fld e ''source_system''"
    and "fld evt ''source_event_id'' = fld e ''source_event_id''"
    and "truthy (fld evt ''source_system'')" and "truthy (fld evt ''source_event_id'')"
    and "fld evt ''run_id'' = JStr (c_runId c)"
  shows "r_kind (fst (receiveLive m (bootstrap_loaded es c))) = R_DUPLICATE \<and>
    core (snd (receiveLive m (bootstrap_loaded es c))) = core (bootstrap_loaded es c)"
proof -
  let ?c = "bootstrap_loaded es c"
  have known: "\<exists>x \<in> set (c_events ?c). same_identity x evt"
    using assms by (intro sql_store.stored_frame_known [of sql rid]) auto
  have "c_bootstrapped ?c" "c_runId ?c = c_runId c"
    using assms(3) by (simp_all add: bootstrap_loaded_def Let_def)
  then have "receiveLive m ?c = (\<lparr>r_kind = R_DUPLICATE, r_anomaly = None, r_appended = None\<rparr>, emitChange ?c)"
    using assms known by (simp add: receiveLive_def receiveEvent_def)
  then show ?thesis by simp
qed

definition stored_row :: json where
  "stored_row = JObj [(js ''run_id'', JStr (js ''R'')), (js ''source_system'', JStr (js ''tc'')),
     (js ''source_event_id'', JStr (js ''a''))]"

theorem stored_event_frame_is_duplicate_witness:
  "r_kind (fst (receiveLive stored_row (bootstrap_loaded [mapRowToProjectionEvent stored_row] (new_client (js ''R''))))) = R_DUPLICATE"
proof -
  let ?sql = "\<lambda>_ _. Inr [stored_row]"
  have "pg_loadAll (fromSql ?sql (js ''R'')) = Loaded [mapRowToProjectionEvent stored_row]"
    by (simp add: pg_loadAll_def fromSql_def)
  then show ?thesis
    using stored_event_frame_is_duplicate [of ?sql "js ''R''" "[mapRowToProjectionEvent stored_row]"
        "mapRowToProjectionEvent stored_row" "new_client (js ''R'')" stored_row stored_row]
    by (simp add: new_client_def normalizeEnvelope_def stored_row_def js_eval)
qed

end
