(* ===== verification/Realtime.thy ===== *)
theory Realtime
  imports Broadcast Store
begin

text \<open>
  The browser side of the live projection: the Supabase broadcast transport of
  \<open>lib/supabaseRealtime.ts\<close>, the React binding of \<open>lib/useLiveProjection.ts\<close> and the store
  and transport wiring of \<open>components/LiveProjectionPane.tsx\<close>.

  A transport operation returns the new transport and the status notifications it sends through
  \<open>onStatus\<close>, in order. The Supabase channel is a parameter of the run: its callbacks are the
  steps of the hook's event loop.
\<close>

section \<open>Transport\<close>

datatype channelStatus = CS_idle | CS_connecting | CS_subscribed | CS_channel_error | CS_timed_out | CS_closed

record browserConfig =
  bc_url :: "jsstring option"
  bc_anonKey :: "jsstring option"
  bc_topicPrefix :: jsstring

definition readBrowserConfig :: "(string \<Rightarrow> jsstring option) \<Rightarrow> browserConfig" where
  "readBrowserConfig env = \<lparr> bc_url = env_value env ''NEXT_PUBLIC_SUPABASE_URL'',
     bc_anonKey = (case env_value env ''NEXT_PUBLIC_SUPABASE_PUBLISHABLE_KEY'' of
        Some k \<Rightarrow> Some k | None \<Rightarrow> env_value env ''NEXT_PUBLIC_SUPABASE_ANON_KEY''),
     bc_topicPrefix = (case env_value env ''NEXT_PUBLIC_OBSERVATORY_REALTIME_TOPIC_PREFIX'' of
        Some p \<Rightarrow> p | None \<Rightarrow> js ''observatory'') \<rparr>"

definition realtimeTopic :: "jsstring \<Rightarrow> jsstring \<Rightarrow> jsstring" where
  "realtimeTopic topicPrefix runId = topicPrefix @ js '':'' @ runId"

definition createBrowserClient :: "(jsstring \<Rightarrow> jsstring \<Rightarrow> 'cl) \<Rightarrow> browserConfig \<Rightarrow> 'cl option" where
  "createBrowserClient mk cfg =
     (if \<not> given (bc_url cfg) \<or> \<not> given (bc_anonKey cfg) then None
      else Some (mk (the (bc_url cfg)) (the (bc_anonKey cfg))))"

record 'cl transport =
  t_topic :: jsstring
  t_clientOverride :: "'cl option"
  t_client :: "'cl option"
  t_channel :: bool
  t_closed :: bool
  t_status :: channelStatus

type_synonym notification = "jsstring \<times> liveState"

definition new_transport :: "jsstring \<Rightarrow> 'cl option \<Rightarrow> 'cl transport" where
  "new_transport topic ov = \<lparr> t_topic = topic, t_clientOverride = ov, t_client = None,
     t_channel = False, t_closed = False, t_status = CS_idle \<rparr>"

definition transport_subscribe ::
    "(jsstring \<Rightarrow> jsstring \<Rightarrow> 'cl) \<Rightarrow> (string \<Rightarrow> jsstring option) \<Rightarrow> 'cl transport \<Rightarrow> 'cl transport \<times> notification list" where
  "transport_subscribe mk env t =
     (if t_closed t then (t, [])
      else
        let cl = (case t_clientOverride t of Some c \<Rightarrow> Some c
                  | None \<Rightarrow> createBrowserClient mk (readBrowserConfig env))
        in case cl of
             None \<Rightarrow> (t\<lparr>t_client := None, t_status := CS_idle\<rparr>, [(js ''idle'', PROJECTION_UNAVAILABLE)])
           | Some c \<Rightarrow> (t\<lparr>t_client := Some c, t_status := CS_connecting, t_channel := True\<rparr>,
                        [(js ''connecting'', CATCHING_UP)]))"

definition on_system_disconnect :: "'cl transport \<Rightarrow> 'cl transport \<times> notification list" where
  "on_system_disconnect t = (t\<lparr>t_status := CS_closed\<rparr>, [(js ''CLOSED'', PROJECTION_UNAVAILABLE)])"

definition on_channel_status :: "jsstring \<Rightarrow> 'cl transport \<Rightarrow> 'cl transport \<times> notification list" where
  "on_channel_status status t =
     (let s = toUpperCase status in
      if s = js ''SUBSCRIBED'' \<or> s = js ''JOINED'' then
        (t\<lparr>t_status := CS_subscribed\<rparr>, [(js ''SUBSCRIBED'', CATCHING_UP)])
      else if s = js ''CHANNEL_ERROR'' then
        (t\<lparr>t_status := CS_channel_error\<rparr>, [(js ''CHANNEL_ERROR'', PROJECTION_UNAVAILABLE)])
      else if s = js ''TIMED_OUT'' then
        (t\<lparr>t_status := CS_timed_out\<rparr>, [(js ''TIMED_OUT'', PROJECTION_UNAVAILABLE)])
      else if s = js ''CLOSED'' then
        (t\<lparr>t_status := CS_closed\<rparr>, [(js ''CLOSED'', PROJECTION_UNAVAILABLE)])
      else (t\<lparr>t_status := CS_idle\<rparr>, [(s, CATCHING_UP)]))"

definition transport_close :: "'cl transport \<Rightarrow> 'cl transport" where
  "transport_close t = t\<lparr>t_closed := True, t_status := CS_closed\<rparr>"

section \<open>The wiring of the live pane\<close>

definition buildStore :: "event list \<Rightarrow> pgStore" where
  "buildStore initialEvents = \<lparr> pg_read = (\<lambda>_. Loaded initialEvents), pg_runId = [] \<rparr>"

text \<open>\<open>None\<close> is the inert transport used when the browser configuration is missing.\<close>

definition buildTransport :: "(string \<Rightarrow> jsstring option) \<Rightarrow> jsstring \<Rightarrow> 'cl transport option" where
  "buildTransport env runId =
     (let cfg = readBrowserConfig env in
      if given (bc_url cfg) \<and> given (bc_anonKey cfg)
      then Some (new_transport (realtimeTopic (bc_topicPrefix cfg) runId) None) else None)"

definition pane_store :: "event list \<Rightarrow> bool \<Rightarrow> pgStore" where
  "pane_store initialEvents storeDegraded = buildStore (if storeDegraded then [] else initialEvents)"

section \<open>The hook\<close>

record hook =
  h_client :: client
  h_view :: liveView
  h_cancelled :: bool

text \<open>\<open>sync\<close>: nothing happens after the effect has been cleaned up.\<close>

definition sync :: "hook \<Rightarrow> hook" where
  "sync h = (if h_cancelled h then h else h\<lparr>h_view := view_of (h_client h)\<rparr>)"

text \<open>
  An operation of the client. Each notification of the client runs \<open>sync\<close>, so the view
  becomes the last one the operation reported, if it reported any.
\<close>

definition on_client :: "(client \<Rightarrow> client) \<Rightarrow> hook \<Rightarrow> hook" where
  "on_client f h =
     (let c = f (h_client h) in
      h\<lparr>h_client := c,
        h_view := if h_cancelled h \<or> c_observed c = c_observed (h_client h) then h_view h
                  else last (c_observed c)\<rparr>)"

definition statusListener :: "liveState \<Rightarrow> hook \<Rightarrow> hook" where
  "statusListener suggested h =
     (if suggested = PROJECTION_UNAVAILABLE then
        sync (h\<lparr>h_client := (h_client h)\<lparr>c_state := PROJECTION_UNAVAILABLE,
                  c_lastError := Some (js ''realtime channel unavailable'')\<rparr>\<rparr>)
      else h)"

definition hook_status :: "notification \<Rightarrow> hook \<Rightarrow> hook" where
  "hook_status n h = statusListener (snd n) (on_client (handleStatus (fst n)) h)"

fun hook_statuses :: "notification list \<Rightarrow> hook \<Rightarrow> hook" where
  "hook_statuses [] h = h"
| "hook_statuses (n # ns) h = hook_statuses ns (hook_status n h)"

text \<open>
  The effect of \<open>useLiveProjection\<close>: create the client, install \<open>sync\<close>, register the status
  listener, subscribe (its notifications arrive at once) and start the bootstrap.
\<close>

definition mount :: "jsstring \<Rightarrow> notification list \<Rightarrow> hook" where
  "mount runId ns =
     on_client bootstrap (hook_statuses ns
       \<lparr> h_client = (new_client runId)\<lparr>c_onChange := True\<rparr>,
         h_view = \<lparr>v_state = UNAVAILABLE, v_anomalies = [], v_eventCount = 0, v_lastError = None\<rparr>,
         h_cancelled = False \<rparr>)"

definition unmount :: "hook \<Rightarrow> hook" where
  "unmount h = h\<lparr>h_cancelled := True\<rparr>"

definition hook_bootstrap_loaded :: "event list \<Rightarrow> hook \<Rightarrow> hook" where
  "hook_bootstrap_loaded es h = sync (on_client (bootstrap_loaded es \<circ> finish TBootstrap) h)"

definition hook_bootstrap_failed :: "jsstring \<Rightarrow> hook \<Rightarrow> hook" where
  "hook_bootstrap_failed err h =
     (let h1 = on_client (markTransportDown \<circ> finish TBootstrap) h
      in sync (h1\<lparr>h_client := (h_client h1)\<lparr>c_lastError := Some err\<rparr>\<rparr>))"

datatype hookAction =
    HStatus notification
  | HFrame json
  | HBootstrapLoaded "event list"
  | HBootstrapFailed jsstring
  | HResyncLoaded loadResult
  | HReconnectLoaded loadResult
  | HReconnectCont bool
  | HUnmount

fun hook_act :: "hookAction \<Rightarrow> hook \<Rightarrow> hook option" where
  "hook_act (HStatus n) h = Some (hook_status n h)"
| "hook_act (HFrame m) h = Some (on_client (\<lambda>c. snd (receiveLive m c)) h)"
| "hook_act (HBootstrapLoaded es) h =
     (if TBootstrap \<in> set (c_pending (h_client h)) then Some (hook_bootstrap_loaded es h) else None)"
| "hook_act (HBootstrapFailed err) h =
     (if TBootstrap \<in> set (c_pending (h_client h)) then Some (hook_bootstrap_failed err h) else None)"
| "hook_act (HResyncLoaded r) h =
     (if TResync \<in> set (c_pending (h_client h))
      then Some (on_client (\<lambda>c. snd (resync_loaded r (finish TResync c))) h) else None)"
| "hook_act (HReconnectLoaded r) h =
     (if TReconnect \<in> set (c_pending (h_client h))
      then Some (on_client (\<lambda>c. case resync_loaded r (finish TReconnect c) of
         (ok, c') \<Rightarrow> startLoad (TReconnectCont ok) c') h) else None)"
| "hook_act (HReconnectCont ok) h =
     (if TReconnectCont ok \<in> set (c_pending (h_client h))
      then Some (on_client (reconnectResync_cont ok \<circ> finish (TReconnectCont ok)) h) else None)"
| "hook_act HUnmount h = Some (unmount h)"

inductive hook_reachable :: "hook \<Rightarrow> hook \<Rightarrow> bool" for h0 where
  mounted: "hook_reachable h0 h0"
| acted: "hook_reachable h0 h \<Longrightarrow> hook_act a h = Some h' \<Longrightarrow> hook_reachable h0 h'"

section \<open>Operations notify what they change\<close>

definition reported :: "client \<Rightarrow> client \<Rightarrow> bool" where
  "reported c c' \<longleftrightarrow> c_onChange c' \<and>
     (if c_observed c' = c_observed c then view_of c' = view_of c
      else last (c_observed c') = view_of c')"

text \<open>
  The contract between an operation of the client and a listener: the operation keeps the
  listener, and either reports nothing and changes nothing a view shows, or its last report is
  the view of the state it leaves.
\<close>

locale notifying =
  fixes f :: "client \<Rightarrow> client"
  assumes reports: "c_onChange c \<Longrightarrow> reported c (f c)"
begin

lemma on_client_synced:
  assumes "c_onChange (h_client h)" and "\<not> h_cancelled h \<Longrightarrow> h_view h = view_of (h_client h)"
  shows "c_onChange (h_client (on_client f h))"
    and "\<not> h_cancelled (on_client f h) \<Longrightarrow> h_view (on_client f h) = view_of (h_client (on_client f h))"
  using assms reports [OF assms(1)]
  by (auto simp: on_client_def reported_def Let_def split: if_splits)

end

definition grows :: "client \<Rightarrow> client \<Rightarrow> bool" where
  "grows c c' \<longleftrightarrow> c_onChange c' = c_onChange c \<and> length (c_observed c) \<le> length (c_observed c')"

lemma grows_refl [simp]: "grows c c"
  by (simp add: grows_def)

lemma grows_trans: "grows a b \<Longrightarrow> grows b c \<Longrightarrow> grows a c"
  by (auto simp: grows_def)

lemma grows_emitChange: "grows c x \<Longrightarrow> grows c (emitChange x)"
  by (simp add: grows_def emitChange_def)

lemma grows_same: "c_onChange c' = c_onChange c \<Longrightarrow> c_observed c' = c_observed c \<Longrightarrow> grows c c'"
  by (simp add: grows_def)

lemma grows_startLoad: "grows c x \<Longrightarrow> grows c (startLoad t x)"
  by (simp add: grows_def startLoad_def)

lemmas grows_intros = grows_startLoad grows_emitChange grows_same

lemma grows_receiveLive: "grows c (snd (receiveLive m c))"
  by (simp add: receiveLive_def receiveEvent_def receiveSequenced_def Let_def grows_intros
      split: option.split)

lemma grows_receiveAll: "grows c x \<Longrightarrow> grows c (receiveAll ms x)"
proof (induction ms arbitrary: x)
  case (Cons m ms)
  then show ?case by (simp add: grows_trans [OF Cons.prems grows_receiveLive])
qed simp

lemma reported_emitChange:
  assumes "c_onChange c" and "grows c x"
  shows "reported c (emitChange x)"
proof -
  have "c_onChange x" "length (c_observed c) \<le> length (c_observed x)"
    using assms by (simp_all add: grows_def)
  moreover from this have "c_observed x @ [view_of x] \<noteq> c_observed c"
    by (metis Suc_n_not_le_n length_append_singleton)
  ultimately show ?thesis by (simp add: reported_def emitChange_def view_of_def)
qed

lemma reported_quiet:
  "c_onChange c \<Longrightarrow> c_onChange x = c_onChange c \<Longrightarrow> c_observed x = c_observed c \<Longrightarrow>
   view_of x = view_of c \<Longrightarrow> reported c x"
  by (simp add: reported_def)

lemma tasks_unseen [simp]:
  "view_of (startLoad t c) = view_of c" "view_of (finish t c) = view_of c"
  "c_observed (startLoad t c) = c_observed c" "c_observed (finish t c) = c_observed c"
  "c_onChange (startLoad t c) = c_onChange c" "c_onChange (finish t c) = c_onChange c"
  by (simp_all add: startLoad_def finish_def view_of_def)

lemma reported_startLoad: "reported c x \<Longrightarrow> reported c (startLoad t x)"
  by (simp add: reported_def)

lemma reported_finish: "reported (finish t c) x \<Longrightarrow> reported c x"
  by (simp add: reported_def)

lemmas reported_intros = reported_startLoad reported_emitChange grows_intros grows_receiveAll

interpretation receive: notifying "\<lambda>c. snd (receiveLive m c)" for m
proof
  fix c :: client
  assume on: "c_onChange c"
  then show "reported c (snd (receiveLive m c))"
    by (simp add: receiveLive_def receiveEvent_def receiveSequenced_def Let_def reported_intros
        split: option.split) (simp add: reported_quiet view_of_def)
qed

interpretation status: notifying "handleStatus s" for s
  by unfold_locales
    (simp add: handleStatus_def Let_def reconnectResync_def reported_intros)

interpretation boot: notifying bootstrap
  by unfold_locales (simp add: bootstrap_def startLoad_def reported_quiet view_of_def)

interpretation boot_loaded: notifying "bootstrap_loaded es \<circ> finish TBootstrap" for es
proof
  fix c :: client
  assume "c_onChange c"
  then have "reported (finish TBootstrap c) (bootstrap_loaded es (finish TBootstrap c))"
    by (simp add: bootstrap_loaded_def Let_def reported_intros)
  then show "reported c ((bootstrap_loaded es \<circ> finish TBootstrap) c)"
    by (simp add: reported_finish)
qed

lemma reported_resync: "c_onChange c \<Longrightarrow> reported c (snd (resync_loaded r c))"
  by (cases r) (simp_all add: Let_def reported_intros)

interpretation resynced: notifying "\<lambda>c. snd (resync_loaded r (finish TResync c))" for r
  by unfold_locales (rule reported_finish, rule reported_resync, simp)

interpretation reconnected: notifying "\<lambda>c. case resync_loaded r (finish TReconnect c) of
    (ok, c') \<Rightarrow> startLoad (TReconnectCont ok) c'" for r
proof
  fix c :: client
  assume "c_onChange c"
  then have "reported (finish TReconnect c) (snd (resync_loaded r (finish TReconnect c)))"
    by (simp add: reported_resync)
  then have "reported c (snd (resync_loaded r (finish TReconnect c)))" by (rule reported_finish)
  then show "reported c (case resync_loaded r (finish TReconnect c) of
      (ok, c') \<Rightarrow> startLoad (TReconnectCont ok) c')"
    by (auto simp: split_beta intro: reported_startLoad)
qed

interpretation reconnect_cont: notifying "reconnectResync_cont ok \<circ> finish t" for ok t
proof
  fix c :: client
  assume "c_onChange c"
  then have "reported (finish t c) (reconnectResync_cont ok (finish t c))"
    by (simp add: reconnectResync_cont_def reported_intros)
  then show "reported c ((reconnectResync_cont ok \<circ> finish t) c)" by (simp add: reported_finish)
qed

interpretation down: notifying "markTransportDown \<circ> finish t" for t
proof
  fix c :: client
  assume "c_onChange c"
  then have "reported (finish t c) (markTransportDown (finish t c))"
    by (simp add: markTransportDown_def reported_intros)
  then show "reported c ((markTransportDown \<circ> finish t) c)" by (simp add: reported_finish)
qed

section \<open>Invariant of the hook\<close>

definition hook_ok :: "hook \<Rightarrow> bool" where
  "hook_ok h \<longleftrightarrow> c_onChange (h_client h) \<and> live_gated (h_client h) \<and>
     (\<not> h_cancelled h \<longrightarrow> h_view h = view_of (h_client h))"

lemma hook_ok_on_client:
  assumes "notifying f" and "\<And>c. live_gated c \<Longrightarrow> live_gated (f c)" and "hook_ok h"
  shows "hook_ok (on_client f h)"
proof -
  have "live_gated (f (h_client h))" using assms(2,3) by (simp add: hook_ok_def)
  moreover have "h_client (on_client f h) = f (h_client h)" by (simp add: on_client_def Let_def)
  ultimately show ?thesis
    using notifying.on_client_synced [OF assms(1), of h] assms(3) by (auto simp: hook_ok_def)
qed

lemma hook_ok_sync: "hook_ok h \<Longrightarrow> hook_ok (sync h)"
  by (simp add: hook_ok_def sync_def)

lemma hook_ok_sync_client:
  "c_onChange c \<Longrightarrow> live_gated c \<Longrightarrow> hook_ok (sync (h\<lparr>h_client := c\<rparr>))"
  by (simp add: hook_ok_def sync_def)

lemma hook_ok_status: "hook_ok h \<Longrightarrow> hook_ok (hook_status n h)"
proof -
  assume "hook_ok h"
  then have ok: "hook_ok (on_client (handleStatus (fst n)) h)"
    by (intro hook_ok_on_client [OF status.notifying_axioms]) (rule live_gate.I_status)
  show ?thesis
    unfolding hook_status_def statusListener_def
    using ok by (auto simp: hook_ok_def [of "on_client _ _"] live_gated_def intro!: hook_ok_sync_client)
qed

lemma hook_ok_statuses: "hook_ok h \<Longrightarrow> hook_ok (hook_statuses ns h)"
  by (induction ns arbitrary: h) (auto simp: hook_ok_status)

lemma hook_ok_mount: "hook_ok (mount rid ns)"
  unfolding mount_def
  by (intro hook_ok_on_client [OF boot.notifying_axioms] hook_ok_statuses)
    (simp_all add: bootstrap_def live_gate.I_start, simp add: hook_ok_def live_gated_def new_client_def view_of_def)

lemma hook_ok_act:
  assumes "hook_ok h" and "hook_act a h = Some h'"
  shows "hook_ok h'"
proof (cases a)
  case (HStatus n)
  then show ?thesis using assms by (auto intro: hook_ok_status)
next
  case (HFrame m)
  then show ?thesis
    using assms by (auto intro: hook_ok_on_client [OF receive.notifying_axioms live_gate.I_frame])
next
  case (HBootstrapLoaded es)
  then show ?thesis
    using assms by (auto simp: hook_bootstrap_loaded_def live_gate.I_bootstrap live_gate.I_finish
        intro!: hook_ok_sync hook_ok_on_client [OF boot_loaded.notifying_axioms] split: if_splits)
next
  case (HBootstrapFailed err)
  have "hook_ok (on_client (markTransportDown \<circ> finish TBootstrap) h)"
    using assms(1) by (intro hook_ok_on_client [OF down.notifying_axioms])
      (simp_all add: live_gate.I_down live_gate.I_finish)
  with HBootstrapFailed assms show ?thesis
    by (auto simp: hook_bootstrap_failed_def Let_def hook_ok_def [of "on_client _ _"] live_gated_def
        intro!: hook_ok_sync_client split: if_splits)
next
  case (HResyncLoaded r)
  then show ?thesis
    using assms by (auto simp: live_gate.I_resync live_gate.I_finish
        intro!: hook_ok_on_client [OF resynced.notifying_axioms] split: if_splits)
next
  case (HReconnectLoaded r)
  have "live_gated (case resync_loaded r (finish TReconnect c) of (ok, c') \<Rightarrow> startLoad (TReconnectCont ok) c')"
    if "live_gated c" for c
    using live_gate.I_resync [OF live_gate.I_finish [OF that], of r]
    by (auto simp: split_beta intro: live_gate.I_start)
  with HReconnectLoaded show ?thesis
    using assms by (auto intro!: hook_ok_on_client [OF reconnected.notifying_axioms] split: if_splits)
next
  case (HReconnectCont ok)
  then show ?thesis
    using assms by (auto simp: live_gate.I_cont live_gate.I_finish
        intro!: hook_ok_on_client [OF reconnect_cont.notifying_axioms] split: if_splits)
next
  case HUnmount
  then show ?thesis using assms by (auto simp: unmount_def hook_ok_def)
qed

lemma hook_ok_reachable: "hook_reachable h0 h \<Longrightarrow> hook_ok h0 \<Longrightarrow> hook_ok h"
  by (induction rule: hook_reachable.induct) (auto intro: hook_ok_act)

fun hook_run :: "hookAction list \<Rightarrow> hook \<Rightarrow> hook option" where
  "hook_run [] h = Some h"
| "hook_run (a # as) h = (case hook_act a h of None \<Rightarrow> None | Some h' \<Rightarrow> hook_run as h')"

lemma hook_run_reachable:
  "hook_run as h = Some h' \<Longrightarrow> hook_reachable h0 h \<Longrightarrow> hook_reachable h0 h'"
  by (induction as arbitrary: h) (auto intro: hook_reachable.acted split: option.splits)

lemmas hook_eval = mount_def hook_statuses.simps hook_status_def statusListener_def on_client_def sync_def
  hook_bootstrap_loaded_def hook_bootstrap_failed_def unmount_def client_eval

section \<open>Properties\<close>

text \<open>
  C9. After any sequence of status notifications, frames, load completions and failures, as long as
  the component is mounted, the view the hook renders is exactly the state of the client; and a
  view that says LIVE is backed by a completed durable read and at least one event.
\<close>

theorem hook_view_in_sync:
  assumes "hook_reachable (mount rid ns) h" and "\<not> h_cancelled h"
  shows "h_view h = view_of (h_client h) \<and>
    (v_state (h_view h) = LIVE \<longrightarrow> c_durableReady (h_client h) \<and> v_eventCount (h_view h) > 0)"
  using hook_ok_reachable [OF assms(1) hook_ok_mount] assms(2)
  by (auto simp: hook_ok_def live_gated_def view_of_def)

definition demo_frame :: json where
  "demo_frame = JObj [(js ''source_system'', JStr (js ''jira'')), (js ''source_event_id'', JStr (js ''e1'')),
     (js ''run_id'', JStr (js ''r'')), (js ''sequence'', JNum 1)]"

definition demo_hook :: hook where
  "demo_hook = the (hook_run [HBootstrapLoaded [], HFrame demo_frame]
     (mount (js ''r'') [(js ''connecting'', CATCHING_UP), (js ''SUBSCRIBED'', CATCHING_UP)]))"

lemma demo_hook_value:
  "hook_run [HBootstrapLoaded [], HFrame demo_frame]
     (mount (js ''r'') [(js ''connecting'', CATCHING_UP), (js ''SUBSCRIBED'', CATCHING_UP)]) = Some demo_hook \<and>
   \<not> h_cancelled demo_hook \<and> v_state (h_view demo_hook) = LIVE"
  by (simp add: demo_hook_def demo_frame_def hook_eval)

theorem hook_view_in_sync_witness:
  "h_view demo_hook = view_of (h_client demo_hook) \<and> c_durableReady (h_client demo_hook)"
proof -
  have "hook_reachable (mount (js ''r'') [(js ''connecting'', CATCHING_UP), (js ''SUBSCRIBED'', CATCHING_UP)]) demo_hook"
    using demo_hook_value hook_run_reachable hook_reachable.mounted by blast
  from hook_view_in_sync [OF this] demo_hook_value show ?thesis by simp
qed

definition transport_lost :: "hook \<Rightarrow> bool" where
  "transport_lost h \<longleftrightarrow> \<not> c_transportReady (h_client h) \<and> c_state (h_client h) \<noteq> LIVE"

fun hook_frames :: "json list \<Rightarrow> hook \<Rightarrow> hook" where
  "hook_frames [] h = h"
| "hook_frames (m # ms) h = hook_frames ms (on_client (\<lambda>c. snd (receiveLive m c)) h)"

lemma transport_lost_frame:
  "transport_lost h \<Longrightarrow> transport_lost (on_client (\<lambda>c. snd (receiveLive m c)) h)"
  by (auto simp: transport_lost_def on_client_def Let_def receiveLive_def receiveEvent_def
      receiveSequenced_def startLoad_def recomputeState_def emitChange_def split: option.splits)

lemma transport_lost_frames: "transport_lost h \<Longrightarrow> transport_lost (hook_frames ms h)"
  by (induction ms arbitrary: h) (auto intro: transport_lost_frame)

lemma hook_ok_frames: "hook_ok h \<Longrightarrow> hook_ok (hook_frames ms h)"
  by (induction ms arbitrary: h)
    (auto intro: hook_ok_on_client [OF receive.notifying_axioms live_gate.I_frame])

lemma cancelled_frames [simp]: "h_cancelled (hook_frames ms h) = h_cancelled h"
  by (induction ms arbitrary: h) (simp_all add: on_client_def Let_def)

lemma statuses_lost:
  assumes "toUpperCase s \<in> {js ''CHANNEL_ERROR'', js ''TIMED_OUT'', js ''CLOSED''}"
  shows "transport_lost (hook_statuses (snd (on_channel_status s t)) h)"
    and "h_cancelled (hook_statuses (snd (on_channel_status s t)) h) = h_cancelled h"
    and "c_state (h_client (hook_statuses (snd (on_channel_status s t)) h)) = PROJECTION_UNAVAILABLE"
  using assms
  by (auto simp: on_channel_status_def Let_def hook_status_def statusListener_def sync_def on_client_def
      handleStatus_def transport_lost_def js_eval)

text \<open>
  C11. When the channel reports an error, a timeout or a close, in whatever letter case, the mounted
  hook shows PROJECTION_UNAVAILABLE at once, and no live frame that still arrives can bring it back
  to LIVE.
\<close>

theorem channel_loss_degrades:
  assumes "hook_reachable (mount rid ns) h" and "\<not> h_cancelled h"
    and "toUpperCase s \<in> {js ''CHANNEL_ERROR'', js ''TIMED_OUT'', js ''CLOSED''}"
  shows "v_state (h_view (hook_statuses (snd (on_channel_status s t)) h)) = PROJECTION_UNAVAILABLE \<and>
    v_state (h_view (hook_frames ms (hook_statuses (snd (on_channel_status s t)) h))) \<noteq> LIVE"
proof -
  let ?h = "hook_statuses (snd (on_channel_status s t)) h"
  have ok: "hook_ok ?h" using hook_ok_reachable [OF assms(1) hook_ok_mount] by (rule hook_ok_statuses)
  moreover have "h_cancelled ?h = False" using assms(2) statuses_lost(2) [OF assms(3), of t h] by simp
  moreover have "transport_lost (hook_frames ms ?h)" using statuses_lost(1) [OF assms(3)] by (rule transport_lost_frames)
  ultimately show ?thesis
    using hook_ok_frames [OF ok, of ms] statuses_lost(3) [OF assms(3), of t h]
    by (auto simp: hook_ok_def transport_lost_def view_of_def)
qed

theorem channel_loss_degrades_witness:
  "v_state (h_view demo_hook) = LIVE \<and>
   v_state (h_view (hook_statuses (snd (on_channel_status (js ''CLOSED'')
     (new_transport (js ''observatory:r'') (Some ())))) demo_hook)) = PROJECTION_UNAVAILABLE"
proof -
  have "hook_reachable (mount (js ''r'') [(js ''connecting'', CATCHING_UP), (js ''SUBSCRIBED'', CATCHING_UP)]) demo_hook"
    using demo_hook_value hook_run_reachable hook_reachable.mounted by blast
  from channel_loss_degrades [OF this, of "js ''CLOSED''" "new_transport (js ''observatory:r'') (Some ())" "[]"]
  show ?thesis using conjunct2 [OF demo_hook_value] by (simp add: js_eval)
qed

text \<open>
  A denied durable read does not keep the pane out of LIVE. Whatever snapshot was passed, a
  degraded store loads as empty; the empty load completes the readiness latch, and on a connected
  channel the first live frame alone makes the pane show LIVE with one event, although the durable
  history was never read.
\<close>

theorem degraded_store_still_goes_live:
  "pg_read (pane_store es True) q = Loaded [] \<and>
   (case hook_run [HBootstrapLoaded [], HFrame demo_frame]
      (mount (js ''r'') [(js ''connecting'', CATCHING_UP), (js ''SUBSCRIBED'', CATCHING_UP)]) of
      None \<Rightarrow> False
    | Some h \<Rightarrow> v_state (h_view h) = LIVE \<and> v_eventCount (h_view h) = 1)"
  by (simp add: pane_store_def buildStore_def demo_frame_def hook_eval)

end
