(* ===== verification/Digest.thy ===== *)
theory Digest
  imports Prelude
begin

text \<open>
  The canonical text and the state digest of \<open>lib/replay.ts\<close> (\<open>stableStringify\<close>,
  \<open>digestOf\<close>), what the canonical text identifies, and how the digest relates to the 64-bit
  FNV-1a hash it is named after.
\<close>

section \<open>Canonical text\<close>

text \<open>
  \<open>Object.keys(obj).sort()\<close> and the texts of the values, one property after the other.
\<close>

definition object_text :: "(jsstring \<times> jsstring) list \<Rightarrow> jsstring" where
  "object_text ts =
     js ''{'' @ js_join (js '','')
       (map (\<lambda>k. json_quote k @ js '':'' @ the (map_of ts k)) (js_sort cmp_units (map fst ts))) @ js ''}''"

primrec stableStringify :: "json \<Rightarrow> jsstring" where
  "stableStringify JUndef = js ''null''"
| "stableStringify JNull = js ''null''"
| "stableStringify (JNum n) = show_int n"
| "stableStringify (JBool b) = (if b then js ''true'' else js ''false'')"
| "stableStringify (JStr s) = json_quote s"
| "stableStringify (JArr vs) = js ''['' @ js_join (js '','') (map stableStringify vs) @ js '']''"
| "stableStringify (JObj kvs) = object_text (map (map_prod id stableStringify) kvs)"

section \<open>Digest\<close>

text \<open>
  One round on the two 32-bit halves. \<open>lo ^= x\<close> leaves a signed 32-bit number, the products
  are exact, and \<open>>>> 0\<close> reduces modulo \<open>2^32\<close>.
\<close>

definition digest_round :: "code_unit \<Rightarrow> 32 word \<times> 32 word \<Rightarrow> 32 word \<times> 32 word" where
  "digest_round c = (\<lambda>(hi, lo).
     let lo1 = sint (xor lo (ucast (and c 0xff)));
         loMul = lo1 * 0x1b3 + uint hi * 0x100;
         hiMul = uint hi * 0x1b3 + (lo1 * 0x1b3) div 0x100000000 + lo1 * 1
     in (word_of_int hiMul, word_of_int loMul))"

definition hex8 :: "32 word \<Rightarrow> jsstring" where
  "hex8 w = hex4 (unat w div 65536) @ hex4 (unat w mod 65536)"

definition digest_text :: "jsstring \<Rightarrow> jsstring" where
  "digest_text s = (case fold digest_round s (0xcbf29ce4, 0x84222325) of (hi, lo) \<Rightarrow> hex8 hi @ hex8 lo)"

definition digestOf :: "json \<Rightarrow> jsstring" where
  "digestOf v = digest_text (stableStringify v)"

section \<open>Reading back a quoted string\<close>

definition unhex :: "code_unit \<Rightarrow> nat" where
  "unhex c = (if c < 58 then unat c - 48 else unat c - 87)"

definition unhex4 :: "code_unit \<Rightarrow> code_unit \<Rightarrow> code_unit \<Rightarrow> code_unit \<Rightarrow> code_unit" where
  "unhex4 a b c d = word_of_nat (unhex a * 4096 + unhex b * 256 + unhex c * 16 + unhex d)"

definition unescape_unit :: "code_unit \<Rightarrow> code_unit" where
  "unescape_unit c = (if c = 98 then 8 else if c = 116 then 9 else if c = 110 then 10
     else if c = 102 then 12 else if c = 114 then 13 else c)"

text \<open>The body of a string literal up to its closing quote, and what follows it.\<close>

fun unquote :: "jsstring \<Rightarrow> jsstring \<times> jsstring" where
  "unquote [] = ([], [])"
| "unquote [c] = ([], [])"
| "unquote (c # x # s) =
     (if c = 34 then ([], x # s)
      else if c = 92 then
        if x = 117 then
          (case s of a # b # d # e # s' \<Rightarrow> apfst ((#) (unhex4 a b d e)) (unquote s') | _ \<Rightarrow> ([], []))
        else apfst ((#) (unescape_unit x)) (unquote s)
      else apfst ((#) c) (unquote (x # s)))"

lemma unhex_hex_digit: "d < 16 \<Longrightarrow> unhex (hex_digit d) = d"
  by (auto simp: unhex_def hex_digit_def unat_of_nat word_less_nat_alt simp del: of_nat_add)

lemma nat_base16:
  assumes "n < 65536"
  shows "(n div 4096 mod 16) * 4096 + (n div 256 mod 16) * 256 + (n div 16 mod 16) * 16 + n mod 16 = (n :: nat)"
proof -
  have "n div 4096 mod 16 = n div 4096" using assms by (simp add: less_mult_imp_div_less)
  moreover have "n div 16 = n div 256 * 16 + n div 16 mod 16" "n div 256 = n div 4096 * 16 + n div 256 mod 16"
    using div_mult_mod_eq [of "n div 16" 16] div_mult_mod_eq [of "n div 256" 16]
    by (simp_all add: div_mult2_eq [symmetric])
  moreover have "n = n div 16 * 16 + n mod 16" by simp
  ultimately show ?thesis by linarith
qed

lemma unhex4_hex4: "hex4 (unat c) = [x, y, z, w] \<Longrightarrow> unhex4 x y z w = c"
proof -
  have "unat c < 2 ^ LENGTH(16)" by (rule unsigned_less)
  then have "unat c < 65536" by simp
  note base = nat_base16 [OF this]
  assume "hex4 (unat c) = [x, y, z, w]"
  then have "unhex4 x y z w = word_of_nat (unat c)"
    by (auto simp: hex4_def unhex4_def unhex_hex_digit base simp del: of_nat_add of_nat_mult)
  then show ?thesis by simp
qed

lemma hex4_cases: obtains x y z w where "hex4 n = [x, y, z, w]"
  by (simp add: hex4_def)

lemma unquote_hex: "unquote (92 # 117 # hex4 (unat c) @ s) = apfst ((#) c) (unquote s)"
  using unhex4_hex4 [of c] by (rule_tac hex4_cases [of "unat c"]) simp

lemma unquote_plain: "c \<noteq> 34 \<Longrightarrow> c \<noteq> 92 \<Longrightarrow> s \<noteq> [] \<Longrightarrow> unquote (c # s) = apfst ((#) c) (unquote s)"
  by (cases s) auto

lemma unquote_escape_unit:
  "s \<noteq> [] \<Longrightarrow> unquote (escape_unit c @ s) = apfst ((#) c) (unquote s)"
  unfolding escape_unit_def
  by (simp add: unquote_plain unescape_unit_def unquote_hex [simplified])

lemma surrogate_plain:
  "is_high_surrogate c \<Longrightarrow> c \<noteq> 34 \<and> c \<noteq> 92" "is_low_surrogate c \<Longrightarrow> c \<noteq> 34 \<and> c \<noteq> 92"
  by (auto simp: is_high_surrogate_def is_low_surrogate_def)

lemma unquote_end: "unquote (34 # r) = ([], r)"
  by (cases r) auto

lemma unquote_escape: "unquote (escape_units s @ 34 # r) = (s, r)"
proof (induction s rule: escape_units.induct)
  case (2 c s)
  then show ?case
    by (cases s) (simp_all add: unquote_hex unquote_escape_unit unquote_plain surrogate_plain unquote_end
        del: unquote.simps)
qed (simp add: unquote_end del: unquote.simps)

lemma json_quote_unique:
  "json_quote s @ r = json_quote t @ r' \<Longrightarrow> s = t \<and> r = r'"
proof -
  assume "json_quote s @ r = json_quote t @ r'"
  then have "escape_units s @ 34 # r = escape_units t @ 34 # r'" by (simp add: json_quote_def)
  then have "unquote (escape_units s @ 34 # r) = unquote (escape_units t @ 34 # r')" by (rule arg_cong)
  then have "(s, r) = (t, r')" unfolding unquote_escape .
  then show ?thesis by simp
qed

section \<open>Canonical values\<close>

text \<open>A value with every object listed by key and \<open>undefined\<close> read as \<open>null\<close>.\<close>

definition key_cmp :: "jsstring \<times> 'v \<Rightarrow> jsstring \<times> 'v \<Rightarrow> int" where
  "key_cmp a b = cmp_units (fst a) (fst b)"

primrec canon :: "json \<Rightarrow> json" where
  "canon JUndef = JNull"
| "canon JNull = JNull"
| "canon (JNum n) = JNum n"
| "canon (JBool b) = JBool b"
| "canon (JStr s) = JStr s"
| "canon (JArr vs) = JArr (map canon vs)"
| "canon (JObj kvs) = JObj (js_sort key_cmp (map (map_prod id canon) kvs))"

primrec wf_json :: "json \<Rightarrow> bool" where
  "wf_json JUndef \<longleftrightarrow> True"
| "wf_json JNull \<longleftrightarrow> True"
| "wf_json (JNum n) \<longleftrightarrow> True"
| "wf_json (JBool b) \<longleftrightarrow> True"
| "wf_json (JStr s) \<longleftrightarrow> True"
| "wf_json (JArr vs) \<longleftrightarrow> list_all id (map wf_json vs)"
| "wf_json (JObj kvs) \<longleftrightarrow> distinct (map fst kvs) \<and> list_all snd (map (map_prod id wf_json) kvs)"

text \<open>The plain printer: properties in the order they are listed.\<close>

primrec render :: "json \<Rightarrow> jsstring" where
  "render JUndef = js ''null''"
| "render JNull = js ''null''"
| "render (JNum n) = show_int n"
| "render (JBool b) = (if b then js ''true'' else js ''false'')"
| "render (JStr s) = json_quote s"
| "render (JArr vs) = js ''['' @ js_join (js '','') (map render vs) @ js '']''"
| "render (JObj kvs) = js ''{'' @ js_join (js '','')
     (map (\<lambda>(k, t). json_quote k @ js '':'' @ t) (map (map_prod id render) kvs)) @ js ''}''"

lemma map_js_insert:
  "(\<And>a b. cmp' (f a) (f b) = cmp a b) \<Longrightarrow> map f (js_insert cmp x ys) = js_insert cmp' (f x) (map f ys)"
  by (induction ys) auto

lemma map_js_sort:
  "(\<And>a b. cmp' (f a) (f b) = cmp a b) \<Longrightarrow> map f (js_sort cmp xs) = js_sort cmp' (map f xs)"
proof (induction xs)
  case (Cons x xs)
  then show ?case by (simp add: js_sort_Cons map_js_insert [where cmp' = cmp'])
qed simp

lemma sort_keys_eq: "js_sort cmp_units (map fst kvs) = map fst (js_sort key_cmp kvs)"
  by (rule map_js_sort [symmetric]) (simp add: key_cmp_def)

lemma object_text_sorted:
  assumes "distinct (map fst ts)"
  shows "object_text ts = js ''{'' @ js_join (js '','')
     (map (\<lambda>(k, t). json_quote k @ js '':'' @ t) (js_sort key_cmp ts)) @ js ''}''"
proof -
  have "the (map_of ts (fst kt)) = snd kt" if "kt \<in> set ts" for kt
    using map_of_is_SomeI [OF assms, of "fst kt" "snd kt"] that by simp
  then have "map (\<lambda>kt. json_quote (fst kt) @ js '':'' @ the (map_of ts (fst kt))) (js_sort key_cmp ts) =
      map (\<lambda>kt. json_quote (fst kt) @ js '':'' @ snd kt) (js_sort key_cmp ts)"
    by (intro map_cong) auto
  then show ?thesis by (simp only: object_text_def sort_keys_eq case_prod_unfold map_map comp_def)
qed

lemma map_prod_sorted:
  "map (map_prod id f) (js_sort key_cmp xs) = js_sort key_cmp (map (map_prod id f) xs)"
  by (rule map_js_sort) (simp add: key_cmp_def)

lemma stableStringify_render: "wf_json v \<Longrightarrow> stableStringify v = render (canon v)"
proof (induction v)
  case (JArr vs)
  then have "map stableStringify vs = map (render \<circ> canon) vs"
    by (auto simp: list_all_iff)
  then show ?case by (simp only: stableStringify.simps canon.simps render.simps map_map)
next
  case (JObj kvs)
  have "map_prod id stableStringify kv = map_prod id (render \<circ> canon) kv" if "kv \<in> set kvs" for kv
    using JObj that by (cases kv) (auto simp: list_all_iff snds.simps)
  then have eq: "map (map_prod id stableStringify) kvs = map (map_prod id (render \<circ> canon)) kvs" by simp
  have "distinct (map fst (map (map_prod id (render \<circ> canon)) kvs))" using JObj.prems by (simp add: comp_def)
  then show ?case
    by (simp only: stableStringify.simps canon.simps render.simps eq object_text_sorted map_prod_sorted
        map_map map_prod.comp comp_id id_comp)
qed auto

section \<open>The canonical text determines the canonical value\<close>

primrec defined :: "json \<Rightarrow> bool" where
  "defined JUndef \<longleftrightarrow> False"
| "defined JNull \<longleftrightarrow> True"
| "defined (JNum n) \<longleftrightarrow> True"
| "defined (JBool b) \<longleftrightarrow> True"
| "defined (JStr s) \<longleftrightarrow> True"
| "defined (JArr vs) \<longleftrightarrow> list_all id (map defined vs)"
| "defined (JObj kvs) \<longleftrightarrow> list_all snd (map (map_prod id defined) kvs)"

lemma defined_canon: "defined (canon v)"
proof (induction v)
  case (JObj kvs)
  then have "\<forall>kv \<in> set kvs. defined (canon (snd kv))" by (auto simp: snds.simps)
  moreover have "set (js_sort key_cmp (map (map_prod id canon) kvs)) = map_prod id canon ` set kvs" by simp
  ultimately show ?case by (auto simp: list_all_iff)
qed (auto simp: list_all_iff)

text \<open>What may follow a value: nothing, a comma or a closing bracket.\<close>

definition delim :: "jsstring \<Rightarrow> bool" where
  "delim r \<longleftrightarrow> r = [] \<or> hd r \<in> {44, 93, 125}"

definition num_unit :: "code_unit \<Rightarrow> bool" where
  "num_unit c \<longleftrightarrow> c = 45 \<or> (48 \<le> c \<and> c \<le> 57)"

lemma digit_unit: "d < 10 \<Longrightarrow> num_unit (word_of_nat (48 + d)) \<and> word_of_nat (48 + d) \<noteq> (45 :: code_unit) \<and>
    unat (word_of_nat (48 + d) :: code_unit) = 48 + d"
  by (auto simp: num_unit_def word_le_nat_alt unat_of_nat word_unat_eq_iff simp del: of_nat_add)

lemma nat_digits_units: "set (nat_digits n) \<subseteq> {c. num_unit c \<and> c \<noteq> 45} \<and> nat_digits n \<noteq> []"
proof (induction n rule: nat_digits.induct)
  case (1 n)
  then show ?case
    using digit_unit [of n] digit_unit [of "n mod 10"] by (simp add: nat_digits.simps [of n])
qed

definition nat_value :: "jsstring \<Rightarrow> nat" where
  "nat_value s = foldl (\<lambda>n c. n * 10 + (unat c - 48)) 0 s"

lemma nat_value_digits: "nat_value (nat_digits n) = n"
proof (induction n rule: nat_digits.induct)
  case (1 n)
  then show ?case
    using digit_unit [of n] digit_unit [of "n mod 10"]
    by (cases "n < 10") (simp_all add: nat_digits.simps [of n] nat_value_def del: of_nat_add)
qed

lemma js_minus: "js ''-'' = [45]"
  by (simp add: js_def unit_of_def)

lemma show_int_units: "set (show_int n) \<subseteq> {c. num_unit c} \<and> show_int n \<noteq> []"
  using nat_digits_units [of "nat n"] nat_digits_units [of "nat (- n)"]
  by (auto simp: show_int_def js_minus num_unit_def)

definition int_value :: "jsstring \<Rightarrow> int" where
  "int_value s = (if hd s = 45 then - int (nat_value (tl s)) else int (nat_value s))"

lemma int_value_show: "int_value (show_int n) = n"
proof (cases "n < 0")
  case False
  have "hd (nat_digits (nat n)) \<noteq> 45" using nat_digits_units [of "nat n"] by (cases "nat_digits (nat n)") auto
  with False show ?thesis by (simp add: int_value_def show_int_def nat_value_digits)
qed (simp add: int_value_def show_int_def js_minus nat_value_digits)

lemma takeWhile_num: "set s \<subseteq> {c. num_unit c} \<Longrightarrow> delim r \<Longrightarrow> takeWhile num_unit (s @ r) = s"
  by (cases r) (auto simp: delim_def num_unit_def takeWhile_append)

lemma show_int_unique:
  assumes "show_int m @ r = show_int n @ r'" and "delim r" and "delim r'"
  shows "m = n \<and> r = r'"
proof -
  have eq: "show_int m = show_int n"
    using assms takeWhile_num [of "show_int m" r] takeWhile_num [of "show_int n" r'] show_int_units by metis
  with assms(1) show ?thesis using int_value_show by (metis append_same_eq same_append_eq)
qed

lemma join_Cons: "js_join sep (x # xs) = x @ (if xs = [] then [] else sep @ js_join sep xs)"
  by (cases xs) auto

lemma join_unique:
  assumes "\<And>x y r r'. x \<in> set xs \<Longrightarrow> y \<in> set ys \<Longrightarrow> delim r \<Longrightarrow> delim r' \<Longrightarrow>
      f x @ r = f y @ r' \<Longrightarrow> x = y \<and> r = r'"
    and "\<And>x. x \<in> set xs \<union> set ys \<Longrightarrow> f x \<noteq> [] \<and> hd (f x) \<noteq> close"
    and "close \<in> {93, 125}"
    and "js_join [44] (map f xs) @ close # r = js_join [44] (map f ys) @ close # r'"
  shows "xs = ys \<and> r = r'"
  using assms
proof (induction xs arbitrary: ys)
  case Nil
  show ?case
  proof (cases ys)
    case (Cons y ys')
    with Nil(4) have "hd (f y) = close" using Nil(2) [of y] by (auto simp: join_Cons dest: arg_cong [of _ _ hd])
    with Nil(2) [of y] Cons show ?thesis by simp
  qed (use Nil(4) in simp)
next
  case (Cons x xs)
  show ?case
  proof (cases ys)
    case Nil
    with Cons.prems(4) have "hd (f x) = close"
      using Cons.prems(2) [of x] by (auto simp: join_Cons dest: arg_cong [of _ _ hd])
    with Cons.prems(2) [of x] show ?thesis by simp
  next
    case ys: (Cons y ys')
    define rest where "rest zs q = (if zs = [] then close # q else 44 # js_join [44] (map f zs) @ close # q)" for zs q
    have delim: "delim (rest zs q)" for zs q using Cons.prems(3) by (auto simp: rest_def delim_def)
    have "f x @ rest xs r = f y @ rest ys' r'"
      using Cons.prems(4) ys by (simp add: join_Cons rest_def split: if_splits)
    from Cons.prems(1) [OF _ _ delim delim this] ys have "x = y" and eq: "rest xs r = rest ys' r'" by auto
    have "close \<noteq> 44" using Cons.prems(3) by auto
    with eq have "(xs = []) = (ys' = [])" by (auto simp: rest_def split: if_splits)
    with eq have "js_join [44] (map f xs) @ close # r = js_join [44] (map f ys') @ close # r'"
      by (cases "xs = []") (simp_all add: rest_def)
    with Cons.IH [of ys'] Cons.prems(1,2,3) ys have "xs = ys' \<and> r = r'" by (metis UnCI UnE UnI2 list.set_intros(2))
    with ys \<open>x = y\<close> show ?thesis by simp
  qed
qed

lemma js_literals:
  "js ''null'' = [110, 117, 108, 108]" "js ''true'' = [116, 114, 117, 101]"
  "js ''false'' = [102, 97, 108, 115, 101]" "js ''['' = [91]" "js '']'' = [93]" "js ''{'' = [123]"
  "js ''}'' = [125]" "js '','' = [44]" "js '':'' = [58]"
  by (simp_all add: js_def unit_of_def)

lemma render_hd: "render v \<noteq> [] \<and> (case v of JUndef \<Rightarrow> hd (render v) = 110 | JNull \<Rightarrow> hd (render v) = 110
    | JBool b \<Rightarrow> hd (render v) = (if b then 116 else 102) | JNum n \<Rightarrow> num_unit (hd (render v))
    | JStr s \<Rightarrow> hd (render v) = 34 | JArr vs \<Rightarrow> hd (render v) = 91 | JObj kvs \<Rightarrow> hd (render v) = 123)"
  using show_int_units [of "case v of JNum n \<Rightarrow> n"]
  by (cases v) (auto simp: js_literals json_quote_def intro: hd_in_set)

lemma render_not_close: "c \<in> {93, 125} \<Longrightarrow> hd (render v) \<noteq> c"
  using render_hd [of v] by (auto simp: num_unit_def split: json.splits)

definition member_text :: "jsstring \<times> json \<Rightarrow> jsstring" where
  "member_text kv = json_quote (fst kv) @ js '':'' @ render (snd kv)"

lemma render_JObj: "render (JObj kvs) = [123] @ js_join [44] (map member_text kvs) @ [125]"
  by (simp add: js_literals member_text_def [abs_def] comp_def map_prod_def case_prod_unfold)

lemma member_text_hd: "member_text kv \<noteq> [] \<and> hd (member_text kv) = 34"
  by (simp add: member_text_def json_quote_def)

lemma render_same_kind:
  assumes "render v @ r = render w @ r'" and "defined v" and "defined w"
  shows "case v of JNull \<Rightarrow> w = JNull | JBool b \<Rightarrow> w = JBool b | JNum n \<Rightarrow> (\<exists>m. w = JNum m)
    | JStr s \<Rightarrow> (\<exists>t. w = JStr t) | JArr vs \<Rightarrow> (\<exists>ws. w = JArr ws) | JObj kvs \<Rightarrow> (\<exists>kvs'. w = JObj kvs') | JUndef \<Rightarrow> False"
proof -
  have "hd (render v) = hd (render w)" using assms(1) render_hd by (metis hd_append2)
  then show ?thesis using assms(2,3) render_hd [of v] render_hd [of w]
    by (cases v; cases w) (auto simp: num_unit_def split: if_splits)
qed

lemma render_unique:
  "defined v \<Longrightarrow> defined w \<Longrightarrow> delim r \<Longrightarrow> delim r' \<Longrightarrow> render v @ r = render w @ r' \<Longrightarrow> v = w \<and> r = r'"
proof (induction v arbitrary: w r r')
  case (JArr vs)
  obtain ws where w: "w = JArr ws"
    using render_same_kind [OF JArr.prems(5,1,2)] by auto
  have "js_join [44] (map render vs) @ 93 # r = js_join [44] (map render ws) @ 93 # r'"
    using JArr.prems(5) w by (simp add: js_literals)
  then have "vs = ws \<and> r = r'"
    using JArr.prems(1,2) JArr.IH w render_hd render_not_close [of 93]
    by (intro join_unique [where f = render and close = 93]) (auto simp: list_all_iff)
  with w show ?case by simp
next
  case (JObj kvs)
  obtain kvs' where w: "w = JObj kvs'"
    using render_same_kind [OF JObj.prems(5,1,2)] by auto
  have "x = y \<and> q = q'"
    if "x \<in> set kvs" "y \<in> set kvs'" "delim q" "delim q'" "member_text x @ q = member_text y @ q'" for x y q q'
  proof -
    have "fst x = fst y" "js '':'' @ render (snd x) @ q = js '':'' @ render (snd y) @ q'"
      using json_quote_unique [of "fst x" "js '':'' @ render (snd x) @ q"] that(5)
      by (simp_all add: member_text_def)
    moreover have "defined (snd x)" "defined (snd y)"
      using JObj.prems(1,2) w that(1,2) by (auto simp: list_all_iff)
    moreover have "snd x \<in> Basic_BNFs.snds x" by (rule snds.intros)
    ultimately show ?thesis using JObj.IH [of x "snd x" "snd y" q q'] that by (simp add: prod_eq_iff)
  qed
  moreover have "js_join [44] (map member_text kvs) @ 125 # r = js_join [44] (map member_text kvs') @ 125 # r'"
    using JObj.prems(5) by (simp add: w render_JObj del: render.simps)
  ultimately have "kvs = kvs' \<and> r = r'"
    using member_text_hd by (intro join_unique [where f = member_text and close = 125]) auto
  with w show ?case by simp
next
  case (JNum n)
  obtain m where "w = JNum m"
    using render_same_kind [OF JNum.prems(5,1,2)] by auto
  with JNum.prems show ?case using show_int_unique [of n r m r'] by simp
next
  case (JStr s)
  obtain t where "w = JStr t"
    using render_same_kind [OF JStr.prems(5,1,2)] by auto
  with JStr.prems show ?case using json_quote_unique [of s r t r'] by simp
next
  case JNull
  then show ?case using render_same_kind [OF JNull.prems(5,1,2)] by simp
next
  case (JBool b)
  then show ?case using render_same_kind [OF JBool.prems(5,1,2)] by simp
qed simp

section \<open>The digest and FNV-1a\<close>

text \<open>The published 64-bit FNV-1a hash of a byte sequence, as a reference.\<close>

definition fnv_round :: "code_unit \<Rightarrow> 64 word \<Rightarrow> 64 word" where
  "fnv_round c h = xor h (ucast (and c 0xff)) * 0x100000001b3"

definition fnv1a64 :: "jsstring \<Rightarrow> 64 word" where
  "fnv1a64 s = fold fnv_round s 0xcbf29ce484222325"

definition fnv_text :: "jsstring \<Rightarrow> jsstring" where
  "fnv_text s = hex8 (ucast (drop_bit 32 (fnv1a64 s))) @ hex8 (ucast (fnv1a64 s))"

lemma digest_round_low: "digest_round (and c 0xff) = digest_round c"
  by (simp add: digest_round_def and.assoc)

lemma digest_text_low: "digest_text (map (\<lambda>c. and c 0xff) s) = digest_text s"
  by (simp add: digest_text_def fold_map comp_def digest_round_low)

section \<open>Properties\<close>



text \<open>
  The digest hashes the low byte of each code unit only. Two run ids that differ in the high
  byte of a letter (U+0141 and the letter A) have different canonical texts and the same digest, so
  an equality test on digests reports two different states as equal.
\<close>

theorem digest_ignores_high_byte:
  "digestOf (JStr [0x141]) = digestOf (JStr [0x41]) \<and>
   stableStringify (JStr [0x141]) \<noteq> stableStringify (JStr [0x41]) \<and>
   (\<forall>s. digest_text (map (\<lambda>c. and c 0xff) s) = digest_text s)"
proof -
  have low: "map (\<lambda>c. and c 0xff) (stableStringify (JStr [0x141])) =
      map (\<lambda>c. and c 0xff) (stableStringify (JStr [0x41]))"
    by (simp add: json_quote_def escape_unit_def is_high_surrogate_def is_low_surrogate_def)
  then have "digestOf (JStr [0x141]) = digestOf (JStr [0x41])"
    unfolding digestOf_def by (metis digest_text_low)
  then show ?thesis
    by (simp add: digest_text_low json_quote_def escape_unit_def is_high_surrogate_def is_low_surrogate_def)
qed

text \<open>
  The digest is not the FNV-1a hash its comment names: the cross term of the prime is added to
  the wrong half, and the two disagree already on the text of an empty array.
\<close>

theorem digest_is_not_fnv1a: "digestOf (JArr []) \<noteq> fnv_text (stableStringify (JArr []))"
  by (simp add: digestOf_def js_literals digest_text_def digest_round_def hex8_def hex4_def hex_digit_def
      fnv_text_def fnv1a64_def fnv_round_def Let_def)

end
