(* ===== verification/Reducer.thy ===== *)
theory Reducer
  imports Live "HOL-Library.Sublist"
begin

text \<open>
  The replay reducer of \<open>lib/replay.ts\<close> (\<open>reduceEvents\<close>, \<open>applyEvent\<close>): the fold of an
  ordered event prefix into a projection, with the anomalies it raises on the way. The local
  variables of the loop (\<open>seen\<close>, \<open>hwSeq\<close>, \<open>hwTime\<close>) and the index are fields of the
  fold state.
\<close>

section \<open>Data\<close>

record replayNode =
  n_node :: jsstring
  n_status :: jsstring
  n_lastEventSeq :: int

record replayGate =
  g_gate :: jsstring
  g_status :: jsstring
  g_approvedBy :: jsstring
  g_releasedBy :: jsstring
  g_failedBy :: jsstring
  g_authorityRef :: jsstring
  g_lastEventSeq :: int

record projection =
  p_runId :: "jsstring option"
  p_startedAt :: "jsstring option"
  p_lastEventAt :: "jsstring option"
  p_events :: "event list"
  p_nodes :: "replayNode dict"
  p_gates :: "replayGate dict"
  p_anomalies :: "liveAnomaly list"

record fold_state =
  x_proj :: projection
  x_seen :: "jsstring list"
  x_hwSeq :: "int dict"
  x_hwTime :: "jsstring option dict"
  x_idx :: nat

section \<open>Field readers\<close>

fun str :: "json \<Rightarrow> jsstring \<Rightarrow> jsstring" where
  "str (JStr s) fallback = (if s \<noteq> [] then s else fallback)"
| "str _ fallback = fallback"

definition actorLabel :: "json \<Rightarrow> jsstring" where
  "actorLabel v =
     (case v of JStr s \<Rightarrow> if s \<noteq> [] then s else em_dash
      | _ \<Rightarrow>
        if is_object v then
          (let parts = filter (\<lambda>x. x \<noteq> []) [str (fld v ''kind'') [], str (fld v ''id'') []]
           in if parts \<noteq> [] then js_join (js '':'') parts else em_dash)
        else em_dash)"

definition emptyProjection :: projection where
  "emptyProjection = \<lparr> p_runId = None, p_startedAt = None, p_lastEventAt = None, p_events = [],
     p_nodes = [], p_gates = [], p_anomalies = [] \<rparr>"

section \<open>Gates and nodes\<close>

definition fresh_gate :: "jsstring \<Rightarrow> replayGate" where
  "fresh_gate gate = \<lparr> g_gate = gate, g_status = js ''none'', g_approvedBy = em_dash,
     g_releasedBy = em_dash, g_failedBy = em_dash, g_authorityRef = em_dash, g_lastEventSeq = -1 \<rparr>"

text \<open>The gate's entry, created on first use.\<close>

definition gateOf :: "projection \<Rightarrow> jsstring \<Rightarrow> replayGate" where
  "gateOf proj gate = (case dict_get (p_gates proj) gate of Some g \<Rightarrow> g | None \<Rightarrow> fresh_gate gate)"

datatype actorField = ApprovedBy | ReleasedBy | FailedBy

definition GATE_TRANSITIONS :: "(jsstring \<times> (jsstring \<times> actorField)) list" where
  "GATE_TRANSITIONS = [
     (js ''gate_passed'', (js ''passed'', ApprovedBy)),
     (js ''gate_approved'', (js ''approved'', ApprovedBy)),
     (js ''gate_released'', (js ''released'', ReleasedBy)),
     (js ''gate_failed'', (js ''failed'', FailedBy))]"

definition NODE_EVENTS :: "jsstring list" where
  "NODE_EVENTS = [js ''node_progress'', js ''node_started'', js ''node_completed'']"

fun set_actor :: "actorField \<Rightarrow> jsstring \<Rightarrow> replayGate \<Rightarrow> replayGate" where
  "set_actor ApprovedBy a g = g\<lparr>g_approvedBy := a\<rparr>"
| "set_actor ReleasedBy a g = g\<lparr>g_releasedBy := a\<rparr>"
| "set_actor FailedBy a g = g\<lparr>g_failedBy := a\<rparr>"

definition applyGate :: "jsstring \<times> actorField \<Rightarrow> jsstring \<Rightarrow> jsstring \<Rightarrow> int \<Rightarrow> replayGate \<Rightarrow> replayGate" where
  "applyGate tr actor authorityRef seq g =
     (if g_lastEventSeq g \<le> seq \<or> g_status g = js ''none'' then
        (set_actor (snd tr) actor (g\<lparr>g_status := fst tr\<rparr>))\<lparr>g_authorityRef := authorityRef, g_lastEventSeq := seq\<rparr>
      else g)"

definition js_or :: "jsstring \<Rightarrow> jsstring \<Rightarrow> jsstring" where
  "js_or a b = (if a \<noteq> [] then a else b)"

definition applyNode :: "event \<Rightarrow> int \<Rightarrow> replayNode \<Rightarrow> replayNode" where
  "applyNode e seq n =
     (if n_lastEventSeq n \<le> seq \<or> n_status n = js ''pending'' then
        let outcome = str (fld e ''outcome'') [];
            after = fld e ''after'';
            afterStatus = (if truthy after then str (fld after ''status'') [] else [])
        in n\<lparr>n_status := js_or outcome (js_or afterStatus (n_status n)), n_lastEventSeq := seq\<rparr>
      else n)"

definition str_opt :: "json \<Rightarrow> jsstring option" where
  "str_opt v = (case v of JStr s \<Rightarrow> Some s | _ \<Rightarrow> None)"

definition applyEvent :: "projection \<Rightarrow> event \<Rightarrow> int \<Rightarrow> projection" where
  "applyEvent proj e seq =
     (let eventType = str (fld e ''event_type'') [];
          authorityRef = str (fld e ''authority_ref'') em_dash;
          actor = actorLabel (fld e ''actor'')
      in
      if eventType = js ''run_started'' then
        let proj1 = proj\<lparr>p_startedAt := str_opt (fld e ''occurred_at'')\<rparr>
        in (if str (fld e ''run_id'') [] \<noteq> [] then proj1\<lparr>p_runId := Some (str (fld e ''run_id'') [])\<rparr> else proj1)
      else case map_of GATE_TRANSITIONS eventType of
        Some gateTransition \<Rightarrow>
          let gateName = str (fld e ''gate'') [] in
          if gateName = [] then proj
          else proj\<lparr>p_gates := dict_put gateName
                 (applyGate gateTransition actor authorityRef seq (gateOf proj gateName)) (p_gates proj)\<rparr>
      | None \<Rightarrow>
          if eventType \<in> set NODE_EVENTS then
            let nodeId = str (fld e ''node_id'') [] in
            if nodeId = [] then proj
            else
              let n = (case dict_get (p_nodes proj) nodeId of Some n \<Rightarrow> n
                       | None \<Rightarrow> \<lparr> n_node = nodeId, n_status = js ''pending'', n_lastEventSeq = -1 \<rparr>)
              in proj\<lparr>p_nodes := dict_put nodeId (applyNode e seq n) (p_nodes proj)\<rparr>
          else proj)"

section \<open>Anomalies\<close>

definition mk_anomaly :: "anomalyKind \<Rightarrow> nat \<Rightarrow> jsstring \<Rightarrow> jsstring \<Rightarrow> jsstring \<Rightarrow> liveAnomaly" where
  "mk_anomaly kind idx src eid msg = \<lparr> a_kind = kind, a_at_index = idx, a_source_system = JStr src,
     a_source_event_id = JStr eid, a_message = msg \<rparr>"

definition event_source :: "event \<Rightarrow> jsstring" where
  "event_source e = str (fld e ''source_system'') em_dash"

definition event_eid :: "event \<Rightarrow> jsstring" where
  "event_eid e = str (fld e ''source_event_id'') em_dash"

definition identity :: "event \<Rightarrow> jsstring" where
  "identity e = event_source e @ [0] @ event_eid e"

definition dup_check :: "event \<Rightarrow> nat \<Rightarrow> jsstring list \<Rightarrow> liveAnomaly list" where
  "dup_check e idx seen =
     (if identity e \<in> set seen then
        [mk_anomaly DUPLICATE idx (event_source e) (event_eid e)
          (js ''duplicate source identity ('' @ event_source e @ js '', '' @ event_eid e @
           js '') at index '' @ show_nat idx)]
      else [])"

definition order_check :: "event \<Rightarrow> int \<Rightarrow> nat \<Rightarrow> int \<Rightarrow> liveAnomaly list" where
  "order_check e seq idx curSeq =
     (if idx > 0 \<and> curSeq \<ge> 0 \<and> seq < curSeq then
        [mk_anomaly OUT_OF_ORDER idx (event_source e) (event_eid e)
          (js ''source sequence regressed at index '' @ show_nat idx @ js '' ('' @ event_source e @
           js ''): seq='' @ show_int seq @ js '' < high-water seq='' @ show_int curSeq)]
      else [])"

definition stale_check :: "event \<Rightarrow> int \<Rightarrow> nat \<Rightarrow> int \<Rightarrow> jsstring option \<Rightarrow> liveAnomaly list" where
  "stale_check e seq idx curSeq curTime =
     (case (curTime, str_opt (fld e ''occurred_at'')) of
        (Some ct, Some t) \<Rightarrow>
          if t < ct \<or> (t = ct \<and> seq < curSeq) then
            [mk_anomaly STALE idx (event_source e) (event_eid e)
              (js ''stale event at index '' @ show_nat idx @ js '' ('' @ event_source e @
               js ''): (occurred_at='' @ t @ js '', seq='' @ show_int seq @
               js '') behind high-water (occurred_at='' @ ct @ js '', seq='' @ show_int curSeq @ js '')'')]
          else []
      | _ \<Rightarrow> [])"

definition gap_check :: "event \<Rightarrow> int \<Rightarrow> nat \<Rightarrow> int \<Rightarrow> liveAnomaly list" where
  "gap_check e seq idx curSeq =
     (if idx > 0 \<and> curSeq \<ge> 0 \<and> seq > curSeq \<and> seq \<noteq> curSeq + 1 then
        [mk_anomaly GAP idx (event_source e) (event_eid e)
          (js ''sequence gap at index '' @ show_nat idx @ js '' ('' @ event_source e @
           js ''): seq='' @ show_int seq @ js '', prior max='' @ show_int curSeq)]
      else [])"

definition advances :: "int \<Rightarrow> jsstring option \<Rightarrow> int \<Rightarrow> jsstring option \<Rightarrow> bool" where
  "advances seq occurredAt curSeq curTime =
     (case curTime of None \<Rightarrow> True
      | Some ct \<Rightarrow> (case occurredAt of None \<Rightarrow> False | Some t \<Rightarrow> t > ct \<or> (t = ct \<and> seq > curSeq)))"

section \<open>The fold\<close>

definition start_fold :: fold_state where
  "start_fold = \<lparr> x_proj = emptyProjection, x_seen = [], x_hwSeq = [], x_hwTime = [], x_idx = 0 \<rparr>"

definition cur_time :: "fold_state \<Rightarrow> jsstring \<Rightarrow> jsstring option" where
  "cur_time x src = (case dict_get (x_hwTime x) src of Some t \<Rightarrow> t | None \<Rightarrow> None)"

definition new_anomalies :: "event \<Rightarrow> fold_state \<Rightarrow> liveAnomaly list" where
  "new_anomalies e x =
     (let src = event_source e; idx = x_idx x; curSeq = hw_get (x_hwSeq x) src; curTime = cur_time x src in
      dup_check e idx (x_seen x) @
      (case num_of (fld e ''sequence'') of None \<Rightarrow> []
       | Some seq \<Rightarrow> order_check e seq idx curSeq @ stale_check e seq idx curSeq curTime @ gap_check e seq idx curSeq))"

definition advance_hw :: "event \<Rightarrow> fold_state \<Rightarrow> fold_state" where
  "advance_hw e x =
     (let src = event_source e; occurredAt = str_opt (fld e ''occurred_at'') in
      case num_of (fld e ''sequence'') of None \<Rightarrow> x
      | Some seq \<Rightarrow>
          if advances seq occurredAt (hw_get (x_hwSeq x) src) (cur_time x src)
          then x\<lparr>x_hwTime := dict_put src occurredAt (x_hwTime x), x_hwSeq := dict_put src seq (x_hwSeq x)\<rparr>
          else x)"

definition note_event :: "event \<Rightarrow> projection \<Rightarrow> projection" where
  "note_event e proj =
     (let proj1 = proj\<lparr>p_events := p_events proj @ [e]\<rparr>;
          proj2 = (if p_runId proj1 = None \<and> str (fld e ''run_id'') [] \<noteq> []
                   then proj1\<lparr>p_runId := Some (str (fld e ''run_id'') [])\<rparr> else proj1)
      in case str_opt (fld e ''occurred_at'') of None \<Rightarrow> proj2 | Some t \<Rightarrow> proj2\<lparr>p_lastEventAt := Some t\<rparr>)"

definition reduce_step :: "event \<Rightarrow> fold_state \<Rightarrow> fold_state" where
  "reduce_step e x =
     (let anomalies = new_anomalies e x;
          x1 = advance_hw e x;
          seen = (if identity e \<in> set (x_seen x) then x_seen x else x_seen x @ [identity e]);
          proj1 = (x_proj x)\<lparr>p_anomalies := p_anomalies (x_proj x) @ anomalies\<rparr>;
          proj2 = note_event e proj1
      in x1\<lparr>x_proj := applyEvent proj2 e (seq_or_low e), x_seen := seen, x_idx := x_idx x + 1\<rparr>)"

definition reduce_fold :: "event list \<Rightarrow> fold_state" where
  "reduce_fold es = fold reduce_step es start_fold"

definition reduceEvents :: "event list \<Rightarrow> projection" where
  "reduceEvents es = x_proj (reduce_fold es)"

section \<open>Structure of the fold\<close>

lemma reduce_fold_Nil [simp]: "reduce_fold [] = start_fold"
  by (simp add: reduce_fold_def)

lemma reduce_fold_snoc [simp]: "reduce_fold (es @ [e]) = reduce_step e (reduce_fold es)"
  by (simp add: reduce_fold_def)

lemma applyEvent_keeps [simp]:
  "p_anomalies (applyEvent proj e n) = p_anomalies proj" "p_events (applyEvent proj e n) = p_events proj"
  by (auto simp: applyEvent_def Let_def split: option.splits)

lemma note_event_keeps [simp]:
  "p_anomalies (note_event e proj) = p_anomalies proj" "p_events (note_event e proj) = p_events proj @ [e]"
  "p_gates (note_event e proj) = p_gates proj" "p_nodes (note_event e proj) = p_nodes proj"
  by (auto simp: note_event_def Let_def split: option.splits)

lemma reduce_step_fields [simp]:
  "p_anomalies (x_proj (reduce_step e x)) = p_anomalies (x_proj x) @ new_anomalies e x"
  "p_events (x_proj (reduce_step e x)) = p_events (x_proj x) @ [e]"
  "x_idx (reduce_step e x) = x_idx x + 1"
  "x_hwSeq (reduce_step e x) = x_hwSeq (advance_hw e x)"
  "x_hwTime (reduce_step e x) = x_hwTime (advance_hw e x)"
  "set (x_seen (reduce_step e x)) = insert (identity e) (set (x_seen x))"
  by (auto simp: reduce_step_def Let_def)

lemma start_fold_fields [simp]:
  "p_anomalies (x_proj start_fold) = []" "p_events (x_proj start_fold) = []" "x_idx start_fold = 0"
  "x_hwSeq start_fold = []" "x_hwTime start_fold = []" "x_seen start_fold = []"
  "p_gates (x_proj start_fold) = []" "p_nodes (x_proj start_fold) = []"
  by (simp_all add: start_fold_def emptyProjection_def)

lemma fold_events [simp]: "p_events (x_proj (reduce_fold es)) = es"
  by (induction es rule: rev_induct) auto

lemma fold_idx [simp]: "x_idx (reduce_fold es) = length es"
  by (induction es rule: rev_induct) auto

lemma fold_seen [simp]: "set (x_seen (reduce_fold es)) = identity ` set es"
  by (induction es rule: rev_induct) auto

text \<open>The anomalies and events of a prefix are a prefix of those of the whole stream.\<close>

lemma reduceEvents_prefix:
  "prefix (p_anomalies (reduceEvents (take c es))) (p_anomalies (reduceEvents (take (c + n) es)))"
proof (induction n)
  case (Suc n)
  have "prefix (p_anomalies (reduceEvents (take (c + n) es))) (p_anomalies (reduceEvents (take (Suc (c + n)) es)))"
    by (cases "c + n < length es") (simp_all add: reduceEvents_def take_Suc_conv_app_nth)
  with Suc show ?case by (auto intro: prefix_order.trans)
qed simp

section \<open>Anomalies by kind and source\<close>

lemma mk_anomaly_fields [simp]:
  "a_kind (mk_anomaly k i s e m) = k" "a_at_index (mk_anomaly k i s e m) = i"
  "a_source_system (mk_anomaly k i s e m) = JStr s" "a_source_event_id (mk_anomaly k i s e m) = JStr e"
  by (simp_all add: mk_anomaly_def)

lemmas check_defs = dup_check_def order_check_def stale_check_def gap_check_def

lemma new_anomalies_shape:
  "a \<in> set (new_anomalies e x) \<Longrightarrow> a_at_index a = x_idx x \<and> a_source_system a = JStr (event_source e)"
  by (auto simp: new_anomalies_def Let_def check_defs split: option.splits if_splits)

lemma new_anomalies_dup:
  "(\<exists>a \<in> set (new_anomalies e x). a_kind a = DUPLICATE) \<longleftrightarrow> identity e \<in> set (x_seen x)"
  by (auto simp: new_anomalies_def Let_def check_defs split: option.splits if_splits)

lemma anomaly_index_bound: "a \<in> set (p_anomalies (x_proj (reduce_fold es))) \<Longrightarrow> a_at_index a < length es"
  by (induction es rule: rev_induct) (auto dest: new_anomalies_shape)

lemma duplicates_fold:
  "(\<exists>a \<in> set (p_anomalies (x_proj (reduce_fold es))). a_kind a = DUPLICATE \<and> a_at_index a = i) \<longleftrightarrow>
   i < length es \<and> identity (es ! i) \<in> identity ` set (take i es)"
proof (induction es rule: rev_induct)
  case (snoc e es)
  have here: "(\<exists>a \<in> set (new_anomalies e (reduce_fold es)). a_kind a = DUPLICATE \<and> a_at_index a = i) \<longleftrightarrow>
      i = length es \<and> identity e \<in> identity ` set es"
    using new_anomalies_dup [of e "reduce_fold es"] new_anomalies_shape [of _ e "reduce_fold es"] by auto
  consider "i < length es" | "i = length es" | "i > length es" by linarith
  then show ?case
  proof cases
    case 1
    then show ?thesis using snoc here by (auto simp: nth_append)
  next
    case 2
    then show ?thesis using snoc here anomaly_index_bound by fastforce
  next
    case 3
    then show ?thesis using snoc here by auto
  qed
qed simp

definition ledger_signature :: "jsstring \<Rightarrow> liveAnomaly list \<Rightarrow> (anomalyKind \<times> json) list" where
  "ledger_signature s as = map (\<lambda>a. (a_kind a, a_source_event_id a))
     (filter (\<lambda>a. a_kind a \<noteq> DUPLICATE \<and> a_source_system a = JStr s) as)"

lemma ledger_signature_append [simp]:
  "ledger_signature s (as @ bs) = ledger_signature s as @ ledger_signature s bs"
  by (simp add: ledger_signature_def)

definition expected_kinds :: "int \<Rightarrow> jsstring option \<Rightarrow> int \<Rightarrow> jsstring option \<Rightarrow> anomalyKind list" where
  "expected_kinds seq occurredAt curSeq curTime =
     (if curSeq \<ge> 0 \<and> seq < curSeq then [OUT_OF_ORDER] else []) @
     (case (curTime, occurredAt) of (Some ct, Some t) \<Rightarrow>
        if t < ct \<or> (t = ct \<and> seq < curSeq) then [STALE] else [] | _ \<Rightarrow> []) @
     (if curSeq \<ge> 0 \<and> seq > curSeq \<and> seq \<noteq> curSeq + 1 then [GAP] else [])"

lemma signature_new:
  assumes "hw_get (x_hwSeq x) (event_source e) \<ge> 0 \<Longrightarrow> x_idx x > 0"
  shows "ledger_signature s (new_anomalies e x) =
    (if event_source e = s then
       (case num_of (fld e ''sequence'') of None \<Rightarrow> []
        | Some seq \<Rightarrow> map (\<lambda>k. (k, JStr (event_eid e)))
            (expected_kinds seq (str_opt (fld e ''occurred_at'')) (hw_get (x_hwSeq x) s) (cur_time x s)))
     else [])"
  using assms
  by (auto simp: ledger_signature_def new_anomalies_def Let_def check_defs expected_kinds_def
      split: option.splits if_splits)

lemma advance_other [simp]:
  "event_source e \<noteq> s \<Longrightarrow> hw_get (x_hwSeq (advance_hw e x)) s = hw_get (x_hwSeq x) s"
  "event_source e \<noteq> s \<Longrightarrow> cur_time (advance_hw e x) s = cur_time x s"
  by (auto simp: advance_hw_def Let_def hw_get_def cur_time_def split: option.splits)

lemma advance_own:
  "hw_get (x_hwSeq (advance_hw e x)) (event_source e) =
     (case num_of (fld e ''sequence'') of None \<Rightarrow> hw_get (x_hwSeq x) (event_source e)
      | Some seq \<Rightarrow> if advances seq (str_opt (fld e ''occurred_at'')) (hw_get (x_hwSeq x) (event_source e)) (cur_time x (event_source e))
          then seq else hw_get (x_hwSeq x) (event_source e))"
  "cur_time (advance_hw e x) (event_source e) =
     (case num_of (fld e ''sequence'') of None \<Rightarrow> cur_time x (event_source e)
      | Some seq \<Rightarrow> if advances seq (str_opt (fld e ''occurred_at'')) (hw_get (x_hwSeq x) (event_source e)) (cur_time x (event_source e))
          then str_opt (fld e ''occurred_at'') else cur_time x (event_source e))"
  by (auto simp: advance_hw_def Let_def hw_get_def cur_time_def split: option.splits)

lemma cur_time_step [simp]: "cur_time (reduce_step e x) s = cur_time (advance_hw e x) s"
  by (simp add: cur_time_def)

lemma hw_needs_event: "hw_get (x_hwSeq (reduce_fold es)) s \<ge> 0 \<Longrightarrow> x_idx (reduce_fold es) > 0"
  by (cases es) (auto simp: hw_get_def)

lemma ledger_split:
  "hw_get (x_hwSeq (reduce_fold es)) s = hw_get (x_hwSeq (reduce_fold (filter (\<lambda>e. event_source e = s) es))) s \<and>
   cur_time (reduce_fold es) s = cur_time (reduce_fold (filter (\<lambda>e. event_source e = s) es)) s \<and>
   ledger_signature s (p_anomalies (x_proj (reduce_fold es))) =
   ledger_signature s (p_anomalies (x_proj (reduce_fold (filter (\<lambda>e. event_source e = s) es))))"
proof (induction es rule: rev_induct)
  case (snoc e es)
  show ?case
  proof (cases "event_source e = s")
    case True
    note own = advance_own [of e, unfolded True]
    from True snoc show ?thesis by (simp add: signature_new [OF hw_needs_event] own split: option.split)
  next
    case False
    with snoc show ?thesis by (simp add: signature_new [OF hw_needs_event])
  qed
qed simp

section \<open>Clean ledgers\<close>

text \<open>Two successive events of one ledger: the sequence grows by one, time does not go back.\<close>

definition next_in_ledger :: "event \<Rightarrow> event \<Rightarrow> bool" where
  "next_in_ledger a b \<longleftrightarrow>
     (case (num_of (fld a ''sequence''), num_of (fld b ''sequence''),
            str_opt (fld a ''occurred_at''), str_opt (fld b ''occurred_at'')) of
        (Some m, Some n, Some t, Some u) \<Rightarrow> n = m + 1 \<and> t \<le> u
      | _ \<Rightarrow> False)"

lemma clean_ledger_fold:
  assumes "\<forall>e \<in> set es. event_source e = s" and "successively next_in_ledger es"
  shows "ledger_signature s (p_anomalies (x_proj (reduce_fold es))) = [] \<and>
    (es \<noteq> [] \<longrightarrow> (\<forall>m. num_of (fld (last es) ''sequence'') = Some m \<longrightarrow>
       hw_get (x_hwSeq (reduce_fold es)) s = m \<and>
       cur_time (reduce_fold es) s = str_opt (fld (last es) ''occurred_at'')))"
  using assms
proof (induction es rule: rev_induct)
  case (snoc e es)
  then have src: "event_source e = s" and "successively next_in_ledger es"
    by (auto simp: successively_append_iff)
  note own = advance_own [of e, unfolded src]
  note IH = snoc.IH [OF _ \<open>successively next_in_ledger es\<close>]
  show ?case
  proof (cases "es = []")
    case True
    have init: "hw_get [] s = -1" "cur_time start_fold s = None" by (simp_all add: hw_get_def cur_time_def)
    have "reduce_fold (es @ [e]) = reduce_step e start_fold"
      unfolding True by (simp add: reduce_fold_def)
    moreover have "ledger_signature s (new_anomalies e start_fold) = []"
      using src init by (subst signature_new) (auto simp: expected_kinds_def split: option.split)
    ultimately show ?thesis using True src init
      by (simp add: own expected_kinds_def advances_def
          ledger_signature_def [of _ "[]"] split: option.split)
  next
    case False
    with snoc.prems(2) have "next_in_ledger (last es) e" by (simp add: successively_append_iff)
    then obtain m t u where ev: "num_of (fld (last es) ''sequence'') = Some m" "num_of (fld e ''sequence'') = Some (m + 1)"
        "str_opt (fld (last es) ''occurred_at'') = Some t" "str_opt (fld e ''occurred_at'') = Some u" "t \<le> u"
      by (auto simp: next_in_ledger_def split: option.splits)
    with IH False snoc.prems(1) have "hw_get (x_hwSeq (reduce_fold es)) s = m" "cur_time (reduce_fold es) s = Some t"
        "ledger_signature s (p_anomalies (x_proj (reduce_fold es))) = []" by auto
    with ev src show ?thesis
      by (auto simp: signature_new [OF hw_needs_event] own expected_kinds_def advances_def)
  qed
qed (simp add: ledger_signature_def)

lemma no_signature_only_duplicates:
  assumes "\<And>s. ledger_signature s (p_anomalies (x_proj (reduce_fold es))) = []"
    and "a \<in> set (p_anomalies (x_proj (reduce_fold es)))"
  shows "a_kind a = DUPLICATE"
proof (rule ccontr)
  assume "a_kind a \<noteq> DUPLICATE"
  moreover have "\<exists>s. a_source_system a = JStr s"
    using assms(2) by (induction es rule: rev_induct) (auto dest: new_anomalies_shape)
  ultimately obtain s where "a \<in> set (filter (\<lambda>a. a_kind a \<noteq> DUPLICATE \<and> a_source_system a = JStr s)
      (p_anomalies (x_proj (reduce_fold es))))" using assms(2) by auto
  moreover have "filter (\<lambda>a. a_kind a \<noteq> DUPLICATE \<and> a_source_system a = JStr s)
      (p_anomalies (x_proj (reduce_fold es))) = []"
    using assms(1) [of s] by (simp only: ledger_signature_def map_is_Nil_conv)
  ultimately show False by (simp only: list.set empty_iff)
qed

section \<open>Gates\<close>

definition gate_transition :: "event \<Rightarrow> (jsstring \<times> actorField) option" where
  "gate_transition e = map_of GATE_TRANSITIONS (str (fld e ''event_type'') [])"

definition gate_event :: "jsstring \<Rightarrow> event \<Rightarrow> bool" where
  "gate_event g e \<longleftrightarrow> gate_transition e \<noteq> None \<and> g \<noteq> [] \<and> str (fld e ''gate'') [] = g"

lemma applyEvent_gates:
  "dict_get (p_gates (applyEvent proj e n)) g =
     (if gate_event g e then Some (applyGate (the (gate_transition e)) (actorLabel (fld e ''actor''))
        (str (fld e ''authority_ref'') em_dash) n (gateOf proj g))
      else dict_get (p_gates proj) g)"
  by (auto simp: applyEvent_def Let_def gate_event_def gate_transition_def GATE_TRANSITIONS_def
      split: option.splits)

lemma reduce_step_gates:
  "dict_get (p_gates (x_proj (reduce_step e x))) g =
     (if gate_event g e then Some (applyGate (the (gate_transition e)) (actorLabel (fld e ''actor''))
        (str (fld e ''authority_ref'') em_dash) (seq_or_low e) (gateOf (x_proj x) g))
      else dict_get (p_gates (x_proj x)) g)"
  by (simp add: reduce_step_def Let_def applyEvent_gates) (simp add: gateOf_def)

lemma set_actor_keeps [simp]:
  "g_status (set_actor f a g) = g_status g" "g_lastEventSeq (set_actor f a g) = g_lastEventSeq g"
  "g_gate (set_actor f a g) = g_gate g"
  by (cases f; simp)+

lemma transition_not_none: "gate_transition e = Some tr \<Longrightarrow> fst tr \<noteq> js ''none''"
  by (auto simp: gate_transition_def GATE_TRANSITIONS_def split: if_splits)

definition latest_gate_event :: "jsstring \<Rightarrow> event list \<Rightarrow> nat \<Rightarrow> bool" where
  "latest_gate_event g es i \<longleftrightarrow> i < length es \<and> gate_event g (es ! i) \<and>
     (\<forall>j < length es. gate_event g (es ! j) \<longrightarrow>
        seq_or_low (es ! j) < seq_or_low (es ! i) \<or> (seq_or_low (es ! j) = seq_or_low (es ! i) \<and> j \<le> i))"

definition shows_gate_event :: "replayGate \<Rightarrow> jsstring \<Rightarrow> event \<Rightarrow> bool" where
  "shows_gate_event G g e \<longleftrightarrow> g_gate G = g \<and> Some (g_status G) = map_option fst (gate_transition e) \<and>
     g_authorityRef G = str (fld e ''authority_ref'') em_dash \<and> g_lastEventSeq G = seq_or_low e"

lemma latest_snoc_other:
  "latest_gate_event g es i \<Longrightarrow> (gate_event g e \<Longrightarrow> seq_or_low e < seq_or_low (es ! i)) \<Longrightarrow>
   latest_gate_event g (es @ [e]) i"
  by (auto simp: latest_gate_event_def nth_append less_Suc_eq)

lemma latest_snoc_new:
  assumes "gate_event g e"
    and "\<And>i. latest_gate_event g es i \<Longrightarrow> seq_or_low (es ! i) \<le> seq_or_low e"
    and "(\<exists>i. latest_gate_event g es i) \<or> (\<forall>e \<in> set es. \<not> gate_event g e)"
  shows "latest_gate_event g (es @ [e]) (length es)"
  using assms by (fastforce simp: latest_gate_event_def nth_append less_Suc_eq in_set_conv_nth)

lemma later_gate_event:
  assumes latest: "latest_gate_event g es i" and shown: "shows_gate_event G g (es ! i)" and e: "gate_event g e"
  shows "\<exists>j. latest_gate_event g (es @ [e]) j \<and>
    shows_gate_event (applyGate (the (gate_transition e)) actor (str (fld e ''authority_ref'') em_dash) (seq_or_low e) G)
      g ((es @ [e]) ! j)"
proof (cases "g_lastEventSeq G \<le> seq_or_low e")
  case le: True
  have "seq_or_low (es ! j) \<le> seq_or_low e" if j: "latest_gate_event g es j" for j
  proof -
    have "j = i" using j latest by (force simp: latest_gate_event_def)
    with le shown show ?thesis by (simp add: shows_gate_event_def)
  qed
  then have "latest_gate_event g (es @ [e]) (length es)"
    by (intro latest_snoc_new [OF e]) (use latest in blast)+
  moreover obtain tr where "gate_transition e = Some tr" using e by (auto simp: gate_event_def)
  ultimately show ?thesis
    using le shown by (intro exI [of _ "length es"]) (simp add: applyGate_def shows_gate_event_def)
next
  case gt: False
  have "i < length es" using latest by (simp add: latest_gate_event_def)
  moreover have "g_status G \<noteq> js ''none''"
    using shown transition_not_none [of "es ! i"]
    by (cases "gate_transition (es ! i)") (auto simp: shows_gate_event_def)
  moreover have "latest_gate_event g (es @ [e]) i"
    using gt shown by (intro latest_snoc_other [OF latest]) (simp add: shows_gate_event_def)
  ultimately show ?thesis
    using gt shown by (intro exI [of _ i]) (simp add: applyGate_def nth_append)
qed

lemma gates_fold:
  "case dict_get (p_gates (x_proj (reduce_fold es))) g of
     None \<Rightarrow> \<forall>e \<in> set es. \<not> gate_event g e
   | Some G \<Rightarrow> \<exists>i. latest_gate_event g es i \<and> shows_gate_event G g (es ! i)"
proof (induction es rule: rev_induct)
  case (snoc e es)
  let ?old = "dict_get (p_gates (x_proj (reduce_fold es))) g"
  show ?case
  proof (cases "gate_event g e")
    case False
    have "\<exists>j. latest_gate_event g (es @ [e]) j \<and> shows_gate_event G g ((es @ [e]) ! j)"
      if "latest_gate_event g es i" "shows_gate_event G g (es ! i)" for i G
      using latest_snoc_other [OF that(1), of e] False that
      by (intro exI [of _ i]) (auto simp: latest_gate_event_def nth_append)
    with False snoc show ?thesis by (auto simp: reduce_step_gates split: option.splits)
  next
    case True
    then obtain tr where tr: "gate_transition e = Some tr" by (auto simp: gate_event_def)
    show ?thesis
    proof (cases ?old)
      case None
      with snoc have "latest_gate_event g (es @ [e]) (length es)"
        by (intro latest_snoc_new [OF True]) (auto simp: latest_gate_event_def)
      with None True tr show ?thesis
        by (auto simp: reduce_step_gates gateOf_def fresh_gate_def applyGate_def shows_gate_event_def
            intro!: exI [of _ "length es"])
    next
      case (Some G)
      with snoc obtain i where "latest_gate_event g es i" "shows_gate_event G g (es ! i)" by auto
      from later_gate_event [OF this True] Some True show ?thesis
        by (simp add: reduce_step_gates gateOf_def)
    qed
  qed
qed simp

section \<open>Properties\<close>



text \<open>
  No false alarm: when every source numbers its events consecutively, stamps them with times
  that do not go back, and never repeats an identity, the fold of any interleaving of the sources
  raises no anomaly at all.
\<close>

theorem clean_ledgers_raise_nothing:
  assumes "\<And>s. successively next_in_ledger (filter (\<lambda>e. event_source e = s) es)"
    and "distinct (map identity es)"
  shows "p_anomalies (reduceEvents es) = []"
proof (rule ccontr)
  assume "p_anomalies (reduceEvents es) \<noteq> []"
  then obtain a where a: "a \<in> set (p_anomalies (x_proj (reduce_fold es)))"
    unfolding reduceEvents_def by (meson list.set_sel(1))
  have "ledger_signature s (p_anomalies (x_proj (reduce_fold es))) = []" for s
    using ledger_split [of es s] clean_ledger_fold [OF _ assms(1) [of s], of s] by simp
  then have "a_kind a = DUPLICATE" by (rule no_signature_only_duplicates) (rule a)
  with a have i: "a_at_index a < length es \<and> identity (es ! a_at_index a) \<in> identity ` set (take (a_at_index a) es)"
    using duplicates_fold [of es "a_at_index a"] by blast
  then obtain j where "j < a_at_index a" "identity (es ! j) = identity (es ! a_at_index a)"
    by (auto simp: in_set_conv_nth)
  with i assms(2) show False by (auto simp: distinct_conv_nth)
qed

definition demo_event :: "string \<Rightarrow> string \<Rightarrow> int \<Rightarrow> event" where
  "demo_event src eid seq = JObj [(js ''source_system'', JStr (js src)), (js ''source_event_id'', JStr (js eid)),
     (js ''sequence'', JNum seq), (js ''occurred_at'', JStr (js ''t'')), (js ''event_type'', JStr (js ''gate_failed'')),
     (js ''gate'', JStr (js ''G1''))]"

lemma demo_event_eval [simp]:
  "src \<noteq> [] \<Longrightarrow> event_source (demo_event src eid seq) = js src"
  "eid \<noteq> [] \<Longrightarrow> event_eid (demo_event src eid seq) = js eid"
  "num_of (fld (demo_event src eid seq) ''sequence'') = Some seq"
  "str_opt (fld (demo_event src eid seq) ''occurred_at'') = Some (js ''t'')"
  "fld (demo_event src eid seq) ''event_type'' = JStr (js ''gate_failed'')"
  "fld (demo_event src eid seq) ''gate'' = JStr (js ''G1'')"
  by (simp_all add: demo_event_def event_source_def event_eid_def js_eval str_opt_def)

theorem clean_ledgers_raise_nothing_witness:
  "p_anomalies (reduceEvents [demo_event ''tc'' ''a'' 1, demo_event ''gwc'' ''b'' 7, demo_event ''tc'' ''c'' 2]) = []"
  by (rule clean_ledgers_raise_nothing)
    (auto simp: next_in_ledger_def identity_def js_def unit_of_def)

text \<open>
  C23. Gate semantics: the replayed gate shows the gate event with the highest sequence number, the
  latest one among equals: its status (passed, approved, released or failed, verbatim), its
  authority reference and its sequence. A gate is present only if the stream has an event for it.
\<close>

theorem gate_shows_latest_event:
  "case dict_get (p_gates (reduceEvents es)) g of
     None \<Rightarrow> \<not> (\<exists>e \<in> set es. gate_event g e)
   | Some G \<Rightarrow> \<exists>i. latest_gate_event g es i \<and> shows_gate_event G g (es ! i)"
  unfolding reduceEvents_def using gates_fold [of es g] by (auto split: option.splits)

definition untimed_event :: "string \<Rightarrow> int \<Rightarrow> event" where
  "untimed_event eid seq = JObj [(js ''source_system'', JStr (js ''tc'')), (js ''source_event_id'', JStr (js eid)),
     (js ''sequence'', JNum seq)]"

lemma untimed_event_eval [simp]:
  "event_source (untimed_event eid seq) = js ''tc''"
  "num_of (fld (untimed_event eid seq) ''sequence'') = Some seq"
  "str_opt (fld (untimed_event eid seq) ''occurred_at'') = None"
  "eid \<noteq> [] \<Longrightarrow> event_eid (untimed_event eid seq) = js eid"
  by (simp_all add: untimed_event_def event_source_def event_eid_def js_eval str_opt_def)

text \<open>
  The high-water mark is not monotone. Three events of one source without a time, with
  sequences 5, 3 and 4: the mark falls from 5 to 3, and the last event, behind the highest sequence
  seen, raises no anomaly.
\<close>

theorem high_water_regresses:
  "hw_get (x_hwSeq (reduce_fold [untimed_event ''a'' 5])) (js ''tc'') = 5 \<and>
   hw_get (x_hwSeq (reduce_fold [untimed_event ''a'' 5, untimed_event ''b'' 3])) (js ''tc'') = 3 \<and>
   map a_at_index (p_anomalies (reduceEvents
     [untimed_event ''a'' 5, untimed_event ''b'' 3, untimed_event ''c'' 4])) = [1]"
  by (simp add: reduce_fold_def reduceEvents_def advance_hw_def Let_def advances_def cur_time_def hw_get_def
      new_anomalies_def check_defs identity_def reduce_step_def)

end
