(* ===== verification/Replay.thy ===== *)
theory Replay
  imports Complex_Main Digest Reducer
begin

text \<open>
  Timelines, whole-screen surfaces and replay sessions of \<open>lib/replay.ts\<close>. A method that
  changes the session and returns a frame returns both. A cursor argument is any JavaScript number,
  \<open>NaN\<close> and the infinities included.
\<close>

section \<open>Cursors\<close>

datatype jsnum = NaN | PosInf | NegInf | Fin rat

definition js_trunc :: "rat \<Rightarrow> int" where
  "js_trunc q = (if q < 0 then \<lceil>q\<rceil> else \<lfloor>q\<rfloor>)"

definition of_nat_num :: "nat \<Rightarrow> jsnum" where
  "of_nat_num n = Fin (of_nat n)"

text \<open>\<open>Math.max(0, n)\<close>\<close>

fun max0 :: "jsnum \<Rightarrow> jsnum" where
  "max0 NaN = NaN"
| "max0 PosInf = PosInf"
| "max0 NegInf = Fin 0"
| "max0 (Fin q) = Fin (max 0 q)"

fun num_plus :: "nat \<Rightarrow> jsnum \<Rightarrow> jsnum" where
  "num_plus c (Fin q) = Fin (of_nat c + q)"
| "num_plus c n = n"

fun num_minus :: "nat \<Rightarrow> jsnum \<Rightarrow> jsnum" where
  "num_minus c (Fin q) = Fin (of_nat c - q)"
| "num_minus c PosInf = NegInf"
| "num_minus c NegInf = PosInf"
| "num_minus c NaN = NaN"

section \<open>Timeline\<close>

record replayFrame =
  f_cursor :: nat
  f_total :: nat
  f_atStart :: bool
  f_atTip :: bool
  f_projection :: projection
  f_anomalies :: "liveAnomaly list"
  f_stateDigest :: jsstring

definition opt_json :: "jsstring option \<Rightarrow> json" where
  "opt_json v = (case v of None \<Rightarrow> JNull | Some s \<Rightarrow> JStr s)"

definition or_null :: "json \<Rightarrow> json" where
  "or_null v = (if nullish v then JNull else v)"

fun kind_name :: "anomalyKind \<Rightarrow> jsstring" where
  "kind_name DUPLICATE = js ''DUPLICATE''"
| "kind_name OUT_OF_ORDER = js ''OUT_OF_ORDER''"
| "kind_name STALE = js ''STALE''"
| "kind_name GAP = js ''GAP''"

definition seq_json :: "event \<Rightarrow> json" where
  "seq_json e = (case num_of (fld e ''sequence'') of Some n \<Rightarrow> JNum n | None \<Rightarrow> JNull)"

definition node_json :: "replayNode \<Rightarrow> json" where
  "node_json n = JObj [(js ''node'', JStr (n_node n)), (js ''status'', JStr (n_status n)),
     (js ''lastEventSeq'', JNum (n_lastEventSeq n))]"

definition gate_json :: "replayGate \<Rightarrow> json" where
  "gate_json g = JObj [(js ''gate'', JStr (g_gate g)), (js ''status'', JStr (g_status g)),
     (js ''approvedBy'', JStr (g_approvedBy g)), (js ''releasedBy'', JStr (g_releasedBy g)),
     (js ''failedBy'', JStr (g_failedBy g)), (js ''authorityRef'', JStr (g_authorityRef g)),
     (js ''lastEventSeq'', JNum (g_lastEventSeq g))]"

definition projectionShape :: "projection \<Rightarrow> json" where
  "projectionShape p = JObj [
     (js ''run_id'', opt_json (p_runId p)),
     (js ''started_at'', opt_json (p_startedAt p)),
     (js ''last_event_at'', opt_json (p_lastEventAt p)),
     (js ''nodes'', JObj (map (map_prod id node_json) (p_nodes p))),
     (js ''gates'', JObj (map (map_prod id gate_json) (p_gates p))),
     (js ''anomalies'', JArr (map (\<lambda>a. JObj [
        (js ''kind'', JStr (kind_name (a_kind a))),
        (js ''at_index'', JNum (int (a_at_index a))),
        (js ''source_system'', or_null (a_source_system a)),
        (js ''source_event_id'', or_null (a_source_event_id a))]) (p_anomalies p))),
     (js ''applied'', JArr (map (\<lambda>e. JObj [
        (js ''source_system'', fld e ''source_system''),
        (js ''source_event_id'', fld e ''source_event_id''),
        (js ''sequence'', seq_json e)]) (p_events p)))]"

type_synonym timeline = "event list"

definition new_timeline :: "event list \<Rightarrow> timeline" where
  "new_timeline es = es"

definition timeline_total :: "timeline \<Rightarrow> nat" where
  "timeline_total items = length items"

fun timeline_runId :: "timeline \<Rightarrow> jsstring option" where
  "timeline_runId [] = None"
| "timeline_runId (e # es) =
     (if str (fld e ''run_id'') [] \<noteq> [] then Some (str (fld e ''run_id'') []) else timeline_runId es)"

fun clamp :: "timeline \<Rightarrow> jsnum \<Rightarrow> nat" where
  "clamp items (Fin q) =
     (let c = js_trunc q in
      if c < 0 then 0 else if c > int (timeline_total items) then timeline_total items else nat c)"
| "clamp items _ = 0"

definition cursors :: "timeline \<Rightarrow> nat list" where
  "cursors items = [0..<timeline_total items + 1]"

definition frameAt :: "timeline \<Rightarrow> jsnum \<Rightarrow> replayFrame" where
  "frameAt items cursor =
     (let c = clamp items cursor; proj = reduceEvents (take c items) in
      \<lparr> f_cursor = c, f_total = timeline_total items, f_atStart = (c = 0),
        f_atTip = (c = timeline_total items), f_projection = proj, f_anomalies = p_anomalies proj,
        f_stateDigest = digestOf (projectionShape proj) \<rparr>)"

definition tip :: "timeline \<Rightarrow> replayFrame" where
  "tip items = frameAt items (of_nat_num (timeline_total items))"

definition start :: "timeline \<Rightarrow> replayFrame" where
  "start items = frameAt items (of_nat_num 0)"

definition frames :: "timeline \<Rightarrow> replayFrame list" where
  "frames items = map (\<lambda>c. frameAt items (of_nat_num c)) (cursors items)"

definition replayDigest :: "timeline \<Rightarrow> jsstring" where
  "replayDigest items = digestOf (JObj [
     (js ''run_id'', opt_json (timeline_runId items)),
     (js ''total'', JNum (int (timeline_total items))),
     (js ''frames'', JArr (map (\<lambda>f. JObj [(js ''cursor'', JNum (int (f_cursor f))),
        (js ''digest'', JStr (f_stateDigest f))]) (frames items)))])"

definition frames_text :: "timeline \<Rightarrow> jsstring" where
  "frames_text items = js_join (js ''|'') (map f_stateDigest (frames items))"

fun same_passes :: "timeline \<Rightarrow> jsstring \<Rightarrow> nat \<Rightarrow> bool" where
  "same_passes items first 0 = True"
| "same_passes items first (Suc k) = (if frames_text items \<noteq> first then False else same_passes items first k)"

definition verifyDeterminism :: "timeline \<Rightarrow> int \<Rightarrow> bool" where
  "verifyDeterminism items repeats =
     (let passes = max 2 repeats; first = frames_text items in same_passes items first (nat (passes - 1)))"

definition rewindSequence :: "timeline \<Rightarrow> jsnum list \<Rightarrow> replayFrame list" where
  "rewindSequence items cs = map (frameAt items) cs"

fun path_consistent :: "timeline \<Rightarrow> (nat \<times> jsstring) list \<Rightarrow> jsnum list \<Rightarrow> bool" where
  "path_consistent items seen [] = True"
| "path_consistent items seen (c # cs) =
     (let f = frameAt items c in
      case map_of seen (f_cursor f) of
        Some prev \<Rightarrow> if prev \<noteq> f_stateDigest f then False
                     else path_consistent items (AList.update (f_cursor f) (f_stateDigest f) seen) cs
      | None \<Rightarrow> path_consistent items (AList.update (f_cursor f) (f_stateDigest f) seen) cs)"

definition isPathConsistent :: "timeline \<Rightarrow> jsnum list \<Rightarrow> bool" where
  "isPathConsistent items cs = path_consistent items [] cs"

section \<open>Surfaces\<close>

datatype replayMode = M_LIVE | M_REPLAY

record surfaceStamp =
  st_cursor :: nat
  st_digest :: jsstring

record rootCard = surfaceStamp +
  rc_runId :: jsstring
  rc_startedAt :: jsstring
  rc_lastEventAt :: jsstring
  rc_eventsApplied :: nat
  rc_totalEvents :: nat
  rc_atTip :: bool
  rc_mode :: replayMode
  rc_anomalyCount :: nat

record dagSurface = surfaceStamp +
  dg_nodes :: "replayNode dict"
  dg_gates :: "replayGate dict"

record appliedRow =
  ar_sequence :: "int option"
  ar_sourceSystem :: jsstring
  ar_sourceEventId :: jsstring
  ar_eventType :: jsstring
  ar_occurredAt :: jsstring

record timelineSurface = surfaceStamp +
  tl_applied :: "appliedRow list"
  tl_pendingCount :: nat
  tl_head :: "(jsstring \<times> jsstring) option"

record evidenceSurface = surfaceStamp +
  ev_refs :: "(jsstring \<times> jsstring) list"
  ev_authorityRefs :: "jsstring list"

record kindCounts =
  k_duplicate :: nat
  k_out_of_order :: nat
  k_stale :: nat
  k_gap :: nat

record selection =
  sl_sourceEventId :: jsstring
  sl_before :: json
  sl_after :: json
  sl_actor :: jsstring

record inspectorSurface = surfaceStamp +
  in_anomalies :: "(anomalyKind \<times> jsstring \<times> nat) list"
  in_anomalyKinds :: kindCounts
  in_selected :: "selection option"

record surfaceSnapshot =
  ss_cursor :: nat
  ss_total :: nat
  ss_mode :: replayMode
  ss_digest :: jsstring
  ss_rootCard :: rootCard
  ss_dag :: dagSurface
  ss_timeline :: timelineSurface
  ss_evidence :: evidenceSurface
  ss_inspector :: inspectorSurface

definition surfacesOf :: "surfaceSnapshot \<Rightarrow> (jsstring \<times> surfaceStamp) list" where
  "surfacesOf s = [
     (js ''rootCard'', surfaceStamp.truncate (ss_rootCard s)),
     (js ''dag'', surfaceStamp.truncate (ss_dag s)),
     (js ''timeline'', surfaceStamp.truncate (ss_timeline s)),
     (js ''evidence'', surfaceStamp.truncate (ss_evidence s)),
     (js ''inspector'', surfaceStamp.truncate (ss_inspector s))]"

definition isSynchronized :: "surfaceSnapshot \<Rightarrow> bool" where
  "isSynchronized s \<longleftrightarrow> list_all (\<lambda>(_, x). st_cursor x = ss_cursor s \<and> st_digest x = ss_digest s) (surfacesOf s)"

fun count_kind :: "anomalyKind \<Rightarrow> kindCounts \<Rightarrow> kindCounts" where
  "count_kind DUPLICATE k = k\<lparr>k_duplicate := k_duplicate k + 1\<rparr>"
| "count_kind OUT_OF_ORDER k = k\<lparr>k_out_of_order := k_out_of_order k + 1\<rparr>"
| "count_kind STALE k = k\<lparr>k_stale := k_stale k + 1\<rparr>"
| "count_kind GAP k = k\<lparr>k_gap := k_gap k + 1\<rparr>"

definition anomalyKindCounts :: "liveAnomaly list \<Rightarrow> kindCounts" where
  "anomalyKindCounts as = fold (\<lambda>a. count_kind (a_kind a)) as
     \<lparr> k_duplicate = 0, k_out_of_order = 0, k_stale = 0, k_gap = 0 \<rparr>"

definition or_unknown :: "jsstring option \<Rightarrow> jsstring" where
  "or_unknown v = (case v of None \<Rightarrow> em_dash | Some s \<Rightarrow> s)"

definition applied_row :: "event \<Rightarrow> appliedRow" where
  "applied_row e = \<lparr> ar_sequence = num_of (fld e ''sequence''),
     ar_sourceSystem = str (fld e ''source_system'') em_dash,
     ar_sourceEventId = str (fld e ''source_event_id'') em_dash,
     ar_eventType = str (fld e ''event_type'') em_dash,
     ar_occurredAt = or_unknown (str_opt (fld e ''occurred_at'')) \<rparr>"

definition evidence_of :: "event \<Rightarrow> (jsstring \<times> jsstring) list" where
  "evidence_of e = (case fld e ''evidence_refs'' of
      JArr raw \<Rightarrow> map (\<lambda>r. (str (fld e ''source_event_id'') em_dash,
                            case r of JStr s \<Rightarrow> s | _ \<Rightarrow> stableStringify r)) raw
    | _ \<Rightarrow> [])"

text \<open>Insertion into a JavaScript \<open>Set\<close>, listed in insertion order.\<close>

definition set_add :: "'a \<Rightarrow> 'a list \<Rightarrow> 'a list" where
  "set_add x xs = (if x \<in> set xs then xs else xs @ [x])"

definition authority_set :: "event list \<Rightarrow> jsstring list" where
  "authority_set es = fold (\<lambda>e acc. let auth = str (fld e ''authority_ref'') [] in
      if auth \<noteq> [] then set_add auth acc else acc) es []"

definition or_empty_object :: "json \<Rightarrow> json" where
  "or_empty_object v = (if nullish v then JObj [] else v)"

definition projectSurfaces :: "replayFrame \<Rightarrow> replayMode \<Rightarrow> surfaceSnapshot" where
  "projectSurfaces frame mode =
     (let cur = f_cursor frame; dig = f_stateDigest frame; proj = f_projection frame;
          head = (if cur > 0 \<and> p_events proj \<noteq> [] then Some (last (p_events proj)) else None)
      in \<lparr> ss_cursor = cur, ss_total = f_total frame, ss_mode = mode, ss_digest = dig,
        ss_rootCard = \<lparr> st_cursor = cur, st_digest = dig,
          rc_runId = or_unknown (p_runId proj), rc_startedAt = or_unknown (p_startedAt proj),
          rc_lastEventAt = or_unknown (p_lastEventAt proj), rc_eventsApplied = cur,
          rc_totalEvents = f_total frame, rc_atTip = f_atTip frame, rc_mode = mode,
          rc_anomalyCount = length (f_anomalies frame) \<rparr>,
        ss_dag = \<lparr> st_cursor = cur, st_digest = dig, dg_nodes = p_nodes proj, dg_gates = p_gates proj \<rparr>,
        ss_timeline = \<lparr> st_cursor = cur, st_digest = dig, tl_applied = map applied_row (p_events proj),
          tl_pendingCount = f_total frame - cur,
          tl_head = map_option (\<lambda>e. (str (fld e ''source_event_id'') em_dash,
                                     str (fld e ''event_type'') em_dash)) head \<rparr>,
        ss_evidence = \<lparr> st_cursor = cur, st_digest = dig, ev_refs = concat (map evidence_of (p_events proj)),
          ev_authorityRefs = js_sort cmp_units (authority_set (p_events proj)) \<rparr>,
        ss_inspector = \<lparr> st_cursor = cur, st_digest = dig,
          in_anomalies = map (\<lambda>a. (a_kind a, a_message a, a_at_index a)) (f_anomalies frame),
          in_anomalyKinds = anomalyKindCounts (f_anomalies frame),
          in_selected = map_option (\<lambda>e. \<lparr> sl_sourceEventId = str (fld e ''source_event_id'') em_dash,
             sl_before = or_empty_object (fld e ''before''), sl_after = or_empty_object (fld e ''after''),
             sl_actor = actorLabel (fld e ''actor'') \<rparr>) head \<rparr> \<rparr>)"

section \<open>Session\<close>

record session =
  s_items :: "event list"
  s_mode :: replayMode
  s_cursor :: nat

definition new_session :: "event list \<Rightarrow> session" where
  "new_session es = (let items = globalDurableOrder es in
     \<lparr> s_items = items, s_mode = M_LIVE, s_cursor = length items \<rparr>)"

definition session_timeline :: "session \<Rightarrow> timeline" where
  "session_timeline s = new_timeline (s_items s)"

definition isReplaying :: "session \<Rightarrow> bool" where
  "isReplaying s = (s_mode s = M_REPLAY)"

definition appendLive :: "event \<Rightarrow> session \<Rightarrow> nat \<times> session" where
  "appendLive e s =
     (let s1 = s\<lparr>s_items := globalDurableOrder (s_items s @ [e])\<rparr>;
          s2 = (if s_mode s1 = M_LIVE then s1\<lparr>s_cursor := length (s_items s1)\<rparr> else s1)
      in (length (s_items s2), s2))"

fun extendLive_loop :: "event list \<Rightarrow> session \<Rightarrow> session" where
  "extendLive_loop [] s = s"
| "extendLive_loop (e # es) s = extendLive_loop es (snd (appendLive e s))"

definition extendLive :: "event list \<Rightarrow> session \<Rightarrow> nat \<times> session" where
  "extendLive es s = (let s' = extendLive_loop es s in (length (s_items s'), s'))"

definition session_frame :: "session \<Rightarrow> replayFrame" where
  "session_frame s = frameAt (session_timeline s) (of_nat_num (s_cursor s))"

definition rewindTo :: "jsnum \<Rightarrow> session \<Rightarrow> replayFrame \<times> session" where
  "rewindTo cursor s =
     (let s1 = s\<lparr>s_mode := M_REPLAY, s_cursor := clamp (session_timeline s) cursor\<rparr>
      in (session_frame s1, s1))"

definition enterReplay :: "jsnum option \<Rightarrow> session \<Rightarrow> replayFrame \<times> session" where
  "enterReplay cursor s =
     (let s1 = s\<lparr>s_mode := M_REPLAY, s_cursor := clamp (session_timeline s)
            (case cursor of None \<Rightarrow> of_nat_num (length (s_items s)) | Some c \<Rightarrow> c)\<rparr>
      in (session_frame s1, s1))"

definition stepBack :: "jsnum \<Rightarrow> session \<Rightarrow> replayFrame \<times> session" where
  "stepBack n s = rewindTo (num_minus (s_cursor s) (max0 n)) s"

definition stepForward :: "jsnum \<Rightarrow> session \<Rightarrow> replayFrame \<times> session" where
  "stepForward n s = rewindTo (num_plus (s_cursor s) (max0 n)) s"

definition resumeLive :: "session \<Rightarrow> replayFrame \<times> session" where
  "resumeLive s =
     (let s1 = s\<lparr>s_mode := M_LIVE, s_cursor := length (s_items s)\<rparr> in (session_frame s1, s1))"

definition surfaces :: "session \<Rightarrow> surfaceSnapshot" where
  "surfaces s = projectSurfaces (session_frame s) (s_mode s)"

fun rewindPath :: "jsnum list \<Rightarrow> session \<Rightarrow> surfaceSnapshot list \<times> session" where
  "rewindPath [] s = ([], s)"
| "rewindPath (c # cs) s =
     (let s1 = snd (rewindTo c s); (rest, s2) = rewindPath cs s1 in (surfaces s1 # rest, s2))"

datatype sessionOp =
    SAppend event
  | SExtend "event list"
  | SEnter "jsnum option"
  | SRewind jsnum
  | SBack jsnum
  | SForward jsnum
  | SResume
  | SPath "jsnum list"

fun session_do :: "sessionOp \<Rightarrow> session \<Rightarrow> session" where
  "session_do (SAppend e) s = snd (appendLive e s)"
| "session_do (SExtend es) s = snd (extendLive es s)"
| "session_do (SEnter c) s = snd (enterReplay c s)"
| "session_do (SRewind c) s = snd (rewindTo c s)"
| "session_do (SBack n) s = snd (stepBack n s)"
| "session_do (SForward n) s = snd (stepForward n s)"
| "session_do SResume s = snd (resumeLive s)"
| "session_do (SPath cs) s = snd (rewindPath cs s)"

definition session_run :: "sessionOp list \<Rightarrow> session \<Rightarrow> session" where
  "session_run ops s = fold session_do ops s"

fun op_events :: "sessionOp \<Rightarrow> event list" where
  "op_events (SAppend e) = [e]"
| "op_events (SExtend es) = es"
| "op_events _ = []"

section \<open>Cursors and frames\<close>

lemma clamp_bound: "clamp items c \<le> length items"
  by (cases c) (auto simp: Let_def timeline_total_def)

lemma clamp_of_nat [simp]: "clamp items (of_nat_num n) = min n (length items)"
  by (simp add: of_nat_num_def js_trunc_def timeline_total_def Let_def)

lemma frameAt_fields [simp]:
  "f_cursor (frameAt items c) = clamp items c" "f_total (frameAt items c) = length items"
  "f_projection (frameAt items c) = reduceEvents (take (clamp items c) items)"
  "f_anomalies (frameAt items c) = p_anomalies (reduceEvents (take (clamp items c) items))"
  "f_atTip (frameAt items c) = (clamp items c = length items)"
  by (simp_all add: frameAt_def Let_def timeline_total_def)

lemma frameAt_clamped: "clamp items c = clamp items d \<Longrightarrow> frameAt items c = frameAt items d"
  by (simp add: frameAt_def)

lemma events_reduceEvents [simp]: "p_events (reduceEvents es) = es"
  by (simp add: reduceEvents_def)

lemma path_consistent_invariant:
  "(\<And>c d. map_of seen (clamp items c) = Some d \<Longrightarrow> d = f_stateDigest (frameAt items c)) \<Longrightarrow>
   path_consistent items seen cs"
proof (induction cs arbitrary: seen)
  case (Cons c cs)
  let ?seen = "AList.update (clamp items c) (f_stateDigest (frameAt items c)) seen"
  have "d = f_stateDigest (frameAt items c')" if "map_of ?seen (clamp items c') = Some d" for c' d
    using that Cons.prems [of c' d] frameAt_clamped [of items c' c] by (auto simp: update_conv' split: if_splits)
  then have "path_consistent items ?seen cs" by (rule Cons.IH)
  with Cons.prems [of c] show ?case by (auto simp: Let_def split: option.split)
qed simp

lemma same_passes_first: "same_passes items (frames_text items) k"
  by (induction k) auto

section \<open>What a session relies on\<close>

text \<open>
  The contract between the session and the ingest order: ordering is absorbed by a later
  ordering and keeps the events. Appending one event at a time then equals ordering everything
  at once.
\<close>

locale ingest_order =
  fixes order :: "'e list \<Rightarrow> 'e list"
  assumes absorb: "order (order xs @ ys) = order (xs @ ys)"
    and keeps: "length (order xs) = length xs"
begin

lemma append_each: "fold (\<lambda>e xs. order (xs @ [e])) es (order xs) = order (xs @ es)"
proof (induction es arbitrary: xs)
  case Nil
  show ?case by simp
next
  case (Cons e es)
  have "fold (\<lambda>e xs. order (xs @ [e])) (e # es) (order xs) =
      fold (\<lambda>e xs. order (xs @ [e])) es (order (xs @ [e]))" by (simp add: absorb)
  also have "\<dots> = order ((xs @ [e]) @ es)" by (rule Cons.IH)
  finally show ?case by simp
qed

end

interpretation ingest: ingest_order globalDurableOrder
  by unfold_locales (simp_all add: globalDurableOrder_absorb)

section \<open>Invariant of a session\<close>

definition session_ok :: "event list \<Rightarrow> session \<Rightarrow> bool" where
  "session_ok es s \<longleftrightarrow> s_items s = globalDurableOrder es \<and> s_cursor s \<le> length (s_items s) \<and>
     (s_mode s = M_LIVE \<longrightarrow> s_cursor s = length (s_items s))"

lemma session_ok_new: "session_ok es (new_session es)"
  by (simp add: session_ok_def new_session_def Let_def)

lemma session_ok_append: "session_ok es s \<Longrightarrow> session_ok (es @ [e]) (snd (appendLive e s))"
  by (auto simp: session_ok_def appendLive_def Let_def ingest.absorb)

lemma session_ok_extend: "session_ok es s \<Longrightarrow> session_ok (es @ xs) (extendLive_loop xs s)"
proof (induction xs arbitrary: es s)
  case (Cons x xs)
  from Cons.IH [OF session_ok_append [OF Cons.prems]] show ?case by simp
qed simp

lemma clamp_session [simp]: "clamp (session_timeline s) c \<le> length (s_items s)"
  using clamp_bound [of "s_items s" c] by (simp add: session_timeline_def new_timeline_def)

lemma session_ok_rewind: "session_ok es s \<Longrightarrow> session_ok es (snd (rewindTo c s))"
  using clamp_session [of s c] by (simp add: session_ok_def rewindTo_def Let_def del: clamp_session)

lemma session_ok_enter: "session_ok es s \<Longrightarrow> session_ok es (snd (enterReplay c s))"
  using clamp_session [of s "case c of None \<Rightarrow> of_nat_num (length (s_items s)) | Some n \<Rightarrow> n"]
  by (simp add: session_ok_def enterReplay_def Let_def del: clamp_session)

lemma session_ok_path: "session_ok es s \<Longrightarrow> session_ok es (snd (rewindPath cs s))"
  by (induction cs arbitrary: s) (auto simp: Let_def split_beta session_ok_rewind)

lemma session_ok_do: "session_ok es s \<Longrightarrow> session_ok (es @ op_events a) (session_do a s)"
  by (cases a)
    (simp_all add: session_ok_append extendLive_def Let_def session_ok_extend session_ok_rewind stepBack_def
      stepForward_def session_ok_path session_ok_enter,
     simp add: session_ok_def resumeLive_def Let_def)

lemma session_ok_run: "session_ok es s \<Longrightarrow> session_ok (es @ concat (map op_events ops)) (session_run ops s)"
proof (induction ops arbitrary: es s)
  case (Cons a ops)
  from Cons.IH [OF session_ok_do [OF Cons.prems]] show ?case by (simp add: session_run_def)
qed (simp add: session_run_def)

lemma synchronized: "isSynchronized (projectSurfaces f m)"
  by (simp add: isSynchronized_def surfacesOf_def projectSurfaces_def Let_def surfaceStamp.defs)

section \<open>Properties\<close>

text \<open>
  C3. Resuming is identical to never having replayed: after any mix of live appends, rewinds, steps
  and path replays, in any order, \<open>resumeLive\<close> leaves exactly the session a constructor call on
  all the events, received in that order, creates.
\<close>

theorem resume_equals_never_replaying:
  "snd (resumeLive (session_run ops (new_session es))) = new_session (es @ concat (map op_events ops))"
  using session_ok_run [OF session_ok_new, of es ops]
  by (simp add: session_ok_def resumeLive_def new_session_def Let_def)


text \<open>
  Frames are nested: moving the cursor forward only adds. The events applied and the anomalies
  shown at a cursor are a prefix of those at any later one, so a rewind hides nothing that it does
  not restore.
\<close>

theorem frames_are_nested:
  "prefix (f_anomalies (frameAt items (of_nat_num c))) (f_anomalies (frameAt items (of_nat_num (c + n)))) \<and>
   prefix (p_events (f_projection (frameAt items (of_nat_num c))))
     (p_events (f_projection (frameAt items (of_nat_num (c + n)))))"
proof -
  have cut: "take (min k (length items)) items = take k items" for k
    by (cases "k \<le> length items") simp_all
  have "take (c + n) items = take c items @ take n (drop c items)" by (rule take_add)
  then show ?thesis using reduceEvents_prefix [of c items n] by (simp add: cut)
qed

text \<open>
  Replay is deterministic and path independent: the determinism check succeeds for any number
  of repetitions, and no list of cursors, fractional, negative or infinite ones included, can make
  the path check fail.
\<close>

theorem replay_path_independent: "verifyDeterminism items repeats \<and> isPathConsistent items cs"
  by (simp add: verifyDeterminism_def Let_def same_passes_first isPathConsistent_def)
    (rule path_consistent_invariant, simp)

end
