(* ===== verification/Review.thy ===== *)
theory Review
  imports Replay
begin

text \<open>
  The review metrics of \<open>lib/reviewIntelligence.ts\<close>: duration, longest wait, retries,
  recoveries, handoffs, the report and the comparison of two reports.

  \<open>Date.parse\<close> and \<open>localeCompare\<close> are parameters (\<open>dp\<close>, \<open>lc\<close>): the language leaves
  the first open on strings outside its date format and the second to the host's locale. Every
  lemma holds for all of them.
\<close>

section \<open>Data\<close>

datatype confidence = EXACT | PARTIAL | C_UNKNOWN

datatype incompleteReason =
    NO_EVENTS
  | MISSING_TIMESTAMP
  | MISSING_SEQUENCE
  | UNTERMINATED
  | NO_MATCHING_EVENTS
  | ANOMALIES_PRESENT

record traceRef =
  tr_sourceSystem :: jsstring
  tr_sourceEventId :: jsstring
  tr_sequence :: "int option"
  tr_occurredAt :: "jsstring option"
  tr_eventType :: jsstring
  tr_evidenceRefs :: "jsstring list"
  tr_authorityRef :: "jsstring option"

record 'v metric =
  m_key :: jsstring
  m_value :: "'v option"
  m_unit :: jsstring
  m_confidence :: confidence
  m_incomplete :: "incompleteReason list"
  m_trace :: "traceRef list"

type_synonym date_parse = "jsstring \<Rightarrow> int option"

section \<open>Field readers\<close>

definition eventType :: "event \<Rightarrow> jsstring" where
  "eventType e = str (fld e ''event_type'') em_dash"

definition occurredAt :: "event \<Rightarrow> jsstring option" where
  "occurredAt e = (case fld e ''occurred_at'' of JStr s \<Rightarrow> if s \<noteq> [] then Some s else None | _ \<Rightarrow> None)"

definition seqOf :: "event \<Rightarrow> int option" where
  "seqOf e = num_of (fld e ''sequence'')"

definition evidenceOf :: "event \<Rightarrow> jsstring list" where
  "evidenceOf e = (case fld e ''evidence_refs'' of
     JArr raw \<Rightarrow> map (\<lambda>r. case r of JStr s \<Rightarrow> s | _ \<Rightarrow> stableStringify r) raw | _ \<Rightarrow> [])"

definition traceOf :: "event \<Rightarrow> traceRef" where
  "traceOf e = \<lparr> tr_sourceSystem = str (fld e ''source_system'') em_dash,
     tr_sourceEventId = str (fld e ''source_event_id'') em_dash,
     tr_sequence = seqOf e, tr_occurredAt = occurredAt e, tr_eventType = eventType e,
     tr_evidenceRefs = evidenceOf e,
     tr_authorityRef = (let a = str (fld e ''authority_ref'') [] in if a \<noteq> [] then Some a else None) \<rparr>"

definition instant :: "date_parse \<Rightarrow> jsstring option \<Rightarrow> int option" where
  "instant dp v = (case v of None \<Rightarrow> None | Some s \<Rightarrow> dp s)"

definition instantOf :: "date_parse \<Rightarrow> event \<Rightarrow> int option" where
  "instantOf dp e = instant dp (occurredAt e)"

definition metric_of :: "string \<Rightarrow> 'v option \<Rightarrow> string \<Rightarrow> traceRef list \<Rightarrow> incompleteReason list \<Rightarrow> 'v metric" where
  "metric_of key value unit trace incomplete =
     \<lparr> m_key = js key, m_value = value, m_unit = js unit,
       m_confidence = (if value = None then C_UNKNOWN else if incomplete \<noteq> [] then PARTIAL else EXACT),
       m_incomplete = incomplete, m_trace = trace \<rparr>"

definition event_id :: "event \<Rightarrow> jsstring" where
  "event_id e = str (fld e ''source_event_id'') em_dash"

section \<open>Duration and wait\<close>

record durationBreakdown =
  d_totalMs :: "int option"
  d_firstEventAt :: "jsstring option"
  d_lastEventAt :: "jsstring option"
  d_terminated :: bool

definition sub_opt :: "int option \<Rightarrow> int option \<Rightarrow> int option" where
  "sub_opt b a = (case (a, b) of (Some x, Some y) \<Rightarrow> Some (y - x) | _ \<Rightarrow> None)"

definition timed_of :: "date_parse \<Rightarrow> event list \<Rightarrow> event list" where
  "timed_of dp es = filter (\<lambda>e. instantOf dp e \<noteq> None) es"

definition runDuration :: "date_parse \<Rightarrow> event list \<Rightarrow> durationBreakdown metric" where
  "runDuration dp es =
     (if es = [] then metric_of ''run.duration'' None ''ms'' [] [NO_EVENTS]
      else
        let timed = timed_of dp es;
            inc1 = (if length timed < length es then [MISSING_TIMESTAMP] else [])
        in if timed = [] then metric_of ''run.duration'' None ''ms'' (map traceOf es) [MISSING_TIMESTAMP]
        else
          let first = hd timed; lst = last timed;
              startMs = instantOf dp first; endMs = instantOf dp lst;
              terminated = list_ex (\<lambda>e. eventType e \<in> {js ''run_completed'', js ''run_failed'', js ''run_aborted''}) es;
              inc2 = inc1 @ (if \<not> terminated then [UNTERMINATED] else [])
          in metric_of ''run.duration''
               (Some \<lparr> d_totalMs = sub_opt endMs startMs, d_firstEventAt = occurredAt first,
                  d_lastEventAt = occurredAt lst, d_terminated = terminated \<rparr>)
               ''ms'' [traceOf first, traceOf lst] inc2)"

record gapSpan =
  gs_from :: jsstring
  gs_to :: jsstring
  gs_ms :: int

text \<open>The loop of \<open>longestWait\<close> from index 1 on: the previous event and the best span so far.\<close>

fun best_wait :: "date_parse \<Rightarrow> event \<Rightarrow> event list \<Rightarrow> (gapSpan \<times> event \<times> event) option \<Rightarrow>
    (gapSpan \<times> event \<times> event) option" where
  "best_wait dp prev [] best = best"
| "best_wait dp prev (cur # es) best =
     best_wait dp cur es
       (case (instantOf dp prev, instantOf dp cur) of
          (Some a, Some b) \<Rightarrow>
            let ms = b - a in
            if (case best of None \<Rightarrow> True | Some (g, _) \<Rightarrow> ms > gs_ms g)
            then Some (\<lparr> gs_from = event_id prev, gs_to = event_id cur, gs_ms = ms \<rparr>, prev, cur)
            else best
        | _ \<Rightarrow> best)"

definition longestWait :: "date_parse \<Rightarrow> event list \<Rightarrow> gapSpan metric" where
  "longestWait dp es =
     (let timed = timed_of dp es in
      if length timed < 2 then
        metric_of ''run.longest_wait'' None ''ms'' (map traceOf timed)
          [if timed = [] then NO_EVENTS else NO_MATCHING_EVENTS]
      else
        let incomplete = (if length timed < length es then [MISSING_TIMESTAMP] else []);
            best = best_wait dp (hd timed) (tl timed) None
        in metric_of ''run.longest_wait'' (map_option fst best) ''ms''
             (case best of None \<Rightarrow> [] | Some (_, p, c) \<Rightarrow> [traceOf p, traceOf c]) incomplete)"

section \<open>Retries and recoveries\<close>

record retryStat =
  rs_key :: jsstring
  rs_attempts :: nat
  rs_eventIds :: "jsstring list"

definition retry_key :: "event \<Rightarrow> jsstring option" where
  "retry_key e =
     (let type = eventType e; gate = str (fld e ''gate'') []; node = str (fld e ''node_id'') [] in
      if startsWith type (js ''gate_'') \<and> gate \<noteq> [] then Some (js ''gate:'' @ gate)
      else if startsWith type (js ''node_'') \<and> node \<noteq> [] then Some (js ''node:'' @ node)
      else None)"

definition bucket_add :: "event \<Rightarrow> event list dict \<Rightarrow> event list dict" where
  "bucket_add e m = (case retry_key e of None \<Rightarrow> m
     | Some k \<Rightarrow> dict_put k ((case dict_get m k of None \<Rightarrow> [] | Some l \<Rightarrow> l) @ [e]) m)"

definition retry_buckets :: "event list \<Rightarrow> event list dict" where
  "retry_buckets es = fold bucket_add es []"

definition retryProfile :: "(jsstring \<Rightarrow> jsstring \<Rightarrow> int) \<Rightarrow> event list \<Rightarrow> retryStat list metric" where
  "retryProfile lc es =
     (let buckets = retry_buckets es in
      if buckets = [] then metric_of ''run.retries'' None ''attempts'' [] [NO_MATCHING_EVENTS]
      else
        let entries = js_sort (\<lambda>a b. lc (fst a) (fst b)) buckets;
            repeated = filter (\<lambda>(_, l). length l > 1) entries
        in metric_of ''run.retries''
             (Some (map (\<lambda>(k, l). \<lparr> rs_key = k, rs_attempts = length l, rs_eventIds = map event_id l \<rparr>) repeated))
             ''attempts'' (concat (map (\<lambda>(_, l). map traceOf l) repeated)) [])"

record recoverySpan =
  rv_failureEventId :: jsstring
  rv_recoveryEventId :: "jsstring option"
  rv_target :: jsstring
  rv_ms :: "int option"
  rv_recovered :: bool

definition FAILURE :: "jsstring list" where
  "FAILURE = [js ''gate_failed'', js ''node_failed'', js ''run_failed'']"

definition RECOVERY :: "jsstring list" where
  "RECOVERY = [js ''gate_passed'', js ''gate_approved'', js ''gate_released'', js ''node_completed'',
     js ''node_started'', js ''node_progress'']"

definition target_of :: "event \<Rightarrow> jsstring" where
  "target_of e =
     (let gate = str (fld e ''gate'') []; node = str (fld e ''node_id'') [] in
      if gate \<noteq> [] then js ''gate:'' @ gate else if node \<noteq> [] then js ''node:'' @ node else js ''run'')"

definition is_failure :: "event \<Rightarrow> bool" where
  "is_failure e \<longleftrightarrow> eventType e \<in> set FAILURE"

definition is_recovery :: "jsstring \<Rightarrow> event \<Rightarrow> bool" where
  "is_recovery target c \<longleftrightarrow> eventType c \<in> set RECOVERY \<and> target_of c = target"

text \<open>The outer loop: the events not yet visited are the ones the inner loop searches.\<close>

fun recovery_loop :: "date_parse \<Rightarrow> event list \<Rightarrow>
    recoverySpan list \<times> traceRef list \<times> incompleteReason list \<Rightarrow>
    recoverySpan list \<times> traceRef list \<times> incompleteReason list" where
  "recovery_loop dp [] acc = acc"
| "recovery_loop dp (e # es) (spans, trace, incomplete) =
     (if \<not> is_failure e then recovery_loop dp es (spans, trace, incomplete)
      else
        let target = target_of e;
            recovery = find (is_recovery target) es;
            a = instantOf dp e;
            b = (case recovery of Some c \<Rightarrow> instantOf dp c | None \<Rightarrow> None);
            incomplete' = (if recovery \<noteq> None \<and> (a = None \<or> b = None)
                           then incomplete @ [MISSING_TIMESTAMP] else incomplete);
            span = \<lparr> rv_failureEventId = event_id e, rv_recoveryEventId = map_option event_id recovery,
                     rv_target = target, rv_ms = sub_opt b a, rv_recovered = (recovery \<noteq> None) \<rparr>
        in recovery_loop dp es
             (spans @ [span],
              trace @ [traceOf e] @ (case recovery of Some c \<Rightarrow> [traceOf c] | None \<Rightarrow> []),
              incomplete'))"

definition recoveryProfile :: "date_parse \<Rightarrow> event list \<Rightarrow> recoverySpan list metric" where
  "recoveryProfile dp es =
     (case recovery_loop dp es ([], [], []) of (spans, trace, incomplete) \<Rightarrow>
        if spans = [] then metric_of ''run.recoveries'' None ''ms'' [] [NO_MATCHING_EVENTS]
        else metric_of ''run.recoveries'' (Some spans) ''ms'' trace incomplete)"

section \<open>Handoffs\<close>

record handoffSpan =
  ho_fromActor :: jsstring
  ho_toActor :: jsstring
  ho_atEventId :: jsstring
  ho_ms :: "int option"

definition actorKey :: "event \<Rightarrow> jsstring" where
  "actorKey e =
     (case fld e ''actor'' of JStr s \<Rightarrow> if s \<noteq> [] then s else em_dash
      | raw \<Rightarrow>
        if is_object raw then
          (let parts = filter (\<lambda>x. x \<noteq> []) [str (fld raw ''kind'') [], str (fld raw ''id'') []]
           in if parts \<noteq> [] then js_join (js '':'') parts else em_dash)
        else em_dash)"

fun handoff_loop :: "date_parse \<Rightarrow> event \<Rightarrow> event list \<Rightarrow>
    handoffSpan list \<times> traceRef list \<times> incompleteReason list \<Rightarrow>
    handoffSpan list \<times> traceRef list \<times> incompleteReason list" where
  "handoff_loop dp prev [] acc = acc"
| "handoff_loop dp prev (cur # es) (spans, trace, incomplete) =
     (if actorKey prev = actorKey cur then handoff_loop dp cur es (spans, trace, incomplete)
      else
        let a = instantOf dp prev; b = instantOf dp cur in
        handoff_loop dp cur es
          (spans @ [\<lparr> ho_fromActor = actorKey prev, ho_toActor = actorKey cur, ho_atEventId = event_id cur,
                      ho_ms = sub_opt b a \<rparr>],
           trace @ [traceOf prev, traceOf cur],
           if a = None \<or> b = None then incomplete @ [MISSING_TIMESTAMP] else incomplete))"

definition handoffProfile :: "date_parse \<Rightarrow> event list \<Rightarrow> handoffSpan list metric" where
  "handoffProfile dp es =
     (let known = filter (\<lambda>e. actorKey e \<noteq> em_dash) es in
      if known = [] then metric_of ''run.handoffs'' None ''count'' [] [NO_MATCHING_EVENTS]
      else
        let inc = (if length known < length es then [NO_MATCHING_EVENTS] else []) in
        case handoff_loop dp (hd known) (tl known) ([], [], inc) of (spans, trace, incomplete) \<Rightarrow>
          metric_of ''run.handoffs'' (Some spans) ''count'' trace incomplete)"

section \<open>Report\<close>

definition REDUCER_VERSION :: jsstring where
  "REDUCER_VERSION = js ''m4-review-intelligence/1''"

definition SCHEMA_VERSION :: jsstring where
  "SCHEMA_VERSION = js ''1''"

record reviewReport =
  rr_runId :: jsstring
  rr_reducerVersion :: jsstring
  rr_schemaVersion :: jsstring
  rr_eventCount :: nat
  rr_anomalyCount :: nat
  rr_historyComplete :: bool
  rr_incompleteMarkers :: "incompleteReason list"
  rr_duration :: "durationBreakdown metric"
  rr_longestWait :: "gapSpan metric"
  rr_retries :: "retryStat list metric"
  rr_recoveries :: "recoverySpan list metric"
  rr_handoffs :: "handoffSpan list metric"
  rr_createsAuthority :: bool

fun reason_name :: "incompleteReason \<Rightarrow> jsstring" where
  "reason_name NO_EVENTS = js ''NO_EVENTS''"
| "reason_name MISSING_TIMESTAMP = js ''MISSING_TIMESTAMP''"
| "reason_name MISSING_SEQUENCE = js ''MISSING_SEQUENCE''"
| "reason_name UNTERMINATED = js ''UNTERMINATED''"
| "reason_name NO_MATCHING_EVENTS = js ''NO_MATCHING_EVENTS''"
| "reason_name ANOMALIES_PRESENT = js ''ANOMALIES_PRESENT''"

definition reviewRun :: "date_parse \<Rightarrow> (jsstring \<Rightarrow> jsstring \<Rightarrow> int) \<Rightarrow> jsstring \<Rightarrow> event list \<Rightarrow> reviewReport" where
  "reviewRun dp lc runId es =
     (let projection = reduceEvents es;
          duration = runDuration dp es;
          longest = longestWait dp es;
          retries = retryProfile lc es;
          recoveries = recoveryProfile dp es;
          handoffs = handoffProfile dp es;
          markers1 = fold set_add (concat [m_incomplete duration, m_incomplete longest, m_incomplete retries,
                       m_incomplete recoveries, m_incomplete handoffs]) [];
          markers2 = (if p_anomalies projection \<noteq> [] then set_add ANOMALIES_PRESENT markers1 else markers1);
          markers = (if es = [] then set_add NO_EVENTS markers2 else markers2)
      in \<lparr> rr_runId = runId, rr_reducerVersion = REDUCER_VERSION, rr_schemaVersion = SCHEMA_VERSION,
           rr_eventCount = length es, rr_anomalyCount = length (p_anomalies projection),
           rr_historyComplete = (length markers = 0),
           rr_incompleteMarkers = js_sort (\<lambda>a b. cmp_units (reason_name a) (reason_name b)) markers,
           rr_duration = duration, rr_longestWait = longest, rr_retries = retries,
           rr_recoveries = recoveries, rr_handoffs = handoffs, rr_createsAuthority = False \<rparr>)"

section \<open>Comparison\<close>

datatype compareWarning =
    REDUCER_VERSION_MISMATCH
  | SCHEMA_VERSION_MISMATCH
  | INCOMPLETE_HISTORY
  | W_ANOMALIES_PRESENT

record runComparison =
  cmp_left :: reviewReport
  cmp_right :: reviewReport
  cmp_comparable :: bool
  cmp_warnings :: "compareWarning list"
  cmp_deltas :: "int option dict"

definition countAttempts :: "reviewReport \<Rightarrow> int option" where
  "countAttempts r = map_option (\<lambda>stats. int (foldl (\<lambda>acc s. acc + rs_attempts s) 0 stats)) (m_value (rr_retries r))"

definition total_ms :: "reviewReport \<Rightarrow> int option" where
  "total_ms r = (case m_value (rr_duration r) of None \<Rightarrow> None | Some d \<Rightarrow> d_totalMs d)"

definition compareRuns :: "reviewReport \<Rightarrow> reviewReport \<Rightarrow> runComparison" where
  "compareRuns left right =
     (let warnings =
        (if rr_reducerVersion left \<noteq> rr_reducerVersion right then [REDUCER_VERSION_MISMATCH] else []) @
        (if rr_schemaVersion left \<noteq> rr_schemaVersion right then [SCHEMA_VERSION_MISMATCH] else []) @
        (if \<not> rr_historyComplete left \<or> \<not> rr_historyComplete right then [INCOMPLETE_HISTORY] else []) @
        (if rr_anomalyCount left > 0 \<or> rr_anomalyCount right > 0 then [W_ANOMALIES_PRESENT] else []);
          versionIncompatible = (REDUCER_VERSION_MISMATCH \<in> set warnings \<or> SCHEMA_VERSION_MISMATCH \<in> set warnings);
          deltas = (if versionIncompatible then [] else [
            (js ''duration.totalMs'', sub_opt (total_ms right) (total_ms left)),
            (js ''longestWait.ms'', sub_opt (map_option gs_ms (m_value (rr_longestWait right)))
                                            (map_option gs_ms (m_value (rr_longestWait left)))),
            (js ''retries.attempts'', sub_opt (countAttempts right) (countAttempts left)),
            (js ''handoffs.count'', sub_opt (map_option (int \<circ> length) (m_value (rr_handoffs right)))
                                            (map_option (int \<circ> length) (m_value (rr_handoffs left)))),
            (js ''eventCount'', Some (int (rr_eventCount right) - int (rr_eventCount left))),
            (js ''anomalyCount'', Some (int (rr_anomalyCount right) - int (rr_anomalyCount left)))])
      in \<lparr> cmp_left = left, cmp_right = right, cmp_comparable = (\<not> versionIncompatible),
           cmp_warnings = warnings, cmp_deltas = deltas \<rparr>)"

section \<open>Longest wait\<close>

definition wait_ms :: "date_parse \<Rightarrow> event list \<Rightarrow> nat \<Rightarrow> int" where
  "wait_ms dp T i = the (instantOf dp (T ! Suc i)) - the (instantOf dp (T ! i))"

definition wait_span :: "date_parse \<Rightarrow> event list \<Rightarrow> nat \<Rightarrow> gapSpan" where
  "wait_span dp T i = \<lparr> gs_from = event_id (T ! i), gs_to = event_id (T ! Suc i), gs_ms = wait_ms dp T i \<rparr>"

definition first_longest :: "date_parse \<Rightarrow> event list \<Rightarrow> nat \<Rightarrow> bool" where
  "first_longest dp T i \<longleftrightarrow> Suc i < length T \<and>
     (\<forall>j. Suc j < length T \<longrightarrow> wait_ms dp T j \<le> wait_ms dp T i \<and> (j < i \<longrightarrow> wait_ms dp T j < wait_ms dp T i))"

definition best_so_far :: "date_parse \<Rightarrow> event list \<Rightarrow> (gapSpan \<times> event \<times> event) option \<Rightarrow> bool" where
  "best_so_far dp T best \<longleftrightarrow> (case best of None \<Rightarrow> length T < 2
     | Some (g, _) \<Rightarrow> \<exists>i. first_longest dp T i \<and> g = wait_span dp T i)"

lemma wait_append: "Suc i < length T \<Longrightarrow> wait_ms dp (T @ [x]) i = wait_ms dp T i \<and> wait_span dp (T @ [x]) i = wait_span dp T i"
  by (simp add: wait_ms_def wait_span_def nth_append)

lemma first_longest_keep:
  assumes "first_longest dp T i" and "wait_ms dp (T @ [x]) (length T - 1) \<le> wait_ms dp T i"
  shows "first_longest dp (T @ [x]) i"
proof -
  have "Suc i < length T" using assms(1) by (simp add: first_longest_def)
  moreover have "wait_ms dp (T @ [x]) j \<le> wait_ms dp T i \<and> (j < i \<longrightarrow> wait_ms dp (T @ [x]) j < wait_ms dp T i)"
    if "Suc j < length (T @ [x])" for j
  proof (cases "Suc j < length T")
    case True
    then show ?thesis using assms(1) wait_append [of j T dp x] by (simp add: first_longest_def)
  next
    case False
    with that have j: "j = length T - 1" by simp
    then have "\<not> j < i" using \<open>Suc i < length T\<close> by linarith
    with assms(2) j show ?thesis by simp
  qed
  ultimately show ?thesis using wait_append [of i T dp x] by (simp add: first_longest_def)
qed

lemma first_longest_new:
  assumes "T \<noteq> []" and "\<And>j. Suc j < length T \<Longrightarrow> wait_ms dp T j < wait_ms dp (T @ [x]) (length T - 1)"
  shows "first_longest dp (T @ [x]) (length T - 1)"
  unfolding first_longest_def
proof (intro conjI allI impI)
  show "Suc (length T - 1) < length (T @ [x])" using assms(1) by simp
  fix j assume j: "Suc j < length (T @ [x])"
  show "wait_ms dp (T @ [x]) j \<le> wait_ms dp (T @ [x]) (length T - 1)"
  proof (cases "Suc j < length T")
    case True
    then show ?thesis using assms(2) [of j] wait_append [of j T dp x] by simp
  next
    case False
    with j have "j = length T - 1" by simp
    then show ?thesis by simp
  qed
  show "wait_ms dp (T @ [x]) j < wait_ms dp (T @ [x]) (length T - 1)" if "j < length T - 1"
    using that assms(2) [of j] wait_append [of j T dp x] by simp
qed

lemma best_wait_step:
  assumes "best_so_far dp (pre @ [prev]) best" and "instantOf dp prev = Some a" and "instantOf dp cur = Some b"
  shows "best_so_far dp ((pre @ [prev]) @ [cur])
    (if (case best of None \<Rightarrow> True | Some (g, _) \<Rightarrow> b - a > gs_ms g)
     then Some (\<lparr> gs_from = event_id prev, gs_to = event_id cur, gs_ms = b - a \<rparr>, prev, cur) else best)"
proof -
  let ?T = "pre @ [prev]"
  have new: "wait_ms dp (?T @ [cur]) (length ?T - 1) = b - a"
    "wait_span dp (?T @ [cur]) (length ?T - 1) = \<lparr> gs_from = event_id prev, gs_to = event_id cur, gs_ms = b - a \<rparr>"
    using assms(2,3) by (simp_all add: wait_ms_def wait_span_def nth_append)
  show ?thesis
  proof (cases best)
    case None
    with assms(1) have "pre = []" by (simp add: best_so_far_def)
    then have "first_longest dp (?T @ [cur]) (length ?T - 1)" by (intro first_longest_new) auto
    with None new show ?thesis by (auto simp: best_so_far_def simp del: append_assoc)
  next
    case (Some gpc)
    then obtain g q where best: "best = Some (g, q)" by (cases gpc) auto
    with assms(1) obtain i where i: "first_longest dp ?T i" "g = wait_span dp ?T i" by (auto simp: best_so_far_def)
    then have g: "gs_ms g = wait_ms dp ?T i" "Suc i < length ?T" by (simp_all add: wait_span_def first_longest_def)
    show ?thesis
    proof (cases "b - a > gs_ms g")
      case True
      with i g new have "first_longest dp (?T @ [cur]) (length ?T - 1)"
        by (intro first_longest_new) (auto simp: first_longest_def simp del: append_assoc)
      with True best new show ?thesis by (auto simp: best_so_far_def simp del: append_assoc)
    next
      case False
      have "first_longest dp (?T @ [cur]) i"
        by (rule first_longest_keep [OF i(1)]) (use False g new in linarith)
      with False best i g wait_append [of i ?T dp cur] show ?thesis
        by (auto simp: best_so_far_def simp del: append_assoc)
    qed
  qed
qed

lemma best_wait_correct:
  "best_so_far dp (pre @ [prev]) best \<Longrightarrow> \<forall>e \<in> set (prev # es). instantOf dp e \<noteq> None \<Longrightarrow>
   best_so_far dp (pre @ prev # es) (best_wait dp prev es best)"
proof (induction es arbitrary: pre prev best)
  case (Cons cur es)
  then obtain a b where ab: "instantOf dp prev = Some a" "instantOf dp cur = Some b" by auto
  from Cons.IH [OF best_wait_step [OF Cons.prems(1) ab]] Cons.prems(2) ab show ?case
    by (simp add: Let_def)
qed simp

section \<open>Retries\<close>

definition attempts_on :: "event list \<Rightarrow> jsstring \<Rightarrow> event list" where
  "attempts_on es k = filter (\<lambda>e. retry_key e = Some k) es"

lemma buckets_snoc: "retry_buckets (es @ [e]) = bucket_add e (retry_buckets es)"
  by (simp add: retry_buckets_def)

lemma buckets_get:
  "dict_get (retry_buckets es) k = (if attempts_on es k = [] then None else Some (attempts_on es k))"
proof (induction es rule: rev_induct)
  case Nil
  then show ?case by (simp add: retry_buckets_def attempts_on_def)
next
  case (snoc e es)
  then show ?case by (auto simp: buckets_snoc bucket_add_def attempts_on_def split: option.split)
qed

lemma buckets_distinct: "distinct (map fst (retry_buckets es))"
  by (induction es rule: rev_induct) (auto simp: buckets_snoc bucket_add_def split: option.split, simp add: retry_buckets_def)

lemma buckets_entries: "(k, l) \<in> set (retry_buckets es) \<longleftrightarrow> l = attempts_on es k \<and> l \<noteq> []"
  using buckets_get [of es k] map_of_eq_Some_iff [OF buckets_distinct, of es k l]
  by (auto simp: dict_get_def split: if_splits)

lemma buckets_empty: "retry_buckets es = [] \<longleftrightarrow> (\<forall>e \<in> set es. retry_key e = None)"
proof
  assume empty: "retry_buckets es = []"
  have "attempts_on es k = []" for k
    using buckets_get [of es k] empty by (simp split: if_splits)
  then have "retry_key e \<noteq> Some k" if "e \<in> set es" for e k
    using that by (auto simp: attempts_on_def filter_empty_conv)
  then show "\<forall>e \<in> set es. retry_key e = None" by (meson not_None_eq)
next
  assume "\<forall>e \<in> set es. retry_key e = None"
  then have "attempts_on es k = []" for k by (auto simp: attempts_on_def)
  then show "retry_buckets es = []" using buckets_entries [of _ _ es] by (metis list.set_intros(1) neq_Nil_conv surj_pair)
qed

lemma retries_value:
  assumes "retry_buckets es \<noteq> []"
  shows "\<exists>rep. m_value (retryProfile lc es) = Some (map (\<lambda>(k, l). \<lparr> rs_key = k, rs_attempts = length l, rs_eventIds = map event_id l \<rparr>) rep)
    \<and> distinct (map fst rep) \<and> set rep = {(k, attempts_on es k) | k. 2 \<le> length (attempts_on es k)}"
proof (intro exI conjI)
  let ?rep = "filter (\<lambda>(_, l). length l > 1) (js_sort (\<lambda>a b. lc (fst a) (fst b)) (retry_buckets es))"
  show "m_value (retryProfile lc es) = Some (map (\<lambda>(k, l). \<lparr> rs_key = k, rs_attempts = length l, rs_eventIds = map event_id l \<rparr>) ?rep)"
    using assms by (simp add: retryProfile_def Let_def metric_of_def)
  have "mset (map fst (js_sort (\<lambda>a b. lc (fst a) (fst b)) (retry_buckets es))) = mset (map fst (retry_buckets es))"
    by simp
  then have "distinct (map fst (js_sort (\<lambda>a b. lc (fst a) (fst b)) (retry_buckets es)))"
    using buckets_distinct mset_eq_imp_distinct_iff by blast
  then show "distinct (map fst ?rep)" by (rule distinct_map_filter)
  show "set ?rep = {(k, attempts_on es k) | k. 2 \<le> length (attempts_on es k)}"
    by (auto simp: buckets_entries)
qed

section \<open>Recoveries\<close>

definition recovery_span :: "date_parse \<Rightarrow> event \<Rightarrow> event list \<Rightarrow> recoverySpan" where
  "recovery_span dp e later =
     (let r = find (is_recovery (target_of e)) later in
      \<lparr> rv_failureEventId = event_id e, rv_recoveryEventId = map_option event_id r, rv_target = target_of e,
        rv_ms = sub_opt (case r of Some c \<Rightarrow> instantOf dp c | None \<Rightarrow> None) (instantOf dp e),
        rv_recovered = (r \<noteq> None) \<rparr>)"

fun recovery_spans :: "date_parse \<Rightarrow> event list \<Rightarrow> recoverySpan list" where
  "recovery_spans dp [] = []"
| "recovery_spans dp (e # es) = (if is_failure e then [recovery_span dp e es] else []) @ recovery_spans dp es"

lemma recovery_loop_spans: "fst (recovery_loop dp es acc) = fst acc @ recovery_spans dp es"
proof (induction es arbitrary: acc)
  case (Cons e es)
  obtain s t i where "acc = (s, t, i)" by (cases acc)
  with Cons show ?case by (simp add: Let_def recovery_span_def)
qed simp

lemma recovery_spans_empty: "recovery_spans dp es = [] \<longleftrightarrow> (\<forall>e \<in> set es. \<not> is_failure e)"
  by (induction es) auto

lemma recoveries_value:
  "m_value (recoveryProfile dp es) = (if recovery_spans dp es = [] then None else Some (recovery_spans dp es))"
  using recovery_loop_spans [of dp es "([], [], [])"]
  by (auto simp: recoveryProfile_def metric_of_def split: prod.split)

text \<open>A span tells the story of the failure at an index: its first matching recovery, if any.\<close>

definition tells :: "date_parse \<Rightarrow> event list \<Rightarrow> nat \<Rightarrow> recoverySpan \<Rightarrow> bool" where
  "tells dp es i s \<longleftrightarrow> rv_failureEventId s = event_id (es ! i) \<and> rv_target s = target_of (es ! i) \<and>
     (if rv_recovered s then
        (\<exists>j. i < j \<and> j < length es \<and> is_recovery (target_of (es ! i)) (es ! j) \<and>
           (\<forall>k. i < k \<and> k < j \<longrightarrow> \<not> is_recovery (target_of (es ! i)) (es ! k)) \<and>
           rv_recoveryEventId s = Some (event_id (es ! j)) \<and>
           rv_ms s = sub_opt (instantOf dp (es ! j)) (instantOf dp (es ! i)))
      else
        (\<forall>j. i < j \<and> j < length es \<longrightarrow> \<not> is_recovery (target_of (es ! i)) (es ! j)) \<and>
        rv_recoveryEventId s = None \<and> rv_ms s = None)"

lemma recovery_span_tells:
  assumes "n < length es"
  shows "tells dp es n (recovery_span dp (es ! n) (drop (Suc n) es))"
proof (cases "find (is_recovery (target_of (es ! n))) (drop (Suc n) es)")
  case None
  have "\<not> is_recovery (target_of (es ! n)) (es ! j)" if "n < j" "j < length es" for j
  proof -
    have "drop (Suc n) es ! (j - Suc n) \<in> set (drop (Suc n) es)" using that by (intro nth_mem) simp
    with that have "es ! j \<in> set (drop (Suc n) es)" by simp
    with None show ?thesis by (auto simp: find_None_iff)
  qed
  with None show ?thesis by (simp add: tells_def recovery_span_def sub_opt_def split: option.split)
next
  case (Some c)
  then obtain m where m: "m < length es - Suc n" "is_recovery (target_of (es ! n)) (es ! (Suc n + m))"
      "c = es ! (Suc n + m)" "\<And>j. j < m \<Longrightarrow> \<not> is_recovery (target_of (es ! n)) (es ! (Suc n + j))"
    using assms by (auto simp: find_Some_iff)
  have "\<not> is_recovery (target_of (es ! n)) (es ! k)" if "n < k" "k < Suc n + m" for k
    using m(4) [of "k - Suc n"] that by simp
  with m Some assms show ?thesis
    by (auto simp: tells_def recovery_span_def intro!: exI [of _ "Suc n + m"])
qed

lemma recovery_spans_tell:
  "n \<le> length es \<Longrightarrow>
   list_all2 (tells dp es) (filter (\<lambda>i. is_failure (es ! i)) [n..<length es]) (recovery_spans dp (drop n es))"
proof (induction "length es - n" arbitrary: n)
  case (Suc k)
  then have n: "n < length es" by simp
  then have IH: "list_all2 (tells dp es) (filter (\<lambda>i. is_failure (es ! i)) [Suc n..<length es])
      (recovery_spans dp (drop (Suc n) es))"
    using Suc(2) by (intro Suc(1)) auto
  have "drop n es = es ! n # drop (Suc n) es" using n by (simp add: Cons_nth_drop_Suc)
  with IH recovery_span_tells [OF n, of dp] show ?case by (simp add: upt_conv_Cons [OF n])
qed simp

section \<open>Markers\<close>

lemma set_add_set [simp]: "set (set_add x xs) = insert x (set xs)"
  by (auto simp: set_add_def)

lemma fold_set_add [simp]: "set (fold set_add xs acc) = set acc \<union> set xs"
  by (induction xs arbitrary: acc) auto

lemma report_markers:
  "set (rr_incompleteMarkers (reviewRun dp lc rid es)) =
     set (m_incomplete (runDuration dp es)) \<union> set (m_incomplete (longestWait dp es)) \<union>
     set (m_incomplete (retryProfile lc es)) \<union> set (m_incomplete (recoveryProfile dp es)) \<union>
     set (m_incomplete (handoffProfile dp es)) \<union>
     (if p_anomalies (reduceEvents es) \<noteq> [] then {ANOMALIES_PRESENT} else {}) \<union> (if es = [] then {NO_EVENTS} else {})"
  by (auto simp: reviewRun_def Let_def)

lemma report_complete: "rr_historyComplete r = (rr_incompleteMarkers r = [])"
  if "r = reviewRun dp lc rid es"
proof -
  have "js_sort cmp xs = [] \<longleftrightarrow> length xs = 0" for cmp :: "incompleteReason \<Rightarrow> incompleteReason \<Rightarrow> int" and xs
    by (metis length_0_conv length_js_sort)
  then show ?thesis by (simp only: that reviewRun_def Let_def reviewReport.simps)
qed

section \<open>Properties\<close>

text \<open>
  C29. The longest wait is the first of the longest intervals between consecutive events with a
  readable timestamp; it is absent exactly when fewer than two events have one.
\<close>

theorem longest_wait_is_longest:
  "case m_value (longestWait dp es) of
     None \<Rightarrow> length (timed_of dp es) < 2
   | Some g \<Rightarrow> \<exists>i. first_longest dp (timed_of dp es) i \<and> g = wait_span dp (timed_of dp es) i"
proof (cases "length (timed_of dp es) < 2")
  case False
  then obtain x T where T: "timed_of dp es = x # T" by (cases "timed_of dp es") auto
  have "\<forall>e \<in> set (timed_of dp es). instantOf dp e \<noteq> None" by (simp add: timed_of_def)
  then have "best_so_far dp (timed_of dp es) (best_wait dp x T None)"
    using best_wait_correct [of dp "[]" x None T] by (simp add: best_so_far_def T)
  with False T show ?thesis
    by (auto simp: longestWait_def metric_of_def Let_def best_so_far_def split: option.splits)
qed (simp add: longestWait_def metric_of_def Let_def)

text \<open>
  C30. Recoveries: there is exactly one span per failure event, in order. A span is recovered exactly
  when a later recovery event of the same target exists, and then it names the first one and the
  time between the two; an unrecovered failure has no recovery and no duration.
\<close>

theorem recoveries_tell_every_failure:
  "case m_value (recoveryProfile dp es) of
     None \<Rightarrow> filter (\<lambda>i. is_failure (es ! i)) [0..<length es] = []
   | Some spans \<Rightarrow> list_all2 (tells dp es) (filter (\<lambda>i. is_failure (es ! i)) [0..<length es]) spans"
proof (cases "recovery_spans dp es = []")
  case True
  then have "\<forall>e \<in> set es. \<not> is_failure e" by (simp add: recovery_spans_empty)
  with True show ?thesis by (simp add: recoveries_value filter_empty_conv)
next
  case False
  with recovery_spans_tell [of 0 es dp] show ?thesis by (simp add: recoveries_value)
qed

text \<open>
  Retries: the report lists exactly the gates and nodes with at least two recorded transition
  events, each once, with the number of its events and their ids in stream order.
\<close>

theorem retries_count_recorded_attempts:
  "case m_value (retryProfile lc es) of
     None \<Rightarrow> \<not> (\<exists>e \<in> set es. retry_key e \<noteq> None)
   | Some stats \<Rightarrow> distinct (map rs_key stats) \<and>
       set stats = {\<lparr> rs_key = k, rs_attempts = length (attempts_on es k),
                      rs_eventIds = map event_id (attempts_on es k) \<rparr> | k. 2 \<le> length (attempts_on es k)}"
proof (cases "retry_buckets es = []")
  case True
  then show ?thesis using buckets_empty [of es] by (simp add: retryProfile_def Let_def metric_of_def)
next
  case False
  from retries_value [OF this, of lc] show ?thesis
    by (auto simp: comp_def case_prod_unfold image_iff)
qed


text \<open>
  A run without a failure can never be reported complete: the recovery metric of such a run
  answers NO_MATCHING_EVENTS, which becomes an incompleteness marker of the whole report, so
  \<open>historyComplete\<close> is false and every comparison with it warns of incomplete history.
\<close>

theorem flawless_run_reported_incomplete:
  assumes "\<forall>e \<in> set es. \<not> is_failure e"
  shows "NO_MATCHING_EVENTS \<in> set (rr_incompleteMarkers (reviewRun dp lc rid es)) \<and>
    \<not> rr_historyComplete (reviewRun dp lc rid es) \<and>
    INCOMPLETE_HISTORY \<in> set (cmp_warnings (compareRuns (reviewRun dp lc rid es) other))"
proof -
  have "recovery_spans dp es = []" using assms by (simp add: recovery_spans_empty)
  then have "m_incomplete (recoveryProfile dp es) = [NO_MATCHING_EVENTS]"
    using recovery_loop_spans [of dp es "([], [], [])"]
    by (auto simp: recoveryProfile_def metric_of_def split: prod.split)
  then have marked: "NO_MATCHING_EVENTS \<in> set (rr_incompleteMarkers (reviewRun dp lc rid es))"
    by (simp add: report_markers)
  then have "\<not> rr_historyComplete (reviewRun dp lc rid es)"
    using report_complete [OF refl, of dp lc rid es] by auto
  with marked show ?thesis by (simp add: compareRuns_def Let_def)
qed

theorem flawless_run_reported_incomplete_witness:
  "\<not> rr_historyComplete (reviewRun (\<lambda>_. Some 0) cmp_units (js ''r'')
     [JObj [(js ''event_type'', JStr (js ''run_started''))], JObj [(js ''event_type'', JStr (js ''run_completed''))]])"
  using flawless_run_reported_incomplete [of "[JObj [(js ''event_type'', JStr (js ''run_started''))],
     JObj [(js ''event_type'', JStr (js ''run_completed''))]]" "\<lambda>_. Some 0" cmp_units "js ''r''"]
  by (simp add: is_failure_def FAILURE_def eventType_def js_eval)

end
