(* ===== verification/JsonText.thy ===== *)
theory JsonText
  imports Digest
begin

text \<open>
  Property enumeration order and the indented form of \<open>JSON.stringify(value, null, 2)\<close>, which the
  inspectors and the artifact previews show.
\<close>

section \<open>Property enumeration\<close>

definition is_digit :: "code_unit \<Rightarrow> bool" where
  "is_digit c = (48 \<le> c \<and> c \<le> 57)"

text \<open>An array index as a property name: a canonical decimal below \<open>2^32 - 1\<close>.\<close>

definition is_index :: "jsstring \<Rightarrow> bool" where
  "is_index s = (s \<noteq> [] \<and> list_all is_digit s \<and> (s = [48] \<or> hd s \<noteq> 48) \<and> nat_value s < 4294967295)"

text \<open>\<open>Object.keys\<close>: array indices in ascending order, then the rest as inserted.\<close>

definition own_keys :: "(jsstring \<times> 'v) list \<Rightarrow> jsstring list" where
  "own_keys kvs = (let ks = map fst kvs in
     js_sort (\<lambda>a b. int (nat_value a) - int (nat_value b)) (filter is_index ks) @ filter (\<lambda>k. \<not> is_index k) ks)"

text \<open>\<open>Object.entries\<close>\<close>

definition dict_entries :: "'v dict \<Rightarrow> (jsstring \<times> 'v) list" where
  "dict_entries m = map (\<lambda>k. (k, the (map_of m k))) (own_keys m)"

lemma own_keys_mset: "mset (own_keys kvs) = mset (map fst kvs)"
  by (simp add: own_keys_def Let_def)

lemma own_keys_set: "set (own_keys kvs) = fst ` set kvs"
  by (metis own_keys_mset set_mset_mset set_map)

section \<open>Indented text\<close>

definition indent :: "nat \<Rightarrow> jsstring" where
  "indent n = replicate (2 * n) 32"

definition json_block :: "code_unit \<Rightarrow> code_unit \<Rightarrow> nat \<Rightarrow> jsstring list \<Rightarrow> jsstring" where
  "json_block opening closing n items =
     (if items = [] then [opening, closing]
      else [opening, 10] @ js_join [44, 10] (map ((@) (indent (Suc n))) items) @ [10] @ indent n @ [closing])"

text \<open>
  \<open>None\<close> is the \<open>undefined\<close> that \<open>JSON.stringify\<close> returns: such a property is left out, such
  an array element is \<open>null\<close>.
\<close>

primrec pretty :: "json \<Rightarrow> nat \<Rightarrow> jsstring option" where
  "pretty JUndef = (\<lambda>n. None)"
| "pretty JNull = (\<lambda>n. Some (js ''null''))"
| "pretty (JNum k) = (\<lambda>n. Some (show_int k))"
| "pretty (JBool b) = (\<lambda>n. Some (if b then js ''true'' else js ''false''))"
| "pretty (JStr s) = (\<lambda>n. Some (json_quote s))"
| "pretty (JArr vs) = (\<lambda>n. Some (json_block 91 93 n
     (map (\<lambda>f. case f (Suc n) of Some t \<Rightarrow> t | None \<Rightarrow> js ''null'') (map pretty vs))))"
| "pretty (JObj kvs) = (\<lambda>n. Some (
     let ts = map (map_prod id (\<lambda>f. f (Suc n))) (map (map_prod id pretty) kvs);
         ks = own_keys (filter (\<lambda>(k, t). t \<noteq> None) ts)
     in json_block 123 125 n (map (\<lambda>k. json_quote k @ js '': '' @ the (the (map_of ts k))) ks)))"

definition stringify2 :: "json \<Rightarrow> jsstring" where
  "stringify2 v = (case pretty v 0 of Some t \<Rightarrow> t | None \<Rightarrow> js ''undefined'')"

section \<open>Compact text\<close>

text \<open>\<open>JSON.stringify(value)\<close>, in enumeration order.\<close>

primrec compact :: "json \<Rightarrow> jsstring option" where
  "compact JUndef = None"
| "compact JNull = Some (js ''null'')"
| "compact (JNum k) = Some (show_int k)"
| "compact (JBool b) = Some (if b then js ''true'' else js ''false'')"
| "compact (JStr s) = Some (json_quote s)"
| "compact (JArr vs) = Some (js ''['' @ js_join (js '','')
     (map (\<lambda>t. case t of Some s \<Rightarrow> s | None \<Rightarrow> js ''null'') (map compact vs)) @ js '']'')"
| "compact (JObj kvs) = Some (
     let ts = map (map_prod id compact) kvs; ks = own_keys (filter (\<lambda>(k, t). t \<noteq> None) ts)
     in js ''{'' @ js_join (js '','') (map (\<lambda>k. json_quote k @ js '':'' @ the (the (map_of ts k))) ks) @ js ''}'')"

section \<open>Template holes\<close>

text \<open>A template literal hole prints \<open>undefined\<close> for an absent value.\<close>

definition hole_text :: "jsstring option \<Rightarrow> jsstring" where
  "hole_text v = (case v of None \<Rightarrow> js ''undefined'' | Some s \<Rightarrow> s)"

definition opt_str :: "jsstring option \<Rightarrow> json" where
  "opt_str v = (case v of None \<Rightarrow> JUndef | Some s \<Rightarrow> JStr s)"

definition strs :: "jsstring list \<Rightarrow> json" where
  "strs xs = JArr (map JStr xs)"

definition opt_strs :: "jsstring list option \<Rightarrow> json" where
  "opt_strs v = (case v of None \<Rightarrow> JUndef | Some xs \<Rightarrow> strs xs)"

end
