(* ===== verification/Observatory.thy ===== *)
theory Observatory
  imports Review JsonText
begin

text \<open>
  The historical data layer of \<open>lib/observatory.ts\<close> (event normalisation, run views, the
  hierarchy) and the mock event source of \<open>lib/mockDataSource.ts\<close>. The fixture bundles are
  JSON data and an argument of the definitions.
\<close>

section \<open>Readers\<close>

fun asArray :: "json \<Rightarrow> json list" where
  "asArray (JArr vs) = vs"
| "asArray _ = []"

fun asRecord :: "json \<Rightarrow> (jsstring \<times> json) list" where
  "asRecord (JObj kvs) = kvs"
| "asRecord _ = []"

definition asString :: "json \<Rightarrow> jsstring \<Rightarrow> jsstring" where
  "asString v fallback = (case v of JStr s \<Rightarrow> if s \<noteq> [] then s else fallback | _ \<Rightarrow> fallback)"

section \<open>Events\<close>

record normalizedEvent =
  e_sourceEventId :: jsstring
  e_seq :: "int option"
  e_occurredAt :: jsstring
  e_eventType :: jsstring
  e_source :: jsstring
  e_actor :: jsstring
  e_gate :: jsstring
  e_nodeId :: jsstring
  e_before :: json
  e_after :: json
  e_evidenceRefs :: "jsstring list"
  e_authorityRef :: jsstring
  e_sourceDigest :: jsstring
  e_annotations :: json

text \<open>\<open>s.replace(/:$/, "")\<close>\<close>

definition strip_colon :: "jsstring \<Rightarrow> jsstring" where
  "strip_colon s = (if endsWith s (js '':'') then butlast s else s)"

definition actor_of :: "json \<Rightarrow> jsstring" where
  "actor_of actorRaw =
     (case actorRaw of JStr s \<Rightarrow> s
      | _ \<Rightarrow>
        if is_object actorRaw then
          js_or (strip_colon (js_join (js '':'') (filter (\<lambda>s. s \<noteq> em_dash)
            [asString (fld actorRaw ''kind'') em_dash, asString (fld actorRaw ''id'') em_dash]))) em_dash
        else em_dash)"

definition normalizeEvent :: "json \<Rightarrow> normalizedEvent" where
  "normalizeEvent raw =
     (let eventId = asString (fld raw ''event_id'') (asString (fld raw ''source_event_id'') em_dash);
          stamp = asString (fld raw ''timestamp'') (asString (fld raw ''occurred_at_utc'') em_dash);
          occurred = (if stamp \<noteq> em_dash then stamp else em_dash)
      in \<lparr> e_sourceEventId = eventId, e_seq = num_of (fld raw ''sequence''), e_occurredAt = occurred,
           e_eventType = asString (fld raw ''event_type'') (asString (fld raw ''decision_kind'') em_dash),
           e_source = asString (fld raw ''source'') em_dash, e_actor = actor_of (fld raw ''actor''),
           e_gate = asString (fld raw ''gate'') em_dash, e_nodeId = asString (fld raw ''node_id'') em_dash,
           e_before = or_empty_object (fld raw ''before''), e_after = or_empty_object (fld raw ''after''),
           e_evidenceRefs = filter (\<lambda>r. r \<noteq> []) (map (\<lambda>r. case r of JStr s \<Rightarrow> s | _ \<Rightarrow> render r)
              (asArray (fld raw ''evidence_refs''))),
           e_authorityRef = asString (fld raw ''authority_ref'') em_dash, e_sourceDigest = em_dash,
           e_annotations = or_empty_object (fld raw ''annotations'') \<rparr>)"

section \<open>Run views\<close>

datatype dataSource = Real | Mock

record fixtureBundle =
  b_run :: json
  b_projection :: json

record mockMeta =
  mm_lane :: jsstring
  mm_task :: jsstring
  mm_controller :: jsstring
  mm_executor :: jsstring
  mm_branch :: jsstring
  mm_pr :: jsstring
  mm_exactHead :: jsstring
  mm_ci :: jsstring
  mm_risk :: jsstring
  mm_blocker :: jsstring
  mm_now :: jsstring
  mm_next :: jsstring

definition MOCK_RUN_ID :: jsstring where
  "MOCK_RUN_ID = js ''DW-OBS-M5-20260823-MOCK''"

definition MOCK_META :: mockMeta where
  "MOCK_META = \<lparr> mm_lane = js ''DW Run Observatory'', mm_task = js ''SCRUM-555'',
     mm_controller = js ''ChatGPT TaskController'', mm_executor = js ''Hermes Mac'',
     mm_branch = js ''auto/SCRUM-555-dw-observation-m3m4-r1'', mm_pr = js ''#79'',
     mm_exactHead = js ''5e59c889039968f606d52906c5433a21a4751bd9'',
     mm_ci = js ''Validate workspace #32589399526 = SUCCESS'',
     mm_risk = js ''none (local review / explicit demo anomaly only)'', mm_blocker = js ''none'',
     mm_now = js ''terminal complete / M5 local review'',
     mm_next = js ''human review mock UI + Supabase migration proposal'' \<rparr>"

record runView =
  v_runId :: jsstring
  v_sourceSystem :: jsstring
  v_startedAt :: json
  v_lastEventAt :: json
  v_lane :: jsstring
  v_task :: jsstring
  v_controller :: jsstring
  v_executor :: jsstring
  v_branch :: jsstring
  v_pr :: jsstring
  v_exactHead :: jsstring
  v_ci :: jsstring
  v_risk :: jsstring
  v_blocker :: jsstring
  v_now :: jsstring
  v_next :: jsstring
  v_events_count :: nat
  v_anomalyCount :: nat
  v_events :: "normalizedEvent list"
  v_gates :: "(jsstring \<times> json) list"
  v_nodes :: "(jsstring \<times> json) list"
  v_anomaly_list :: "json list"

definition meta_or_unknown :: "dataSource \<Rightarrow> jsstring \<Rightarrow> (mockMeta \<Rightarrow> jsstring) \<Rightarrow> jsstring" where
  "meta_or_unknown ds runId sel = (if ds = Mock \<and> runId = MOCK_RUN_ID then sel MOCK_META else em_dash)"

definition buildRunView :: "jsstring \<Rightarrow> fixtureBundle \<Rightarrow> dataSource \<Rightarrow> runView" where
  "buildRunView runId b ds =
     (let run = b_run b; proj = b_projection b;
          events = map normalizeEvent (asArray (fld run ''events''));
          anomalies = asArray (fld proj ''anomalies'')
      in \<lparr> v_runId = asString (fld proj ''run_id'') runId,
           v_sourceSystem = asString (fld run ''source_system'') em_dash,
           v_startedAt = or_null (fld proj ''started_at''), v_lastEventAt = or_null (fld proj ''last_event_at''),
           v_lane = meta_or_unknown ds runId mm_lane, v_task = meta_or_unknown ds runId mm_task,
           v_controller = meta_or_unknown ds runId mm_controller, v_executor = meta_or_unknown ds runId mm_executor,
           v_branch = meta_or_unknown ds runId mm_branch, v_pr = meta_or_unknown ds runId mm_pr,
           v_exactHead = meta_or_unknown ds runId mm_exactHead, v_ci = meta_or_unknown ds runId mm_ci,
           v_risk = meta_or_unknown ds runId mm_risk, v_blocker = meta_or_unknown ds runId mm_blocker,
           v_now = meta_or_unknown ds runId mm_now, v_next = meta_or_unknown ds runId mm_next,
           v_events_count = length events, v_anomalyCount = length anomalies,
           v_events = events, v_gates = asRecord (fld proj ''gates''), v_nodes = asRecord (fld proj ''nodes''),
           v_anomaly_list = anomalies \<rparr>)"

type_synonym bundles = "(jsstring \<times> fixtureBundle) list"

definition listRuns :: "bundles \<Rightarrow> dataSource \<Rightarrow> runView list" where
  "listRuns bundles ds = map (\<lambda>i. buildRunView i (the (map_of bundles i)) ds) (own_keys bundles)"

definition getRun :: "bundles \<Rightarrow> jsstring \<Rightarrow> dataSource \<Rightarrow> runView option" where
  "getRun bundles runId ds = map_option (\<lambda>b. buildRunView runId b ds) (map_of bundles runId)"

section \<open>Hierarchy\<close>

datatype hierarchyKind = K_root | K_gate | K_node | K_issue

record hierarchyNode =
  hn_id :: jsstring
  hn_kind :: hierarchyKind
  hn_label :: jsstring
  hn_status :: jsstring
  hn_detail :: "jsstring option"
  hn_sourceBacked :: bool

record connector =
  cn_from :: jsstring
  cn_to :: jsstring
  cn_label :: jsstring

record runHierarchy =
  rh_rootId :: jsstring
  rh_chain :: "jsstring list"
  rh_gateIds :: "jsstring list"
  rh_nodes :: "hierarchyNode list"
  rh_connectors :: "connector list"

definition conn :: "string \<Rightarrow> string \<Rightarrow> string \<Rightarrow> connector" where
  "conn a b l = \<lparr> cn_from = js a, cn_to = js b, cn_label = js l \<rparr>"

definition DAG_EDGES :: "(jsstring \<times> connector list) list" where
  "DAG_EDGES = [(MOCK_RUN_ID, [
     conn ''node:70'' ''node:71'' ''parent -> M0'', conn ''node:71'' ''node:72'' ''M0 -> M1'',
     conn ''node:72'' ''node:73'' ''M1 -> M2'', conn ''node:73'' ''node:74'' ''M2 -> M3'',
     conn ''node:74'' ''node:75'' ''M3 -> M4'',
     conn ''gate:G2-DW-OBS-M3M4-20260823-R1'' ''node:71'' ''G2 approves M0'',
     conn ''gate:G3'' ''node:74'' ''G3 reviews M3'',
     conn ''gate:G4-DW-OBS-M3M4-20260823-R1'' ''node:74'' ''G4 consumes M3''])]"

definition MOCK_CHAIN :: "jsstring list" where
  "MOCK_CHAIN = map js [''#70'', ''#71'', ''#72'', ''#73'', ''#74'', ''#75'', ''#80'']"

definition MOCK_GATES :: "jsstring list" where
  "MOCK_GATES = map js [''G2-DW-OBS-M3M4-20260823-R1'', ''G3'', ''G4-DW-OBS-M3M4-20260823-R1'']"

definition MOCK_CONNECTORS :: "connector list" where
  "MOCK_CONNECTORS = [
     conn ''#70'' ''#71'' ''parent -> M0'', conn ''#71'' ''#72'' ''M0 -> M1'', conn ''#72'' ''#73'' ''M1 -> M2'',
     conn ''#73'' ''#74'' ''M2 -> M3'', conn ''#74'' ''#75'' ''M3 -> M4'', conn ''#75'' ''#80'' ''M4 -> review issue'',
     conn ''G2-DW-OBS-M3M4-20260823-R1'' ''#71'' ''G2 approves M0'', conn ''G3'' ''#74'' ''G3 reviews M3'',
     conn ''G4-DW-OBS-M3M4-20260823-R1'' ''#74'' ''G4 consumes M3'']"

definition MOCK_NODE_LABELS :: "(jsstring \<times> jsstring) list" where
  "MOCK_NODE_LABELS = map (map_prod js js) [(''#70'', ''Parent SCRUM-555''), (''#71'', ''M0''), (''#72'', ''M1''),
     (''#73'', ''M2''), (''#74'', ''M3''), (''#75'', ''M4''), (''#80'', ''M5 review issue'')]"

definition statusOf :: "(jsstring \<times> json) list \<Rightarrow> jsstring \<Rightarrow> jsstring" where
  "statusOf m i = (case map_of m i of None \<Rightarrow> em_dash
     | Some entry \<Rightarrow>
         if \<not> truthy entry then em_dash
         else (let s = (if nullish (fld entry ''status'') then fld entry ''node'' else fld entry ''status'')
               in case s of JStr x \<Rightarrow> x | _ \<Rightarrow> em_dash))"

text \<open>\<open>id.replace("#", "")\<close>: the first occurrence only.\<close>

fun drop_hash :: "jsstring \<Rightarrow> jsstring" where
  "drop_hash [] = []"
| "drop_hash (c # s) = (if c = 35 then s else c # drop_hash s)"

definition mock_node :: "runView \<Rightarrow> jsstring \<Rightarrow> hierarchyNode" where
  "mock_node run i = \<lparr> hn_id = i,
     hn_kind = (if i = js ''#70'' then K_root else if i = js ''#80'' then K_issue else K_node),
     hn_label = (case map_of MOCK_NODE_LABELS i of Some l \<Rightarrow> l | None \<Rightarrow> i),
     hn_status = (if i = js ''#80'' then js ''correction_required (active)'' else statusOf (v_nodes run) (drop_hash i)),
     hn_detail = None, hn_sourceBacked = True \<rparr>"

definition mock_gate :: "runView \<Rightarrow> jsstring \<Rightarrow> hierarchyNode" where
  "mock_gate run g = \<lparr> hn_id = g, hn_kind = K_gate,
     hn_label = (if startsWith g (js ''G2'') then js ''G2'' else if g = js ''G3'' then js ''G3'' else js ''G4''),
     hn_status = statusOf (v_gates run) g,
     hn_detail = Some (if startsWith g (js ''G2'') then js ''lane approval''
                       else if g = js ''G3'' then js ''independent review'' else js ''consumed/merged''),
     hn_sourceBacked = True \<rparr>"

definition buildHierarchy :: "runView \<Rightarrow> dataSource \<Rightarrow> runHierarchy" where
  "buildHierarchy run ds =
     (if ds = Mock \<and> v_runId run = MOCK_RUN_ID then
        let nodes = map (mock_node run) MOCK_CHAIN; gateNodes = map (mock_gate run) MOCK_GATES
        in \<lparr> rh_rootId = js ''#70'', rh_chain = MOCK_CHAIN, rh_gateIds = MOCK_GATES,
             rh_nodes = [nodes ! 0, gateNodes ! 0, nodes ! 1, nodes ! 2, nodes ! 3, nodes ! 4,
                         gateNodes ! 1, gateNodes ! 2, nodes ! 5, nodes ! 6],
             rh_connectors = MOCK_CONNECTORS \<rparr>
      else
        let chain = map (\<lambda>n. js ''#'' @ n) (own_keys (v_nodes run)); gateIds = own_keys (v_gates run)
        in \<lparr> rh_rootId = (if chain = [] then em_dash else hd chain), rh_chain = chain, rh_gateIds = gateIds,
             rh_nodes =
               map (\<lambda>i. \<lparr> hn_id = i, hn_kind = K_node, hn_label = i,
                  hn_status = statusOf (v_nodes run) (drop_hash i), hn_detail = None, hn_sourceBacked = True \<rparr>) chain @
               map (\<lambda>g. \<lparr> hn_id = g, hn_kind = K_gate, hn_label = g,
                  hn_status = statusOf (v_gates run) g, hn_detail = None, hn_sourceBacked = True \<rparr>) gateIds,
             rh_connectors = [] \<rparr>)"

section \<open>Mock projection events\<close>

definition put_when :: "bool \<Rightarrow> string \<Rightarrow> json \<Rightarrow> json \<Rightarrow> json" where
  "put_when c k v o1 = (if c then jput k v o1 else o1)"

definition mock_event :: "jsstring \<Rightarrow> normalizedEvent \<Rightarrow> event" where
  "mock_event runId e =
     (let ev = JObj [
        (js ''run_id'', JStr runId), (js ''source_system'', JStr (e_source e)),
        (js ''source_event_id'', JStr (e_sourceEventId e)), (js ''occurred_at'', JStr (e_occurredAt e)),
        (js ''event_type'', JStr (e_eventType e)), (js ''actor'', JStr (e_actor e)),
        (js ''before'', e_before e), (js ''after'', e_after e),
        (js ''evidence_refs'', JArr (map JStr (e_evidenceRefs e)))]
      in put_when (e_authorityRef e \<noteq> []) ''authority_ref'' (JStr (e_authorityRef e))
           (put_when (e_nodeId e \<noteq> []) ''node_id'' (JStr (e_nodeId e))
             (put_when (e_gate e \<noteq> []) ''gate'' (JStr (e_gate e))
               (put_when (e_seq e \<noteq> None) ''sequence'' (JNum (the (e_seq e))) ev))))"

definition getMockProjectionEvents :: "bundles \<Rightarrow> jsstring \<Rightarrow> event list" where
  "getMockProjectionEvents bundles runId =
     (case getRun bundles runId Mock of None \<Rightarrow> [] | Some run \<Rightarrow> map (mock_event runId) (v_events run))"

section \<open>Lemmas\<close>

lemma drop_hash_hash [simp]: "drop_hash (js ''#'' @ n) = n"
  by (simp add: js_def unit_of_def)

definition meta_fields :: "runView \<Rightarrow> jsstring list" where
  "meta_fields v = [v_lane v, v_task v, v_controller v, v_executor v, v_branch v, v_pr v, v_exactHead v,
     v_ci v, v_risk v, v_blocker v, v_now v, v_next v]"

lemma real_metadata_unknown: "ds = Real \<or> rid \<noteq> MOCK_RUN_ID \<Longrightarrow> meta_fields (buildRunView rid b ds) = replicate 12 em_dash"
  by (auto simp: meta_fields_def buildRunView_def Let_def meta_or_unknown_def eval_nat_numeral)

lemma asString_ne_Nil: "d \<noteq> [] \<Longrightarrow> asString v d \<noteq> []"
  by (auto simp: asString_def split: json.split)

definition plain_object :: "json \<Rightarrow> bool" where
  "plain_object v \<longleftrightarrow> (\<exists>kvs. v = JObj kvs)"

lemma plain_object_put_when [simp]: "plain_object w \<Longrightarrow> plain_object (put_when c k v w)"
  by (auto simp: plain_object_def put_when_def)

lemma plain_object_JObj [simp]: "plain_object (JObj kvs)"
  by (simp add: plain_object_def)

lemma fld_put_when [simp]: "plain_object w \<Longrightarrow> fld (put_when c k v w) k' = (if c \<and> k' = k then v else fld w k')"
  by (auto simp: plain_object_def put_when_def simp del: jput.simps)

lemma mock_event_fields:
  "fld (mock_event rid e) ''gate'' = (if e_gate e \<noteq> [] then JStr (e_gate e) else JUndef)"
  "fld (mock_event rid e) ''node_id'' = (if e_nodeId e \<noteq> [] then JStr (e_nodeId e) else JUndef)"
  "fld (mock_event rid e) ''authority_ref'' = (if e_authorityRef e \<noteq> [] then JStr (e_authorityRef e) else JUndef)"
  "fld (mock_event rid e) ''sequence'' = (case e_seq e of None \<Rightarrow> JUndef | Some n \<Rightarrow> JNum n)"
  by (simp_all add: mock_event_def js_eval split: option.split)

section \<open>Properties\<close>

text \<open>
  The hierarchy of a real run is what the run records: one card per recorded node and gate, in
  the enumeration order of the record, each with the recorded status, whatever characters its name
  has; no connector is ever invented, and the view's metadata stay UNKNOWN.
\<close>

theorem real_hierarchy_is_recorded:
  "let run = buildRunView rid b Real; h = buildHierarchy run Real in
   map hn_id (rh_nodes h) = map (\<lambda>n. js ''#'' @ n) (own_keys (v_nodes run)) @ own_keys (v_gates run) \<and>
   map hn_status (rh_nodes h) =
     map (statusOf (v_nodes run)) (own_keys (v_nodes run)) @ map (statusOf (v_gates run)) (own_keys (v_gates run)) \<and>
   set (own_keys (v_nodes run)) = fst ` set (v_nodes run) \<and> rh_connectors h = [] \<and>
   meta_fields run = replicate 12 em_dash"
proof -
  have "map (\<lambda>n. statusOf m (drop_hash (js ''#'' @ n))) ns = map (statusOf m) ns" for m ns
    by (simp only: drop_hash_hash)
  then show ?thesis
    by (simp add: Let_def buildHierarchy_def comp_def own_keys_set real_metadata_unknown)
qed

text \<open>
  The mock event source turns an absent value into data. An event that records neither a gate, a
  node nor an authority comes out with all three set to the UNKNOWN placeholder, because the guards
  test for an empty string and normalisation never produces one; the review then reports the
  placeholder as an authority reference.
\<close>

theorem mock_source_fabricates_fields:
  assumes "fld raw ''gate'' = JUndef" and "fld raw ''node_id'' = JUndef" and "fld raw ''authority_ref'' = JUndef"
  shows "fld (mock_event rid (normalizeEvent raw)) ''gate'' = JStr em_dash \<and>
    fld (mock_event rid (normalizeEvent raw)) ''node_id'' = JStr em_dash \<and>
    tr_authorityRef (traceOf (mock_event rid (normalizeEvent raw))) = Some em_dash"
  using assms by (simp add: mock_event_fields normalizeEvent_def Let_def asString_def traceOf_def)

theorem mock_source_fabricates_fields_witness:
  "map (\<lambda>e. fld e ''gate'') (getMockProjectionEvents
     [(js ''r'', \<lparr> b_run = JObj [(js ''events'', JArr [JObj []])], b_projection = JObj [] \<rparr>)] (js ''r'')) = [JStr em_dash]"
  using mock_source_fabricates_fields [of "JObj []" "js ''r''"]
  by (simp add: getMockProjectionEvents_def getRun_def buildRunView_def Let_def js_eval)

end
