(* ===== verification/SimRun.thy ===== *)
theory SimRun
  imports JsonText
begin

text \<open>
  The simulated run: the timeline and cursor functions of \<open>lib/simRun.ts\<close> and the player state
  machine of \<open>components/sim/SimRunView.tsx\<close>, artifact previews included. A timer tick is a step of the machine; an
  operation that throws returns \<open>None\<close>.
\<close>

section \<open>Data\<close>

record historyEvent =
  he_event_id :: jsstring
  he_type :: jsstring
  he_actor :: jsstring
  he_outcome :: jsstring
  he_evidence :: "jsstring list option"

record checkpoint =
  cp_checkpoint_id :: jsstring
  cp_revision :: int
  cp_current_node_id :: jsstring
  cp_next_node_id :: jsstring
  cp_lease_owner :: jsstring
  cp_fencing_token :: jsstring
  cp_status :: jsstring

record simNode =
  sn_node_id :: jsstring
  sn_title :: jsstring
  sn_description :: jsstring
  sn_node_type :: jsstring
  sn_family :: jsstring
  sn_authority_boundary :: jsstring
  sn_catalog_path :: "jsstring option"
  sn_source_status :: "jsstring option"
  sn_maturity :: "jsstring option"
  sn_implementation_refs :: "jsstring list option"
  sn_declared_gates :: "jsstring list option"
  sn_canonical :: "jsstring option"
  sn_gate_id :: jsstring
  sn_gate_label :: "jsstring option"
  sn_sequence :: int
  sn_node_label :: "jsstring option"
  sn_artifacts :: "jsstring list"
  sn_reads :: "jsstring list"
  sn_runbook :: "jsstring list"
  sn_taskcontroller_history :: "historyEvent list"
  sn_executor_history :: "historyEvent list"
  sn_checkpoints :: "checkpoint list"
  sn_options :: "jsstring list option"

record simGate =
  sg_id :: jsstring
  sg_label :: jsstring
  sg_summary :: jsstring
  sg_nodes :: "simNode list"
  sg_gate_artifacts :: "jsstring list"
  sg_taskcontroller_history :: "historyEvent list"
  sg_executor_history :: "historyEvent list"

record simRun =
  sr_run_id :: jsstring
  sr_task_id :: jsstring
  sr_repository :: jsstring
  sr_base_branch :: jsstring
  sr_base_sha :: jsstring
  sr_graph_revision :: json
  sr_status :: jsstring
  sr_source_basis :: json
  sr_gates :: "simGate list"

datatype nodeState = Done | Active | Future

record timelineStep =
  ts_gate_id :: jsstring
  ts_node_id :: jsstring
  ts_sequence :: int

datatype selection = SelNode jsstring jsstring | SelGate jsstring

section \<open>Timeline\<close>

definition getGate :: "simRun \<Rightarrow> jsstring \<Rightarrow> simGate option" where
  "getGate run gateId = find (\<lambda>g. sg_id g = gateId) (sr_gates run)"

definition getNode :: "simRun \<Rightarrow> jsstring \<Rightarrow> jsstring \<Rightarrow> simNode option" where
  "getNode run gateId nodeId =
     (case getGate run gateId of None \<Rightarrow> None
      | Some g \<Rightarrow> find (\<lambda>n. sn_node_id n = nodeId) (sg_nodes g))"

definition step_of :: "simNode \<Rightarrow> timelineStep" where
  "step_of n = \<lparr> ts_gate_id = sn_gate_id n, ts_node_id = sn_node_id n, ts_sequence = sn_sequence n \<rparr>"

definition seq_cmp :: "simNode \<Rightarrow> simNode \<Rightarrow> int" where
  "seq_cmp a b = sn_sequence a - sn_sequence b"

definition buildTimeline :: "simRun \<Rightarrow> timelineStep list" where
  "buildTimeline run = map step_of (js_sort seq_cmp (concat (map sg_nodes (sr_gates run))))"

definition timelineLength :: "simRun \<Rightarrow> nat" where
  "timelineLength run = length (buildTimeline run)"

text \<open>\<open>findIndex\<close>, with \<open>-1\<close> for no match.\<close>

fun find_index :: "('a \<Rightarrow> bool) \<Rightarrow> 'a list \<Rightarrow> int" where
  "find_index P [] = -1"
| "find_index P (x # xs) = (if P x then 0 else let i = find_index P xs in if i < 0 then -1 else i + 1)"

definition is_step :: "jsstring \<Rightarrow> jsstring \<Rightarrow> timelineStep \<Rightarrow> bool" where
  "is_step gateId nodeId s \<longleftrightarrow> ts_gate_id s = gateId \<and> ts_node_id s = nodeId"

definition indexOfNode :: "simRun \<Rightarrow> jsstring \<Rightarrow> jsstring \<Rightarrow> int" where
  "indexOfNode run gateId nodeId = find_index (is_step gateId nodeId) (buildTimeline run)"

definition nodeStateAt :: "simRun \<Rightarrow> jsstring \<Rightarrow> jsstring \<Rightarrow> int \<Rightarrow> nodeState" where
  "nodeStateAt run gateId nodeId cursor =
     (let ix = indexOfNode run gateId nodeId in
      if ix < 0 then Future else if ix < cursor then Done else if ix = cursor then Active else Future)"

definition step_at :: "simRun \<Rightarrow> int \<Rightarrow> timelineStep option" where
  "step_at run cursor = (if 0 \<le> cursor \<and> nat cursor < timelineLength run
     then Some (buildTimeline run ! nat cursor) else None)"

definition activeGateIdAt :: "simRun \<Rightarrow> int \<Rightarrow> jsstring option" where
  "activeGateIdAt run cursor = map_option ts_gate_id (step_at run cursor)"

definition clampCursor :: "simRun \<Rightarrow> int \<Rightarrow> int" where
  "clampCursor run cursor =
     (let len = int (timelineLength run) in
      if len = 0 then 0 else max 0 (min (len - 1) cursor))"

definition selectedNodeAt :: "simRun \<Rightarrow> int \<Rightarrow> selection" where
  "selectedNodeAt run cursor =
     (case step_at run (clampCursor run cursor) of
        None \<Rightarrow> SelGate (if sr_gates run = [] then [] else sg_id (hd (sr_gates run)))
      | Some s \<Rightarrow> SelNode (ts_gate_id s) (ts_node_id s))"

definition isGateActiveAt :: "simRun \<Rightarrow> jsstring \<Rightarrow> int \<Rightarrow> bool" where
  "isGateActiveAt run gateId cursor = (activeGateIdAt run cursor = Some gateId)"

section \<open>Artifact previews\<close>

fun state_name :: "nodeState \<Rightarrow> jsstring" where
  "state_name Done = js ''done''"
| "state_name Active = js ''active''"
| "state_name Future = js ''future''"

definition history_json :: "historyEvent \<Rightarrow> json" where
  "history_json e = JObj [(js ''event_id'', JStr (he_event_id e)), (js ''type'', JStr (he_type e)),
     (js ''actor'', JStr (he_actor e)), (js ''outcome'', JStr (he_outcome e)), (js ''evidence'', opt_strs (he_evidence e))]"

definition artifact_yaml :: "simRun \<Rightarrow> jsstring \<Rightarrow> simGate option \<Rightarrow> simNode option \<Rightarrow> jsstring \<Rightarrow> jsstring" where
  "artifact_yaml run path gate node status = js_join [10] (
     [js ''run_id: '' @ sr_run_id run,
      js ''task_id: '' @ sr_task_id run,
      js ''repository: '' @ sr_repository run,
      js ''gate: '' @ hole_text (map_option sg_id gate),
      js ''node_id: '' @ (case node of Some n \<Rightarrow> sn_node_id n | None \<Rightarrow> js ''gate-summary''),
      js ''node_family: '' @ (case node of Some n \<Rightarrow> sn_family n | None \<Rightarrow> js ''gate''),
      js ''artifact_path: '' @ path,
      js ''status: '' @ status,
      js ''source_basis:'',
      js ''  - core/GATE_LIFECYCLE_CONTRACT_v1.0.md'',
      js ''  - schemas/node-architect/runtime-node.schema.json'',
      js ''evidence:''] @
     map (\<lambda>x. js ''  - '' @ x)
       (case node of Some n \<Rightarrow> sn_reads n | None \<Rightarrow> (case gate of Some g \<Rightarrow> sg_gate_artifacts g | None \<Rightarrow> [])))"

definition artifact_json :: "simRun \<Rightarrow> jsstring \<Rightarrow> jsstring \<Rightarrow> simGate option \<Rightarrow> simNode option \<Rightarrow> json" where
  "artifact_json run path kind gate node = JObj [
     (js ''run_id'', JStr (sr_run_id run)), (js ''task_id'', JStr (sr_task_id run)),
     (js ''repository'', JStr (sr_repository run)), (js ''base_sha'', JStr (sr_base_sha run)),
     (js ''gate'', opt_str (map_option sg_id gate)), (js ''artifact_path'', JStr path), (js ''kind'', JStr kind),
     (js ''node'', case node of None \<Rightarrow> JNull | Some n \<Rightarrow> JObj [
        (js ''node_id'', JStr (sn_node_id n)), (js ''family'', JStr (sn_family n)), (js ''node_type'', JStr (sn_node_type n)),
        (js ''authority_boundary'', JStr (sn_authority_boundary n)), (js ''source_status'', opt_str (sn_source_status n)),
        (js ''maturity'', opt_str (sn_maturity n)), (js ''declared_gates'', opt_strs (sn_declared_gates n)),
        (js ''implementation_refs'', opt_strs (sn_implementation_refs n))]),
     (js ''gate_history'', case gate of None \<Rightarrow> JNull | Some g \<Rightarrow> JObj [
        (js ''taskcontroller'', JArr (map history_json (sg_taskcontroller_history g))),
        (js ''executor'', JArr (map history_json (sg_executor_history g)))])]"

text \<open>\<open>None\<close> is the exception for a node without a gate.\<close>

definition artifactContent :: "simRun \<Rightarrow> jsstring \<Rightarrow> jsstring \<Rightarrow> simGate option \<Rightarrow> simNode option \<Rightarrow> jsstring option" where
  "artifactContent run path kind gate node =
     (if endsWith path (js ''.yaml'') \<or> endsWith path (js ''.yml'') then
        (case node of
           None \<Rightarrow> Some (artifact_yaml run path gate node (js ''gate''))
         | Some n \<Rightarrow> map_option (\<lambda>g. artifact_yaml run path gate node (state_name (nodeStateAt run (sg_id g) (sn_node_id n) 0))) gate)
      else if endsWith path (js ''.json'') then Some (stringify2 (artifact_json run path kind gate node))
      else Some (path @ [10, 10] @ js ''Referenced by '' @
        (case node of Some n \<Rightarrow> sn_node_id n | None \<Rightarrow> hole_text (map_option sg_id gate)) @ js ''.''))"

definition first_gate :: "simRun \<Rightarrow> simGate option" where
  "first_gate run = (case sr_gates run of g # _ \<Rightarrow> Some g | [] \<Rightarrow> None)"

section \<open>The player\<close>

datatype playMode = P_REPLAY | P_LIVE

record simView =
  sv_cursor :: int
  sv_mode :: playMode
  sv_speed :: int
  sv_playing :: bool
  sv_timer :: bool
  sv_selection :: selection
  sv_modal :: "(jsstring \<times> jsstring) option"
  sv_activeTab :: jsstring

definition sim_mount :: "simRun \<Rightarrow> simView" where
  "sim_mount run = \<lparr> sv_cursor = 0, sv_mode = P_REPLAY, sv_speed = 750, sv_playing = False, sv_timer = False,
     sv_selection = selectedNodeAt run 0, sv_modal = None, sv_activeTab = js ''overview'' \<rparr>"

definition sim_stop :: "simView \<Rightarrow> simView" where
  "sim_stop v = v\<lparr>sv_timer := False, sv_playing := False\<rparr>"

text \<open>The clean-up when the page is left.\<close>

definition sim_unmount :: "simView \<Rightarrow> simView" where
  "sim_unmount v = sim_stop v"

definition sim_play :: "simView \<Rightarrow> simView" where
  "sim_play v = (if sv_timer v then sim_stop v else v\<lparr>sv_playing := True, sv_timer := True\<rparr>)"

definition select_step :: "timelineStep \<Rightarrow> simView \<Rightarrow> simView" where
  "select_step s v = v\<lparr>sv_selection := SelNode (ts_gate_id s) (ts_node_id s)\<rparr>"

text \<open>The interval callback; it fires only while the timer is set.\<close>

definition sim_tick :: "simRun \<Rightarrow> simView \<Rightarrow> simView option" where
  "sim_tick run v =
     (if \<not> sv_timer v then Some v
      else if sv_cursor v \<ge> int (timelineLength run) - 1 then Some (sim_stop v)
      else let nxt = sv_cursor v + 1 in
        case step_at run nxt of None \<Rightarrow> None
        | Some s \<Rightarrow> Some ((select_step s v)\<lparr>sv_cursor := nxt\<rparr>))"

text \<open>\<open>setMode\<close> and the effect it triggers, which runs only when the mode changes.\<close>

definition sim_mode :: "simRun \<Rightarrow> playMode \<Rightarrow> simView \<Rightarrow> simView option" where
  "sim_mode run m v =
     (if m = sv_mode v then Some v
      else let v1 = v\<lparr>sv_mode := m\<rparr> in
        if m = P_LIVE then
          (case step_at run 0 of None \<Rightarrow> None
           | Some s \<Rightarrow> Some (sim_play (select_step s ((sim_stop v1)\<lparr>sv_cursor := 0\<rparr>))))
        else Some (sim_stop v1))"

definition goTo :: "simRun \<Rightarrow> int \<Rightarrow> simView \<Rightarrow> simView" where
  "goTo run c v =
     (let clamped = clampCursor run c
      in (sim_stop v)\<lparr>sv_cursor := clamped, sv_selection := selectedNodeAt run clamped\<rparr>)"

definition onSelectNode :: "simRun \<Rightarrow> jsstring \<Rightarrow> jsstring \<Rightarrow> simView \<Rightarrow> simView" where
  "onSelectNode run gateId nodeId v =
     (sim_stop v)\<lparr>sv_selection := SelNode gateId nodeId,
       sv_cursor := clampCursor run (find_index (is_step gateId nodeId) (buildTimeline run))\<rparr>"

definition onSelectGate :: "jsstring \<Rightarrow> simView \<Rightarrow> simView" where
  "onSelectGate gateId v = (sim_stop v)\<lparr>sv_selection := SelGate gateId\<rparr>"

fun sel_gate :: "simRun \<Rightarrow> selection \<Rightarrow> simGate option" where
  "sel_gate run (SelNode g n) = getGate run g"
| "sel_gate run (SelGate g) = getGate run g"

fun sel_node :: "simRun \<Rightarrow> selection \<Rightarrow> simNode option" where
  "sel_node run (SelNode g n) = getNode run g n"
| "sel_node run (SelGate g) = None"

definition openArtifact :: "simRun \<Rightarrow> jsstring \<Rightarrow> jsstring \<Rightarrow> simView \<Rightarrow> simView option" where
  "openArtifact run path kind v =
     (let gate = sel_gate run (sv_selection v); node = sel_node run (sv_selection v) in
      map_option (\<lambda>body. v\<lparr>sv_modal := Some (path, body)\<rparr>)
        (artifactContent run path kind (case gate of Some g \<Rightarrow> Some g | None \<Rightarrow> first_gate run) node))"

datatype simAction =
    STick
  | SFirst
  | SPrev
  | SPlayToggle
  | SNext
  | SLast
  | SScrub int
  | SMode playMode
  | SSpeed int
  | SSelectNode jsstring jsstring
  | SSelectGate jsstring
  | SOpen jsstring jsstring
  | SCloseModal
  | STab jsstring

fun sim_act :: "simRun \<Rightarrow> simAction \<Rightarrow> simView \<Rightarrow> simView option" where
  "sim_act run STick v = sim_tick run v"
| "sim_act run SFirst v = Some (goTo run 0 v)"
| "sim_act run SPrev v = Some (goTo run (sv_cursor v - 1) v)"
| "sim_act run SPlayToggle v = Some (sim_play v)"
| "sim_act run SNext v = Some (goTo run (sv_cursor v + 1) v)"
| "sim_act run SLast v = Some (goTo run (int (timelineLength run) - 1) v)"
| "sim_act run (SScrub c) v = Some (goTo run c v)"
| "sim_act run (SMode m) v = sim_mode run m v"
| "sim_act run (SSpeed ms) v = Some (v\<lparr>sv_speed := ms\<rparr>)"
| "sim_act run (SSelectNode g n) v = Some (onSelectNode run g n v)"
| "sim_act run (SSelectGate g) v = Some (onSelectGate g v)"
| "sim_act run (SOpen path kind) v = openArtifact run path kind v"
| "sim_act run SCloseModal v = Some (v\<lparr>sv_modal := None\<rparr>)"
| "sim_act run (STab tab) v = Some (v\<lparr>sv_activeTab := tab\<rparr>)"

text \<open>A card can be clicked only if its node is on the timeline.\<close>

fun clickable :: "simRun \<Rightarrow> simAction \<Rightarrow> bool" where
  "clickable run (SSelectNode g n) = (indexOfNode run g n \<ge> 0)"
| "clickable run _ = True"

inductive sim_reachable :: "simRun \<Rightarrow> simView \<Rightarrow> bool" for run where
  mounted: "sim_reachable run (sim_mount run)"
| acted: "sim_reachable run v \<Longrightarrow> clickable run a \<Longrightarrow> sim_act run a v = Some v' \<Longrightarrow> sim_reachable run v'"

section \<open>Lemmas\<close>

interpretation seq_order: js_comparator seq_cmp
  by unfold_locales (auto simp: seq_cmp_def)

lemma find_index_range: "find_index P xs \<ge> -1 \<and> find_index P xs < int (length xs)"
  by (induction xs) (auto simp: Let_def)

lemma find_index_hit: "find_index P xs \<ge> 0 \<Longrightarrow> P (xs ! nat (find_index P xs))"
proof (induction xs)
  case (Cons x xs)
  show ?case
  proof (cases "P x")
    case False
    with Cons.prems have "find_index P xs \<ge> 0" "find_index P (x # xs) = find_index P xs + 1"
      by (auto simp: Let_def split: if_splits)
    with Cons.IH show ?thesis by (simp add: nat_add_distrib)
  qed simp
qed simp

lemma find_index_miss: "find_index P xs < 0 \<Longrightarrow> x \<in> set xs \<Longrightarrow> \<not> P x"
  by (induction xs) (auto simp: Let_def split: if_splits)

lemma find_index_first:
  "i < length xs \<Longrightarrow> P (xs ! i) \<Longrightarrow> (\<And>j. j < i \<Longrightarrow> \<not> P (xs ! j)) \<Longrightarrow> find_index P xs = int i"
proof (induction xs arbitrary: i)
  case (Cons x xs)
  show ?case
  proof (cases i)
    case (Suc k)
    have "\<not> P x" using Cons.prems(3) [of 0] Suc by simp
    moreover have "find_index P xs = int k" using Cons.prems Suc by (intro Cons.IH) force+
    ultimately show ?thesis by (simp add: Suc)
  qed (use Cons in simp)
qed simp

lemma clampCursor_range:
  "0 \<le> clampCursor run c \<and> (timelineLength run > 0 \<longrightarrow> nat (clampCursor run c) < timelineLength run) \<and>
   (timelineLength run = 0 \<longrightarrow> clampCursor run c = 0)"
  by (auto simp: clampCursor_def Let_def)

lemma clampCursor_id: "0 \<le> c \<Longrightarrow> nat c < timelineLength run \<Longrightarrow> clampCursor run c = c"
  by (auto simp: clampCursor_def Let_def)

lemma clampCursor_idem [simp]: "clampCursor run (clampCursor run c) = clampCursor run c"
  by (auto simp: clampCursor_def Let_def)

text \<open>The selection is a gate, or the node the cursor is on.\<close>

definition follows :: "simRun \<Rightarrow> simView \<Rightarrow> bool" where
  "follows run v \<longleftrightarrow> (case sv_selection v of SelGate _ \<Rightarrow> True
     | SelNode g n \<Rightarrow> (case step_at run (sv_cursor v) of None \<Rightarrow> False | Some s \<Rightarrow> is_step g n s))"

lemma follows_cong: "sv_selection v' = sv_selection v \<Longrightarrow> sv_cursor v' = sv_cursor v \<Longrightarrow> follows run v' = follows run v"
  by (simp add: follows_def split: selection.split)

lemma follows_updates [simp]:
  "follows run (v\<lparr>sv_timer := b\<rparr>) = follows run v" "follows run (v\<lparr>sv_playing := b\<rparr>) = follows run v"
  "follows run (v\<lparr>sv_speed := n\<rparr>) = follows run v" "follows run (v\<lparr>sv_modal := p\<rparr>) = follows run v"
  "follows run (v\<lparr>sv_activeTab := s\<rparr>) = follows run v" "follows run (v\<lparr>sv_mode := m\<rparr>) = follows run v"
  "follows run (v\<lparr>sv_selection := SelGate g\<rparr>)"
  by (rule follows_cong; simp)+ (simp add: follows_def)

lemma follows_step:
  "step_at run c = Some s \<Longrightarrow> sv_cursor v = c \<Longrightarrow> sv_selection v = SelNode (ts_gate_id s) (ts_node_id s) \<Longrightarrow> follows run v"
  by (simp add: follows_def is_step_def)

definition sim_ok :: "simRun \<Rightarrow> simView \<Rightarrow> bool" where
  "sim_ok run v \<longleftrightarrow> clampCursor run (sv_cursor v) = sv_cursor v \<and> (sv_playing v \<longleftrightarrow> sv_timer v) \<and> follows run v"

lemma follows_selected: "clampCursor run c = c \<Longrightarrow> follows run (v\<lparr>sv_cursor := c, sv_selection := selectedNodeAt run c\<rparr>)"
  by (auto simp: follows_def selectedNodeAt_def is_step_def split: option.split)

lemma sim_ok_mount: "sim_ok run (sim_mount run)"
proof -
  have "clampCursor run 0 = 0" by (auto simp: clampCursor_def Let_def)
  then show ?thesis using follows_selected [of run 0 "sim_mount run"] by (simp add: sim_ok_def sim_mount_def)
qed

lemma sim_ok_goTo: "sim_ok run (goTo run c v)"
  using follows_selected [of run "clampCursor run c" "sim_stop v"]
  by (simp add: sim_ok_def goTo_def Let_def sim_stop_def)

lemma sim_ok_select:
  assumes "indexOfNode run g n \<ge> 0"
  shows "sim_ok run (onSelectNode run g n v)"
proof -
  let ?i = "find_index (is_step g n) (buildTimeline run)"
  have i: "0 \<le> ?i" "nat ?i < timelineLength run"
    using assms find_index_range [of "is_step g n" "buildTimeline run"]
    by (auto simp: indexOfNode_def timelineLength_def)
  then have "is_step g n (buildTimeline run ! nat ?i)" using find_index_hit by blast
  with i clampCursor_id [OF i] show ?thesis
    by (simp add: sim_ok_def onSelectNode_def follows_def step_at_def sim_stop_def)
qed

lemma sim_ok_cursor: "sim_ok run v \<Longrightarrow> 0 \<le> sv_cursor v"
  using clampCursor_range [of run "sv_cursor v"] by (simp add: sim_ok_def)

lemma sim_ok_tick: "sim_ok run v \<Longrightarrow> \<exists>v'. sim_tick run v = Some v' \<and> sim_ok run v'"
proof -
  assume ok: "sim_ok run v"
  show ?thesis
  proof (cases "sv_timer v \<and> sv_cursor v < int (timelineLength run) - 1")
    case True
    then have c: "0 \<le> sv_cursor v + 1" "nat (sv_cursor v + 1) < timelineLength run"
      using sim_ok_cursor [OF ok] by auto
    then have "step_at run (sv_cursor v + 1) = Some (buildTimeline run ! nat (sv_cursor v + 1))"
      by (simp add: step_at_def)
    with True ok clampCursor_id [OF c] show ?thesis
      by (simp add: sim_tick_def Let_def sim_ok_def follows_def select_step_def is_step_def)
  qed (use ok in \<open>auto simp: sim_tick_def sim_ok_def sim_stop_def\<close>)
qed

lemma sim_ok_mode: "sim_ok run v \<Longrightarrow> sim_mode run m v = Some v' \<Longrightarrow> sim_ok run v'"
proof -
  assume ok: "sim_ok run v" and act: "sim_mode run m v = Some v'"
  show ?thesis
  proof (cases "m = sv_mode v \<or> m = P_REPLAY")
    case True
    with ok act show ?thesis by (auto simp: sim_mode_def Let_def sim_ok_def sim_stop_def split: if_splits)
  next
    case False
    then have "m = P_LIVE" by (cases m) auto
    with False act obtain s where s: "step_at run 0 = Some s"
        "v' = sim_play (select_step s ((sim_stop (v\<lparr>sv_mode := m\<rparr>))\<lparr>sv_cursor := 0\<rparr>))"
      by (auto simp: sim_mode_def Let_def split: option.splits)
    have "clampCursor run 0 = 0" by (auto simp: clampCursor_def Let_def)
    with s show ?thesis
      by (auto simp: sim_ok_def sim_play_def sim_stop_def select_step_def intro: follows_step)
  qed
qed

lemma sim_ok_act:
  assumes "sim_ok run v" and "clickable run a" and "sim_act run a v = Some v'"
  shows "sim_ok run v'"
proof (cases a)
  case STick
  then show ?thesis using assms sim_ok_tick by fastforce
next
  case (SSelectNode g n)
  then show ?thesis using assms sim_ok_select by auto
next
  case (SMode m)
  then show ?thesis using assms sim_ok_mode by auto
next
  case (SSelectGate g)
  then show ?thesis using assms by (auto simp: sim_ok_def onSelectGate_def sim_stop_def)
next
  case (SOpen path kind)
  then show ?thesis using assms by (auto simp: sim_ok_def openArtifact_def Let_def)
qed (use assms sim_ok_goTo in \<open>auto simp: sim_ok_def sim_play_def sim_stop_def\<close>)

lemma sim_ok_reachable: "sim_reachable run v \<Longrightarrow> sim_ok run v"
  by (induction rule: sim_reachable.induct) (auto intro: sim_ok_mount sim_ok_act)

section \<open>Properties\<close>

text \<open>
  The replay timeline lists every node of every gate exactly once, in ascending sequence order,
  and nodes with the same sequence stay in the order in which their gates list them.
\<close>

theorem timeline_is_sorted_run:
  "sorted_wrt (\<lambda>a b. ts_sequence a \<le> ts_sequence b) (buildTimeline run) \<and>
   mset (buildTimeline run) = mset (map step_of (concat (map sg_nodes (sr_gates run)))) \<and>
   filter (\<lambda>s. ts_sequence s = k) (buildTimeline run) =
     map step_of (filter (\<lambda>n. sn_sequence n = k) (concat (map sg_nodes (sr_gates run))))"
proof -
  let ?ns = "concat (map sg_nodes (sr_gates run))"
  have "sorted_wrt (\<lambda>a b. seq_cmp a b \<le> 0) (js_sort seq_cmp ?ns)" by (rule seq_order.sort_sorted)
  moreover have "filter (\<lambda>n. sn_sequence n = k) (js_sort seq_cmp ?ns) = filter (\<lambda>n. sn_sequence n = k) ?ns"
    by (rule js_sort_stable) (simp add: seq_cmp_def)
  ultimately show ?thesis
    by (simp add: buildTimeline_def sorted_wrt_map seq_cmp_def step_of_def filter_map comp_def)
qed

text \<open>
  Whatever the user clicks and however ticks interleave, the cursor stays on the timeline, the
  play button agrees with the timer, and the selection is a gate or exactly the node under the
  cursor.
\<close>

theorem player_selection_follows_cursor:
  assumes "sim_reachable run v"
  shows "sv_cursor v \<ge> 0 \<and> sv_cursor v \<le> max 0 (int (timelineLength run) - 1) \<and> sv_playing v = sv_timer v \<and>
    (case sv_selection v of SelGate _ \<Rightarrow> True
     | SelNode g n \<Rightarrow> \<exists>s. step_at run (sv_cursor v) = Some s \<and> ts_gate_id s = g \<and> ts_node_id s = n)"
proof -
  have ok: "sim_ok run v" using assms by (rule sim_ok_reachable)
  have range: "0 \<le> sv_cursor v" "sv_cursor v \<le> max 0 (int (timelineLength run) - 1)"
    using ok by (auto simp: sim_ok_def clampCursor_def Let_def split: if_splits)
  with ok range show ?thesis
    by (auto simp: sim_ok_def follows_def is_step_def split: selection.splits option.splits)
qed

lemma find_index_in: "P (xs ! i) \<Longrightarrow> i < length xs \<Longrightarrow> distinct (map f xs) \<Longrightarrow>
    (\<And>x. P x \<longleftrightarrow> f x = f (xs ! i)) \<Longrightarrow> find_index P xs = int i"
  by (rule find_index_first) (auto simp: distinct_conv_nth)

lemma indexOfNode_nth:
  assumes "distinct (map (\<lambda>s. (ts_gate_id s, ts_node_id s)) (buildTimeline run))" and "i < timelineLength run"
  shows "indexOfNode run (ts_gate_id (buildTimeline run ! i)) (ts_node_id (buildTimeline run ! i)) = int i"
  unfolding indexOfNode_def
  by (rule find_index_in [OF _ _ assms(1)]) (use assms(2) in \<open>auto simp: is_step_def timelineLength_def\<close>)

text \<open>
  Replay states: when no node is listed twice, the node at position i of the timeline is done
  before the cursor, active on it and future after it, so at every cursor exactly one node is active
  and moving forward never undoes a node.
\<close>

theorem node_states_follow_timeline:
  assumes "distinct (map (\<lambda>s. (ts_gate_id s, ts_node_id s)) (buildTimeline run))" and "i < timelineLength run"
  shows "nodeStateAt run (ts_gate_id (buildTimeline run ! i)) (ts_node_id (buildTimeline run ! i)) c =
    (if int i < c then Done else if int i = c then Active else Future)"
  using indexOfNode_nth [OF assms] by (simp add: nodeStateAt_def)

section \<open>Playing the whole run\<close>

text \<open>One firing of the interval, on a player whose earlier firings succeeded.\<close>

definition sim_step :: "simRun \<Rightarrow> simView option \<Rightarrow> simView option" where
  "sim_step run o' = Option.bind o' (sim_tick run)"

definition shows_step :: "simRun \<Rightarrow> nat \<Rightarrow> simView \<Rightarrow> bool" where
  "shows_step run k v \<longleftrightarrow> sv_cursor v = int k \<and>
     sv_selection v = SelNode (ts_gate_id (buildTimeline run ! k)) (ts_node_id (buildTimeline run ! k))"

definition playing_at :: "simRun \<Rightarrow> nat \<Rightarrow> simView option \<Rightarrow> bool" where
  "playing_at run k o' \<longleftrightarrow> (\<exists>v. o' = Some v \<and> shows_step run k v \<and> sv_playing v \<and> sv_timer v)"

definition paused_at :: "simRun \<Rightarrow> nat \<Rightarrow> simView option \<Rightarrow> bool" where
  "paused_at run k o' \<longleftrightarrow> (\<exists>v. o' = Some v \<and> shows_step run k v \<and> \<not> sv_playing v \<and> \<not> sv_timer v)"

interpretation sim_player: tick_player "sim_step run" "playing_at run" "paused_at run (timelineLength run - 1)"
    "timelineLength run" for run
proof unfold_locales
  show "playing_at run (Suc k) (sim_step run s)" if "playing_at run k s" "Suc k < timelineLength run" for k s
    using that by (auto simp: playing_at_def shows_step_def sim_step_def sim_tick_def step_at_def select_step_def nat_add_distrib Let_def)
  show "paused_at run (timelineLength run - 1) (sim_step run s)" if "playing_at run k s" "Suc k = timelineLength run" for k s
  proof -
    have k: "timelineLength run - 1 = k" using that(2) by simp
    show ?thesis unfolding k
      using that by (auto simp: playing_at_def paused_at_def shows_step_def sim_step_def sim_tick_def sim_stop_def)
  qed
qed

lemma live_starts:
  assumes "sv_mode v = P_REPLAY" and "timelineLength run > 0"
  shows "\<exists>v'. sim_act run (SMode P_LIVE) v = Some v' \<and> playing_at run 0 (Some v')"
  using assms by (simp add: sim_mode_def step_at_def playing_at_def shows_step_def sim_play_def sim_stop_def select_step_def Let_def)

text \<open>
  LIVE SIM plays the whole run. From any replay state, entering LIVE succeeds and starts at the first
  step; after \<open>k\<close> firings, for every \<open>k\<close> below the length of the timeline, the player is playing with
  the cursor and the selection on step \<open>k\<close>; one more firing after the last step pauses it there.
\<close>

theorem live_plays_run:
  assumes "sv_mode v = P_REPLAY" and "timelineLength run > 0"
  shows "\<exists>v'. sim_act run (SMode P_LIVE) v = Some v' \<and>
    (\<forall>k<timelineLength run. playing_at run k ((sim_step run ^^ k) (Some v'))) \<and>
    paused_at run (timelineLength run - 1) ((sim_step run ^^ timelineLength run) (Some v'))"
proof -
  obtain v' where "sim_act run (SMode P_LIVE) v = Some v'" "playing_at run 0 (Some v')" using live_starts [OF assms] by blast
  with sim_player.plays_through [OF _ assms(2)] show ?thesis by blast
qed

definition demo_node :: "string \<Rightarrow> string \<Rightarrow> int \<Rightarrow> simNode" where
  "demo_node g n k = \<lparr> sn_node_id = js n, sn_title = [], sn_description = [], sn_node_type = [], sn_family = [],
     sn_authority_boundary = [], sn_catalog_path = None, sn_source_status = None, sn_maturity = None,
     sn_implementation_refs = None, sn_declared_gates = None, sn_canonical = None, sn_gate_id = js g,
     sn_gate_label = None, sn_sequence = k, sn_node_label = None, sn_artifacts = [], sn_reads = [], sn_runbook = [],
     sn_taskcontroller_history = [], sn_executor_history = [], sn_checkpoints = [], sn_options = None \<rparr>"

definition demo_gate :: "string \<Rightarrow> simNode list \<Rightarrow> simGate" where
  "demo_gate g ns = \<lparr> sg_id = js g, sg_label = [], sg_summary = [], sg_nodes = ns, sg_gate_artifacts = [],
     sg_taskcontroller_history = [], sg_executor_history = [] \<rparr>"

definition demo_run :: simRun where
  "demo_run = \<lparr> sr_run_id = [], sr_task_id = [], sr_repository = [], sr_base_branch = [], sr_base_sha = [],
     sr_graph_revision = JUndef, sr_status = [], sr_source_basis = JUndef, sr_gates = [demo_gate ''G0'' [demo_node ''G0'' ''b'' 2], demo_gate ''G1'' [demo_node ''G1'' ''a'' 1]] \<rparr>"

lemma demo_timeline: "buildTimeline demo_run = [step_of (demo_node ''G1'' ''a'' 1), step_of (demo_node ''G0'' ''b'' 2)]"
  by (simp add: buildTimeline_def demo_run_def demo_gate_def js_sort_def seq_cmp_def demo_node_def)

theorem node_states_follow_timeline_witness:
  "nodeStateAt demo_run (js ''G0'') (js ''b'') 1 = Active"
  using node_states_follow_timeline [of demo_run 1 1]
  by (simp add: demo_timeline timelineLength_def step_of_def demo_node_def)

theorem player_selection_follows_cursor_witness:
  "sim_reachable demo_run (goTo demo_run 1 (sim_mount demo_run)) \<and>
   sv_playing (goTo demo_run 1 (sim_mount demo_run)) = sv_timer (goTo demo_run 1 (sim_mount demo_run))"
proof -
  have "sim_reachable demo_run (goTo demo_run 1 (sim_mount demo_run))"
    by (rule sim_reachable.acted [OF sim_reachable.mounted, of _ "SScrub 1"]) simp_all
  with player_selection_follows_cursor [OF this] show ?thesis by blast
qed

end
