(* ===== verification/EpicGraph.thy ===== *)
theory EpicGraph
  imports SimRun
begin

text \<open>
  The Login Epic runtime graph: the selectors and edge builders of
  \<open>lib/loginEpicRuntimeGraph.ts\<close> and the fixture validation of
  \<open>lib/loginEpicRuntimeValidation.ts\<close>. A selector that throws returns \<open>Inl\<close> of the message.
\<close>

section \<open>Data\<close>

definition GATE_CHAIN :: "jsstring list" where
  "GATE_CHAIN = map js [''G0_CONTEXT'', ''G1_ALIGNMENT'', ''G2_EXECUTION'', ''G3_PR'', ''G4_MERGE'', ''G5_DEPLOY'',
     ''G6_PRODUCTION'']"

record runtimeNode =
  rn_gate_id :: jsstring
  rn_id :: jsstring
  rn_title :: jsstring
  rn_family :: jsstring
  rn_type :: jsstring
  rn_boundary :: jsstring
  rn_purpose :: jsstring
  rn_fileReads :: "jsstring list"
  rn_fileWrites :: "jsstring list"
  rn_artifacts :: "jsstring list"
  rn_runbook :: "jsstring list"
  rn_taskControllerHistory :: "jsstring list"
  rn_executorHistory :: "jsstring list"
  rn_checkpoints :: "jsstring list"
  rn_x :: int
  rn_y :: int
  rn_w :: int
  rn_h :: int

record runtimeGate =
  rg_id :: jsstring
  rg_label :: jsstring
  rg_summary :: jsstring
  rg_x :: int
  rg_y :: int
  rg_w :: int
  rg_h :: int
  rg_nodes :: "runtimeNode list"
  rg_gateArtifacts :: "jsstring list"
  rg_taskControllerHistory :: "jsstring list"
  rg_executorHistory :: "jsstring list"

record routeStep =
  rt_gate_id :: jsstring
  rt_node_id :: jsstring

record epicRun =
  er_id :: jsstring
  er_index :: int
  er_slug :: jsstring
  er_title :: jsstring
  er_objective :: jsstring
  er_run_kind :: jsstring
  er_allowed_paths :: "jsstring list"
  er_forbidden_actions :: "jsstring list"
  er_gates :: "runtimeGate list"
  er_route :: "routeStep list"
  er_status :: jsstring
  er_summary :: jsstring

record epicFixture =
  ef_epic_id :: jsstring
  ef_title :: jsstring
  ef_run_count :: int
  ef_runtime_node_count :: int
  ef_runtime_model :: jsstring
  ef_runs :: "epicRun list"

section \<open>Selectors\<close>

type_synonym 'a thrown = "jsstring + 'a"

definition getRun :: "epicFixture \<Rightarrow> jsstring \<Rightarrow> epicRun thrown" where
  "getRun f runId = (case find (\<lambda>x. er_id x = runId) (ef_runs f) of
     None \<Rightarrow> Inl (js ''run not found: '' @ runId) | Some r \<Rightarrow> Inr r)"

definition getGate :: "epicRun \<Rightarrow> jsstring \<Rightarrow> runtimeGate thrown" where
  "getGate run gateId = (case find (\<lambda>x. rg_id x = gateId) (er_gates run) of
     None \<Rightarrow> Inl (js ''gate not found: '' @ gateId) | Some g \<Rightarrow> Inr g)"

fun node_in_gates :: "runtimeGate list \<Rightarrow> jsstring \<Rightarrow> (runtimeGate \<times> runtimeNode) thrown" where
  "node_in_gates [] nodeId = Inl (js ''node not found: '' @ nodeId)"
| "node_in_gates (g # gs) nodeId = (case find (\<lambda>x. rn_id x = nodeId) (rg_nodes g) of
     Some n \<Rightarrow> Inr (g, n) | None \<Rightarrow> node_in_gates gs nodeId)"

definition getRuntimeNode :: "epicRun \<Rightarrow> jsstring \<Rightarrow> (runtimeGate \<times> runtimeNode) thrown" where
  "getRuntimeNode run nodeId = node_in_gates (er_gates run) nodeId"

definition getRouteIndex :: "epicRun \<Rightarrow> jsstring \<Rightarrow> int" where
  "getRouteIndex run nodeId = find_index (\<lambda>s. rt_node_id s = nodeId) (er_route run)"

definition clampCursor :: "epicRun \<Rightarrow> int \<Rightarrow> int" where
  "clampCursor run cursor =
     (let len = int (length (er_route run)) in if len = 0 then 0 else max 0 (min (len - 1) cursor))"

text \<open>\<open>undefined\<close> is \<open>None\<close>: it is returned for an empty route.\<close>

definition getActiveRoute :: "epicRun \<Rightarrow> int \<Rightarrow> routeStep option" where
  "getActiveRoute run cursor =
     (let c = clampCursor run cursor in
      if nat c < length (er_route run) then Some (er_route run ! nat c) else None)"

definition getNodeState :: "epicRun \<Rightarrow> jsstring \<Rightarrow> int \<Rightarrow> nodeState" where
  "getNodeState run nodeId cursor =
     (let ix = getRouteIndex run nodeId in
      if ix < 0 then Future else if ix < cursor then Done else if ix = cursor then Active else Future)"

datatype gateState = GDone | GActive | GFuture | GEmpty

definition gate_route_indices :: "epicRun \<Rightarrow> runtimeGate \<Rightarrow> jsstring \<Rightarrow> nat list" where
  "gate_route_indices run gate gateId =
     map snd (filter (\<lambda>(s, i). rt_gate_id s = gateId \<and> rt_node_id s \<in> rn_id ` set (rg_nodes gate))
       (zip (er_route run) [0..<length (er_route run)]))"

definition getGateState :: "epicRun \<Rightarrow> jsstring \<Rightarrow> int \<Rightarrow> gateState thrown" where
  "getGateState run gateId cursor =
     (case getGate run gateId of Inl err \<Rightarrow> Inl err
      | Inr gate \<Rightarrow>
        if rg_nodes gate = [] then Inr GEmpty
        else
          let c = clampCursor run cursor in
          case getActiveRoute run c of
            None \<Rightarrow> Inl (js ''TypeError: Cannot read properties of undefined'')
          | Some active \<Rightarrow>
              if rt_gate_id active = gateId \<and> getNodeState run (rt_node_id active) c = Active then Inr GActive
              else
                let idxs = gate_route_indices run gate gateId in
                if idxs = [] then Inr GFuture
                else if list_all (\<lambda>i. int i < c) idxs then Inr GDone else Inr GFuture)"

section \<open>Edges\<close>

datatype edgeKind = E_gate | E_route

record edgeModel =
  em_id :: jsstring
  em_source :: jsstring
  em_target :: jsstring
  em_kind :: edgeKind

fun gate_edges :: "runtimeGate list \<Rightarrow> edgeModel list" where
  "gate_edges (from # to # gs) =
     (if rg_nodes from \<noteq> [] \<and> rg_nodes to \<noteq> [] then
        [\<lparr> em_id = js ''gate-'' @ rg_id from @ js ''-'' @ rg_id to, em_source = rn_id (last (rg_nodes from)),
           em_target = rn_id (hd (rg_nodes to)), em_kind = E_gate \<rparr>]
      else []) @ gate_edges (to # gs)"
| "gate_edges _ = []"

definition buildGateEdges :: "epicRun \<Rightarrow> edgeModel list" where
  "buildGateEdges run = gate_edges (er_gates run)"

definition buildRouteEdges :: "epicRun \<Rightarrow> edgeModel list" where
  "buildRouteEdges run = map (\<lambda>i. \<lparr> em_id = js ''route-'' @ show_nat i, em_source = rt_node_id (er_route run ! i),
      em_target = rt_node_id (er_route run ! (i + 1)), em_kind = E_route \<rparr>) [0..<length (er_route run) - 1]"

definition getActiveRouteEdgeId :: "epicRun \<Rightarrow> int \<Rightarrow> jsstring option" where
  "getActiveRouteEdgeId run cursor =
     (let c = clampCursor run cursor in
      if c < 0 \<or> c \<ge> int (length (er_route run)) - 1 then None else Some (js ''route-'' @ show_int c))"

definition shouldDisableFollowOnMove :: "bool \<Rightarrow> bool" where
  "shouldDisableFollowOnMove isProgrammatic = (\<not> isProgrammatic)"

section \<open>Validation\<close>

datatype issueLevel = L_error | L_warn

record validationIssue =
  vi_level :: issueLevel
  vi_message :: jsstring

record validationResult =
  vr_ok :: bool
  vr_issues :: "validationIssue list"

definition error_if :: "bool \<Rightarrow> jsstring \<Rightarrow> validationIssue list" where
  "error_if c msg = (if c then [\<lparr> vi_level = L_error, vi_message = msg \<rparr>] else [])"

definition node_total :: "epicFixture \<Rightarrow> nat" where
  "node_total f = foldl (\<lambda>n r. n + foldl (\<lambda>m g. m + length (rg_nodes g)) 0 (er_gates r)) 0 (ef_runs f)"

definition validate_node :: "runtimeNode \<Rightarrow> validationIssue list" where
  "validate_node n =
     error_if (rn_fileReads n = [] \<and> rn_fileWrites n = [] \<and> rn_artifacts n = [])
       (rn_id n @ js '' has no fileReads/fileWrites/artifacts'') @
     error_if (rn_runbook n = []) (rn_id n @ js '' has empty runbook'') @
     error_if (rn_taskControllerHistory n = []) (rn_id n @ js '' has empty taskControllerHistory'') @
     error_if (rn_checkpoints n = []) (rn_id n @ js '' has empty checkpoints'')"

definition validate_g6 :: "epicRun \<Rightarrow> validationIssue list" where
  "validate_g6 run =
     (case find (\<lambda>g. rg_id g = js ''G6_PRODUCTION'') (er_gates run) of None \<Rightarrow> []
      | Some g6 \<Rightarrow> concat (map (\<lambda>n.
          if er_run_kind run \<noteq> js ''observability_deploy_boundary'' \<and> rn_boundary n \<noteq> js ''not_applicable'' \<and>
             rn_boundary n \<noteq> js ''read_only''
          then [\<lparr> vi_level = L_warn, vi_message = rn_id n @ js '' (G6, non-production run) boundary='' @ rn_boundary n \<rparr>]
          else []) (rg_nodes g6)))"

definition validate_run :: "epicRun \<Rightarrow> validationIssue list" where
  "validate_run run =
     concat (map (\<lambda>gid. error_if (gid \<notin> rg_id ` set (er_gates run)) (er_id run @ js '' missing gate '' @ gid)) GATE_CHAIN) @
     (let allNodeIds = rn_id ` set (concat (map rg_nodes (er_gates run))) in
      concat (map (\<lambda>step. error_if (rt_node_id step \<notin> allNodeIds)
        (er_id run @ js '' route references unknown node '' @ rt_node_id step)) (er_route run))) @
     concat (map (\<lambda>g. concat (map validate_node (rg_nodes g))) (er_gates run)) @
     validate_g6 run"

definition validateLoginEpicFixture :: "epicFixture \<Rightarrow> validationResult" where
  "validateLoginEpicFixture f =
     (let issues =
        error_if (ef_epic_id f \<noteq> js ''LOGIN-CAPABILITY'') (js ''epic_id must be LOGIN-CAPABILITY, got '' @ ef_epic_id f) @
        error_if (ef_run_count f \<noteq> 10) (js ''run_count must be 10, got '' @ show_int (ef_run_count f)) @
        error_if (int (node_total f) \<noteq> ef_runtime_node_count f)
          (js ''runtime_node_count '' @ show_int (ef_runtime_node_count f) @ js '' != actual total '' @ show_nat (node_total f)) @
        error_if (ef_runtime_node_count f \<noteq> 243)
          (js ''runtime_node_count must be 243, got '' @ show_int (ef_runtime_node_count f)) @
        error_if (length (ef_runs f) \<noteq> 10) (js ''runs.length must be 10, got '' @ show_nat (length (ef_runs f))) @
        concat (map validate_run (ef_runs f))
      in \<lparr> vr_ok = list_all (\<lambda>i. vi_level i \<noteq> L_error) issues, vr_issues = issues \<rparr>)"

section \<open>Cursor and gate lemmas\<close>

lemma clamp_mono: "c \<le> c' \<Longrightarrow> EpicGraph.clampCursor run c \<le> EpicGraph.clampCursor run c'"
  by (auto simp: clampCursor_def Let_def)

lemma clamp_twice [simp]: "clampCursor run (clampCursor run c) = clampCursor run c"
  by (auto simp: clampCursor_def Let_def)

lemma clamp_valid: "er_route run \<noteq> [] \<Longrightarrow> 0 \<le> clampCursor run c \<and> nat (clampCursor run c) < length (er_route run)"
  by (auto simp: clampCursor_def Let_def nat_less_iff)

lemma active_route_some: "er_route run \<noteq> [] \<Longrightarrow> getActiveRoute run c = Some (er_route run ! nat (clampCursor run c))"
  using clamp_valid [of run c] by (simp add: getActiveRoute_def Let_def)

lemma active_route_none: "getActiveRoute run c = None \<longleftrightarrow> er_route run = []"
  using active_route_some [of run c] by (cases "er_route run = []") (auto simp: getActiveRoute_def)

lemma gate_route_indices_iff:
  "i \<in> set (gate_route_indices run gate gid) \<longleftrightarrow> i < length (er_route run) \<and> rt_gate_id (er_route run ! i) = gid \<and>
     rt_node_id (er_route run ! i) \<in> rn_id ` set (rg_nodes gate)"
  by (force simp: gate_route_indices_def set_zip)

text \<open>Every step of the route names a node of the gate it names.\<close>

definition consistent_route :: "epicRun \<Rightarrow> bool" where
  "consistent_route run \<longleftrightarrow> list_all (\<lambda>s. case getGate run (rt_gate_id s) of Inl _ \<Rightarrow> False
     | Inr g \<Rightarrow> rt_node_id s \<in> rn_id ` set (rg_nodes g)) (er_route run)"

lemma gate_done_iff:
  assumes "getGate run gid = Inr g" and "rg_nodes g \<noteq> []" and "consistent_route run"
  shows "getGateState run gid c = Inr GDone \<longleftrightarrow> gate_route_indices run g gid \<noteq> [] \<and>
    (\<forall>i \<in> set (gate_route_indices run g gid). int i < clampCursor run c)"
proof (cases "er_route run = []")
  case True
  then show ?thesis using assms by (simp add: getGateState_def active_route_none [THEN iffD2] gate_route_indices_def)
next
  case False
  let ?c = "clampCursor run c" and ?s = "er_route run ! nat (clampCursor run c)"
  have c: "0 \<le> ?c" "nat ?c < length (er_route run)" using clamp_valid [OF False, of c] by auto
  have "nat ?c \<in> set (gate_route_indices run g gid)" if "rt_gate_id ?s = gid"
  proof -
    have "?s \<in> set (er_route run)" using c by simp
    with assms(1,3) that have "rt_node_id ?s \<in> rn_id ` set (rg_nodes g)"
      by (fastforce simp: consistent_route_def list_all_iff)
    with that c show ?thesis by (simp add: gate_route_indices_iff)
  qed
  then have "\<not> (\<forall>i \<in> set (gate_route_indices run g gid). int i < ?c)" if "rt_gate_id ?s = gid"
    using that c by (metis int_nat_eq less_irrefl)
  with assms False show ?thesis
    by (auto simp: getGateState_def Let_def active_route_some list_all_iff)
qed

section \<open>Validation lemmas\<close>

definition error_free :: "validationIssue list \<Rightarrow> bool" where
  "error_free is = list_all (\<lambda>i. vi_level i \<noteq> L_error) is"

lemma error_free_simps [simp]:
  "error_free []" "error_free (xs @ ys) \<longleftrightarrow> error_free xs \<and> error_free ys"
  "error_free (error_if c m) \<longleftrightarrow> \<not> c"
  "error_free (concat (map f zs)) \<longleftrightarrow> (\<forall>z \<in> set zs. error_free (f z))"
  by (auto simp: error_free_def error_if_def list_all_iff)

definition node_complete :: "runtimeNode \<Rightarrow> bool" where
  "node_complete n \<longleftrightarrow> (rn_fileReads n \<noteq> [] \<or> rn_fileWrites n \<noteq> [] \<or> rn_artifacts n \<noteq> []) \<and> rn_runbook n \<noteq> [] \<and>
     rn_taskControllerHistory n \<noteq> [] \<and> rn_checkpoints n \<noteq> []"

definition run_valid :: "epicRun \<Rightarrow> bool" where
  "run_valid run \<longleftrightarrow> set GATE_CHAIN \<subseteq> rg_id ` set (er_gates run) \<and>
     rt_node_id ` set (er_route run) \<subseteq> rn_id ` (\<Union>g \<in> set (er_gates run). set (rg_nodes g)) \<and>
     (\<forall>g \<in> set (er_gates run). \<forall>n \<in> set (rg_nodes g). node_complete n)"

definition fixture_valid :: "epicFixture \<Rightarrow> bool" where
  "fixture_valid f \<longleftrightarrow> ef_epic_id f = js ''LOGIN-CAPABILITY'' \<and> ef_run_count f = 10 \<and> length (ef_runs f) = 10 \<and>
     ef_runtime_node_count f = 243 \<and>
     (\<Sum>r \<leftarrow> ef_runs f. \<Sum>g \<leftarrow> er_gates r. length (rg_nodes g)) = 243 \<and> (\<forall>r \<in> set (ef_runs f). run_valid r)"

lemma foldl_sum: "foldl (\<lambda>n x. n + f x) a xs = a + (\<Sum>x \<leftarrow> xs. f x)" for a :: nat
  by (induction xs arbitrary: a) auto

lemma error_free_validate_node: "error_free (validate_node n) = node_complete n"
  by (auto simp: validate_node_def node_complete_def)

lemma error_free_validate_g6: "error_free (validate_g6 run)"
  by (auto simp: validate_g6_def error_free_def list_all_iff split: option.split)

lemma error_free_validate_run: "error_free (validate_run run) = run_valid run"
  by (auto simp: validate_run_def run_valid_def Let_def error_free_validate_node error_free_validate_g6)

definition reroute :: "(routeStep \<Rightarrow> jsstring) \<Rightarrow> epicFixture \<Rightarrow> epicFixture" where
  "reroute h f = f\<lparr>ef_runs := map (\<lambda>r. r\<lparr>er_route := map (\<lambda>s. s\<lparr>rt_gate_id := h s\<rparr>) (er_route r)\<rparr>) (ef_runs f)\<rparr>"

lemma validate_run_reroute:
  "validate_run (r\<lparr>er_route := map (\<lambda>s. s\<lparr>rt_gate_id := h s\<rparr>) (er_route r)\<rparr>) = validate_run r"
  by (simp add: validate_run_def validate_g6_def comp_def Let_def split: option.split)

section \<open>Properties\<close>

text \<open>
  C37. The validation accepts exactly the fixtures that satisfy its rules: the epic id, ten runs, 243
  nodes declared and present, all seven gates in every run, routes over existing nodes only, and no
  node without files, runbook, controller history or checkpoints. Boundary warnings never decide.
\<close>

theorem validation_accepts_exactly_valid: "vr_ok (validateLoginEpicFixture f) = fixture_valid f"
proof -
  have "vr_ok (validateLoginEpicFixture f) = error_free (vr_issues (validateLoginEpicFixture f))"
    by (simp add: validateLoginEpicFixture_def Let_def error_free_def)
  also have "\<dots> = fixture_valid f"
    by (auto simp: validateLoginEpicFixture_def Let_def error_free_validate_run fixture_valid_def node_total_def foldl_sum)
  finally show ?thesis .
qed

text \<open>
  A gate never reopens: on a route whose steps name nodes of the gates they name, a gate that is
  done at some cursor is done at every later cursor.
\<close>

theorem gate_never_reopens:
  assumes "consistent_route run" and "getGateState run gid c = Inr GDone" and "c \<le> c'"
  shows "getGateState run gid c' = Inr GDone"
proof -
  obtain g where g: "getGate run gid = Inr g" "rg_nodes g \<noteq> []"
    using assms(2) by (auto simp: getGateState_def split: sum.splits if_splits)
  show ?thesis
    using assms(2) clamp_mono [OF assms(3), of run] unfolding gate_done_iff [OF g assms(1)] by fastforce
qed

text \<open>
  The route check does not look at gates. Its comment says that route nodes must exist in their
  gate, but replacing the gate of every route step by anything leaves the verdict and every issue
  unchanged.
\<close>

theorem route_gates_not_validated: "validateLoginEpicFixture (reroute h f) = validateLoginEpicFixture f"
proof -
  have "node_total (reroute h f) = node_total f"
    by (simp add: node_total_def reroute_def foldl_map)
  moreover have "map validate_run (ef_runs (reroute h f)) = map validate_run (ef_runs f)"
    by (simp add: reroute_def validate_run_reroute)
  ultimately show ?thesis
    by (simp only: validateLoginEpicFixture_def) (simp add: reroute_def)
qed

definition demo_rnode :: "string \<Rightarrow> runtimeNode" where
  "demo_rnode i = \<lparr> rn_gate_id = [], rn_id = js i, rn_title = [], rn_family = [], rn_type = [], rn_boundary = [],
     rn_purpose = [], rn_fileReads = [], rn_fileWrites = [], rn_artifacts = [], rn_runbook = [],
     rn_taskControllerHistory = [], rn_executorHistory = [], rn_checkpoints = [],
     rn_x = 0, rn_y = 0, rn_w = 0, rn_h = 0 \<rparr>"

definition demo_rgate :: "string \<Rightarrow> runtimeNode list \<Rightarrow> runtimeGate" where
  "demo_rgate i ns = \<lparr> rg_id = js i, rg_label = [], rg_summary = [], rg_x = 0, rg_y = 0, rg_w = 0, rg_h = 0, rg_nodes = ns, rg_gateArtifacts = [],
     rg_taskControllerHistory = [], rg_executorHistory = [] \<rparr>"

definition demo_erun :: epicRun where
  "demo_erun = \<lparr> er_id = [], er_index = 0, er_slug = [], er_title = [], er_objective = [], er_run_kind = [],
     er_allowed_paths = [], er_forbidden_actions = [],
     er_gates = [demo_rgate ''G0'' [demo_rnode ''a''], demo_rgate ''G1'' [demo_rnode ''b'', demo_rnode ''c'']],
     er_route = [\<lparr> rt_gate_id = js ''G0'', rt_node_id = js ''a'' \<rparr>, \<lparr> rt_gate_id = js ''G1'', rt_node_id = js ''b'' \<rparr>,
       \<lparr> rt_gate_id = js ''G1'', rt_node_id = js ''c'' \<rparr>],
     er_status = [], er_summary = [] \<rparr>"

lemmas demo_epic_defs = demo_erun_def demo_rgate_def demo_rnode_def

theorem gate_never_reopens_witness:
  "getGateState demo_erun (js ''G0'') 1 = Inr GDone \<and> getGateState demo_erun (js ''G0'') 2 = Inr GDone"
proof -
  have "consistent_route demo_erun" "getGateState demo_erun (js ''G0'') 1 = Inr GDone"
    by (simp_all add: consistent_route_def getGateState_def getGate_def Let_def getActiveRoute_def clampCursor_def
        gate_route_indices_def demo_epic_defs)
  with gate_never_reopens [of demo_erun "js ''G0''" 1 2] show ?thesis by simp
qed

end
