(* ===== verification/EpicLayout.thy ===== *)
theory EpicLayout
  imports EpicGraph
begin

text \<open>
  The run-level layout of \<open>lib/loginEpicLayout.ts\<close>: the placement of the node cards inside a
  gate, the gate boxes, the family bands and the edges. Coordinates are integers.
\<close>

section \<open>Data\<close>

datatype displayDir = LR | TD
datatype displayForm = F_stack | F_grid

record layoutOpts =
  lo_dir :: displayDir
  lo_form :: displayForm
  lo_group :: bool

record layoutNode =
  ln_id :: jsstring
  ln_gateId :: jsstring
  ln_family :: jsstring
  ln_boundary :: jsstring
  ln_x :: int
  ln_y :: int
  ln_w :: int
  ln_h :: int

record familyBand =
  fb_family :: jsstring
  fb_x :: int
  fb_y :: int
  fb_w :: int
  fb_h :: int

record layoutGate =
  lg_id :: jsstring
  lg_boundary :: jsstring
  lg_x :: int
  lg_y :: int
  lg_w :: int
  lg_h :: int
  lg_headerH :: int
  lg_families :: "familyBand list"

datatype layoutEdgeKind = LE_route | LE_fanout

record layoutEdge =
  le_id :: jsstring
  le_source :: jsstring
  le_target :: jsstring
  le_kind :: layoutEdgeKind

record runLayout =
  rl_nodes :: "layoutNode list"
  rl_gates :: "layoutGate list"
  rl_edges :: "layoutEdge list"
  rl_width :: int
  rl_height :: int

definition NODE_W :: int where "NODE_W = 232"
definition NODE_H :: int where "NODE_H = 108"
definition GAP_W :: int where "GAP_W = 16"
definition PAD :: int where "PAD = 14"
definition HEADER_H :: int where "HEADER_H = 96"
definition GATE_GAP :: int where "GATE_GAP = 130"
definition MARGIN :: int where "MARGIN = 40"

lemmas sizes = NODE_W_def NODE_H_def GAP_W_def PAD_def HEADER_H_def GATE_GAP_def MARGIN_def

section \<open>Inside a gate\<close>

definition familyOrder :: "runtimeNode list \<Rightarrow> jsstring list" where
  "familyOrder ns = foldl (\<lambda>seen n. if rn_family n \<in> set seen then seen else seen @ [rn_family n]) [] ns"

definition in_family :: "runtimeNode list \<Rightarrow> jsstring \<Rightarrow> runtimeNode list" where
  "in_family ns fam = filter (\<lambda>n. rn_family n = fam) ns"

text \<open>\<open>Math.ceil(Math.sqrt(n))\<close>: how many numbers have a square below \<open>n\<close>.\<close>

definition ceil_sqrt :: "nat \<Rightarrow> nat" where
  "ceil_sqrt n = length (takeWhile (\<lambda>c. c * c < n) [0..<n])"

definition ceil_div :: "nat \<Rightarrow> nat \<Rightarrow> nat" where
  "ceil_div n d = (n + d - 1) div d"

text \<open>A cell is a column and a row of the LR picture; TD swaps the axes.\<close>

definition cell_x :: "displayDir \<Rightarrow> nat \<times> nat \<Rightarrow> int" where
  "cell_x dir c = (if dir = LR then int (fst c) else int (snd c)) * (NODE_W + GAP_W)"

definition cell_y :: "displayDir \<Rightarrow> nat \<times> nat \<Rightarrow> int" where
  "cell_y dir c = (if dir = LR then int (snd c) else int (fst c)) * (NODE_H + GAP_W)"

definition grid_cols :: "displayForm \<Rightarrow> nat \<Rightarrow> nat" where
  "grid_cols form n = (if form = F_grid then max 1 (ceil_sqrt n) else 1)"

definition max_in_family :: "runtimeNode list \<Rightarrow> nat" where
  "max_in_family ns = foldl max 1 (map (\<lambda>f. length (in_family ns f)) (familyOrder ns))"

definition placed :: "layoutOpts \<Rightarrow> runtimeNode list \<Rightarrow> (runtimeNode \<times> (nat \<times> nat)) list" where
  "placed opts ns =
     (if lo_group opts then
        concat (map (\<lambda>(fam, fi). map (\<lambda>(n, ni). (n, (fi, ni))) (zip (in_family ns fam) [0..<length (in_family ns fam)]))
          (zip (familyOrder ns) [0..<length (familyOrder ns)]))
      else
        let cols = grid_cols (lo_form opts) (length ns)
        in map (\<lambda>(n, ni). (n, (ni mod cols, ni div cols))) (zip ns [0..<length ns]))"

text \<open>Columns and rows of the body.\<close>

definition extent :: "layoutOpts \<Rightarrow> runtimeNode list \<Rightarrow> nat \<times> nat" where
  "extent opts ns =
     (if lo_group opts then (length (familyOrder ns), max_in_family ns)
      else let cols = grid_cols (lo_form opts) (length ns) in (cols, ceil_div (length ns) cols))"

definition bodyW :: "layoutOpts \<Rightarrow> runtimeNode list \<Rightarrow> int" where
  "bodyW opts ns = cell_x (lo_dir opts) (extent opts ns)"

definition bodyH :: "layoutOpts \<Rightarrow> runtimeNode list \<Rightarrow> int" where
  "bodyH opts ns = cell_y (lo_dir opts) (extent opts ns)"

section \<open>Gate boxes\<close>

definition gate_w :: "layoutOpts \<Rightarrow> runtimeNode list \<Rightarrow> int" where
  "gate_w opts ns = PAD * 2 + bodyW opts ns"

definition gate_h :: "layoutOpts \<Rightarrow> runtimeNode list \<Rightarrow> int" where
  "gate_h opts ns = HEADER_H + PAD + bodyH opts ns + PAD"

definition gate_pos :: "layoutOpts \<Rightarrow> nat \<Rightarrow> runtimeNode list \<Rightarrow> int" where
  "gate_pos opts gi ns = int gi * (if lo_dir opts = LR then gate_w opts ns + GATE_GAP else gate_h opts ns + GATE_GAP)"

definition gate_x :: "layoutOpts \<Rightarrow> nat \<Rightarrow> runtimeNode list \<Rightarrow> int" where
  "gate_x opts gi ns = (if lo_dir opts = LR then MARGIN + gate_pos opts gi ns else MARGIN)"

definition gate_y :: "layoutOpts \<Rightarrow> nat \<Rightarrow> runtimeNode list \<Rightarrow> int" where
  "gate_y opts gi ns = (if lo_dir opts = TD then MARGIN + gate_pos opts gi ns else MARGIN)"

definition gate_cards :: "layoutOpts \<Rightarrow> nat \<Rightarrow> runtimeGate \<Rightarrow> layoutNode list" where
  "gate_cards opts gi gate = map (\<lambda>(n, c). \<lparr> ln_id = rn_id n, ln_gateId = rg_id gate, ln_family = rn_family n,
      ln_boundary = rn_boundary n,
      ln_x = gate_x opts gi (rg_nodes gate) + PAD + cell_x (lo_dir opts) c,
      ln_y = gate_y opts gi (rg_nodes gate) + HEADER_H + PAD + cell_y (lo_dir opts) c,
      ln_w = NODE_W, ln_h = NODE_H \<rparr>) (placed opts (rg_nodes gate))"

definition family_bands :: "layoutOpts \<Rightarrow> nat \<Rightarrow> runtimeNode list \<Rightarrow> familyBand list" where
  "family_bands opts gi ns =
     (if lo_group opts then
        map (\<lambda>(fam, fi).
          let k = int (length (in_family ns fam)); colW = NODE_W + GAP_W; rowH = NODE_H + GAP_W in
          \<lparr> fb_family = fam,
            fb_x = gate_x opts gi ns + PAD + (if lo_dir opts = LR then int fi * colW else 0),
            fb_y = gate_y opts gi ns + HEADER_H + PAD + (if lo_dir opts = LR then 0 else int fi * rowH),
            fb_w = (if lo_dir opts = LR then NODE_W else k * colW - GAP_W),
            fb_h = (if lo_dir opts = LR then k * rowH - GAP_W else NODE_H) \<rparr>)
          (zip (familyOrder ns) [0..<length (familyOrder ns)])
      else [])"

definition gate_box :: "layoutOpts \<Rightarrow> nat \<Rightarrow> runtimeGate \<Rightarrow> layoutGate" where
  "gate_box opts gi gate =
     (let ns = rg_nodes gate in
      \<lparr> lg_id = rg_id gate, lg_boundary = (if ns = [] then js ''unknown'' else rn_boundary (hd ns)),
        lg_x = gate_x opts gi ns, lg_y = gate_y opts gi ns, lg_w = gate_w opts ns, lg_h = gate_h opts ns,
        lg_headerH = HEADER_H, lg_families = family_bands opts gi ns \<rparr>)"

section \<open>Edges\<close>

definition route_spine :: "epicRun \<Rightarrow> layoutEdge list" where
  "route_spine run = map (\<lambda>i. \<lparr> le_id = js ''route-'' @ show_nat i, le_source = rt_node_id (er_route run ! (i - 1)),
      le_target = rt_node_id (er_route run ! i), le_kind = LE_route \<rparr>) [1..<length (er_route run)]"

fun fanout_edges :: "runtimeGate list \<Rightarrow> layoutEdge list" where
  "fanout_edges (gate # nxt # gs) =
     (if rg_nodes gate \<noteq> [] \<and> rg_nodes nxt \<noteq> [] then
        let a = last (rg_nodes gate); b = hd (rg_nodes nxt) in
        [\<lparr> le_id = js ''fan-'' @ rn_id a @ js ''->'' @ rn_id b, le_source = rn_id a, le_target = rn_id b,
           le_kind = LE_fanout \<rparr>]
      else []) @ fanout_edges (nxt # gs)"
| "fanout_edges _ = []"

section \<open>The whole layout\<close>

definition computeRunLayout :: "epicRun \<Rightarrow> layoutOpts \<Rightarrow> runLayout" where
  "computeRunLayout run opts =
     (let indexed = zip (er_gates run) [0..<length (er_gates run)];
          nodes = concat (map (\<lambda>(g, gi). gate_cards opts gi g) indexed);
          maxX = foldl (\<lambda>m n. max m (ln_x n + NODE_W)) 0 nodes;
          maxY = foldl (\<lambda>m n. max m (ln_y n + NODE_H)) 0 nodes
      in \<lparr> rl_nodes = nodes, rl_gates = map (\<lambda>(g, gi). gate_box opts gi g) indexed,
           rl_edges = route_spine run @ fanout_edges (er_gates run),
           rl_width = maxX + MARGIN, rl_height = maxY + MARGIN \<rparr>)"

section \<open>Cells\<close>

lemma familyOrder_snoc:
  "familyOrder (ns @ [n]) = (if rn_family n \<in> set (familyOrder ns) then familyOrder ns else familyOrder ns @ [rn_family n])"
  by (simp add: familyOrder_def)

lemma familyOrder_set: "set (familyOrder ns) = rn_family ` set ns"
  by (induction ns rule: rev_induct) (auto simp: familyOrder_snoc, simp_all add: familyOrder_def)

lemma familyOrder_distinct: "distinct (familyOrder ns)"
  by (induction ns rule: rev_induct) (auto simp: familyOrder_snoc, simp add: familyOrder_def)

lemma foldl_max_ge: "x \<in> set xs \<Longrightarrow> x \<le> foldl max a xs" for x :: nat
proof -
  have mono: "a \<le> foldl max a xs" for a :: nat and xs
    by (induction xs arbitrary: a) (auto, metis max.bounded_iff)
  show "x \<in> set xs \<Longrightarrow> x \<le> foldl max a xs"
  proof (induction xs arbitrary: a)
    case (Cons y ys)
    then show ?case using mono [of "max a y" ys] by auto
  qed simp
qed

lemma max_in_family_ge: "f \<in> set (familyOrder ns) \<Longrightarrow> length (in_family ns f) \<le> max_in_family ns"
  unfolding max_in_family_def by (rule foldl_max_ge) auto

lemma grid_cols_pos: "grid_cols form n > 0"
  by (simp add: grid_cols_def less_max_iff_disj)

lemma ceil_div_bound: "0 < d \<Longrightarrow> i < n \<Longrightarrow> i div d < ceil_div n d"
proof -
  assume "0 < d" "i < n"
  then have "(i + d) div d \<le> (n + d - 1) div d" by (intro div_le_mono) simp
  moreover have "(i + d) div d = i div d + 1" using \<open>0 < d\<close> by (simp add: div_add_self2)
  ultimately show ?thesis by (simp add: ceil_div_def)
qed

text \<open>Every card has a cell within the extent, and no two cards share one.\<close>

lemma placed_in_extent:
  "(n, c) \<in> set (placed opts ns) \<Longrightarrow> fst c < fst (extent opts ns) \<and> snd c < snd (extent opts ns)"
proof (cases "lo_group opts")
  case True
  assume "(n, c) \<in> set (placed opts ns)"
  with True obtain fi fam where "fi < length (familyOrder ns)" "fam = familyOrder ns ! fi"
      "fst c = fi" "snd c < length (in_family ns fam)"
    by (auto simp: placed_def set_zip)
  with max_in_family_ge [of fam ns] True show ?thesis by (simp add: extent_def)
next
  case False
  assume "(n, c) \<in> set (placed opts ns)"
  with False obtain ni where "ni < length ns" "c = (ni mod grid_cols (lo_form opts) (length ns), ni div grid_cols (lo_form opts) (length ns))"
    by (auto simp: placed_def Let_def set_zip)
  with False show ?thesis by (simp add: extent_def Let_def grid_cols_pos ceil_div_bound)
qed

lemma zip_upt_Cons: "zip (f # fs) [m..<m + length (f # fs)] = (f, m) # zip fs [Suc m..<Suc m + length fs]"
proof -
  have "[m..<m + length (f # fs)] = m # [Suc m..<Suc m + length fs]"
    by (subst upt_conv_Cons) simp_all
  then show ?thesis by simp
qed

lemma distinct_concat_tagged:
  fixes g :: "'a \<Rightarrow> 'b list"
  assumes "distinct fs"
  shows "distinct (concat (map (\<lambda>(f, i). map (\<lambda>(n, k). (i, k)) (zip (g f) [0..<length (g f)])) (zip fs [m..<m + length fs])))"
  using assms
proof (induction fs arbitrary: m)
  case (Cons f fs)
  have "distinct (map (\<lambda>(n, k). (m, k)) (zip xs [a..<a + length xs]))" for a and xs :: "'b list"
    by (auto simp: distinct_conv_nth)
  from this [of "g f" 0] Cons.IH [of "Suc m"] Cons.prems show ?case
    unfolding zip_upt_Cons by (auto simp: set_zip simp del: upt_Suc)
qed simp

lemma placed_distinct: "distinct (map snd (placed opts ns))"
proof (cases "lo_group opts")
  case True
  then have "map snd (placed opts ns) = concat (map (\<lambda>(f, i). map (\<lambda>(n, k). (i, k))
      (zip (in_family ns f) [0..<length (in_family ns f)])) (zip (familyOrder ns) [0..<0 + length (familyOrder ns)]))"
    by (simp add: placed_def map_concat comp_def case_prod_unfold)
  then show ?thesis using distinct_concat_tagged [OF familyOrder_distinct, where m = 0 and g = "in_family ns"] by simp
next
  case False
  let ?c = "grid_cols (lo_form opts) (length ns)"
  have "i = j" if "i mod ?c = j mod ?c" "i div ?c = j div ?c" for i j
    using that by (metis div_mult_mod_eq)
  with False show ?thesis by (auto simp: placed_def Let_def distinct_conv_nth)
qed

lemma families_cover:
  "distinct fs \<Longrightarrow> rn_family ` set ns \<subseteq> set fs \<Longrightarrow> mset (concat (map (in_family ns) fs)) = mset ns"
proof (induction fs arbitrary: ns)
  case (Cons f fs)
  let ?rest = "filter (\<lambda>n. rn_family n \<noteq> f) ns"
  have "map (in_family ns) fs = map (in_family ?rest) fs"
    using Cons.prems(1) by (auto simp: in_family_def intro!: filter_cong)
  moreover have "mset (concat (map (in_family ?rest) fs)) = mset ?rest"
    using Cons.prems by (intro Cons.IH) auto
  moreover have "mset ns = mset (in_family ns f) + mset ?rest"
    unfolding in_family_def mset_filter by (rule multiset_partition)
  ultimately show ?case by (simp only: list.map concat.simps mset_append)
qed simp

lemma map_fst_tagged: "map fst (map (\<lambda>(n, k). (n, h k)) (zip xs [0..<length xs])) = xs"
  by (simp add: comp_def case_prod_unfold)

lemma placed_nodes: "mset (map fst (placed opts ns)) = mset ns"
proof (cases "lo_group opts")
  case True
  have "concat (map (\<lambda>(f, i). in_family ns f) (zip fs [m..<m + length fs])) = concat (map (in_family ns) fs)" for fs m
  proof (induction fs arbitrary: m)
    case (Cons f fs)
    show ?case unfolding zip_upt_Cons using Cons.IH [of "Suc m"] by simp
  qed simp
  from this [of "familyOrder ns" 0] True
  have "map fst (placed opts ns) = concat (map (in_family ns) (familyOrder ns))"
    by (simp add: placed_def map_concat comp_def case_prod_unfold)
  then show ?thesis using families_cover [OF familyOrder_distinct, of ns ns] by (simp add: familyOrder_set)
next
  case False
  then show ?thesis by (simp add: placed_def Let_def comp_def case_prod_unfold)
qed

section \<open>Rectangles\<close>

definition inside_body :: "layoutGate \<Rightarrow> layoutNode \<Rightarrow> bool" where
  "inside_body g n \<longleftrightarrow> lg_x g < ln_x n \<and> ln_x n + ln_w n < lg_x g + lg_w g \<and>
     lg_y g + lg_headerH g < ln_y n \<and> ln_y n + ln_h n < lg_y g + lg_h g"

definition apart :: "layoutNode \<Rightarrow> layoutNode \<Rightarrow> bool" where
  "apart a b \<longleftrightarrow> ln_x a + ln_w a < ln_x b \<or> ln_x b + ln_w b < ln_x a \<or> ln_y a + ln_h a < ln_y b \<or> ln_y b + ln_h b < ln_y a"

lemma cell_apart:
  "c \<noteq> c' \<Longrightarrow> cell_x dir c + NODE_W < cell_x dir c' \<or> cell_x dir c' + NODE_W < cell_x dir c \<or>
     cell_y dir c + NODE_H < cell_y dir c' \<or> cell_y dir c' + NODE_H < cell_y dir c"
  by (cases c; cases c') (auto simp: cell_x_def cell_y_def sizes)

lemma cell_within:
  assumes "fst c < fst e" and "snd c < snd e"
  shows "0 \<le> cell_x dir c" "cell_x dir c + NODE_W < cell_x dir e" "0 \<le> cell_y dir c" "cell_y dir c + NODE_H < cell_y dir e"
  using assms by (auto simp: cell_x_def cell_y_def sizes)

lemma cards_inside: "n \<in> set (gate_cards opts gi g) \<Longrightarrow> inside_body (gate_box opts gi g) n"
proof -
  assume "n \<in> set (gate_cards opts gi g)"
  then obtain m c where c: "(m, c) \<in> set (placed opts (rg_nodes g))"
      "ln_x n = gate_x opts gi (rg_nodes g) + PAD + cell_x (lo_dir opts) c"
      "ln_y n = gate_y opts gi (rg_nodes g) + HEADER_H + PAD + cell_y (lo_dir opts) c" "ln_w n = NODE_W" "ln_h n = NODE_H"
    by (auto simp: gate_cards_def)
  with placed_in_extent [OF c(1)] cell_within [of c "extent opts (rg_nodes g)" "lo_dir opts"] show ?thesis
    by (simp add: inside_body_def gate_box_def Let_def gate_w_def gate_h_def bodyW_def bodyH_def PAD_def)
qed

lemma cards_apart: "sorted_wrt apart (gate_cards opts gi g)"
proof -
  have "sorted_wrt (\<lambda>p q. snd p \<noteq> snd q) (placed opts (rg_nodes g))"
    using placed_distinct [of opts "rg_nodes g"] by (simp add: distinct_conv_nth sorted_wrt_iff_nth_less)
  then have "sorted_wrt (\<lambda>p q. apart
      ((\<lambda>(n, c). \<lparr> ln_id = rn_id n, ln_gateId = rg_id g, ln_family = rn_family n, ln_boundary = rn_boundary n,
        ln_x = gate_x opts gi (rg_nodes g) + PAD + cell_x (lo_dir opts) c,
        ln_y = gate_y opts gi (rg_nodes g) + HEADER_H + PAD + cell_y (lo_dir opts) c, ln_w = NODE_W, ln_h = NODE_H \<rparr>) p)
      ((\<lambda>(n, c). \<lparr> ln_id = rn_id n, ln_gateId = rg_id g, ln_family = rn_family n, ln_boundary = rn_boundary n,
        ln_x = gate_x opts gi (rg_nodes g) + PAD + cell_x (lo_dir opts) c,
        ln_y = gate_y opts gi (rg_nodes g) + HEADER_H + PAD + cell_y (lo_dir opts) c, ln_w = NODE_W, ln_h = NODE_H \<rparr>) q))
      (placed opts (rg_nodes g))"
    by (rule sorted_wrt_mono_rel [rotated]) (use cell_apart in \<open>fastforce simp: apart_def\<close>)
  then show ?thesis by (simp add: gate_cards_def sorted_wrt_map)
qed

lemma cards_ids: "mset (map ln_id (gate_cards opts gi g)) = mset (map rn_id (rg_nodes g))"
proof -
  have "map ln_id (gate_cards opts gi g) = map rn_id (map fst (placed opts (rg_nodes g)))"
    by (simp add: gate_cards_def comp_def case_prod_unfold)
  then show ?thesis using placed_nodes [of opts "rg_nodes g"] by (metis mset_map)
qed

section \<open>Properties\<close>

lemma layout_gates_inside:
  "list_all2 (\<lambda>box cards. list_all (inside_body box) cards \<and> sorted_wrt apart cards)
     (map (\<lambda>(g, gi). gate_box opts gi g) gs) (map (\<lambda>(g, gi). gate_cards opts gi g) gs)"
  by (auto simp: list_all2_conv_all_nth list_all_iff case_prod_unfold cards_inside cards_apart)

lemma layout_ids:
  "mset (map ln_id (concat (map (\<lambda>(g, gi). gate_cards opts gi g) (zip gs [m..<m + length gs])))) =
   mset (map rn_id (concat (map rg_nodes gs)))"
proof (induction gs arbitrary: m)
  case (Cons g gs)
  have "mset (map ln_id (gate_cards opts m g)) = mset (map rn_id (rg_nodes g))" by (rule cards_ids)
  then show ?case unfolding zip_upt_Cons using Cons.IH [of "Suc m"] by simp
qed simp


text \<open>
  Gate boxes may cover each other. A gate is placed at a multiple of its own width, so a narrow
  gate after a wide one starts inside it: with four nodes and then one node in grid form, the second
  box begins 118 pixels before the first one ends, on the same row.
\<close>

theorem gate_boxes_can_overlap:
  "let opts = \<lparr> lo_dir = LR, lo_form = F_grid, lo_group = False \<rparr>;
       a = gate_box opts 0 (demo_rgate ''G0'' [demo_rnode ''a'', demo_rnode ''b'', demo_rnode ''c'', demo_rnode ''d'']);
       b = gate_box opts 1 (demo_rgate ''G1'' [demo_rnode ''e''])
   in lg_x a < lg_x b \<and> lg_x b + 118 = lg_x a + lg_w a \<and> lg_y a = lg_y b"
  by (simp add: gate_box_def Let_def demo_rgate_def gate_x_def gate_y_def gate_w_def gate_pos_def bodyW_def extent_def
      grid_cols_def ceil_sqrt_def ceil_div_def cell_x_def sizes upt_rec)

text \<open>
  The active edge id names another edge of the picture. The id the graph engine reports for the
  edge leaving the active node is, in the computed layout, the id of the edge entering it.
\<close>

theorem active_edge_id_off_by_one:
  assumes "0 < c" and "c + 1 < length (er_route run)"
  shows "getActiveRouteEdgeId run (int c) = Some (em_id (buildRouteEdges run ! c)) \<and>
    em_source (buildRouteEdges run ! c) = rt_node_id (er_route run ! c) \<and>
    le_id (route_spine run ! (c - 1)) = em_id (buildRouteEdges run ! c) \<and>
    le_target (route_spine run ! (c - 1)) = rt_node_id (er_route run ! c)"
  using assms
  by (auto simp: getActiveRouteEdgeId_def clampCursor_def Let_def buildRouteEdges_def route_spine_def show_int_def show_nat_def)

theorem active_edge_id_off_by_one_witness:
  "getActiveRouteEdgeId demo_erun 1 = Some (le_id (route_spine demo_erun ! 0)) \<and>
   le_target (route_spine demo_erun ! 0) = js ''b''"
  using active_edge_id_off_by_one [of 1 demo_erun] by (simp add: demo_erun_def)

end
