(* ===== verification/Backfill.thy ===== *)
theory Backfill
  imports Prelude
begin

text \<open>
  The historical backfill of \<open>scripts/backfillHistoricalRuns.ts\<close>: the evidence table, the rows
  it reconstructs, the schema-aware validation and the SQL it emits. The timestamp of the
  reconstruction, the run ids of the two fixture files and the digest of the evidence file are read
  from the file system and are arguments.
\<close>

section \<open>Rows\<close>

record runsRow =
  ru_run_id :: jsstring
  ru_run_kind :: jsstring
  ru_source_system :: jsstring
  ru_epic_id :: "jsstring option"
  ru_jira_key :: "jsstring option"
  ru_parent_issue :: "jsstring option"
  ru_authority_ref :: "jsstring option"
  ru_scope_hash :: "jsstring option"
  ru_base_sha :: "jsstring option"
  ru_head_sha :: "jsstring option"
  ru_merge_sha :: "jsstring option"
  ru_base_branch :: "jsstring option"
  ru_branch :: "jsstring option"
  ru_pr_number :: "int option"
  ru_ci_run_id :: "jsstring option"
  ru_ci_status :: "jsstring option"
  ru_started_at :: "jsstring option"
  ru_completed_at :: "jsstring option"
  ru_reconstruction_basis :: "jsstring option"
  ru_source_refs :: "jsstring list"
  ru_confidence :: "jsstring option"
  ru_evidence_quality :: "jsstring option"
  ru_reconstructed_by :: "jsstring option"
  ru_reconstructed_at :: "jsstring option"
  ru_payload :: json

record artifactRow =
  ar_artifact_id :: jsstring
  ar_run_id :: jsstring
  ar_artifact_type :: jsstring
  ar_artifact_status :: jsstring
  ar_original_present :: bool
  ar_source_occurred_at :: "jsstring option"
  ar_effective_at :: "jsstring option"
  ar_reconstructed_at :: "jsstring option"
  ar_reconstruction_basis :: "jsstring option"
  ar_source_refs :: "jsstring list"
  ar_confidence :: "jsstring option"
  ar_evidence_quality :: "jsstring option"
  ar_reconstructed_by :: "jsstring option"
  ar_payload :: json

record sourceRow =
  so_source_id :: jsstring
  so_run_id :: jsstring
  so_source_system :: jsstring
  so_source_event_id :: "jsstring option"
  so_source_kind :: jsstring
  so_verified :: bool
  so_source_ref :: "jsstring option"
  so_source_digest :: "jsstring option"
  so_occurred_at :: "jsstring option"
  so_authority_ref :: "jsstring option"
  so_evidence_refs :: "jsstring list"

record gateRow =
  ga_gate_id :: jsstring
  ga_run_id :: jsstring
  ga_gate_label :: "jsstring option"
  ga_boundary :: "jsstring option"
  ga_authority_ref :: "jsstring option"
  ga_state :: "jsstring option"
  ga_summary :: "jsstring option"
  ga_node_count :: "int option"
  ga_artifact_count :: "int option"
  ga_source_refs :: "jsstring list"

record nodeRow =
  no_node_id :: jsstring
  no_run_id :: jsstring
  no_gate_id :: "jsstring option"
  no_family :: "jsstring option"
  no_boundary :: "jsstring option"
  no_state :: "jsstring option"
  no_label :: "jsstring option"
  no_source_refs :: "jsstring list"

record eventRow =
  evr_run_id :: jsstring
  evr_source_system :: jsstring
  evr_source_event_id :: jsstring
  evr_occurred_at :: "jsstring option"

section \<open>Evidence\<close>

record prEvidence =
  pe_created :: jsstring
  pe_merged :: jsstring
  pe_head :: jsstring
  pe_base :: jsstring

record ciEvidence =
  ce_created :: jsstring
  ce_head :: jsstring
  ce_status :: jsstring

record mailboxEvidence =
  me_id :: jsstring
  me_ts :: jsstring
  me_ref :: jsstring

record evidence =
  ev_issue :: "jsstring dict"
  ev_pr :: "prEvidence dict"
  ev_ci :: "ciEvidence dict"
  ev_scopeHash :: "jsstring dict"
  ev_mergeSha :: "jsstring dict"
  ev_mailbox :: "jsstring dict"
  ev_mailboxComment :: "mailboxEvidence dict"

definition pr_ev :: "string \<Rightarrow> string \<Rightarrow> string \<Rightarrow> string \<Rightarrow> prEvidence" where
  "pr_ev c m h b = \<lparr> pe_created = js c, pe_merged = js m, pe_head = js h, pe_base = js b \<rparr>"

definition ci_ev :: "string \<Rightarrow> string \<Rightarrow> string \<Rightarrow> ciEvidence" where
  "ci_ev c h s = \<lparr> ce_created = js c, ce_head = js h, ce_status = js s \<rparr>"

definition mb_ev :: "string \<Rightarrow> string \<Rightarrow> string \<Rightarrow> mailboxEvidence" where
  "mb_ev i t r = \<lparr> me_id = js i, me_ts = js t, me_ref = js r \<rparr>"

definition EVIDENCE :: evidence where
  "EVIDENCE = \<lparr>
     ev_issue = map (map_prod js js) [
       (''70'', ''2026-08-20T17:48:15Z''), (''71'', ''2026-08-20T17:48:31Z''), (''72'', ''2026-08-20T18:48:48Z''),
       (''73'', ''2026-08-20T18:48:58Z''), (''74'', ''2026-08-20T18:49:08Z''), (''75'', ''2026-08-20T18:49:17Z'')],
     ev_pr = map (map_prod js id) [
       (''76'', pr_ev ''2026-08-20T22:46:27Z'' ''2026-08-21T13:59:19Z'' ''78171b5783278d680e3aef331fbb5b7fef4d63d0'' ''50a32124e826e6b4cfa36b0e315ab29d2672136a''),
       (''77'', pr_ev ''2026-08-21T16:37:55Z'' ''2026-08-21T18:38:13Z'' ''a94cf134c38c999daa63994b2b02d856078daee2'' ''79e6c485910f681ee0318ff7128eaa6971f8cc2a''),
       (''78'', pr_ev ''2026-08-22T06:51:19Z'' ''2026-08-22T16:55:25Z'' ''4e4ba62b686f9aa49b932c412ec67b80767ed80d'' ''22d2d416169aaa8c60a84651d7f01694a193adb3''),
       (''79'', pr_ev ''2026-08-22T17:59:34Z'' ''2026-08-22T18:06:04Z'' ''5e59c889039968f606d52906c5433a21a4751bd9'' ''edb91060017ea02685718a1fadf1dbb7acddbee7'')],
     ev_ci = map (map_prod js id) [
       (''32477448758'', ci_ev ''2026-08-21T11:29:38Z'' ''78171b5783278d680e3aef331fbb5b7fef4d63d0'' ''SUCCESS''),
       (''32513844239'', ci_ev ''2026-08-21T18:32:09Z'' ''a94cf134c38c999daa63994b2b02d856078daee2'' ''SUCCESS''),
       (''32585204072'', ci_ev ''2026-08-22T16:36:12Z'' ''4e4ba62b686f9aa49b932c412ec67b80767ed80d'' ''SUCCESS''),
       (''32589399526'', ci_ev ''2026-08-22T17:59:37Z'' ''5e59c889039968f606d52906c5433a21a4751bd9'' ''SUCCESS'')],
     ev_scopeHash = map (map_prod js js) [
       (''76'', ''5dc46c3b8bc69b89fde4edd958bf7a398974d806649a277d52789e62ed85116f''),
       (''77'', ''84f3326b8126d700cbff3aff84c9cf901aae31ba4b55081f80820c46f2e718d1''), (''79'', ''aa5756f5dfc424ba'')],
     ev_mergeSha = map (map_prod js js) [
       (''76'', ''79e6c485910f681ee0318ff7128eaa6971f8cc2a''), (''77'', ''22d2d416169aaa8c60a84651d7f01694a193adb3''),
       (''78'', ''edb91060017ea02685718a1fadf1dbb7acddbee7''), (''79'', ''a992fa4824db17434f6bdf8aabe8d6f435cc5767'')],
     ev_mailbox = map (map_prod js js) [(''76'', ''71''), (''77'', ''72''), (''78'', ''73''), (''79'', ''70'')],
     ev_mailboxComment = map (map_prod js id) [
       (''76'', mb_ev ''5370838035'' ''2026-08-21T14:03:22Z'' ''github:issue/71#issuecomment-5370838035''),
       (''77'', mb_ev ''5370849202'' ''2026-08-21T14:04:08Z'' ''github:issue/72#issuecomment-5370849202''),
       (''78'', mb_ev ''5373867605'' ''2026-08-21T18:42:23Z'' ''github:issue/73#issuecomment-5373867605''),
       (''79'', mb_ev ''5381850075'' ''2026-08-22T18:08:14Z'' ''github:issue/70#issuecomment-5381850075'')] \<rparr>"

section \<open>Sources of the golden fixtures\<close>

definition golden_source :: "jsstring \<Rightarrow> jsstring \<Rightarrow> string \<Rightarrow> string \<Rightarrow> string \<Rightarrow> sourceRow" where
  "golden_source own_id run_id sys ref auth = \<lparr> so_source_id = js ''golden-'' @ own_id, so_run_id = run_id,
     so_source_system = js sys, so_source_event_id = None, so_source_kind = js ''golden_fixture'', so_verified = False,
     so_source_ref = Some (js ref), so_source_digest = None, so_occurred_at = None, so_authority_ref = Some (js auth),
     so_evidence_refs = [js ''PR #76 (M0 contract: Golden fixtures + replay tests)'', js ''source_run_id='' @ own_id] \<rparr>"

definition buildFixtureSources :: "jsstring \<Rightarrow> jsstring \<Rightarrow> sourceRow list" where
  "buildFixtureSources tc_run_id gwc_run_id =
     [golden_source tc_run_id tc_run_id ''taskcontroller'' ''fixtures/run_scrum555_m0.json'' ''G2-DW-OBS-M0-20260821-R2'',
      golden_source gwc_run_id tc_run_id ''gwc'' ''fixtures/run_gwc_durable_m0.json'' ''G2_EXECUTION'']"

section \<open>Reconstructed runs\<close>

record reconDef =
  rd_run_id :: jsstring
  rd_approval_id :: jsstring
  rd_pr_number :: int
  rd_issue :: jsstring
  rd_gate_id :: "jsstring option"
  rd_nodes :: "jsstring list option"
  rd_ci_run_id :: jsstring
  rd_milestone :: jsstring
  rd_has_alignment_scope :: bool
  rd_scope_hash :: "jsstring option"
  rd_base_sha :: "jsstring option"
  rd_head_sha :: "jsstring option"
  rd_merge_sha :: "jsstring option"
  rd_branch :: "jsstring option"

definition recon :: "string \<Rightarrow> string \<Rightarrow> int \<Rightarrow> string \<Rightarrow> string \<Rightarrow> string option \<Rightarrow> string list option \<Rightarrow> string \<Rightarrow>
    string \<Rightarrow> string \<Rightarrow> reconDef" where
  "recon run_id approval pr key issue gate ns milestone branch ci =
     \<lparr> rd_run_id = js run_id, rd_approval_id = js approval, rd_pr_number = pr, rd_issue = js issue,
       rd_gate_id = map_option js gate, rd_nodes = map_option (map js) ns, rd_ci_run_id = js ci,
       rd_milestone = js milestone, rd_has_alignment_scope = True,
       rd_scope_hash = dict_get (ev_scopeHash EVIDENCE) (js key),
       rd_base_sha = map_option pe_base (dict_get (ev_pr EVIDENCE) (js key)),
       rd_head_sha = map_option pe_head (dict_get (ev_pr EVIDENCE) (js key)),
       rd_merge_sha = dict_get (ev_mergeSha EVIDENCE) (js key), rd_branch = Some (js branch) \<rparr>"

definition RECONSTRUCTED :: "reconDef list" where
  "RECONSTRUCTED = [
     recon ''DW-OBS-M0-20260821-R2'' ''G2-DW-OBS-M0-20260821-R2'' 76 ''76'' ''71'' (Some ''G2-DW-OBS-M0-20260821-R2'')
       (Some [''71'']) ''M0'' ''auto/SCRUM-555-dw-observation-m0-r2'' ''32477448758'',
     recon ''DW-OBS-M1-20260821-R1'' ''G2-DW-OBS-M1-20260821-R1'' 77 ''77'' ''72'' (Some ''G2-DW-OBS-M1-20260821-R1'')
       None ''M1'' ''auto/SCRUM-555-dw-observation-m1-r1'' ''32513844239'',
     recon ''DW-OBS-M2-20260822-R1'' ''G2-DW-OBS-M2-20260822-R1'' 78 ''78'' ''73'' None
       None ''M2'' ''auto/SCRUM-555-dw-observation-m2-r1'' ''32585204072'',
     recon ''DW-OBS-M3M4-20260823-R1'' ''G2-DW-OBS-M3M4-20260823-R1'' 79 ''79'' ''70'' (Some ''G2-DW-OBS-M3M4-20260823-R1'')
       (Some [''74'', ''75'']) ''M3/M4'' ''auto/SCRUM-555-dw-observation-m3m4-r1'' ''32589399526'']"

record backfillRows =
  br_runs :: "runsRow list"
  br_gates :: "gateRow list"
  br_nodes :: "nodeRow list"
  br_sources :: "sourceRow list"
  br_artifacts :: "artifactRow list"

text \<open>What one iteration reads from the evidence table.\<close>

record lookups =
  lk_pr :: prEvidence
  lk_iss :: "jsstring option"
  lk_ci :: "ciEvidence option"
  lk_mailboxIssue :: "jsstring option"
  lk_mb :: mailboxEvidence

definition lookup_evidence :: "reconDef \<Rightarrow> lookups option" where
  "lookup_evidence d =
     (let k = show_int (rd_pr_number d) in
      case (dict_get (ev_pr EVIDENCE) k, dict_get (ev_mailboxComment EVIDENCE) k) of
        (Some pr, Some mb) \<Rightarrow> Some \<lparr> lk_pr = pr, lk_iss = dict_get (ev_issue EVIDENCE) (rd_issue d),
           lk_ci = dict_get (ev_ci EVIDENCE) (rd_ci_run_id d),
           lk_mailboxIssue = dict_get (ev_mailbox EVIDENCE) k, lk_mb = mb \<rparr>
      | _ \<Rightarrow> None)"

text \<open>A template literal hole: \<open>undefined\<close> is printed.\<close>

definition hole :: "jsstring option \<Rightarrow> jsstring" where
  "hole v = (case v of None \<Rightarrow> js ''undefined'' | Some s \<Rightarrow> s)"

definition pull_ref :: "reconDef \<Rightarrow> jsstring" where
  "pull_ref d = js ''github:pull/'' @ show_int (rd_pr_number d)"

definition issue_ref :: "lookups \<Rightarrow> jsstring" where
  "issue_ref l = js ''github:issue/'' @ hole (lk_mailboxIssue l)"

definition ci_ref :: "reconDef \<Rightarrow> jsstring" where
  "ci_ref d = js ''github:actions:run/'' @ rd_ci_run_id d"

definition recon_run :: "jsstring \<Rightarrow> reconDef \<Rightarrow> lookups \<Rightarrow> runsRow" where
  "recon_run at d l = \<lparr> ru_run_id = rd_run_id d, ru_run_kind = js ''reconstructed_history'',
     ru_source_system = js ''taskcontroller'', ru_epic_id = None, ru_jira_key = Some (js ''SCRUM-555''),
     ru_parent_issue = Some (rd_issue d), ru_authority_ref = Some (rd_approval_id d), ru_scope_hash = rd_scope_hash d,
     ru_base_sha = rd_base_sha d, ru_head_sha = rd_head_sha d, ru_merge_sha = rd_merge_sha d,
     ru_base_branch = Some (js ''pre-prod''), ru_branch = rd_branch d, ru_pr_number = Some (rd_pr_number d),
     ru_ci_run_id = Some (rd_ci_run_id d), ru_ci_status = map_option ce_status (lk_ci l),
     ru_started_at = Some (pe_created (lk_pr l)), ru_completed_at = Some (pe_merged (lk_pr l)),
     ru_reconstruction_basis = Some (js ''PR #'' @ show_int (rd_pr_number d) @ js '' (merged '' @ pe_merged (lk_pr l) @
        js '') + terminal mailbox '' @ me_ref (lk_mb l)),
     ru_source_refs = [pull_ref d, issue_ref l, me_ref (lk_mb l), ci_ref d],
     ru_confidence = Some (js ''HIGH''), ru_evidence_quality = Some (js ''STRONG''),
     ru_reconstructed_by = Some (js ''TaskController/Hermes''), ru_reconstructed_at = Some at,
     ru_payload = JObj [(js ''milestone'', JStr (rd_milestone d)), (js ''approval_id'', JStr (rd_approval_id d))] \<rparr>"

definition source_row :: "string \<Rightarrow> reconDef \<Rightarrow> string \<Rightarrow> string \<Rightarrow> bool \<Rightarrow> jsstring \<Rightarrow> jsstring option \<Rightarrow>
    jsstring option \<Rightarrow> jsstring list \<Rightarrow> sourceRow" where
  "source_row prefix d sys kind verified ref occurred auth refs = \<lparr> so_source_id = js prefix @ rd_run_id d,
     so_run_id = rd_run_id d, so_source_system = js sys, so_source_event_id = None, so_source_kind = js kind,
     so_verified = verified, so_source_ref = Some ref, so_source_digest = None, so_occurred_at = occurred,
     so_authority_ref = auth, so_evidence_refs = refs \<rparr>"

definition recon_sources :: "jsstring \<Rightarrow> reconDef \<Rightarrow> lookups \<Rightarrow> sourceRow list" where
  "recon_sources at d l = [
     source_row ''pr-'' d ''github'' ''github_pr'' True (pull_ref d) (Some (pe_merged (lk_pr l))) None
       [js ''PR #'' @ show_int (rd_pr_number d) @ js '' merged '' @ pe_merged (lk_pr l)],
     source_row ''issue-'' d ''github'' ''github_issue'' True (issue_ref l) (lk_iss l) None
       [js ''issue #'' @ hole (lk_mailboxIssue l) @ js '' created '' @ hole (lk_iss l)],
     source_row ''ci-'' d ''github'' ''ci_run'' True (ci_ref d) (map_option ce_created (lk_ci l)) None
       [js ''CI run '' @ rd_ci_run_id d @ js '' '' @ hole (map_option ce_status (lk_ci l)) @ js '' @ '' @
        hole (map_option ce_head (lk_ci l))],
     source_row ''recon-'' d ''repo_governance'' ''reconstruction'' False
       (js ''.gwc/tasks/SCRUM-555/history-backfill/RECONSTRUCTION.md'') (Some at) None
       [js ''PR #'' @ show_int (rd_pr_number d), js ''issue #'' @ hole (lk_mailboxIssue l)],
     source_row ''mailbox-'' d ''github'' ''controller_mailbox'' True (me_ref (lk_mb l)) (Some (me_ts (lk_mb l)))
       (Some (rd_approval_id d))
       [js ''terminal mailbox comment '' @ me_ref (lk_mb l), js ''run_id='' @ rd_run_id d,
        js ''approval_id='' @ rd_approval_id d,
        js ''scope_hash='' @ (case rd_scope_hash d of Some h \<Rightarrow> h | None \<Rightarrow> js ''n/a''),
        js ''head_sha='' @ hole (rd_head_sha d), js ''ci_run='' @ rd_ci_run_id d,
        js ''merge_sha='' @ hole (rd_merge_sha d)]]"

definition recon_gates :: "reconDef \<Rightarrow> lookups \<Rightarrow> gateRow list" where
  "recon_gates d l = (case rd_gate_id d of
      Some g \<Rightarrow> if g \<noteq> [] then [\<lparr> ga_gate_id = g, ga_run_id = rd_run_id d, ga_gate_label = Some g, ga_boundary = None,
         ga_authority_ref = Some (rd_approval_id d), ga_state = Some (js ''passed''),
         ga_summary = Some (js ''G2 authority for '' @ rd_run_id d),
         ga_node_count = Some (case rd_nodes d of Some ns \<Rightarrow> int (length ns) | None \<Rightarrow> 0), ga_artifact_count = Some 0,
         ga_source_refs = [pull_ref d, issue_ref l, ci_ref d] \<rparr>] else []
    | None \<Rightarrow> [])"

definition recon_nodes :: "reconDef \<Rightarrow> lookups \<Rightarrow> nodeRow list" where
  "recon_nodes d l = map (\<lambda>n. \<lparr> no_node_id = n, no_run_id = rd_run_id d, no_gate_id = rd_gate_id d, no_family = None,
      no_boundary = None, no_state = Some (js ''done''), no_label = Some (js ''node '' @ n),
      no_source_refs = [issue_ref l] \<rparr>) (case rd_nodes d of Some ns \<Rightarrow> ns | None \<Rightarrow> [])"

definition artifact_row :: "jsstring \<Rightarrow> reconDef \<Rightarrow> lookups \<Rightarrow> string \<Rightarrow> jsstring \<Rightarrow> jsstring option \<Rightarrow> jsstring list \<Rightarrow> artifactRow" where
  "artifact_row at d l ty basis occurred refs = \<lparr> ar_artifact_id = rd_run_id d @ js '':'' @ js ty,
     ar_run_id = rd_run_id d, ar_artifact_type = js ty, ar_artifact_status = js ''reconstructed'',
     ar_original_present = False, ar_source_occurred_at = occurred, ar_effective_at = Some (pe_merged (lk_pr l)),
     ar_reconstructed_at = Some at, ar_reconstruction_basis = Some basis, ar_source_refs = refs,
     ar_confidence = Some (js ''HIGH''), ar_evidence_quality = Some (js ''STRONG''),
     ar_reconstructed_by = Some (js ''TaskController/Hermes''), ar_payload = JObj [(js ''milestone'', JStr (rd_milestone d))] \<rparr>"

definition recon_artifacts :: "jsstring \<Rightarrow> reconDef \<Rightarrow> lookups \<Rightarrow> artifactRow list" where
  "recon_artifacts at d l = [
     artifact_row at d l ''reconstructed_context_evidence''
       (js ''Reconstructed from terminal mailbox issue #'' @ hole (lk_mailboxIssue l) @ js '' context (created '' @ hole (lk_iss l) @ js '')'')
       (lk_iss l) [issue_ref l],
     artifact_row at d l ''reconstructed_delivery_record''
       (js ''Reconstructed from PR #'' @ show_int (rd_pr_number d) @ js '' merge record (merged '' @ pe_merged (lk_pr l) @ js '')'')
       (Some (pe_merged (lk_pr l))) [pull_ref d, issue_ref l],
     artifact_row at d l ''reconstructed_ci_evidence''
       (js ''Reconstructed from CI run '' @ rd_ci_run_id d @ js '' ('' @ hole (map_option ce_status (lk_ci l)) @ js '' @ '' @
        hole (map_option ce_head (lk_ci l)) @ js '', '' @ hole (map_option ce_created (lk_ci l)) @ js '')'')
       (map_option ce_created (lk_ci l)) [ci_ref d, issue_ref l, me_ref (lk_mb l)]] @
    (if rd_has_alignment_scope d then
      [artifact_row at d l ''reconstructed_alignment_scope''
        (js ''Reconstructed gate alignment scope (scope_hash '' @ (case rd_scope_hash d of Some h \<Rightarrow> h | None \<Rightarrow> js ''n/a'') @
         js '') from PR #'' @ show_int (rd_pr_number d) @ js '' + mailbox #'' @ hole (lk_mailboxIssue l))
        (Some (pe_merged (lk_pr l))) [pull_ref d, issue_ref l]]
     else [])"

definition evidencePath :: jsstring where
  "evidencePath = js ''.gwc/tasks/SCRUM-555/M3-M4-EVIDENCE.md''"

definition M3M4_RUN :: jsstring where
  "M3M4_RUN = js ''DW-OBS-M3M4-20260823-R1''"

definition m3m4_source :: "jsstring option \<Rightarrow> reconDef \<Rightarrow> sourceRow" where
  "m3m4_source digest d = \<lparr> so_source_id = js ''evidence-DW-OBS-M3M4-20260823-R1'', so_run_id = rd_run_id d,
     so_source_system = js ''repo_governance'', so_source_event_id = None, so_source_kind = js ''repo_governance'',
     so_verified = True, so_source_ref = Some evidencePath, so_source_digest = digest, so_occurred_at = None,
     so_authority_ref = None, so_evidence_refs = [evidencePath] \<rparr>"

definition m3m4_artifact :: "jsstring option \<Rightarrow> reconDef \<Rightarrow> lookups \<Rightarrow> artifactRow" where
  "m3m4_artifact digest d l = \<lparr> ar_artifact_id = rd_run_id d @ js '':M3-M4-EVIDENCE.md'', ar_run_id = rd_run_id d,
     ar_artifact_type = js ''historical_evidence_file'', ar_artifact_status = js ''original'', ar_original_present = True,
     ar_source_occurred_at = None, ar_effective_at = Some (pe_merged (lk_pr l)), ar_reconstructed_at = None,
     ar_reconstruction_basis = Some (js ''Real persisted historical file referenced by evidence''),
     ar_source_refs = [evidencePath], ar_confidence = Some (js ''HIGH''), ar_evidence_quality = Some (js ''STRONG''),
     ar_reconstructed_by = Some (js ''TaskController/Hermes''),
     ar_payload = JObj [(js ''repo_ref'', JStr evidencePath), (js ''digest'', case digest of Some h \<Rightarrow> JStr h | None \<Rightarrow> JUndef)] \<rparr>"

text \<open>One iteration of the loop; \<open>None\<close> is the exception for a missing evidence entry.\<close>

definition recon_step :: "jsstring \<Rightarrow> jsstring option \<Rightarrow> reconDef \<Rightarrow> backfillRows \<Rightarrow> backfillRows option" where
  "recon_step at digest d b =
     (case lookup_evidence d of None \<Rightarrow> None
      | Some l \<Rightarrow> Some \<lparr>
          br_runs = br_runs b @ [recon_run at d l],
          br_gates = br_gates b @ recon_gates d l,
          br_nodes = br_nodes b @ recon_nodes d l,
          br_sources = br_sources b @ recon_sources at d l @
            (if rd_run_id d = M3M4_RUN then [m3m4_source digest d] else []),
          br_artifacts = br_artifacts b @ recon_artifacts at d l @
            (if rd_run_id d = M3M4_RUN then [m3m4_artifact digest d l] else []) \<rparr>)"

fun recon_loop :: "jsstring \<Rightarrow> jsstring option \<Rightarrow> reconDef list \<Rightarrow> backfillRows \<Rightarrow> backfillRows option" where
  "recon_loop at digest [] b = Some b"
| "recon_loop at digest (d # ds) b = (case recon_step at digest d b of None \<Rightarrow> None | Some b' \<Rightarrow> recon_loop at digest ds b')"

definition no_rows :: backfillRows where
  "no_rows = \<lparr> br_runs = [], br_gates = [], br_nodes = [], br_sources = [], br_artifacts = [] \<rparr>"

definition buildReconstructed :: "jsstring \<Rightarrow> jsstring option \<Rightarrow> backfillRows option" where
  "buildReconstructed at digest = recon_loop at digest RECONSTRUCTED no_rows"

section \<open>Validation\<close>

record dryRunReport =
  dr_ok :: bool
  dr_counts :: "nat dict"
  dr_byRunKind :: "nat dict"
  dr_byArtifactStatus :: "nat dict"
  dr_artifactStatusByRun :: "nat dict dict"
  dr_upsertKeyConflicts :: "jsstring list"
  dr_duplicateRunRows :: "jsstring list"
  dr_realVsSimSeparation :: bool
  dr_riChecks :: "jsstring list"
  dr_provenanceChecks :: "jsstring list"
  dr_schemaChecks :: "jsstring list"
  dr_rollback :: jsstring
  dr_errors :: "jsstring list"

text \<open>The keys seen before, one report per repetition.\<close>

fun repeated :: "jsstring list \<Rightarrow> jsstring list \<Rightarrow> jsstring list" where
  "repeated seen [] = []"
| "repeated seen (k # ks) = (if k \<in> set seen then [k] else []) @ repeated (k # seen) ks"

definition RUN_KIND :: "jsstring list" where
  "RUN_KIND = map js [''observed_real'', ''simulated_fixture'', ''golden_fixture'', ''reconstructed_history'']"

definition SRC_SYS :: "jsstring list" where
  "SRC_SYS = map js [''taskcontroller'', ''gwc'', ''github'', ''repo_governance'']"

definition SRC_KIND :: "jsstring list" where
  "SRC_KIND = map js [''live_capture'', ''golden_fixture'', ''github_pr'', ''github_issue'', ''ci_run'', ''gwc_artifact'',
     ''reconstruction'', ''repo_governance'', ''controller_mailbox'']"

definition ART_STATUS :: "jsstring list" where
  "ART_STATUS = map js [''original'', ''reconstructed'', ''missing_unreconstructable'']"

definition CONF :: "jsstring list" where
  "CONF = map js [''HIGH'', ''PARTIAL'', ''UNKNOWN'']"

definition EQ :: "jsstring list" where
  "EQ = map js [''STRONG'', ''PARTIAL'', ''WEAK'', ''NONE'']"

definition note_if :: "bool \<Rightarrow> jsstring \<Rightarrow> jsstring list" where
  "note_if c msg = (if c then [msg] else [])"

text \<open>\<open>v && !allowed.includes(v)\<close>\<close>

definition bad_opt :: "jsstring list \<Rightarrow> jsstring option \<Rightarrow> bool" where
  "bad_opt allowed v = (case v of None \<Rightarrow> False | Some s \<Rightarrow> s \<noteq> [] \<and> s \<notin> set allowed)"

definition ri_checks :: "runsRow list \<Rightarrow> eventRow list \<Rightarrow> gateRow list \<Rightarrow> nodeRow list \<Rightarrow> sourceRow list \<Rightarrow> artifactRow list \<Rightarrow> jsstring list" where
  "ri_checks runs events gates nodes sources artifacts =
     (let runIds = map ru_run_id runs in
      concat (map (\<lambda>e. note_if (evr_run_id e \<notin> set runIds) (js ''event '' @ evr_source_event_id e @ js '' -> missing run '' @ evr_run_id e)) events) @
      concat (map (\<lambda>g. note_if (ga_run_id g \<notin> set runIds) (js ''gate '' @ ga_gate_id g @ js '' -> missing run '' @ ga_run_id g)) gates) @
      concat (map (\<lambda>n. note_if (no_run_id n \<notin> set runIds) (js ''node '' @ no_node_id n @ js '' -> missing run '' @ no_run_id n)) nodes) @
      concat (map (\<lambda>s. note_if (so_run_id s \<notin> set runIds) (js ''source '' @ so_source_id s @ js '' -> missing run '' @ so_run_id s)) sources) @
      concat (map (\<lambda>a. note_if (ar_run_id a \<notin> set runIds) (js ''artifact '' @ ar_artifact_id a @ js '' -> missing run '' @ ar_run_id a)) artifacts))"

definition valid_refs :: "sourceRow list \<Rightarrow> jsstring \<Rightarrow> jsstring list" where
  "valid_refs sources run_id = filter (\<lambda>r. r \<noteq> []) (List.map_filter so_source_ref (filter (\<lambda>s. so_run_id s = run_id) sources))"

definition provenance_checks :: "runsRow list \<Rightarrow> sourceRow list \<Rightarrow> artifactRow list \<Rightarrow> jsstring list" where
  "provenance_checks runs sources artifacts =
     concat (map (\<lambda>r. note_if (ru_run_kind r = js ''reconstructed_history'' \<and> \<not> list_ex (\<lambda>s. so_run_id s = ru_run_id r) sources)
       (js ''reconstructed run '' @ ru_run_id r @ js '' has no run_sources row'')) runs) @
     concat (map (\<lambda>a.
       concat (map (\<lambda>ref. note_if (ref \<notin> set (valid_refs sources (ar_run_id a)))
         (js ''artifact '' @ ar_artifact_id a @ js '' ref '' @ [39] @ ref @ [39] @ js '' does not resolve to a run_sources row of run '' @ ar_run_id a))
         (ar_source_refs a)) @
       note_if (ar_source_refs a = []) (js ''artifact '' @ ar_artifact_id a @ js '' has no source_refs'')) artifacts)"

definition schema_checks :: "runsRow list \<Rightarrow> eventRow list \<Rightarrow> gateRow list \<Rightarrow> nodeRow list \<Rightarrow> sourceRow list \<Rightarrow> artifactRow list \<Rightarrow> jsstring list" where
  "schema_checks runs events gates nodes sources artifacts =
     (let runIds = map ru_run_id runs; gateIds = map ga_gate_id gates in
      concat (map (\<lambda>r.
        note_if (ru_run_kind r \<notin> set RUN_KIND) (js ''runs '' @ ru_run_id r @ js '' run_kind invalid: '' @ ru_run_kind r) @
        note_if (ru_source_system r \<notin> set SRC_SYS) (js ''runs '' @ ru_run_id r @ js '' source_system invalid: '' @ ru_source_system r) @
        note_if (bad_opt CONF (ru_confidence r)) (js ''runs '' @ ru_run_id r @ js '' confidence invalid'') @
        note_if (bad_opt EQ (ru_evidence_quality r)) (js ''runs '' @ ru_run_id r @ js '' evidence_quality invalid'')) runs) @
      concat (map (\<lambda>e.
        note_if (evr_occurred_at e = None) (js ''run_events '' @ evr_source_event_id e @ js '' occurred_at NOT NULL violated'') @
        note_if (evr_source_system e \<notin> set SRC_SYS) (js ''run_events '' @ evr_source_event_id e @ js '' source_system invalid'')) events) @
      concat (map (\<lambda>g.
        note_if (ga_gate_id g = []) (js ''run_gates gate_id NOT NULL violated'') @
        note_if (ga_run_id g \<notin> set runIds) (js ''run_gates '' @ ga_gate_id g @ js '' FK run missing'')) gates) @
      concat (map (\<lambda>n.
        note_if (no_node_id n = []) (js ''run_nodes node_id NOT NULL violated'') @
        note_if (no_run_id n \<notin> set runIds) (js ''run_nodes '' @ no_node_id n @ js '' FK run missing'') @
        note_if (bad_opt gateIds (no_gate_id n)) (js ''run_nodes '' @ no_node_id n @ js '' FK gate '' @ hole (no_gate_id n) @
          js '' missing (nullable FK ok if null)'')) nodes) @
      concat (map (\<lambda>s.
        note_if (so_source_system s \<notin> set SRC_SYS) (js ''run_sources '' @ so_source_id s @ js '' source_system invalid: '' @ so_source_system s) @
        note_if (so_source_kind s \<notin> set SRC_KIND) (js ''run_sources '' @ so_source_id s @ js '' source_kind invalid: '' @ so_source_kind s)) sources) @
      concat (map (\<lambda>a.
        note_if (ar_artifact_status a \<notin> set ART_STATUS) (js ''run_artifacts '' @ ar_artifact_id a @ js '' artifact_status invalid'') @
        note_if (bad_opt CONF (ar_confidence a)) (js ''run_artifacts '' @ ar_artifact_id a @ js '' confidence invalid'') @
        note_if (bad_opt EQ (ar_evidence_quality a)) (js ''run_artifacts '' @ ar_artifact_id a @ js '' evidence_quality invalid'')) artifacts))"

definition event_key :: "eventRow \<Rightarrow> jsstring" where
  "event_key e = evr_run_id e @ js ''|'' @ evr_source_system e @ js ''|'' @ evr_source_event_id e"

definition count_by_run :: "artifactRow \<Rightarrow> nat dict dict \<Rightarrow> nat dict dict" where
  "count_by_run a m = dict_put (ar_run_id a)
     (dict_incr (ar_artifact_status a) (case dict_get m (ar_run_id a) of Some c \<Rightarrow> c | None \<Rightarrow> [])) m"

definition validate :: "runsRow list \<Rightarrow> eventRow list \<Rightarrow> gateRow list \<Rightarrow> nodeRow list \<Rightarrow> sourceRow list \<Rightarrow> artifactRow list \<Rightarrow> dryRunReport" where
  "validate runs events gates nodes sources artifacts =
     (let duplicateRunRows = repeated [] (map ru_run_id runs);
          upsertKeyConflicts = repeated [] (map event_key events);
          byRunKind = fold (\<lambda>r. dict_incr (ru_run_kind r)) runs [];
          observed = (case dict_get byRunKind (js ''observed_real'') of Some n \<Rightarrow> n | None \<Rightarrow> 0);
          realVsSimSeparation = (observed = 0);
          riChecks = ri_checks runs events gates nodes sources artifacts;
          provenanceChecks = provenance_checks runs sources artifacts;
          schemaChecks = schema_checks runs events gates nodes sources artifacts;
          errors =
            note_if (duplicateRunRows \<noteq> []) (js ''duplicate run rows: '' @ js_join (js '', '') duplicateRunRows) @
            note_if (upsertKeyConflicts \<noteq> []) (js ''event upsert conflicts: '' @ show_nat (length upsertKeyConflicts)) @
            note_if (riChecks \<noteq> []) (js ''RI violations: '' @ show_nat (length riChecks)) @
            note_if (\<not> realVsSimSeparation) (js ''observed_real='' @ show_nat observed @ js '' (expected 0)'') @
            note_if (provenanceChecks \<noteq> []) (js ''provenance violations: '' @ show_nat (length provenanceChecks)) @
            note_if (schemaChecks \<noteq> []) (js ''schema constraint violations: '' @ show_nat (length schemaChecks))
      in \<lparr> dr_ok = (errors = []),
           dr_counts = [(js ''runs'', length runs), (js ''events'', length events), (js ''gates'', length gates),
             (js ''nodes'', length nodes), (js ''artifacts'', length artifacts), (js ''checkpoints'', 0), (js ''edges'', 0),
             (js ''sources'', length sources)],
           dr_byRunKind = byRunKind,
           dr_byArtifactStatus = fold (\<lambda>a. dict_incr (ar_artifact_status a)) artifacts [],
           dr_artifactStatusByRun = fold count_by_run artifacts [],
           dr_upsertKeyConflicts = upsertKeyConflicts, dr_duplicateRunRows = duplicateRunRows,
           dr_realVsSimSeparation = realVsSimSeparation, dr_riChecks = riChecks,
           dr_provenanceChecks = provenanceChecks, dr_schemaChecks = schemaChecks,
           dr_rollback = js ''DROP TABLE IF EXISTS run_sources, run_edges, run_checkpoints, run_artifacts, run_events, run_nodes, run_gates, runs CASCADE;'',
           dr_errors = errors \<rparr>)"

section \<open>SQL\<close>

text \<open>\<open>s.replace(/'/g, "''")\<close>\<close>

definition double_quotes :: "jsstring \<Rightarrow> jsstring" where
  "double_quotes s = concat (map (\<lambda>c. if c = 39 then [39, 39] else [c]) s)"

fun sqlStr :: "json \<Rightarrow> jsstring" where
  "sqlStr JNull = js ''NULL''"
| "sqlStr JUndef = js ''NULL''"
| "sqlStr (JNum n) = show_int n"
| "sqlStr (JBool b) = (if b then js ''true'' else js ''false'')"
| "sqlStr v = [39] @ double_quotes (jsString v) @ [39]"

definition escape_dquotes :: "jsstring \<Rightarrow> jsstring" where
  "escape_dquotes s = concat (map (\<lambda>c. if c = 34 then [92, 34] else [c]) s)"

definition sqlArr :: "jsstring list \<Rightarrow> jsstring" where
  "sqlArr arr = (if arr = [] then [39] @ js ''{}'' @ [39]
     else [39] @ js ''{'' @ js_join (js '','') (map (\<lambda>x. [34] @ escape_dquotes x @ [34]) arr) @ js ''}'' @ [39])"

definition so :: "jsstring option \<Rightarrow> jsstring" where
  "so v = sqlStr (case v of None \<Rightarrow> JUndef | Some s \<Rightarrow> JStr s)"

definition ni :: "int option \<Rightarrow> jsstring" where
  "ni v = sqlStr (case v of None \<Rightarrow> JUndef | Some n \<Rightarrow> JNum n)"

definition sq :: "jsstring \<Rightarrow> jsstring" where
  "sq s = sqlStr (JStr s)"

definition empty_jsonb :: jsstring where
  "empty_jsonb = [39] @ js ''{}'' @ [39] @ js ''::jsonb''"

definition insert_stmt :: "string \<Rightarrow> string \<Rightarrow> jsstring list \<Rightarrow> string \<Rightarrow> jsstring" where
  "insert_stmt table cols vals conflict =
     js ''INSERT INTO '' @ js table @ js '' ('' @ js cols @ js '') VALUES ('' @ js_join (js '','') vals @
     js '') ON CONFLICT ('' @ js conflict @ js '') DO NOTHING;''"

definition run_insert :: "runsRow \<Rightarrow> jsstring" where
  "run_insert r = insert_stmt ''runs''
     ''run_id,run_kind,source_system,epic_id,jira_key,parent_issue,authority_ref,scope_hash,base_sha,head_sha,merge_sha,base_branch,branch,pr_number,ci_run_id,ci_status,started_at,completed_at,reconstruction_basis,source_refs,confidence,evidence_quality,reconstructed_by,reconstructed_at,payload''
     [sq (ru_run_id r), sq (ru_run_kind r), sq (ru_source_system r), so (ru_epic_id r), so (ru_jira_key r),
      so (ru_parent_issue r), so (ru_authority_ref r), so (ru_scope_hash r), so (ru_base_sha r), so (ru_head_sha r),
      so (ru_merge_sha r), so (ru_base_branch r), so (ru_branch r), ni (ru_pr_number r), so (ru_ci_run_id r),
      so (ru_ci_status r), so (ru_started_at r), so (ru_completed_at r), so (ru_reconstruction_basis r),
      sqlArr (ru_source_refs r), so (ru_confidence r), so (ru_evidence_quality r), so (ru_reconstructed_by r),
      so (ru_reconstructed_at r), empty_jsonb] ''run_id''"

definition gate_insert :: "gateRow \<Rightarrow> jsstring" where
  "gate_insert g = insert_stmt ''run_gates''
     ''gate_id,run_id,gate_label,boundary,authority_ref,state,summary,node_count,artifact_count,source_refs''
     [sq (ga_gate_id g), sq (ga_run_id g), so (ga_gate_label g), so (ga_boundary g), so (ga_authority_ref g),
      so (ga_state g), so (ga_summary g), ni (ga_node_count g), ni (ga_artifact_count g), sqlArr (ga_source_refs g)] ''gate_id''"

definition node_insert :: "nodeRow \<Rightarrow> jsstring" where
  "node_insert n = insert_stmt ''run_nodes'' ''node_id,run_id,gate_id,family,boundary,state,label,source_refs''
     [sq (no_node_id n), sq (no_run_id n), so (no_gate_id n), so (no_family n), so (no_boundary n), so (no_state n),
      so (no_label n), sqlArr (no_source_refs n)] ''node_id''"

definition source_insert :: "sourceRow \<Rightarrow> jsstring" where
  "source_insert s = insert_stmt ''run_sources''
     ''source_id,run_id,source_system,source_event_id,source_kind,capture_provenance_verified,source_ref,source_digest,occurred_at,authority_ref,evidence_refs''
     [sq (so_source_id s), sq (so_run_id s), sq (so_source_system s), so (so_source_event_id s), sq (so_source_kind s),
      sqlStr (JBool (so_verified s)), so (so_source_ref s), so (so_source_digest s), so (so_occurred_at s),
      so (so_authority_ref s), sqlArr (so_evidence_refs s)] ''run_id,source_id''"

definition artifact_insert :: "artifactRow \<Rightarrow> jsstring" where
  "artifact_insert a = insert_stmt ''run_artifacts''
     ''artifact_id,run_id,artifact_type,artifact_status,original_artifact_present,source_occurred_at,effective_at,reconstructed_at,reconstruction_basis,source_refs,confidence,evidence_quality,reconstructed_by,payload''
     [sq (ar_artifact_id a), sq (ar_run_id a), sq (ar_artifact_type a), sq (ar_artifact_status a),
      sqlStr (JBool (ar_original_present a)), so (ar_source_occurred_at a), so (ar_effective_at a),
      so (ar_reconstructed_at a), so (ar_reconstruction_basis a), sqlArr (ar_source_refs a), so (ar_confidence a),
      so (ar_evidence_quality a), so (ar_reconstructed_by a), empty_jsonb] ''artifact_id''"

definition emitDML :: "backfillRows \<Rightarrow> jsstring" where
  "emitDML b = js_join [10] (
     [js ''-- DW-OBS-HIST-BACKFILL-R1 '' @ [0xB7] @ js '' deterministic backfill DML (idempotent ON CONFLICT DO NOTHING)'',
      js ''-- Applied by '' @ [39] @ js ''supabase db push --linked --include-all'' @ [39] @ js '' once committed under supabase/migrations.'',
      js ''BEGIN;''] @
     map run_insert (br_runs b) @ map gate_insert (br_gates b) @ map node_insert (br_nodes b) @
     map source_insert (br_sources b) @ map artifact_insert (br_artifacts b) @ [js ''COMMIT;''])"

definition main_report :: "jsstring \<Rightarrow> jsstring option \<Rightarrow> jsstring \<Rightarrow> jsstring \<Rightarrow> dryRunReport option" where
  "main_report at digest tc_run_id gwc_run_id =
     (case buildReconstructed at digest of None \<Rightarrow> None
      | Some rec \<Rightarrow> Some (validate (br_runs rec) [] (br_gates rec) (br_nodes rec)
          (buildFixtureSources tc_run_id gwc_run_id @ br_sources rec) (br_artifacts rec)))"

section \<open>When the report is ok\<close>

lemma note_if_Nil [simp]: "note_if c m = [] \<longleftrightarrow> \<not> c"
  by (simp add: note_if_def)

lemma repeated_Nil: "repeated seen ks = [] \<longleftrightarrow> distinct ks \<and> set ks \<inter> set seen = {}"
  by (induction ks arbitrary: seen) auto

lemma kinds_counted: "dict_get (fold (\<lambda>r. dict_incr (ru_run_kind r)) runs m) k = None \<longleftrightarrow>
    dict_get m k = None \<and> k \<notin> ru_run_kind ` set runs"
  by (induction runs arbitrary: m) (auto simp: dict_incr_def)

lemma validate_ok:
  assumes "distinct (map ru_run_id runs)" and "js ''observed_real'' \<notin> ru_run_kind ` set runs"
    and "ri_checks runs [] gates nodes sources artifacts = []" and "provenance_checks runs sources artifacts = []"
    and "schema_checks runs [] gates nodes sources artifacts = []"
  shows "dr_ok (validate runs [] gates nodes sources artifacts)"
proof -
  have "dict_get (fold (\<lambda>r. dict_incr (ru_run_kind r)) runs []) (js ''observed_real'') = None"
    using assms(2) by (simp add: kinds_counted)
  with assms show ?thesis by (simp add: validate_def Let_def repeated_Nil)
qed

lemma validate_ok_ri: "dr_ok (validate runs events gates nodes sources artifacts) \<Longrightarrow>
    ri_checks runs events gates nodes sources artifacts = []"
  by (simp add: validate_def Let_def)

section \<open>The rows of a list of definitions\<close>

definition rows_for :: "jsstring \<Rightarrow> jsstring option \<Rightarrow> (reconDef \<times> lookups) list \<Rightarrow> backfillRows" where
  "rows_for at digest dls = \<lparr>
     br_runs = map (\<lambda>(d, l). recon_run at d l) dls,
     br_gates = concat (map (\<lambda>(d, l). recon_gates d l) dls),
     br_nodes = concat (map (\<lambda>(d, l). recon_nodes d l) dls),
     br_sources = concat (map (\<lambda>(d, l). recon_sources at d l @ (if rd_run_id d = M3M4_RUN then [m3m4_source digest d] else [])) dls),
     br_artifacts = concat (map (\<lambda>(d, l). recon_artifacts at d l @ (if rd_run_id d = M3M4_RUN then [m3m4_artifact digest d l] else [])) dls) \<rparr>"

lemma rows_for_snoc:
  "lookup_evidence d = Some l \<Longrightarrow> recon_step at digest d (rows_for at digest dls) = Some (rows_for at digest (dls @ [(d, l)]))"
  by (simp add: recon_step_def rows_for_def)

lemma recon_loop_rows:
  "list_all2 (\<lambda>d l. lookup_evidence d = Some l) ds ls \<Longrightarrow>
   recon_loop at digest ds (rows_for at digest dls) = Some (rows_for at digest (dls @ zip ds ls))"
proof (induction ds ls arbitrary: dls rule: list_all2_induct)
  case (Cons d ds l ls)
  then show ?case by (simp add: rows_for_snoc)
qed simp

lemma rows_for_Nil: "rows_for at digest [] = no_rows"
  by (simp add: rows_for_def no_rows_def)

lemmas recon_row_defs = recon_run_def recon_sources_def recon_gates_def recon_nodes_def recon_artifacts_def
  source_row_def artifact_row_def m3m4_source_def m3m4_artifact_def

definition usable :: "reconDef \<times> lookups \<Rightarrow> bool" where
  "usable dl = (me_ref (lk_mb (snd dl)) \<noteq> [] \<and> [] \<notin> set (case rd_nodes (fst dl) of Some ns \<Rightarrow> ns | None \<Rightarrow> []))"

text \<open>Every row carries the run id of the definition it was made for.\<close>

lemma rows_for_run_ids:
  "map ru_run_id (br_runs (rows_for at digest dls)) = map (rd_run_id \<circ> fst) dls"
  "x \<in> set (br_gates (rows_for at digest dls)) \<Longrightarrow> ga_run_id x \<in> (rd_run_id \<circ> fst) ` set dls"
  "y \<in> set (br_nodes (rows_for at digest dls)) \<Longrightarrow> no_run_id y \<in> (rd_run_id \<circ> fst) ` set dls"
  "z \<in> set (br_sources (rows_for at digest dls)) \<Longrightarrow> so_run_id z \<in> (rd_run_id \<circ> fst) ` set dls"
  "a \<in> set (br_artifacts (rows_for at digest dls)) \<Longrightarrow> ar_run_id a \<in> (rd_run_id \<circ> fst) ` set dls"
  by (force simp: rows_for_def recon_row_defs split: if_splits option.splits)+

lemma ri_checks_rows:
  "ri_checks (br_runs b) [] (br_gates b) (br_nodes b) sources (br_artifacts b) = [] \<longleftrightarrow>
     (\<forall>s\<in>set sources. so_run_id s \<in> (rd_run_id \<circ> fst) ` set dls)"
  if "b = rows_for at digest dls"
proof -
  have ids: "set (map ru_run_id (br_runs b)) = (rd_run_id \<circ> fst) ` set dls"
    unfolding that by (simp only: rows_for_run_ids) simp
  show ?thesis
    unfolding ri_checks_def Let_def ids using rows_for_run_ids(2-) [of _ at digest dls]
    by (auto simp: that)
qed

lemma valid_refs_mem:
  "r \<in> set (valid_refs sources run) \<longleftrightarrow> r \<noteq> [] \<and> (\<exists>s\<in>set sources. so_run_id s = run \<and> so_source_ref s = Some r)"
  by (force simp: valid_refs_def List.map_filter_def image_iff)

lemma rows_source_refs:
  assumes "(d, l) \<in> set dls" and "so_source_ref s = Some r" and "s \<in> set (recon_sources at d l)" and "r \<noteq> []"
  shows "r \<in> set (valid_refs (fixed @ br_sources (rows_for at digest dls)) (rd_run_id d))"
proof -
  have "so_run_id s = rd_run_id d" using assms(3) by (auto simp: recon_sources_def source_row_def)
  moreover have "s \<in> set (br_sources (rows_for at digest dls))" using assms(1,3) by (force simp: rows_for_def)
  ultimately show ?thesis using assms(2,4) by (auto simp: valid_refs_mem)
qed

lemma recon_refs_resolve:
  assumes "(d, l) \<in> set dls" and "r \<in> {pull_ref d, issue_ref l, ci_ref d, me_ref (lk_mb l)}" and "me_ref (lk_mb l) \<noteq> []"
  shows "r \<in> set (valid_refs (fixed @ br_sources (rows_for at digest dls)) (rd_run_id d))"
proof -
  have "\<exists>s\<in>set (recon_sources at d l). so_source_ref s = Some r"
    using assms(2) by (auto simp: recon_sources_def source_row_def)
  moreover have "r \<noteq> []" using assms(2,3) by (auto simp: pull_ref_def issue_ref_def ci_ref_def)
  ultimately show ?thesis using rows_source_refs [OF assms(1)] by blast
qed

lemma m3m4_refs_resolve:
  assumes "(d, l) \<in> set dls" and "rd_run_id d = M3M4_RUN"
  shows "evidencePath \<in> set (valid_refs (fixed @ br_sources (rows_for at digest dls)) (rd_run_id d))"
proof -
  have "m3m4_source digest d \<in> set (br_sources (rows_for at digest dls))"
    using assms by (force simp: rows_for_def)
  then show ?thesis by (force simp: valid_refs_mem m3m4_source_def evidencePath_def)
qed

lemma artifact_refs_resolve:
  assumes "a \<in> set (br_artifacts (rows_for at digest dls))" and "\<forall>dl\<in>set dls. usable dl" and "r \<in> set (ar_source_refs a)"
  shows "r \<in> set (valid_refs (fixed @ br_sources (rows_for at digest dls)) (ar_run_id a))"
proof -
  obtain d l where dl: "(d, l) \<in> set dls"
      and a: "a \<in> set (recon_artifacts at d l) \<or> (rd_run_id d = M3M4_RUN \<and> a = m3m4_artifact digest d l)"
    using assms(1) by (auto simp: rows_for_def split: if_splits)
  have run: "ar_run_id a = rd_run_id d" using a by (auto simp: recon_artifacts_def artifact_row_def m3m4_artifact_def)
  have mb: "me_ref (lk_mb l) \<noteq> []" using assms(2) dl by (fastforce simp: usable_def)
  from a show ?thesis
  proof
    assume "a \<in> set (recon_artifacts at d l)"
    with assms(3) have "r \<in> {pull_ref d, issue_ref l, ci_ref d, me_ref (lk_mb l)}"
      by (auto simp: recon_artifacts_def artifact_row_def split: if_splits)
    then show ?thesis using recon_refs_resolve [OF dl _ mb] run by simp
  next
    assume m: "rd_run_id d = M3M4_RUN \<and> a = m3m4_artifact digest d l"
    with assms(3) have "r = evidencePath" by (simp add: m3m4_artifact_def)
    then show ?thesis using m3m4_refs_resolve [OF dl] m run by simp
  qed
qed

lemma provenance_checks_rows:
  assumes "\<forall>dl\<in>set dls. usable dl" and "b = rows_for at digest dls"
  shows "provenance_checks (br_runs b) (fixed @ br_sources b) (br_artifacts b) = []"
proof -
  have "list_ex (\<lambda>s. so_run_id s = ru_run_id r) (br_sources b)" if "r \<in> set (br_runs b)" for r
    using that unfolding assms(2) by (force simp: rows_for_def recon_row_defs list_ex_iff)
  moreover have "ar_source_refs a \<noteq> []" if "a \<in> set (br_artifacts b)" for a
    using that unfolding assms(2) by (auto simp: rows_for_def recon_row_defs split: if_splits)
  ultimately show ?thesis
    using artifact_refs_resolve [OF _ assms(1)] unfolding provenance_checks_def assms(2) by auto
qed

text \<open>The enumerations the generated rows take their values from.\<close>

lemmas enumerations = RUN_KIND_def SRC_SYS_def SRC_KIND_def ART_STATUS_def CONF_def EQ_def

lemma node_rows_sound:
  assumes "\<forall>dl\<in>set dls. usable dl" and "n \<in> set (br_nodes (rows_for at digest dls))"
  shows "no_node_id n \<noteq> []" "\<not> bad_opt (map ga_gate_id (br_gates (rows_for at digest dls))) (no_gate_id n)"
proof -
  obtain d l where dl: "(d, l) \<in> set dls" and n: "n \<in> set (recon_nodes d l)"
    using assms(2) by (auto simp: rows_for_def)
  have "usable (d, l)" using assms(1) dl by blast
  with n show "no_node_id n \<noteq> []" by (auto simp: recon_nodes_def usable_def)
  have gate: "no_gate_id n = rd_gate_id d" using n by (auto simp: recon_nodes_def)
  have "g \<in> ga_gate_id ` set (br_gates (rows_for at digest dls))" if "rd_gate_id d = Some g" "g \<noteq> []" for g
  proof -
    have "g \<in> ga_gate_id ` set (recon_gates d l)" using that by (auto simp: recon_gates_def split: option.split)
    moreover have "set (recon_gates d l) \<subseteq> set (br_gates (rows_for at digest dls))" using dl by (auto simp: rows_for_def)
    ultimately show ?thesis by blast
  qed
  with gate show "\<not> bad_opt (map ga_gate_id (br_gates (rows_for at digest dls))) (no_gate_id n)"
    by (auto simp: bad_opt_def split: option.split)
qed

lemma schema_checks_rows:
  assumes "\<forall>dl\<in>set dls. usable dl" and "b = rows_for at digest dls"
    and "\<forall>s\<in>set fixed. so_source_system s \<in> set SRC_SYS \<and> so_source_kind s \<in> set SRC_KIND"
  shows "schema_checks (br_runs b) [] (br_gates b) (br_nodes b) (fixed @ br_sources b) (br_artifacts b) = []"
proof -
  have ids: "set (map ru_run_id (br_runs b)) = (rd_run_id \<circ> fst) ` set dls"
    unfolding assms(2) by (simp only: rows_for_run_ids) simp
  have runs: "\<forall>r\<in>set (br_runs b). ru_run_kind r \<in> set RUN_KIND \<and> ru_source_system r \<in> set SRC_SYS \<and>
      \<not> bad_opt CONF (ru_confidence r) \<and> \<not> bad_opt EQ (ru_evidence_quality r)"
    unfolding assms(2) by (auto simp: rows_for_def recon_run_def enumerations bad_opt_def)
  have gates: "\<forall>g\<in>set (br_gates b). ga_gate_id g \<noteq> []"
    unfolding assms(2) by (auto simp: rows_for_def recon_gates_def split: option.splits if_splits)
  have nodes: "\<forall>n\<in>set (br_nodes b). no_node_id n \<noteq> [] \<and> \<not> bad_opt (map ga_gate_id (br_gates b)) (no_gate_id n)"
    unfolding assms(2) using node_rows_sound [OF assms(1)] by blast
  have sources: "\<forall>s\<in>set (br_sources b). so_source_system s \<in> set SRC_SYS \<and> so_source_kind s \<in> set SRC_KIND"
    unfolding assms(2) by (auto simp: rows_for_def recon_sources_def source_row_def m3m4_source_def enumerations)
  have artifacts: "\<forall>a\<in>set (br_artifacts b). ar_artifact_status a \<in> set ART_STATUS \<and>
      \<not> bad_opt CONF (ar_confidence a) \<and> \<not> bad_opt EQ (ar_evidence_quality a)"
    unfolding assms(2)
    by (auto simp: rows_for_def recon_artifacts_def artifact_row_def m3m4_artifact_def enumerations bad_opt_def split: if_splits)
  show ?thesis
    unfolding schema_checks_def Let_def ids
    using runs gates nodes sources artifacts assms(3) rows_for_run_ids(2,3) [of _ at digest dls]
    by (simp add: assms(2))
qed

text \<open>The evidence the four definitions need is in the table.\<close>

lemma shown_prs: "show_int 76 = js ''76''" "show_int 77 = js ''77''" "show_int 78 = js ''78''" "show_int 79 = js ''79''"
  by (simp_all add: show_int_def nat_digits.simps [of 76] nat_digits.simps [of 77] nat_digits.simps [of 78]
      nat_digits.simps [of 79] nat_digits.simps [of 6] nat_digits.simps [of 7] nat_digits.simps [of 8]
      nat_digits.simps [of 9] js_def unit_of_def)

lemma evidence_found: "\<forall>d\<in>set RECONSTRUCTED. \<exists>l. lookup_evidence d = Some l \<and> usable (d, l)"
  by (simp add: RECONSTRUCTED_def recon_def lookup_evidence_def shown_prs EVIDENCE_def dict_get_def usable_def
      pr_ev_def ci_ev_def mb_ev_def)

lemma reconstructed_distinct: "distinct (map rd_run_id RECONSTRUCTED)"
  by (simp add: RECONSTRUCTED_def recon_def)

lemma buildReconstructed_rows:
  obtains ls where "length ls = length RECONSTRUCTED" and "\<forall>dl\<in>set (zip RECONSTRUCTED ls). usable dl"
    and "buildReconstructed at digest = Some (rows_for at digest (zip RECONSTRUCTED ls))"
proof -
  define ls where "ls = map (the \<circ> lookup_evidence) RECONSTRUCTED"
  have ev: "\<And>d. d \<in> set RECONSTRUCTED \<Longrightarrow> \<exists>l. lookup_evidence d = Some l \<and> usable (d, l)"
    using evidence_found by blast
  have found: "list_all2 (\<lambda>d l. lookup_evidence d = Some l) RECONSTRUCTED ls"
    unfolding ls_def using ev by (fastforce simp: list.rel_map intro: list.rel_refl_strong)
  have "\<forall>dl\<in>set (zip RECONSTRUCTED ls). usable dl"
    using ev by (fastforce simp: ls_def zip_map2 zip_same_conv_map)
  moreover have "buildReconstructed at digest = Some (rows_for at digest (zip RECONSTRUCTED ls))"
    using recon_loop_rows [OF found, of at digest "[]"] by (simp add: buildReconstructed_def rows_for_Nil)
  ultimately show thesis by (rule that [rotated]) (simp add: ls_def)
qed

text \<open>
  The script never fails on its own evidence table, and the dry run it reports is ok exactly when
  the task-controller fixture names one of the four reconstructed runs: with any other run id the
  golden sources would be orphans, and the script exits with code 1. Four runs are written, every
  run, gate, node, source and artifact row satisfies the referential, provenance and schema checks,
  and none of them claims to be an observed run.
\<close>

lemma backfill_validates:
  "\<exists>b r. buildReconstructed at digest = Some b \<and> main_report at digest tc_run_id gwc_run_id = Some r \<and>
     (dr_ok r \<longleftrightarrow> tc_run_id \<in> rd_run_id ` set RECONSTRUCTED) \<and>
     map ru_run_id (br_runs b) = map rd_run_id RECONSTRUCTED \<and>
     map ru_run_kind (br_runs b) = replicate 4 (js ''reconstructed_history'')"
proof -
  obtain ls where len: "length ls = length RECONSTRUCTED"
      and us: "\<forall>dl\<in>set (zip RECONSTRUCTED ls). usable dl"
      and build: "buildReconstructed at digest = Some (rows_for at digest (zip RECONSTRUCTED ls))"
    by (rule buildReconstructed_rows)
  define b where "b = rows_for at digest (zip RECONSTRUCTED ls)"
  let ?fixed = "buildFixtureSources tc_run_id gwc_run_id"
  let ?r = "validate (br_runs b) [] (br_gates b) (br_nodes b) (?fixed @ br_sources b) (br_artifacts b)"
  have ids: "map ru_run_id (br_runs b) = map rd_run_id RECONSTRUCTED"
    using len by (simp only: b_def rows_for_run_ids) (simp flip: map_map)
  have kinds: "\<forall>x\<in>set (br_runs b). ru_run_kind x = js ''reconstructed_history''"
    by (auto simp: b_def rows_for_def recon_run_def)
  have "(rd_run_id \<circ> fst) ` set (zip RECONSTRUCTED ls) = rd_run_id ` set (map fst (zip RECONSTRUCTED ls))"
    by (simp only: set_map image_comp)
  then have img: "(rd_run_id \<circ> fst) ` set (zip RECONSTRUCTED ls) = rd_run_id ` set RECONSTRUCTED" by (simp add: len)
  have ri: "ri_checks (br_runs b) [] (br_gates b) (br_nodes b) (?fixed @ br_sources b) (br_artifacts b) = [] \<longleftrightarrow>
      tc_run_id \<in> rd_run_id ` set RECONSTRUCTED"
    using ri_checks_rows [OF b_def, unfolded img] rows_for_run_ids(4) [of _ at digest "zip RECONSTRUCTED ls", unfolded img]
    by (auto simp: b_def buildFixtureSources_def golden_source_def)
  have fixed: "\<forall>s\<in>set ?fixed. so_source_system s \<in> set SRC_SYS \<and> so_source_kind s \<in> set SRC_KIND"
    by (simp add: buildFixtureSources_def golden_source_def enumerations)
  have "dr_ok ?r \<longleftrightarrow> tc_run_id \<in> rd_run_id ` set RECONSTRUCTED"
  proof
    assume "dr_ok ?r"
    then show "tc_run_id \<in> rd_run_id ` set RECONSTRUCTED" using validate_ok_ri ri by blast
  next
    assume "tc_run_id \<in> rd_run_id ` set RECONSTRUCTED"
    moreover have "js ''observed_real'' \<notin> ru_run_kind ` set (br_runs b)" using kinds by auto
    ultimately show "dr_ok ?r"
      using validate_ok ri ids reconstructed_distinct provenance_checks_rows [OF us b_def]
        schema_checks_rows [OF us b_def fixed] by metis
  qed
  moreover have "map ru_run_kind (br_runs b) = replicate 4 (js ''reconstructed_history'')"
  proof -
    have "map ru_run_kind (br_runs b) = map (\<lambda>_. js ''reconstructed_history'') (br_runs b)"
      using kinds by (intro map_cong) auto
    moreover have "length (br_runs b) = 4" using arg_cong [OF ids, of length] by (simp add: RECONSTRUCTED_def)
    ultimately show ?thesis by (simp add: map_replicate_const)
  qed
  ultimately show ?thesis using build ids by (auto simp: main_report_def b_def)
qed

section \<open>The SQL literals\<close>

text \<open>
  PostgreSQL's reading of a quoted literal with standard conforming strings: after the opening quote
  a doubled quote is one quote, a single one ends the literal, anything else stands for itself. The
  rest of the statement is returned.
\<close>

fun sql_body :: "jsstring \<Rightarrow> (jsstring \<times> jsstring) option" where
  "sql_body [] = None"
| "sql_body [c] = (if c = 39 then Some ([], []) else None)"
| "sql_body (c # d # r) =
     (if c = 39 then (if d = 39 then map_option (map_prod ((#) 39) id) (sql_body r) else Some ([], d # r))
      else map_option (map_prod ((#) c) id) (sql_body (d # r)))"

definition sql_literal :: "jsstring \<Rightarrow> (jsstring \<times> jsstring) option" where
  "sql_literal s = (case s of c # r \<Rightarrow> if c = 39 then sql_body r else None | [] \<Rightarrow> None)"

lemma sql_body_end: "r = [] \<or> hd r \<noteq> 39 \<Longrightarrow> sql_body (39 # r) = Some ([], r)"
  by (cases r) auto

lemma sql_body_plain: "c \<noteq> 39 \<Longrightarrow> sql_body (c # s) = map_option (map_prod ((#) c) id) (sql_body s)"
  by (cases s) auto

lemma sql_body_double_quotes:
  "r = [] \<or> hd r \<noteq> 39 \<Longrightarrow> sql_body (double_quotes s @ 39 # r) = Some (s, r)"
proof (induction s)
  case (Cons c s)
  then show ?case by (auto simp: double_quotes_def sql_body_plain)
qed (simp add: double_quotes_def sql_body_end)

text \<open>
  C34. What the emitter writes for a text column is what PostgreSQL stores: the literal of any string,
  quotes included, is read back as that string, and the reader stops at the very end of the
  literal, whatever follows it, as long as that does not begin with another quote (in the emitted
  statements a comma or a closing parenthesis follows). No value can therefore end its literal early.
\<close>

theorem sql_text_round_trip:
  "r = [] \<or> hd r \<noteq> 39 \<Longrightarrow> sql_literal (sqlStr (JStr s) @ r) = Some (s, r)"
  by (simp add: sql_literal_def sql_body_double_quotes)

text \<open>The value \<open>it's\<close> followed by a comma.\<close>

theorem sql_text_round_trip_witness:
  "sql_literal (sqlStr (JStr [105, 116, 39, 115]) @ [44]) = Some ([105, 116, 39, 115], [44])"
  by (rule sql_text_round_trip) simp

text \<open>
  Array columns do not have that guarantee: an element is only escaped for double quotes, so a single
  quote in it ends the literal and the rest of the element is read as SQL. Here the array of the one
  element \<open>it's\<close> is read as a literal with the malformed content \<open>{"it\<close>, and \<open>s"}'\<close> is left
  over as SQL text.
\<close>

theorem sql_array_not_escaped:
  "sql_literal (sqlArr [[105, 116, 39, 115]] @ [44]) = Some ([123, 34, 105, 116], [115, 34, 125, 39, 44])"
  by (simp add: sqlArr_def escape_dquotes_def sql_literal_def js_def unit_of_def)

text \<open>
  The payload of a run or an artifact never reaches the database: the emitted statement is the same for
  every payload.
\<close>

theorem dml_drops_payload:
  "run_insert (r\<lparr>ru_payload := p\<rparr>) = run_insert r" "artifact_insert (a\<lparr>ar_payload := p\<rparr>) = artifact_insert a"
  by (simp_all add: run_insert_def artifact_insert_def)

end
