(* ===== verification/Dom.thy ===== *)
theory Dom
  imports Prelude
begin

text \<open>
  What a React component returns: a tree of elements with attributes, event handlers and text. A
  component is a function from its props to such a tree, and a handler is the action it performs on
  the state of the component that owns it, so that the user's possible next steps can be read off the
  rendered tree. Keys, refs and inline style objects have no counterpart here.

  A button with \<open>disabled\<close> does not fire; a range input reports an integer between its bounds, and a
  select reports the value of one of its options, as HTML prescribes.
\<close>

section \<open>Trees\<close>

datatype 'a attr =
    Attr string jsstring
  | Flag string bool
  | On string 'a
  | OnPick string "'a list"
  | OnRange string int int "int \<Rightarrow> 'a"
  | OnText string "jsstring \<Rightarrow> 'a"

datatype 'a vdom =
    Txt jsstring
  | El string "'a attr list" "'a vdom list"

text \<open>\<open>className\<close> and \<open>data-testid\<close> with literal values, and text children.\<close>

definition cls :: "string \<Rightarrow> 'a attr" where
  "cls c = Attr ''class'' (js c)"

definition testid :: "string \<Rightarrow> 'a attr" where
  "testid c = Attr ''data-testid'' (js c)"

definition tx :: "string \<Rightarrow> 'a vdom" where
  "tx s = Txt (js s)"

definition num :: "nat \<Rightarrow> 'a vdom" where
  "num n = Txt (show_nat n)"

text \<open>\<open>condition && element\<close>\<close>

definition shown_if :: "bool \<Rightarrow> 'a vdom \<Rightarrow> 'a vdom list" where
  "shown_if b v = (if b then [v] else [])"

section \<open>Reading a tree\<close>

fun textContent :: "'a vdom \<Rightarrow> jsstring" where
  "textContent (Txt s) = s"
| "textContent (El _ _ kids) = concat (map textContent kids)"

fun attr_actions :: "'a attr \<Rightarrow> 'a set" where
  "attr_actions (Attr _ _) = {}"
| "attr_actions (Flag _ _) = {}"
| "attr_actions (On _ a) = {a}"
| "attr_actions (OnPick _ as) = set as"
| "attr_actions (OnRange _ lo hi f) = f ` {lo..max lo hi}"
| "attr_actions (OnText _ f) = range f"

definition enabled :: "'a attr list \<Rightarrow> bool" where
  "enabled as \<longleftrightarrow> Flag ''disabled'' True \<notin> set as"

text \<open>The actions a user can trigger on the tree.\<close>

fun actions :: "'a vdom \<Rightarrow> 'a set" where
  "actions (Txt _) = {}"
| "actions (El _ as kids) = (if enabled as then \<Union> (attr_actions ` set as) else {}) \<union> \<Union> (actions ` set kids)"

text \<open>The elements of the tree that carry an attribute, in document order.\<close>

fun having :: "'a attr \<Rightarrow> 'a vdom \<Rightarrow> 'a vdom list" where
  "having a (Txt _) = []"
| "having a (El t as kids) = (if a \<in> set as then [El t as kids] else []) @ concat (map (having a) kids)"

fun tag_count :: "string \<Rightarrow> 'a vdom \<Rightarrow> nat" where
  "tag_count t (Txt _) = 0"
| "tag_count t (El u _ kids) = (if t = u then 1 else 0) + sum_list (map (tag_count t) kids)"

section \<open>Lemmas\<close>

lemmas dom_defs = cls_def testid_def tx_def num_def

lemma textContent_tx [simp]: "textContent (tx s) = js s"
  by (simp add: tx_def)

lemma textContent_num [simp]: "textContent (num n) = show_nat n"
  by (simp add: num_def)

lemma actions_text [simp]: "actions (tx s) = {}" "actions (num n) = {}"
  by (simp_all add: tx_def num_def)

lemma attr_actions_static [simp]: "attr_actions (cls c) = {}" "attr_actions (testid c) = {}"
  by (simp_all add: cls_def testid_def)

lemma set_shown_if [simp]: "set (shown_if b v) = (if b then {v} else {})"
  by (simp add: shown_if_def)

lemma enabled_simps [simp]:
  "enabled []" "enabled (Attr n v # as) = enabled as" "enabled (cls c # as) = enabled as"
  "enabled (testid c # as) = enabled as" "enabled (On n a # as) = enabled as"
  "enabled (OnPick n bs # as) = enabled as" "enabled (OnRange n lo hi f # as) = enabled as"
  "enabled (OnText n g # as) = enabled as"
  "enabled (Flag n b # as) \<longleftrightarrow> \<not> (n = ''disabled'' \<and> b) \<and> enabled as"
  by (auto simp: enabled_def cls_def testid_def)

text \<open>Rendering the same tree for other actions renames its actions.\<close>

lemma enabled_map: "enabled (map (map_attr f) as) = enabled as"
proof (induction as)
  case (Cons a as)
  then show ?case by (cases a) simp_all
qed simp

lemma attr_actions_map: "attr_actions (map_attr f a) = f ` attr_actions a"
  by (cases a) auto

lemma actions_map: "actions (map_vdom f v) = f ` actions v"
proof (induction v)
  case (El t as kids)
  have "\<Union> (actions ` set (map (map_vdom f) kids)) = f ` \<Union> (actions ` set kids)"
    using El by (auto simp: image_iff)
  then show ?case by (simp add: enabled_map attr_actions_map image_Un image_UN)
qed simp

section \<open>Pages in use\<close>

text \<open>
  A page with state: it starts, its environment (timers, the viewport) may move it, and the user may
  trigger an action of the tree it shows. \<open>None\<close> is a rendering or a handler that throws.
\<close>

inductive ui_reachable ::
    "('s \<Rightarrow> bool) \<Rightarrow> ('s \<Rightarrow> 's \<Rightarrow> bool) \<Rightarrow> ('s \<Rightarrow> 'a vdom option) \<Rightarrow> ('a \<Rightarrow> 's \<Rightarrow> 's option) \<Rightarrow> 's \<Rightarrow> bool"
  for start env view act where
  ui_start: "start s \<Longrightarrow> ui_reachable start env view act s"
| ui_env: "ui_reachable start env view act s \<Longrightarrow> env s s' \<Longrightarrow> ui_reachable start env view act s'"
| ui_used: "ui_reachable start env view act s \<Longrightarrow> view s = Some v \<Longrightarrow> a \<in> actions v \<Longrightarrow> act a s = Some s' \<Longrightarrow>
    ui_reachable start env view act s'"

text \<open>
  The contract of a page under a condition \<open>cond\<close> on its input: an invariant that the start, the
  environment and every offered action keep, under which the page renders and every offered action
  succeeds.
\<close>

locale ui_machine =
  fixes cond :: bool
    and start :: "'s \<Rightarrow> bool"
    and env :: "'s \<Rightarrow> 's \<Rightarrow> bool"
    and view :: "'s \<Rightarrow> 'a vdom option"
    and act :: "'a \<Rightarrow> 's \<Rightarrow> 's option"
    and inv :: "'s \<Rightarrow> bool"
  assumes start_inv: "cond \<Longrightarrow> start s \<Longrightarrow> inv s"
    and env_inv: "cond \<Longrightarrow> inv s \<Longrightarrow> env s s' \<Longrightarrow> inv s'"
    and act_inv: "cond \<Longrightarrow> inv s \<Longrightarrow> view s = Some v \<Longrightarrow> a \<in> actions v \<Longrightarrow> act a s = Some s' \<Longrightarrow> inv s'"
    and renders: "cond \<Longrightarrow> inv s \<Longrightarrow> \<exists>v. view s = Some v"
    and acts: "cond \<Longrightarrow> inv s \<Longrightarrow> view s = Some v \<Longrightarrow> a \<in> actions v \<Longrightarrow> \<exists>s'. act a s = Some s'"
begin

lemma reachable_inv: "ui_reachable start env view act s \<Longrightarrow> cond \<Longrightarrow> inv s"
  by (induction rule: ui_reachable.induct) (blast intro: start_inv env_inv act_inv)+

lemma inv_safe:
  assumes "cond" and "inv s"
  shows "\<exists>v. view s = Some v \<and> (\<forall>a\<in>actions v. \<exists>s'. act a s = Some s' \<and> inv s')"
  using renders [OF assms] acts [OF assms] act_inv [OF assms] by blast

lemma reachable_safe:
  assumes "cond" and "ui_reachable start env view act s"
  shows "\<exists>v. view s = Some v \<and> (\<forall>a\<in>actions v. \<exists>s'. act a s = Some s' \<and> ui_reachable start env view act s')"
  using inv_safe [OF assms(1) reachable_inv [OF assms(2,1)]] ui_used [OF assms(2)] by blast

end

end
