(* ===== verification/SimUI.thy ===== *)
theory SimUI
  imports Complex_Main Dom SimRun
begin

text \<open>
  The page of the simulated run: \<open>Inspector\<close>, \<open>ReplayControls\<close>, \<open>NodeCard\<close>, \<open>Connector\<close>,
  \<open>GateContainer\<close> and the markup of \<open>SimRunView\<close>, all under \<open>components/sim\<close>. A user step is an
  action of the rendered tree, so that what a click can do is what the markup offers. The tab buttons
  are wired by \<open>SimRunView\<close>'s effect. What the tabs, Expand and Collapse change is the document, not what
  React renders; those edits are in \<open>SimDom\<close>.
\<close>

section \<open>Page state\<close>

datatype pageAction =
    Player simAction
  | ZoomTo rat
  | ToggleGate jsstring
  | ExpandAll
  | CollapseAll
  | StopPropagation

record pageState =
  pg_view :: simView
  pg_zoom :: rat
  pg_collapsed :: "jsstring list"

section \<open>Inspector\<close>

definition dot :: jsstring where
  "dot = (js '' '' @ [0xB7] @ js '' '')"

definition EventList :: "historyEvent list \<Rightarrow> string \<Rightarrow> pageAction vdom list" where
  "EventList events tag = map (\<lambda>e. El ''div'' [cls ''sr-event''] [
      El ''b'' [] [Txt (js tag @ dot @ he_type e)],
      El ''div'' [] [Txt (he_event_id e @ dot @ he_actor e @ dot @ he_outcome e @ dot @
        js_join (js '', '') (case he_evidence e of Some xs \<Rightarrow> xs | None \<Rightarrow> []))]]) events"

definition CheckpointList :: "checkpoint list \<Rightarrow> pageAction vdom list" where
  "CheckpointList cps = map (\<lambda>c. El ''div'' [cls ''sr-event''] [
      El ''b'' [] [Txt (cp_checkpoint_id c)],
      El ''div'' [] [Txt (js ''rev='' @ show_int (cp_revision c) @ dot @ js ''lease='' @ cp_lease_owner c @ dot @
        js ''fencing='' @ cp_fencing_token c @ dot @ js ''status='' @ cp_status c)]]) cps"

definition ClickList :: "jsstring list \<Rightarrow> string \<Rightarrow> pageAction vdom" where
  "ClickList paths kind =
     (if paths = [] then El ''div'' [cls ''sr-field''] [tx ''No entries.'']
      else El ''div'' [cls ''sr-click-list'']
        (map (\<lambda>p. El ''button'' [cls ''sr-open-btn'', On ''click'' (Player (SOpen p (js kind)))] [Txt p]) paths))"

definition sr_field :: "string \<Rightarrow> string \<Rightarrow> jsstring \<Rightarrow> pageAction vdom" where
  "sr_field label c v = El ''div'' [cls ''sr-field''] [El ''div'' [cls ''sr-label''] [tx label], El ''div'' [cls c] [Txt v]]"

definition sr_list :: "string \<Rightarrow> jsstring list \<Rightarrow> string \<Rightarrow> pageAction vdom" where
  "sr_list label paths kind = El ''div'' [cls ''sr-field''] [El ''div'' [cls ''sr-label''] [tx label], ClickList paths kind]"

definition TABS :: "string list" where
  "TABS = [''overview'', ''artifacts'', ''runbook'', ''history'', ''raw'']"

definition TAB_LABELS :: "string list" where
  "TAB_LABELS = [''Overview'', ''Artifacts'', ''Runbook'', ''History'', ''Raw'']"

definition tab_pane :: "string \<Rightarrow> pageAction vdom list \<Rightarrow> pageAction vdom" where
  "tab_pane pane kids = El ''div'' [cls ''sr-tab-pane'', Attr ''data-pane'' (js pane), Flag ''hidden'' (pane \<noteq> ''overview'')] kids"

definition overview_pane :: "simGate \<Rightarrow> simNode option \<Rightarrow> pageAction vdom list" where
  "overview_pane gate node = (case node of
     Some n \<Rightarrow> [
       sr_field ''Gate'' ''sr-value'' (sg_id gate @ dot @ sg_label gate),
       sr_field ''Family / Node type'' ''sr-value sr-mono'' (sn_family n @ js '' / '' @ sn_node_type n),
       sr_field ''Authority boundary'' ''sr-value'' (sn_authority_boundary n),
       sr_field ''Source status / maturity'' ''sr-value''
         ((case sn_source_status n of Some s \<Rightarrow> s | None \<Rightarrow> em_dash) @ js '' / '' @ (case sn_maturity n of Some s \<Rightarrow> s | None \<Rightarrow> em_dash)),
       sr_field ''Declared gates'' ''sr-value''
         (js_join (js '', '') (case sn_declared_gates n of Some gs \<Rightarrow> gs | None \<Rightarrow> []))]
   | None \<Rightarrow> [
       sr_field ''Gate artifacts'' ''sr-value'' (show_nat (length (sg_gate_artifacts gate))),
       sr_field ''Runtime nodes in this simulated run'' ''sr-value'' (show_nat (length (sg_nodes gate))),
       sr_field ''Gate history'' ''sr-value'' (js ''TaskController '' @ show_nat (length (sg_taskcontroller_history gate)) @ dot @
         js ''Executor '' @ show_nat (length (sg_executor_history gate)))])"

definition artifacts_pane :: "simGate \<Rightarrow> simNode option \<Rightarrow> pageAction vdom list" where
  "artifacts_pane gate node = (case node of
     Some n \<Rightarrow> [
       sr_list ''Reads'' (sn_reads n) ''read'',
       sr_list ''Artifacts produced / observed'' (sn_artifacts n) ''artifact'',
       sr_list ''Implementation refs'' (case sn_implementation_refs n of Some xs \<Rightarrow> xs | None \<Rightarrow> []) ''implementation-ref'']
   | None \<Rightarrow> [sr_list ''Gate artifacts'' (sg_gate_artifacts gate) ''gate-artifact''])"

definition runbook_pane :: "simNode option \<Rightarrow> pageAction vdom list" where
  "runbook_pane node = (case node of
     Some n \<Rightarrow> map (\<lambda>(s, i). El ''div'' [cls ''sr-event''] [
         El ''b'' [] [Txt (show_nat (i + 1) @ js ''. '' @ s)],
         El ''div'' [] [Txt (js ''Node task/runbook step for '' @ sn_node_id n)]])
       (zip (sn_runbook n) [0..<length (sn_runbook n)])
   | None \<Rightarrow> [El ''div'' [cls ''sr-event''] [El ''b'' [] [tx ''Gate runbook''],
       El ''div'' [] [Txt (js ''Open gate '' @ [0x2192] @ js '' execute node sequence '' @ [0x2192] @ js '' validate artifacts '' @ [0x2192] @ js '' close gate / advance boundary.'')]]])"

definition history_pane :: "simGate \<Rightarrow> simNode option \<Rightarrow> pageAction vdom list" where
  "history_pane gate node = (case node of
     Some n \<Rightarrow> [El ''h3'' [cls ''sr-h3''] [tx ''TaskController History'']] @ EventList (sn_taskcontroller_history n) ''TC'' @
       [El ''h3'' [cls ''sr-h3''] [tx ''Executor History'']] @ EventList (sn_executor_history n) ''Executor'' @
       [El ''h3'' [cls ''sr-h3''] [tx ''Checkpoints'']] @ CheckpointList (sn_checkpoints n)
   | None \<Rightarrow> EventList (sg_taskcontroller_history gate) ''TC'' @ EventList (sg_executor_history gate) ''Executor'')"

definition checkpoint_json :: "checkpoint \<Rightarrow> json" where
  "checkpoint_json c = JObj [(js ''checkpoint_id'', JStr (cp_checkpoint_id c)), (js ''revision'', JNum (cp_revision c)),
     (js ''current_node_id'', JStr (cp_current_node_id c)), (js ''next_node_id'', JStr (cp_next_node_id c)),
     (js ''lease_owner'', JStr (cp_lease_owner c)), (js ''fencing_token'', JStr (cp_fencing_token c)),
     (js ''status'', JStr (cp_status c))]"

definition node_json :: "simNode \<Rightarrow> json" where
  "node_json n = JObj [
     (js ''node_id'', JStr (sn_node_id n)), (js ''title'', JStr (sn_title n)), (js ''description'', JStr (sn_description n)),
     (js ''node_type'', JStr (sn_node_type n)), (js ''family'', JStr (sn_family n)),
     (js ''authority_boundary'', JStr (sn_authority_boundary n)), (js ''catalog_path'', opt_str (sn_catalog_path n)),
     (js ''source_status'', opt_str (sn_source_status n)), (js ''maturity'', opt_str (sn_maturity n)),
     (js ''implementation_refs'', opt_strs (sn_implementation_refs n)), (js ''declared_gates'', opt_strs (sn_declared_gates n)),
     (js ''canonical'', opt_str (sn_canonical n)), (js ''gate_id'', JStr (sn_gate_id n)), (js ''gate_label'', opt_str (sn_gate_label n)),
     (js ''sequence'', JNum (sn_sequence n)), (js ''node_label'', opt_str (sn_node_label n)),
     (js ''artifacts'', strs (sn_artifacts n)), (js ''reads'', strs (sn_reads n)), (js ''runbook'', strs (sn_runbook n)),
     (js ''taskcontroller_history'', JArr (map history_json (sn_taskcontroller_history n))),
     (js ''executor_history'', JArr (map history_json (sn_executor_history n))),
     (js ''checkpoints'', JArr (map checkpoint_json (sn_checkpoints n))), (js ''options'', opt_strs (sn_options n))]"

definition gate_json :: "simGate \<Rightarrow> json" where
  "gate_json g = JObj [(js ''id'', JStr (sg_id g)), (js ''label'', JStr (sg_label g)), (js ''summary'', JStr (sg_summary g)),
     (js ''nodes'', JArr (map node_json (sg_nodes g))), (js ''gate_artifacts'', strs (sg_gate_artifacts g)),
     (js ''taskcontroller_history'', JArr (map history_json (sg_taskcontroller_history g))),
     (js ''executor_history'', JArr (map history_json (sg_executor_history g)))]"

definition Inspector :: "simGate \<Rightarrow> simNode option \<Rightarrow> pageAction vdom" where
  "Inspector gate node = El ''div'' [cls ''sr-inspector-body''] [
     El ''div'' [cls ''sr-current''] [
       El ''div'' [cls ''sr-current-id''] [Txt (case node of
          Some n \<Rightarrow> (case sn_node_label n of Some l \<Rightarrow> l | None \<Rightarrow> sn_node_id n) @ dot @ sn_node_id n | None \<Rightarrow> sg_id gate)],
       El ''div'' [cls ''sr-current-name''] [Txt (case node of Some n \<Rightarrow> sn_title n | None \<Rightarrow> sg_label gate)],
       El ''div'' [cls ''sr-current-desc''] [Txt (case node of Some n \<Rightarrow> sn_description n | None \<Rightarrow> sg_summary gate)]],
     El ''div'' [cls ''sr-tabs''] (map (\<lambda>(t, l). El ''button'' [cls ''sr-tab'', Attr ''data-tab'' (js t), On ''click'' (Player (STab (js t)))]
       [tx l]) (zip TABS TAB_LABELS)),
     tab_pane ''overview'' (overview_pane gate node),
     tab_pane ''artifacts'' (artifacts_pane gate node),
     tab_pane ''runbook'' (runbook_pane node),
     tab_pane ''history'' (history_pane gate node),
     tab_pane ''raw'' [El ''pre'' [cls ''sr-raw''] [Txt (stringify2 (case node of Some n \<Rightarrow> node_json n | None \<Rightarrow> gate_json gate))]]]"

section \<open>Controls\<close>

definition SPEEDS :: "(string \<times> int) list" where
  "SPEEDS = [(''0.5x'', 1200), (''1x'', 750), (''2x'', 400)]"

fun mode_name :: "playMode \<Rightarrow> jsstring" where
  "mode_name P_REPLAY = js ''REPLAY''"
| "mode_name P_LIVE = js ''LIVE''"

definition sr_btn :: "string \<Rightarrow> simAction \<Rightarrow> jsstring \<Rightarrow> jsstring \<Rightarrow> pageAction vdom" where
  "sr_btn c a title label = El ''button'' [cls c, On ''click'' (Player a), Attr ''title'' title] [Txt label]"

definition ReplayControls :: "simView \<Rightarrow> nat \<Rightarrow> jsstring \<Rightarrow> pageAction vdom" where
  "ReplayControls v len label = El ''div'' [cls ''sr-player''] [
     El ''div'' [cls ''sr-controls''] [
       sr_btn ''sr-btn'' SFirst (js ''First'') ([0x23EE]),
       sr_btn ''sr-btn'' SPrev (js ''Previous'') ([0x25C0]),
       sr_btn ''sr-btn sr-primary'' SPlayToggle (if sv_playing v then js ''Pause'' else js ''Play'')
         (if sv_playing v then ([0x275A, 0x275A]) else ([0x25B6])),
       sr_btn ''sr-btn'' SNext (js ''Next'') ([0x25B6] @ js ''|''),
       sr_btn ''sr-btn'' SLast (js ''Last'') ([0x23ED]),
       sr_btn ''sr-btn sr-live'' (SMode P_LIVE) (js ''Live simulation'') ([0x25CF] @ js '' LIVE SIM'')],
     El ''div'' [cls ''sr-scrub''] [
       El ''div'' [cls ''sr-scrub-info''] [
         El ''span'' [] [Txt label],
         El ''span'' [] [Txt (show_int (sv_cursor v + 1) @ js '' / '' @ show_nat len)]],
       El ''input'' [Attr ''type'' (js ''range''), Attr ''min'' (js ''0''), Attr ''max'' (show_int (max 0 (int len - 1))),
         Attr ''value'' (show_int (sv_cursor v)), OnRange ''change'' 0 (max 0 (int len - 1)) (\<lambda>c. Player (SScrub c))] []],
     El ''div'' [cls ''sr-selects''] [
       El ''select'' [Attr ''value'' (mode_name (sv_mode v)), OnPick ''change'' [Player (SMode P_REPLAY), Player (SMode P_LIVE)]]
         [El ''option'' [Attr ''value'' (js ''REPLAY'')] [tx ''REPLAY''], El ''option'' [Attr ''value'' (js ''LIVE'')] [tx ''LIVE SIM'']],
       El ''select'' [Attr ''value'' (show_int (sv_speed v)), OnPick ''change'' (map (\<lambda>(_, ms). Player (SSpeed ms)) SPEEDS)]
         (map (\<lambda>(l, ms). El ''option'' [Attr ''value'' (show_int ms)] [tx l]) SPEEDS)]]"

section \<open>Cards\<close>

fun STATE_LABEL :: "nodeState \<Rightarrow> jsstring" where
  "STATE_LABEL Done = js ''DONE''"
| "STATE_LABEL Active = js ''ACTIVE''"
| "STATE_LABEL Future = js ''FUTURE''"

definition sr_metric :: "nat \<Rightarrow> string \<Rightarrow> pageAction vdom" where
  "sr_metric n l = El ''div'' [cls ''sr-metric''] [El ''b'' [] [num n], El ''span'' [] [tx l]]"

definition NodeCard :: "jsstring \<Rightarrow> simNode \<Rightarrow> nodeState \<Rightarrow> bool \<Rightarrow> pageAction vdom" where
  "NodeCard gateId n state selected = El ''article''
     [Attr ''class'' (js ''sr-node-card '' @ state_name state @ (if selected then js '' selected'' else [])),
      Attr ''data-node-id'' (sn_node_id n), Attr ''data-node-kind'' (js ''runtime-node''),
      Attr ''data-active'' (if state = Active then js ''true'' else js ''false''),
      On ''click'' (Player (SSelectNode gateId (sn_node_id n)))] [
     El ''div'' [cls ''sr-node-top''] [
       El ''span'' [] [Txt (case sn_node_label n of Some l \<Rightarrow> l | None \<Rightarrow> sn_node_id n)],
       El ''span'' [] [Txt (STATE_LABEL state)]],
     El ''div'' [cls ''sr-node-title''] [Txt (sn_title n)],
     El ''div'' [cls ''sr-node-id''] [Txt (sn_node_id n)],
     El ''div'' [cls ''sr-node-desc''] [Txt (sn_description n)],
     El ''div'' [cls ''sr-note-line''] [tx ''Family: '', El ''b'' [] [Txt (sn_family n)], Txt (js '' '' @ [0xB7] @ js '' Boundary: ''),
       El ''b'' [] [Txt (sn_authority_boundary n)]],
     El ''div'' [cls ''sr-meta''] [
       El ''span'' [cls ''sr-mini sr-family''] [Txt (sn_node_type n)],
       El ''span'' [cls ''sr-mini sr-artifacts''] [num (length (sn_artifacts n)), tx '' artifacts''],
       El ''span'' [cls ''sr-mini sr-history''] [num (length (sn_runbook n)), tx '' runbook''],
       El ''span'' [cls ''sr-mini''] [num (length (sn_taskcontroller_history n)), tx '' TC''],
       El ''span'' [cls ''sr-mini''] [num (length (sn_executor_history n)), tx '' EX'']],
     El ''div'' [cls ''sr-node-bottom''] [
       sr_metric (length (sn_artifacts n)) ''artifacts'',
       sr_metric (length (sn_taskcontroller_history n)) ''controller'',
       sr_metric (length (sn_executor_history n)) ''executor'']]"

definition Connector :: "nodeState \<Rightarrow> pageAction vdom" where
  "Connector state = El ''div'' [Attr ''class'' (js ''sr-connector '' @ state_name state), Attr ''aria-hidden'' (js ''true'')] []"

definition is_selected :: "selection \<Rightarrow> jsstring \<Rightarrow> jsstring \<Rightarrow> bool" where
  "is_selected sel g n = (sel = SelNode g n)"

definition node_wrap :: "simRun \<Rightarrow> simView \<Rightarrow> simGate \<Rightarrow> simNode \<times> nat \<Rightarrow> pageAction vdom" where
  "node_wrap run v gate = (\<lambda>(n, i).
     let state = nodeStateAt run (sg_id gate) (sn_node_id n) (sv_cursor v) in
     El ''div'' [cls ''sr-node-wrap'']
       (NodeCard (sg_id gate) n state (is_selected (sv_selection v) (sg_id gate) (sn_node_id n)) #
        shown_if (i + 1 < length (sg_nodes gate)) (Connector state)))"

definition GateContainer :: "simRun \<Rightarrow> simView \<Rightarrow> bool \<Rightarrow> simGate \<Rightarrow> pageAction vdom" where
  "GateContainer run v collapsed gate = El ''section''
     [Attr ''class'' (js ''sr-gate'' @ (if collapsed then js '' collapsed'' else []) @
        (if isGateActiveAt run (sg_id gate) (sv_cursor v) then js '' active'' else [])),
      Attr ''data-gate-id'' (sg_id gate)] [
     El ''div'' [cls ''sr-gate-head'', On ''altclick'' (Player (SSelectGate (sg_id gate))), On ''click'' (ToggleGate (sg_id gate))] [
       El ''div'' [] [El ''div'' [cls ''sr-gate-id''] [Txt (sg_id gate)], El ''div'' [cls ''sr-gate-label''] [Txt (sg_label gate)]],
       El ''div'' [cls ''sr-gate-summary''] [Txt (sg_summary gate)],
       El ''div'' [cls ''sr-gate-history''] [
         El ''span'' [cls ''sr-count''] [num (length (sg_nodes gate)), tx '' NODES''],
         El ''span'' [cls ''sr-count''] [num (length (sg_gate_artifacts gate)), tx '' ARTIFACTS''],
         El ''span'' [cls ''sr-count''] [num (length (sg_taskcontroller_history gate)), tx '' TC EVENTS''],
         El ''span'' [cls ''sr-count''] [num (length (sg_executor_history gate)), tx '' EXEC EVENTS'']],
       El ''span'' [cls ''sr-chev''] [Txt ([0x25BC])]],
     El ''div'' [cls ''sr-gate-body''] [El ''div'' [cls ''sr-nodes'']
       (map (node_wrap run v gate) (zip (sg_nodes gate) [0..<length (sg_nodes gate)]))]]"

section \<open>The page\<close>

text \<open>\<open>Math.round(zoom * 100)\<close>\<close>

definition zoom_percent :: "rat \<Rightarrow> int" where
  "zoom_percent z = \<lfloor>z * 100 + 1 / 2\<rfloor>"

definition sim_header :: "simRun \<Rightarrow> pageAction vdom" where
  "sim_header run = El ''header'' [cls ''sr-header''] [
     El ''div'' [] [
       El ''h1'' [] [Txt (js ''DW Run Observatory '' @ [0x2014] @ js '' Corrected Node Architect View'')],
       El ''div'' [cls ''sr-sub''] [Txt (js ''Gate '' @ [0x2192] @ js '' Runtime Nodes. M'' @ [0x1ED7] @ js ''i node ch'' @ [0x1EE9] @ js ''a artifacts, runbook, TaskController history, Executor history, checkpoint.'')]],
     El ''div'' [cls ''sr-badges''] [
       El ''span'' [cls ''sr-badge sr-good''] [tx ''SIMULATED RUN''],
       El ''span'' [cls ''sr-badge''] [Txt (sr_run_id run)],
       El ''span'' [cls ''sr-badge sr-violet''] [num (timelineLength run), tx '' NODE CARDS''],
       El ''span'' [cls ''sr-badge sr-warn''] [tx ''HISTORY OVERLAY VISUAL-ONLY'']]]"

definition sim_toolbar :: "rat \<Rightarrow> pageAction vdom" where
  "sim_toolbar z = El ''div'' [cls ''sr-toolbar''] [
     El ''button'' [cls ''sr-ctrl'', On ''click'' (ZoomTo (z - 1 / 10))] [Txt ([0x2212])],
     El ''span'' [cls ''sr-zoom-pill''] [Txt (show_int (zoom_percent z) @ js ''%'')],
     El ''button'' [cls ''sr-ctrl'', On ''click'' (ZoomTo (z + 1 / 10))] [tx ''+''],
     El ''button'' [cls ''sr-ctrl'', On ''click'' (ZoomTo 1)] [tx ''Reset''],
     El ''button'' [cls ''sr-ctrl'', On ''click'' ExpandAll] [tx ''Expand''],
     El ''button'' [cls ''sr-ctrl'', On ''click'' CollapseAll] [tx ''Collapse'']]"

definition summary_card :: "simGate \<Rightarrow> pageAction vdom" where
  "summary_card g = El ''div'' [cls ''sr-summary-card''] [
     El ''b'' [] [num (length (sg_nodes g))], El ''span'' [] [Txt (sg_label g)],
     El ''span'' [] [Txt (show_nat (length (sg_gate_artifacts g)) @ (js '' gate artifacts '' @ [0xB7] @ js '' '') @
       show_nat (length (sg_taskcontroller_history g)) @ (js '' TC events '' @ [0xB7] @ js '' '') @
       show_nat (length (sg_executor_history g)) @ js '' exec events'')]]"

definition gate_section :: "simRun \<Rightarrow> pageState \<Rightarrow> simGate \<times> nat \<Rightarrow> pageAction vdom" where
  "gate_section run p = (\<lambda>(g, gi). El ''div'' []
     (GateContainer run (pg_view p) (sg_id g \<in> set (pg_collapsed p)) g #
      shown_if (gi + 1 < length (sr_gates run)) (El ''div'' [cls ''sr-gate-link''] [])))"

definition player_label :: "simRun \<Rightarrow> simView \<Rightarrow> jsstring" where
  "player_label run v = (case sel_node run (sv_selection v) of
     Some n \<Rightarrow> hole_text (map_option sg_label (sel_gate run (sv_selection v))) @ dot @ sn_title n
   | None \<Rightarrow> (case sel_gate run (sv_selection v) of Some g \<Rightarrow> sg_label g | None \<Rightarrow> []))"

definition sim_modal :: "simView \<Rightarrow> pageAction vdom list" where
  "sim_modal v = (case sv_modal v of None \<Rightarrow> [] | Some (title, body) \<Rightarrow>
     [El ''div'' [cls ''sr-modal-backdrop'', On ''click'' (Player SCloseModal)] [
        El ''div'' [cls ''sr-modal'', On ''click'' StopPropagation] [
          El ''div'' [cls ''sr-modal-head''] [
            El ''div'' [cls ''sr-modal-title''] [Txt title],
            El ''button'' [cls ''sr-close'', On ''click'' (Player SCloseModal)] [tx ''Close'']],
          El ''pre'' [cls ''sr-modal-body''] [Txt body]]]])"

definition graph_panel :: "simRun \<Rightarrow> pageState \<Rightarrow> pageAction vdom" where
  "graph_panel run p = El ''section'' [cls ''sr-panel''] [
     El ''div'' [cls ''sr-panel-head''] [
       El ''div'' [] [El ''h2'' [] [Txt (js ''Gate Containers '' @ [0x2192] @ js '' Runtime Node Cards'')],
         El ''div'' [cls ''sr-sub''] [tx ''Source-aligned: node registry + runtime graph + durable run-history overlay semantics.'']],
       sim_toolbar (pg_zoom p)],
     El ''div'' [cls ''sr-graph-shell''] [El ''div'' [cls ''sr-world'']
       (El ''div'' [cls ''sr-summary''] (map summary_card (sr_gates run)) #
        map (gate_section run p) (zip (sr_gates run) [0..<length (sr_gates run)]))],
     ReplayControls (pg_view p) (timelineLength run) (player_label run (pg_view p))]"

definition inspector_panel :: "simRun \<Rightarrow> simView \<Rightarrow> simGate \<Rightarrow> pageAction vdom" where
  "inspector_panel run v gate = El ''aside'' [cls ''sr-panel sr-inspector''] [
     El ''div'' [cls ''sr-panel-head''] [
       El ''div'' [] [El ''h2'' [] [tx ''Node / Gate Inspector''],
         El ''div'' [cls ''sr-sub''] [tx ''Artifacts, runbook, controller/executor history.'']],
       El ''span'' [cls ''sr-badge sr-good''] [Txt (mode_name (sv_mode v))]],
     El ''div'' [cls ''sr-body''] [Inspector gate (sel_node run (sv_selection v))],
     El ''div'' [cls ''sr-note''] [Txt (js ''Theo source: registry adapter gi'' @ [0x1EEF] @ js '' canonical runtime nodes; run-history adapter overlay run/event/checkpoint history v'' @ [0xE0] @ js '' '' @ [0x111, 0xE1] @ js ''nh d'' @ [0x1EA5] @ js ''u history edges l'' @ [0xE0] @ js '' visual-only. UI n'' @ [0xE0] @ js ''y m'' @ [0xF4] @ js '' ph'' @ [0x1ECF] @ js ''ng '' @ [0x111, 0xFA] @ js ''ng nguy'' @ [0xEA] @ js ''n t'' @ [0x1EAF] @ js ''c '' @ [0x111, 0xF3] @ js ''.'')]]"

text \<open>\<open>None\<close> is the exception of the inspector when the run has no gate at all.\<close>

definition SimRunView :: "simRun \<Rightarrow> pageState \<Rightarrow> pageAction vdom option" where
  "SimRunView run p =
     map_option (\<lambda>gate. El ''div'' [cls ''sr-app''] ([
         sim_header run,
         El ''div'' [cls ''sr-layout''] [graph_panel run p, inspector_panel run (pg_view p) gate]] @ sim_modal (pg_view p)))
       (case sel_gate run (sv_selection (pg_view p)) of Some g \<Rightarrow> Some g | None \<Rightarrow> first_gate run)"

definition zoomTo :: "rat \<Rightarrow> pageState \<Rightarrow> pageState" where
  "zoomTo z p = p\<lparr>pg_zoom := max (55 / 100) (min (18 / 10) z)\<rparr>"

definition toggle :: "jsstring \<Rightarrow> jsstring list \<Rightarrow> jsstring list" where
  "toggle g gs = (if g \<in> set gs then filter (\<lambda>x. x \<noteq> g) gs else g # gs)"

fun page_act :: "simRun \<Rightarrow> pageAction \<Rightarrow> pageState \<Rightarrow> pageState option" where
  "page_act run (Player a) p = map_option (\<lambda>v. p\<lparr>pg_view := v\<rparr>) (sim_act run a (pg_view p))"
| "page_act run (ZoomTo z) p = Some (zoomTo z p)"
| "page_act run (ToggleGate g) p = Some (p\<lparr>pg_collapsed := toggle g (pg_collapsed p)\<rparr>)"
| "page_act run ExpandAll p = Some p"
| "page_act run CollapseAll p = Some p"
| "page_act run StopPropagation p = Some p"

definition page_mount :: "simRun \<Rightarrow> pageState" where
  "page_mount run = \<lparr> pg_view = sim_mount run, pg_zoom = 1, pg_collapsed = [] \<rparr>"

text \<open>What can happen: the interval fires, or the user triggers an action the page offers.\<close>

definition page_tick :: "simRun \<Rightarrow> pageState \<Rightarrow> pageState \<Rightarrow> bool" where
  "page_tick run p p' \<longleftrightarrow> page_act run (Player STick) p = Some p'"

abbreviation page_reachable :: "simRun \<Rightarrow> pageState \<Rightarrow> bool" where
  "page_reachable run \<equiv> ui_reachable (\<lambda>p. p = page_mount run) (page_tick run) (SimRunView run) (page_act run)"

section \<open>What the page offers\<close>

lemmas inspector_defs = Inspector_def tab_pane_def overview_pane_def artifacts_pane_def runbook_pane_def history_pane_def
  EventList_def CheckpointList_def ClickList_def sr_field_def sr_list_def

lemma inspector_selects: "Player (SSelectNode g n) \<notin> actions (Inspector gate node)"
  by (cases node) (auto simp: inspector_defs)

lemma controls_select: "Player (SSelectNode g n) \<notin> actions (ReplayControls v len label)"
  by (auto simp: ReplayControls_def sr_btn_def SPEEDS_def)

lemma container_selects:
  "Player (SSelectNode g n) \<in> actions (GateContainer run v b gate) \<Longrightarrow> g = sg_id gate \<and> n \<in> sn_node_id ` set (sg_nodes gate)"
  by (auto simp: GateContainer_def node_wrap_def NodeCard_def Connector_def sr_metric_def Let_def split: if_splits dest: set_zip_leftD)

lemma static_parts: "actions (sim_header run) = {}" "actions (summary_card g) = {}"
  by (simp_all add: sim_header_def summary_card_def)

lemma toolbar_selects: "Player a \<notin> actions (sim_toolbar z)"
  by (simp add: sim_toolbar_def)

lemma modal_selects: "m \<in> set (sim_modal v) \<Longrightarrow> Player (SSelectNode g n) \<notin> actions m"
  by (auto simp: sim_modal_def split: option.splits)

lemma section_selects:
  assumes "Player (SSelectNode g n) \<in> actions (gate_section run p gi)" and "gi \<in> set (zip (sr_gates run) is)"
  shows "\<exists>gate\<in>set (sr_gates run). g = sg_id gate \<and> n \<in> sn_node_id ` set (sg_nodes gate)"
proof -
  obtain gate i where gi: "gi = (gate, i)" by (cases gi)
  have "Player (SSelectNode g n) \<in> actions (GateContainer run (pg_view p) (sg_id gate \<in> set (pg_collapsed p)) gate)"
    using assms(1) by (auto simp: gi gate_section_def split: if_splits)
  moreover have "gate \<in> set (sr_gates run)" using assms(2) unfolding gi by (rule set_zip_leftD)
  ultimately show ?thesis using container_selects by blast
qed

lemma page_selects:
  assumes "SimRunView run p = Some page" and "Player (SSelectNode g n) \<in> actions page"
  shows "\<exists>gate\<in>set (sr_gates run). g = sg_id gate \<and> n \<in> sn_node_id ` set (sg_nodes gate)"
proof -
  have "Player (SSelectNode g n) \<in> actions (graph_panel run p)"
    using assms inspector_selects modal_selects
    by (auto simp: SimRunView_def static_parts inspector_panel_def)
  then obtain gi where "gi \<in> set (zip (sr_gates run) [0..<length (sr_gates run)])"
      "Player (SSelectNode g n) \<in> actions (gate_section run p gi)"
    using toolbar_selects controls_select by (auto simp: graph_panel_def static_parts)
  then show ?thesis by (rule section_selects [rotated])
qed

definition well_placed :: "simRun \<Rightarrow> bool" where
  "well_placed run \<longleftrightarrow> (\<forall>g\<in>set (sr_gates run). \<forall>n\<in>set (sg_nodes g). sn_gate_id n = sg_id g)"

lemma on_timeline:
  assumes "g \<in> set (sr_gates run)" and "n \<in> set (sg_nodes g)"
  shows "step_of n \<in> set (buildTimeline run)"
  using assms by (auto simp: buildTimeline_def)

lemma offered_clickable:
  assumes "well_placed run" and "SimRunView run p = Some page" and "Player a \<in> actions page"
  shows "clickable run a"
proof (cases a)
  case (SSelectNode g n)
  with page_selects [OF assms(2)] assms(3) obtain gate m where
    m: "gate \<in> set (sr_gates run)" "m \<in> set (sg_nodes gate)" "g = sg_id gate" "n = sn_node_id m"
    by blast
  then have "is_step g n (step_of m)" using assms(1) by (simp add: is_step_def step_of_def well_placed_def)
  then have "\<not> indexOfNode run g n < 0"
    using on_timeline [OF m(1,2)] find_index_miss [of "is_step g n" "buildTimeline run" "step_of m"]
    by (auto simp: indexOfNode_def)
  then show ?thesis by (simp add: SSelectNode)
qed simp_all

section \<open>Progress\<close>

lemma node_has_gate: "sel_node run sel = Some n \<Longrightarrow> \<exists>g. sel_gate run sel = Some g"
  by (cases sel) (auto simp: getNode_def split: option.splits)

lemma open_progress: "\<exists>v'. openArtifact run path kind v = Some v'"
proof (cases "sel_node run (sv_selection v)")
  case (Some n)
  with node_has_gate obtain g where "sel_gate run (sv_selection v) = Some g" by blast
  with Some show ?thesis by (simp add: openArtifact_def artifactContent_def Let_def)
qed (simp add: openArtifact_def artifactContent_def Let_def)

lemma sim_progress:
  assumes "sim_ok run v" and "timelineLength run > 0"
  shows "\<exists>v'. sim_act run a v = Some v'"
proof (cases a)
  case STick
  then show ?thesis using sim_ok_tick [OF assms(1)] by auto
next
  case (SMode m)
  have "step_at run 0 = Some (buildTimeline run ! 0)" using assms(2) by (simp add: step_at_def)
  then show ?thesis by (simp add: SMode sim_mode_def Let_def)
qed (simp_all add: open_progress)

lemma page_progress:
  assumes "sim_ok run (pg_view p)" and "timelineLength run > 0"
  shows "\<exists>p'. page_act run a p = Some p'"
  using sim_progress [OF assms] by (cases a) auto

lemma page_ok_step:
  assumes "well_placed run" and "sim_ok run (pg_view p)" and "page_act run a p = Some p'"
    and "\<And>b. a = Player b \<Longrightarrow> clickable run b"
  shows "sim_ok run (pg_view p')"
  using assms sim_ok_act by (cases a) (auto simp: zoomTo_def)

lemma timeline_gate: "timelineLength run > 0 \<Longrightarrow> sr_gates run \<noteq> []"
  by (auto simp: timelineLength_def buildTimeline_def)

lemma page_renders: "sr_gates run \<noteq> [] \<Longrightarrow> \<exists>page. SimRunView run p = Some page"
  by (auto simp: SimRunView_def first_gate_def split: option.split list.split)

interpretation sim_page: ui_machine "well_placed run \<and> timelineLength run > 0" "\<lambda>p. p = page_mount run" "page_tick run"
    "SimRunView run" "page_act run" "\<lambda>p. sim_ok run (pg_view p)" for run
proof unfold_locales
  show "sim_ok run (pg_view p)" if "p = page_mount run" for p
    using that by (simp add: page_mount_def sim_ok_mount)
  show "sim_ok run (pg_view p')" if "well_placed run \<and> timelineLength run > 0" "sim_ok run (pg_view p)" "page_tick run p p'" for p p'
    using page_ok_step [of run p "Player STick" p'] that by (simp add: page_tick_def)
  show "sim_ok run (pg_view p')" if "well_placed run \<and> timelineLength run > 0" "sim_ok run (pg_view p)" "SimRunView run p = Some v"
      "a \<in> actions v" "page_act run a p = Some p'" for p v a p'
    using page_ok_step [of run p a p'] offered_clickable that by blast
  show "\<exists>v. SimRunView run p = Some v" if "well_placed run \<and> timelineLength run > 0" for p
    using page_renders timeline_gate that by blast
  show "\<exists>p'. page_act run a p = Some p'" if "well_placed run \<and> timelineLength run > 0" "sim_ok run (pg_view p)" for a p
    using page_progress that by blast
qed

section \<open>The highlighted card\<close>

abbreviation active_mark :: "pageAction attr" where
  "active_mark \<equiv> Attr ''data-active'' (js ''true'')"

lemma concat_Nil: "(\<And>x. x \<in> set xs \<Longrightarrow> f x = []) \<Longrightarrow> concat (map f xs) = []"
  by (induction xs) auto

lemma having_text [simp]: "having a (tx s) = []" "having a (num n) = []"
  by (simp_all add: tx_def num_def)

lemma mark_ne_static [simp]: "active_mark \<noteq> cls c"
  by (simp add: cls_def)

lemma having_NodeCard:
  "having active_mark (NodeCard g n state sel) = (if state = Active then [NodeCard g n state sel] else [])"
  by (simp add: NodeCard_def sr_metric_def)

lemma having_node_wrap:
  "having active_mark (node_wrap run v gate (n, i)) =
     (let state = nodeStateAt run (sg_id gate) (sn_node_id n) (sv_cursor v);
          sel = is_selected (sv_selection v) (sg_id gate) (sn_node_id n)
      in if state = Active then [NodeCard (sg_id gate) n state sel] else [])"
  by (simp add: node_wrap_def Let_def having_NodeCard shown_if_def Connector_def)

lemma having_container:
  "having active_mark (GateContainer run v b gate) =
     map (\<lambda>n. NodeCard (sg_id gate) n Active (is_selected (sv_selection v) (sg_id gate) (sn_node_id n)))
       (filter (\<lambda>n. nodeStateAt run (sg_id gate) (sn_node_id n) (sv_cursor v) = Active) (sg_nodes gate))"
proof -
  let ?P = "\<lambda>n. nodeStateAt run (sg_id gate) (sn_node_id n) (sv_cursor v) = Active"
  let ?c = "\<lambda>n. NodeCard (sg_id gate) n Active (is_selected (sv_selection v) (sg_id gate) (sn_node_id n))"
  have w: "having active_mark (node_wrap run v gate ni) = (if ?P (fst ni) then [?c (fst ni)] else [])" for ni
    by (cases ni) (simp add: having_node_wrap Let_def)
  have pick: "concat (map (\<lambda>x. if ?P (f x) then [?c (f x)] else []) xs) = map ?c (filter ?P (map f xs))"
    for f :: "simNode \<times> nat \<Rightarrow> simNode" and xs
    by (induction xs) auto
  have "concat (map (\<lambda>ni. having active_mark (node_wrap run v gate ni)) (zip ns [0..<length ns])) = map ?c (filter ?P ns)" for ns
    unfolding w using pick [of fst "zip ns [0..<length ns]"] by simp
  then show ?thesis by (simp add: GateContainer_def comp_def)
qed

lemma having_section:
  "having active_mark (gate_section run p gi) = having active_mark (GateContainer run (pg_view p) False (fst gi))"
  by (cases gi) (simp add: gate_section_def having_container shown_if_def)

lemma having_inspector: "having active_mark (Inspector gate node) = []"
  by (cases node) (auto simp: inspector_defs comp_def intro!: concat_Nil split: prod.split)

lemma having_controls: "having active_mark (ReplayControls v len label) = []"
  by (simp add: ReplayControls_def sr_btn_def SPEEDS_def)

lemma having_static: "having active_mark (sim_header run) = []" "having active_mark (summary_card g) = []"
    "having active_mark (sim_toolbar z) = []" "concat (map (having active_mark) (sim_modal v)) = []"
  by (auto simp: sim_header_def summary_card_def sim_toolbar_def sim_modal_def split: option.split)

definition cards :: "simRun \<Rightarrow> (simGate \<times> simNode) list" where
  "cards run = concat (map (\<lambda>g. map (Pair g) (sg_nodes g)) (sr_gates run))"

lemma having_page:
  assumes "SimRunView run p = Some page"
  shows "having active_mark page =
    map (\<lambda>(g, n). NodeCard (sg_id g) n Active (is_selected (sv_selection (pg_view p)) (sg_id g) (sn_node_id n)))
      (filter (\<lambda>(g, n). nodeStateAt run (sg_id g) (sn_node_id n) (sv_cursor (pg_view p)) = Active) (cards run))"
proof -
  have "having active_mark page = having active_mark (graph_panel run p)"
    using assms by (auto simp: SimRunView_def having_static having_inspector inspector_panel_def)
  also have "\<dots> = concat (map (\<lambda>g. having active_mark (GateContainer run (pg_view p) False g)) (sr_gates run))"
    using map_map [of "\<lambda>g. having active_mark (GateContainer run (pg_view p) False g)" fst "zip (sr_gates run) [0..<length (sr_gates run)]"]
    by (simp add: graph_panel_def having_static having_controls having_section comp_def concat_Nil)
  also have "\<dots> = map (\<lambda>(g, n). NodeCard (sg_id g) n Active (is_selected (sv_selection (pg_view p)) (sg_id g) (sn_node_id n)))
      (filter (\<lambda>(g, n). nodeStateAt run (sg_id g) (sn_node_id n) (sv_cursor (pg_view p)) = Active) (cards run))"
    by (simp add: cards_def having_container map_concat filter_concat comp_def filter_map)
  finally show ?thesis .
qed

text \<open>Cards and timeline steps have the same keys, so distinct cards give a timeline without repetitions.\<close>

lemma cards_nodes: "map snd (cards run) = concat (map sg_nodes (sr_gates run))"
  by (simp add: cards_def map_concat comp_def)

lemma cards_keys:
  assumes "well_placed run"
  shows "map (\<lambda>(g, n). (sg_id g, sn_node_id n)) (cards run) =
    map (\<lambda>n. (sn_gate_id n, sn_node_id n)) (concat (map sg_nodes (sr_gates run)))"
proof -
  have "map (\<lambda>(g, n). (sg_id g, sn_node_id n)) (cards run) = map (\<lambda>n. (sn_gate_id n, sn_node_id n)) (map snd (cards run))"
    using assms by (auto simp: cards_def well_placed_def)
  then show ?thesis by (simp only: cards_nodes)
qed

lemma timeline_keys:
  assumes "well_placed run"
  shows "mset (map (\<lambda>s. (ts_gate_id s, ts_node_id s)) (buildTimeline run)) =
    mset (map (\<lambda>(g, n). (sg_id g, sn_node_id n)) (cards run))"
  unfolding cards_keys [OF assms] by (simp add: buildTimeline_def step_of_def comp_def)

lemma card_of_step:
  assumes "well_placed run" and "i < timelineLength run"
  shows "\<exists>g n. (g, n) \<in> set (cards run) \<and> (sg_id g, sn_node_id n) =
    (ts_gate_id (buildTimeline run ! i), ts_node_id (buildTimeline run ! i))"
proof -
  have "(ts_gate_id (buildTimeline run ! i), ts_node_id (buildTimeline run ! i)) \<in>
      set (map (\<lambda>s. (ts_gate_id s, ts_node_id s)) (buildTimeline run))"
    using assms(2) by (simp add: timelineLength_def)
  also have "\<dots> = set (map (\<lambda>(g, n). (sg_id g, sn_node_id n)) (cards run))"
    using timeline_keys [OF assms(1)] by (rule mset_eq_setD)
  finally show ?thesis by fastforce
qed

lemma one_active_card:
  assumes "well_placed run" and "distinct (map (\<lambda>(g, n). (sg_id g, sn_node_id n)) (cards run))" and "i < timelineLength run"
  shows "\<exists>g n. (g, n) \<in> set (cards run) \<and> is_step (sg_id g) (sn_node_id n) (buildTimeline run ! i) \<and>
    filter (\<lambda>(g, n). nodeStateAt run (sg_id g) (sn_node_id n) (int i) = Active) (cards run) = [(g, n)]"
proof -
  let ?s = "buildTimeline run ! i" and ?key = "\<lambda>(g, n). (sg_id g, sn_node_id n)"
  have dist: "distinct (map (\<lambda>s. (ts_gate_id s, ts_node_id s)) (buildTimeline run))"
    using mset_eq_imp_distinct_iff [OF timeline_keys [OF assms(1)]] assms(2) by (rule iffD2)
  obtain g n where gn: "(g, n) \<in> set (cards run)" "?key (g, n) = (ts_gate_id ?s, ts_node_id ?s)"
    using card_of_step [OF assms(1,3)] by auto
  have hit: "nodeStateAt run (sg_id h) (sn_node_id m) (int i) = Active \<longleftrightarrow> ?key (h, m) = ?key (g, n)" for h m
  proof
    assume "nodeStateAt run (sg_id h) (sn_node_id m) (int i) = Active"
    then have "indexOfNode run (sg_id h) (sn_node_id m) = int i" by (auto simp: nodeStateAt_def Let_def split: if_splits)
    then have "is_step (sg_id h) (sn_node_id m) ?s"
      using find_index_hit [of "is_step (sg_id h) (sn_node_id m)" "buildTimeline run"] by (simp add: indexOfNode_def)
    then show "?key (h, m) = ?key (g, n)" using gn(2) by (simp add: is_step_def)
  next
    assume "?key (h, m) = ?key (g, n)"
    then show "nodeStateAt run (sg_id h) (sn_node_id m) (int i) = Active"
      using indexOfNode_nth [OF dist assms(3)] gn(2) by (simp add: nodeStateAt_def)
  qed
  have "filter (\<lambda>(g, n). nodeStateAt run (sg_id g) (sn_node_id n) (int i) = Active) (cards run) = [(g, n)]"
    by (rule filter_unique [OF assms(2) gn(1)]) (use hit in auto)
  with gn show ?thesis by (auto simp: is_step_def)
qed

lemma highlighted_card:
  assumes "well_placed run" and "distinct (map (\<lambda>(g, n). (sg_id g, sn_node_id n)) (cards run))"
    and "timelineLength run > 0" and "sim_ok run (pg_view p)" and "SimRunView run p = Some page"
  shows "\<exists>g n sel s. (g, n) \<in> set (cards run) \<and> having (Attr ''data-active'' (js ''true'')) page = [NodeCard (sg_id g) n Active sel] \<and>
    step_at run (sv_cursor (pg_view p)) = Some s \<and> is_step (sg_id g) (sn_node_id n) s"
proof -
  define i where "i = nat (sv_cursor (pg_view p))"
  have i: "i < timelineLength run" "sv_cursor (pg_view p) = int i"
    using assms(3,4) clampCursor_range [of run "sv_cursor (pg_view p)"] by (auto simp: sim_ok_def i_def)
  obtain g n where gn: "(g, n) \<in> set (cards run)" "is_step (sg_id g) (sn_node_id n) (buildTimeline run ! i)"
    "filter (\<lambda>(g, n). nodeStateAt run (sg_id g) (sn_node_id n) (int i) = Active) (cards run) = [(g, n)]"
    using one_active_card [OF assms(1,2) i(1)] by blast
  moreover have "step_at run (sv_cursor (pg_view p)) = Some (buildTimeline run ! i)"
    using i by (simp add: step_at_def timelineLength_def)
  moreover have "having active_mark page =
      [NodeCard (sg_id g) n Active (is_selected (sv_selection (pg_view p)) (sg_id g) (sn_node_id n))]"
    using having_page [OF assms(5)] i(2) gn(3) by simp
  ultimately show ?thesis by (intro exI conjI)
qed

section \<open>Properties\<close>

text \<open>
  The page cannot be broken by using it. When every node sits in the gate it names and there is at
  least one node, then after any sequence of timer ticks and of actions that the page itself offered,
  the page renders, every action it offers succeeds, the next tick succeeds, and the selection is a
  gate or the node under the cursor.
\<close>

theorem sim_page_safe:
  assumes "well_placed run" and "timelineLength run > 0" and "page_reachable run p"
  shows "\<exists>page. SimRunView run p = Some page \<and>
    (\<forall>a\<in>actions page. \<exists>p'. page_act run a p = Some p') \<and> (\<exists>p'. page_tick run p p') \<and> follows run (pg_view p)"
proof -
  have ok: "sim_ok run (pg_view p)" using sim_page.reachable_inv assms by blast
  then have "follows run (pg_view p)" by (simp add: sim_ok_def)
  moreover have "\<exists>p'. page_tick run p p'" unfolding page_tick_def by (rule page_progress [OF ok assms(2)])
  ultimately show ?thesis using sim_page.reachable_safe [of run p] assms by blast
qed

text \<open>
  Exactly one card is highlighted. When every node sits in the gate it names and no node is listed
  twice, the rendered page of every reachable state marks one card as active, and it is the card of the
  step under the cursor.
\<close>

theorem one_card_highlighted:
  assumes "well_placed run" and "distinct (map (\<lambda>(g, n). (sg_id g, sn_node_id n)) (cards run))"
    and "timelineLength run > 0" and "page_reachable run p" and "SimRunView run p = Some page"
  shows "\<exists>g n sel s. (g, n) \<in> set (cards run) \<and> having (Attr ''data-active'' (js ''true'')) page = [NodeCard (sg_id g) n Active sel] \<and>
    step_at run (sv_cursor (pg_view p)) = Some s \<and> is_step (sg_id g) (sn_node_id n) s"
  using highlighted_card [OF assms(1,2,3) _ assms(5)] sim_page.reachable_inv [OF assms(4)] assms(1,3) by blast

lemma page_started: "page_reachable run (page_mount run)"
  by (rule ui_start) simp

lemma demo_run_placed: "well_placed demo_run" "timelineLength demo_run > 0"
    "distinct (map (\<lambda>(g, n). (sg_id g, sn_node_id n)) (cards demo_run))"
  by (simp_all add: well_placed_def demo_run_def demo_gate_def demo_node_def cards_def timelineLength_def buildTimeline_def)

theorem sim_page_safe_witness: "\<exists>page. SimRunView demo_run (page_mount demo_run) = Some page"
  using sim_page_safe [OF demo_run_placed(1,2) page_started] by blast

theorem one_card_highlighted_witness:
  "\<exists>page. SimRunView demo_run (page_mount demo_run) = Some page \<and> length (having (Attr ''data-active'' (js ''true'')) page) = 1"
proof -
  obtain page where page: "SimRunView demo_run (page_mount demo_run) = Some page"
    using page_renders timeline_gate [OF demo_run_placed(2)] by blast
  then have "length (having active_mark page) = 1"
    using one_card_highlighted [OF demo_run_placed(1,3,2) page_started page] by (elim exE conjE) simp
  with page show ?thesis by (intro exI conjI)
qed

end
