(* ===== verification/EpicPreview.thy ===== *)
theory EpicPreview
  imports EpicGraph
begin

text \<open>
  The simulated artifact previews of \<open>makeArtifactPreview\<close> in \<open>lib/loginEpicRuntimeGraph.ts\<close>: six
  source files by name, YAML and TypeScript stubs by suffix, indented JSON for everything else.
\<close>

section \<open>Definitions\<close>

text \<open>\<open>s.split(c).pop()\<close>\<close>

definition after_last :: "code_unit \<Rightarrow> jsstring \<Rightarrow> jsstring" where
  "after_last c s = rev (takeWhile (\<lambda>x. x \<noteq> c) (rev s))"

definition purpose_or :: "runtimeNode option \<Rightarrow> string \<Rightarrow> jsstring" where
  "purpose_or node d = (case node of Some n \<Rightarrow> rn_purpose n | None \<Rightarrow> js d)"

definition boundary_or :: "runtimeNode option \<Rightarrow> string \<Rightarrow> jsstring" where
  "boundary_or node d = (case node of Some n \<Rightarrow> rn_boundary n | None \<Rightarrow> js d)"

definition preview_head :: "runtimeNode option \<Rightarrow> jsstring \<Rightarrow> string \<Rightarrow> string \<Rightarrow> jsstring" where
  "preview_head node file purpose boundary =
     js ''// '' @ file @ js '' (simulated source-code write preview)'' @ [10] @
     js ''// Purpose: '' @ purpose_or node purpose @ [10] @
     js ''// Boundary: '' @ boundary_or node boundary @ [10]"

definition SOURCE_PREVIEWS :: "runtimeNode option \<Rightarrow> (jsstring \<times> jsstring) list" where
  "SOURCE_PREVIEWS node = [
     (js ''page.tsx'', preview_head node (js ''app/login/page.tsx'') ''Render the login route entry screen'' ''product/ui'' @
(js ''import { LoginShell } from '' @ [34] @ js ''@/components/auth/LoginShell'' @ [34] @ js '';'' @ [10, 10] @ js ''export default function LoginPage() {'' @ [10] @ js ''  return <LoginShell />;'' @ [10] @ js ''}'')),
     (js ''LoginShell.tsx'', preview_head node (js ''components/auth/LoginShell.tsx'') ''Compose the login screen shell'' ''product/ui'' @
(js ''import { LoginForm } from '' @ [34] @ js ''@/components/auth/LoginForm'' @ [34] @ js '';'' @ [10, 10] @ js ''export function LoginShell() {'' @ [10] @ js ''  return ('' @ [10] @ js ''    <main className='' @ [34] @ js ''login-shell'' @ [34] @ js ''>'' @ [10] @ js ''      <h1>Login</h1>'' @ [10] @ js ''      <LoginForm />'' @ [10] @ js ''    </main>'' @ [10] @ js ''  );'' @ [10] @ js ''}'')),
     (js ''LoginForm.tsx'', preview_head node (js ''components/auth/LoginForm.tsx'') ''Login form state machine'' ''product/ui'' @
([34] @ js ''use client'' @ [34] @ js '';'' @ [10] @ js ''import { useState } from '' @ [34] @ js ''react'' @ [34] @ js '';'' @ [10] @ js ''import { loginClient } from '' @ [34] @ js ''@/lib/api/loginClient'' @ [34] @ js '';'' @ [10, 10] @ js ''export function LoginForm() {'' @ [10] @ js ''  const [username, setUsername] = useState('' @ [34, 34] @ js '');'' @ [10] @ js ''  const [password, setPassword] = useState('' @ [34, 34] @ js '');'' @ [10] @ js ''  return ('' @ [10] @ js ''    <form onSubmit={async (e) => {'' @ [10] @ js ''      e.preventDefault();'' @ [10] @ js ''      await loginClient.signIn({ username, password });'' @ [10] @ js ''    }}>'' @ [10] @ js ''      <input aria-label='' @ [34] @ js ''username'' @ [34] @ js '' value={username} onChange={(e) => setUsername(e.target.value)} />'' @ [10] @ js ''      <input aria-label='' @ [34] @ js ''password'' @ [34] @ js '' type='' @ [34] @ js ''password'' @ [34] @ js '' value={password} onChange={(e) => setPassword(e.target.value)} />'' @ [10] @ js ''      <button type='' @ [34] @ js ''submit'' @ [34] @ js ''>Login</button>'' @ [10] @ js ''    </form>'' @ [10] @ js ''  );'' @ [10] @ js ''}'')),
     (js ''login.ts'', preview_head node (js ''lib/contracts/login.ts'') ''Login API contract types'' ''shared/contract'' @
(js ''export interface LoginRequest { username: string; password: string; }'' @ [10] @ js ''export interface LoginResponse { token: string; expiresIn: number; }'' @ [10] @ js ''export const LOGIN_ENDPOINT = '' @ [34] @ js ''/api/login'' @ [34] @ js '' as const;'' @ [10, 10] @ js ''export async function login(req: LoginRequest): Promise<LoginResponse> {'' @ [10] @ js ''  const r = await fetch(LOGIN_ENDPOINT, {'' @ [10] @ js ''    method: '' @ [34] @ js ''POST'' @ [34] @ js '','' @ [10] @ js ''    headers: { '' @ [34] @ js ''content-type'' @ [34] @ js '': '' @ [34] @ js ''application/json'' @ [34] @ js '' },'' @ [10] @ js ''    body: JSON.stringify(req),'' @ [10] @ js ''  });'' @ [10] @ js ''  return r.json();'' @ [10] @ js ''}'')),
     (js ''route.ts'', preview_head node (js ''app/api/login/route.ts'') ''Login API route handler'' ''backend/api'' @
(js ''import { login, type LoginRequest } from '' @ [34] @ js ''@/lib/contracts/login'' @ [34] @ js '';'' @ [10] @ js ''import { json } from '' @ [34] @ js ''@/lib/http'' @ [34] @ js '';'' @ [10, 10] @ js ''export async function POST(req: Request) {'' @ [10] @ js ''  const body = (await req.json()) as LoginRequest;'' @ [10] @ js ''  const res = await login(body);'' @ [10] @ js ''  return json(res, { status: 200 });'' @ [10] @ js ''}'')),
     (js ''loginClient.ts'', preview_head node (js ''lib/api/loginClient.ts'') ''Login API client'' ''client/api'' @
(js ''import { LOGIN_ENDPOINT, type LoginRequest, type LoginResponse } from '' @ [34] @ js ''@/lib/contracts/login'' @ [34] @ js '';'' @ [10, 10] @ js ''export const loginClient = {'' @ [10] @ js ''  async signIn(req: LoginRequest): Promise<LoginResponse> {'' @ [10] @ js ''    const r = await fetch(LOGIN_ENDPOINT, {'' @ [10] @ js ''      method: '' @ [34] @ js ''POST'' @ [34] @ js '','' @ [10] @ js ''      headers: { '' @ [34] @ js ''content-type'' @ [34] @ js '': '' @ [34] @ js ''application/json'' @ [34] @ js '' },'' @ [10] @ js ''      body: JSON.stringify(req),'' @ [10] @ js ''    });'' @ [10] @ js ''    return r.json();'' @ [10] @ js ''  },'' @ [10] @ js ''};''))]"

record previewBase =
  pb_path :: jsstring
  pb_run_id :: jsstring
  pb_gate_id :: jsstring
  pb_node_id :: jsstring

definition SOURCE_BASIS :: jsstring where
  "SOURCE_BASIS = js ''controller-transferred reference fixture (no real secrets)''"

definition preview_base :: "epicRun \<Rightarrow> runtimeGate option \<Rightarrow> runtimeNode option \<Rightarrow> jsstring \<Rightarrow> previewBase" where
  "preview_base run gate node path = \<lparr> pb_path = path, pb_run_id = er_id run,
     pb_gate_id = (case gate of Some g \<Rightarrow> rg_id g | None \<Rightarrow> (case node of Some n \<Rightarrow> rn_gate_id n | None \<Rightarrow> js ''GATE'')),
     pb_node_id = (case node of Some n \<Rightarrow> rn_id n | None \<Rightarrow> js ''node'') \<rparr>"

definition yaml_preview :: "previewBase \<Rightarrow> runtimeNode option \<Rightarrow> jsstring" where
  "yaml_preview b node = js_join [10] [
     js ''path: '' @ pb_path b, js ''run_id: '' @ pb_run_id b, js ''gate_id: '' @ pb_gate_id b, js ''node_id: '' @ pb_node_id b,
     js ''status: simulated'', js ''purpose: '' @ purpose_or node '''', js ''boundary: '' @ boundary_or node '''',
     js ''source_basis: '' @ SOURCE_BASIS]"

definition ts_preview :: "previewBase \<Rightarrow> runtimeNode option \<Rightarrow> jsstring" where
  "ts_preview b node = js_join [10] [
     js ''// '' @ pb_path b @ js '' (simulated preview)'',
     js ''// run='' @ pb_run_id b @ js '' gate='' @ pb_gate_id b @ js '' node='' @ pb_node_id b,
     js ''export const PURPOSE = '' @ json_quote (purpose_or node '''') @ js '';'',
     js ''export const BOUNDARY = '' @ json_quote (boundary_or node '''') @ js '';'']"

definition preview_json :: "previewBase \<Rightarrow> runtimeNode option \<Rightarrow> json" where
  "preview_json b node = JObj [(js ''path'', JStr (pb_path b)), (js ''epic'', JStr (js ''LOGIN-CAPABILITY'')),
     (js ''run_id'', JStr (pb_run_id b)), (js ''gate_id'', JStr (pb_gate_id b)), (js ''node_id'', JStr (pb_node_id b)),
     (js ''status'', JStr (js ''simulated'')), (js ''source_basis'', JStr SOURCE_BASIS),
     (js ''node_title'', opt_str (map_option rn_title node))]"

definition is_ts :: "jsstring \<Rightarrow> bool" where
  "is_ts suffix \<longleftrightarrow> suffix = js ''ts'' \<or> suffix = js ''tsx''"

definition makeArtifactPreview :: "epicRun \<Rightarrow> runtimeGate option \<Rightarrow> runtimeNode option \<Rightarrow> jsstring \<Rightarrow> int \<Rightarrow> jsstring" where
  "makeArtifactPreview run gate node path cursor =
     (let suffix = after_last 46 path; b = preview_base run gate node path; seg = after_last 47 path in
      if map_of (SOURCE_PREVIEWS node) seg \<noteq> None \<and> is_ts suffix then the (map_of (SOURCE_PREVIEWS node) seg)
      else if suffix = js ''yaml'' \<or> suffix = js ''yml'' then yaml_preview b node
      else if is_ts suffix then ts_preview b node
      else stringify2 (preview_json b node))"

end
