(* ===== verification/EpicUI.thy ===== *)
theory EpicUI
  imports Dom EpicLayout EpicPreview
begin

text \<open>
  The player state machine of the Login Epic page, \<open>components/login-epic/LoginEpicRunGraph.tsx\<close>:
  its state with that of the two children that keep some (the layout switches of
  \<open>RuntimeGraphCanvas\<close>, the tab of \<open>RuntimeDetailsPanel\<close>), its handlers, its interval and the effects.

  An interval remembers the route length its callback closed over. The effect on
  \<open>[mode, speed, tick, stop]\<close> runs after a step that changes the mode, the speed or the length of the
  selected route, on which \<open>tick\<close> depends. React Flow draws the nodes and edges it is given and reports
  a click on a node; the viewport it keeps for itself is not modelled.
\<close>

section \<open>State\<close>

datatype epicMode = M_REPLAY | M_LIVE_SIM

datatype epicSelection = SRun jsstring | SNode jsstring

record interval =
  iv_id :: nat
  iv_len :: int

record epicState =
  es_runId :: jsstring
  es_cursor :: int
  es_mode :: epicMode
  es_speed :: int
  es_playing :: bool
  es_selection :: epicSelection
  es_detailTab :: jsstring
  es_modal :: "(jsstring \<times> jsstring) option"
  es_followCursor :: bool
  es_timer :: "nat option"
  es_intervals :: "interval list"
  es_nextId :: nat
  es_opts :: layoutOpts
  es_panelTab :: jsstring

datatype epicAction =
    ESelectRun jsstring
  | ESelectNode jsstring
  | EOpen jsstring jsstring
  | EToggleFollow
  | EFirst
  | EPrev
  | EToggle
  | ENext
  | ELast
  | EScrub int
  | EMode epicMode
  | ESpeed int
  | ECloseModal
  | EDir displayDir
  | EForm displayForm
  | EGroup
  | EPanelTab jsstring
  | ECenterGate jsstring
  | EViewport
  | EStopPropagation

section \<open>Timers and effects\<close>

definition clear_timer :: "epicState \<Rightarrow> epicState" where
  "clear_timer s = s\<lparr>es_intervals := filter (\<lambda>iv. Some (iv_id iv) \<noteq> es_timer s) (es_intervals s)\<rparr>"

definition epic_stop :: "epicState \<Rightarrow> epicState" where
  "epic_stop s = (clear_timer s)\<lparr>es_timer := None, es_playing := False\<rparr>"

text \<open>The clean-up when the page is left.\<close>

definition epic_unmount :: "epicState \<Rightarrow> epicState" where
  "epic_unmount s = epic_stop s"

definition start_interval :: "int \<Rightarrow> epicState \<Rightarrow> epicState" where
  "start_interval len s = s\<lparr>es_playing := True, es_timer := Some (es_nextId s),
     es_intervals := es_intervals s @ [\<lparr> iv_id = es_nextId s, iv_len = len \<rparr>], es_nextId := es_nextId s + 1\<rparr>"

text \<open>The callback of an interval.\<close>

definition epic_tick :: "interval \<Rightarrow> epicState \<Rightarrow> epicState" where
  "epic_tick iv s =
     (if es_cursor s + 1 \<ge> iv_len iv then (epic_stop s)\<lparr>es_cursor := iv_len iv - 1\<rparr>
      else s\<lparr>es_cursor := es_cursor s + 1\<rparr>)"

definition mode_effect :: "int \<Rightarrow> epicState \<Rightarrow> epicState" where
  "mode_effect len s = (if es_mode s = M_LIVE_SIM then start_interval len s else epic_stop s)"

definition route_len :: "epicFixture \<Rightarrow> epicState \<Rightarrow> int" where
  "route_len epic s = (case getRun epic (es_runId s) of Inr r \<Rightarrow> int (length (er_route r)) | Inl _ \<Rightarrow> 0)"

text \<open>After a step: the cleanup of the previous effect, then the effect, if a dependency changed.\<close>

definition after_change :: "epicFixture \<Rightarrow> epicState \<Rightarrow> epicState \<Rightarrow> epicState" where
  "after_change epic old s =
     (if es_mode old = es_mode s \<and> es_speed old = es_speed s \<and> route_len epic old = route_len epic s then s
      else mode_effect (route_len epic s) (if es_mode old = M_LIVE_SIM then clear_timer s else s))"

section \<open>Handlers\<close>

definition selectRun :: "jsstring \<Rightarrow> epicState \<Rightarrow> epicState" where
  "selectRun runId s = s\<lparr>es_runId := runId, es_cursor := 0, es_selection := SRun runId\<rparr>"

definition onSelectNode :: "epicRun \<Rightarrow> jsstring \<Rightarrow> epicState \<Rightarrow> epicState" where
  "onSelectNode run nodeId s =
     (let ix = getRouteIndex run nodeId;
          s1 = (if es_mode s = M_REPLAY \<and> ix \<ge> 0 then s\<lparr>es_cursor := clampCursor run ix\<rparr> else s)
      in s1\<lparr>es_selection := SNode nodeId, es_detailTab := js ''overview''\<rparr>)"

definition sel_runtime_node :: "epicRun \<Rightarrow> epicSelection \<Rightarrow> runtimeNode option" where
  "sel_runtime_node run sel = (case sel of SRun _ \<Rightarrow> None
     | SNode i \<Rightarrow> find (\<lambda>n. rn_id n = i) (concat (map rg_nodes (er_gates run))))"

definition sel_runtime_gate :: "epicRun \<Rightarrow> epicSelection \<Rightarrow> runtimeGate option" where
  "sel_runtime_gate run sel = (case sel of SRun _ \<Rightarrow> None
     | SNode i \<Rightarrow> find (\<lambda>g. list_ex (\<lambda>n. rn_id n = i) (rg_nodes g)) (er_gates run))"

definition onOpenArtifact :: "epicRun \<Rightarrow> jsstring \<Rightarrow> epicState \<Rightarrow> epicState" where
  "onOpenArtifact run path s = s\<lparr>es_modal := Some (path,
     makeArtifactPreview run (sel_runtime_gate run (es_selection s)) (sel_runtime_node run (es_selection s)) path (es_cursor s))\<rparr>"

definition onToggle :: "epicRun \<Rightarrow> epicState \<Rightarrow> epicState" where
  "onToggle run s = (if es_playing s then epic_stop s else start_interval (int (length (er_route run))) s)"

definition onMode :: "epicMode \<Rightarrow> epicState \<Rightarrow> epicState" where
  "onMode m s = (if m = M_LIVE_SIM then s\<lparr>es_cursor := 0, es_mode := m\<rparr> else s\<lparr>es_mode := m\<rparr>)"

fun epic_handle :: "epicRun \<Rightarrow> epicAction \<Rightarrow> epicState \<Rightarrow> epicState" where
  "epic_handle run (ESelectRun i) s = selectRun i s"
| "epic_handle run (ESelectNode i) s = onSelectNode run i s"
| "epic_handle run (EOpen path kind) s = onOpenArtifact run path s"
| "epic_handle run EToggleFollow s = s\<lparr>es_followCursor := \<not> es_followCursor s\<rparr>"
| "epic_handle run EFirst s = s\<lparr>es_cursor := 0\<rparr>"
| "epic_handle run EPrev s = s\<lparr>es_cursor := clampCursor run (es_cursor s - 1)\<rparr>"
| "epic_handle run EToggle s = onToggle run s"
| "epic_handle run ENext s = s\<lparr>es_cursor := clampCursor run (es_cursor s + 1)\<rparr>"
| "epic_handle run ELast s = s\<lparr>es_cursor := int (length (er_route run)) - 1\<rparr>"
| "epic_handle run (EScrub c) s = s\<lparr>es_cursor := clampCursor run c\<rparr>"
| "epic_handle run (EMode m) s = onMode m s"
| "epic_handle run (ESpeed ms) s = s\<lparr>es_speed := ms\<rparr>"
| "epic_handle run ECloseModal s = s\<lparr>es_modal := None\<rparr>"
| "epic_handle run (EDir d) s = s\<lparr>es_opts := (es_opts s)\<lparr>lo_dir := d\<rparr>\<rparr>"
| "epic_handle run (EForm f) s = s\<lparr>es_opts := (es_opts s)\<lparr>lo_form := f\<rparr>\<rparr>"
| "epic_handle run EGroup s = s\<lparr>es_opts := (es_opts s)\<lparr>lo_group := \<not> lo_group (es_opts s)\<rparr>\<rparr>"
| "epic_handle run (EPanelTab t) s = s\<lparr>es_panelTab := t\<rparr>"
| "epic_handle run (ECenterGate g) s = s"
| "epic_handle run EViewport s = s"
| "epic_handle run EStopPropagation s = s"

text \<open>\<open>onMoveStart\<close>: only a genuine user gesture switches Follow off.\<close>

definition epic_move :: "bool \<Rightarrow> epicState \<Rightarrow> epicState" where
  "epic_move programmatic s = (if shouldDisableFollowOnMove programmatic then s\<lparr>es_followCursor := False\<rparr> else s)"

text \<open>One user action with the effect it triggers; \<open>Inl\<close> is the exception of \<open>getRun\<close>.\<close>

definition epic_act :: "epicFixture \<Rightarrow> epicAction \<Rightarrow> epicState \<Rightarrow> epicState thrown" where
  "epic_act epic a s = (case getRun epic (es_runId s) of Inl e \<Rightarrow> Inl e
     | Inr run \<Rightarrow> Inr (after_change epic s (epic_handle run a s)))"

section \<open>Mounting\<close>

record deepLink =
  dl_run :: "jsstring option"
  dl_cursor :: "int option"
  dl_mode :: "jsstring option"
  dl_tab :: "jsstring option"
  dl_modal :: "jsstring option"
  dl_dir :: "jsstring option"
  dl_form :: "jsstring option"
  dl_group :: "jsstring option"

definition given_str :: "jsstring option \<Rightarrow> bool" where
  "given_str v \<longleftrightarrow> v \<noteq> None \<and> v \<noteq> Some []"

definition url_opts :: "deepLink \<Rightarrow> layoutOpts" where
  "url_opts q = \<lparr> lo_dir = (if dl_dir q = Some (js ''TD'') then TD else LR),
     lo_form = (if dl_form q = Some (js ''stack'') then F_stack else F_grid),
     lo_group = (dl_group q \<noteq> Some (js ''0'')) \<rparr>"

definition epic_initial :: "epicRun \<Rightarrow> layoutOpts \<Rightarrow> epicState" where
  "epic_initial r0 opts = \<lparr> es_runId = er_id r0, es_cursor = 0, es_mode = M_REPLAY, es_speed = 750, es_playing = False,
     es_selection = SRun (er_id r0), es_detailTab = js ''overview'', es_modal = None, es_followCursor = True,
     es_timer = None, es_intervals = [], es_nextId = 0, es_opts = opts, es_panelTab = js ''overview'' \<rparr>"

definition link_run :: "epicFixture \<Rightarrow> deepLink \<Rightarrow> epicRun option" where
  "link_run epic q = (case dl_run q of None \<Rightarrow> None
     | Some i \<Rightarrow> if i \<noteq> [] then find (\<lambda>r. er_id r = i) (ef_runs epic) else None)"

definition deep_link :: "epicFixture \<Rightarrow> deepLink \<Rightarrow> epicRun \<Rightarrow> epicState \<Rightarrow> epicState" where
  "deep_link epic q r0 s =
     (let s1 = (case link_run epic q of Some r \<Rightarrow> s\<lparr>es_runId := er_id r\<rparr> | None \<Rightarrow> s);
          s2 = (case dl_cursor q of Some c \<Rightarrow> s1\<lparr>es_cursor := c\<rparr> | None \<Rightarrow> s1);
          s3 = (if dl_mode q = Some (js ''LIVE_SIM'') then s2\<lparr>es_mode := M_LIVE_SIM\<rparr> else s2);
          s4 = (if given_str (dl_tab q) then s3\<lparr>es_detailTab := the (dl_tab q)\<rparr> else s3)
      in if given_str (dl_modal q) then
           s4\<lparr>es_modal := Some (the (dl_modal q), makeArtifactPreview
             (case link_run epic q of Some r \<Rightarrow> r | None \<Rightarrow> r0) None None (the (dl_modal q)) 0)\<rparr>
         else s4)"

text \<open>\<open>None\<close>: \<open>epic.runs[0].id\<close> throws when there is no run.\<close>

definition epic_mount :: "epicFixture \<Rightarrow> deepLink \<Rightarrow> epicState option" where
  "epic_mount epic q = (case ef_runs epic of [] \<Rightarrow> None
     | r0 # _ \<Rightarrow> let s0 = epic_initial r0 (url_opts q); s1 = mode_effect (route_len epic s0) s0
                 in Some (after_change epic s1 (deep_link epic q r0 s1)))"

text \<open>What can happen: an interval fires, the user acts or moves the viewport.\<close>

inductive epic_reachable :: "epicFixture \<Rightarrow> deepLink \<Rightarrow> epicState \<Rightarrow> bool" for epic q where
  epic_mounted: "epic_mount epic q = Some s \<Longrightarrow> epic_reachable epic q s"
| epic_ticked: "epic_reachable epic q s \<Longrightarrow> iv \<in> set (es_intervals s) \<Longrightarrow> epic_reachable epic q (epic_tick iv s)"
| epic_moved: "epic_reachable epic q s \<Longrightarrow> epic_reachable epic q (epic_move b s)"
| epic_used: "epic_reachable epic q s \<Longrightarrow> (case a of ESelectRun i \<Rightarrow> i \<in> er_id ` set (ef_runs epic) | _ \<Rightarrow> True) \<Longrightarrow>
    epic_act epic a s = Inr s' \<Longrightarrow> epic_reachable epic q s'"

section \<open>Orphaned intervals\<close>

text \<open>
  The intervals that \<open>timer.current\<close> no longer names: nothing can clear them any more. The player
  loses one when LIVE SIM is entered while a replay is playing.
\<close>

definition orphans :: "epicState \<Rightarrow> interval list" where
  "orphans s = filter (\<lambda>iv. Some (iv_id iv) \<noteq> es_timer s) (es_intervals s)"

definition interrupts :: "epicAction \<Rightarrow> epicState \<Rightarrow> bool" where
  "interrupts a s \<longleftrightarrow> a = EMode M_LIVE_SIM \<and> es_mode s = M_REPLAY \<and> es_playing s"

definition timer_ok :: "epicState \<Rightarrow> bool" where
  "timer_ok s \<longleftrightarrow> (es_playing s \<longleftrightarrow> es_timer s \<noteq> None) \<and> (\<forall>iv\<in>set (es_intervals s). iv_id iv < es_nextId s) \<and>
     (\<forall>i. es_timer s = Some i \<longrightarrow> i \<in> iv_id ` set (es_intervals s))"

text \<open>The part of the state that the timers live in.\<close>

definition timers :: "epicState \<Rightarrow> nat option \<times> interval list \<times> nat \<times> bool" where
  "timers s = (es_timer s, es_intervals s, es_nextId s, es_playing s)"

lemma timers_cong: "timers s = timers s' \<Longrightarrow> timer_ok s = timer_ok s' \<and> orphans s = orphans s'"
  by (auto simp: timers_def timer_ok_def orphans_def)

lemma timers_handle: "a \<noteq> EToggle \<Longrightarrow> timers (epic_handle run a s) = timers s"
  by (cases a) (simp_all add: timers_def selectRun_def onSelectNode_def onOpenArtifact_def onMode_def Let_def)

lemma orphans_clear [simp]: "orphans (clear_timer s) = orphans s" "es_timer (clear_timer s) = es_timer s"
    "es_intervals (clear_timer s) = orphans s" "es_mode (clear_timer s) = es_mode s"
  by (simp_all add: orphans_def clear_timer_def)

lemma orphans_stop [simp]: "orphans (epic_stop s) = orphans s"
  by (simp add: orphans_def epic_stop_def clear_timer_def)

text \<open>Leaving the page clears the interval in use; exactly the lost ones go on firing.\<close>

lemma unmount_leaves_orphans: "es_intervals (epic_unmount s) = orphans s"
  by (simp add: epic_unmount_def epic_stop_def)

lemma orphans_start:
  assumes "\<forall>iv\<in>set (es_intervals s). iv_id iv < es_nextId s"
  shows "orphans (start_interval len s) = es_intervals s"
proof -
  have "filter (\<lambda>iv. iv_id iv \<noteq> es_nextId s) (es_intervals s) = es_intervals s"
    using assms by (intro filter_True) auto
  then show ?thesis by (simp add: orphans_def start_interval_def)
qed

lemma timer_ok_stop: "timer_ok s \<Longrightarrow> timer_ok (epic_stop s)"
  by (auto simp: timer_ok_def epic_stop_def clear_timer_def)

lemma ids_fresh: "timer_ok s \<Longrightarrow> \<forall>iv\<in>set (es_intervals s). iv_id iv < es_nextId s"
  by (simp add: timer_ok_def)

lemma timer_ok_start:
  assumes "\<forall>iv\<in>set (es_intervals s). iv_id iv < es_nextId s"
  shows "timer_ok (start_interval len s)"
  using assms by (auto simp: timer_ok_def start_interval_def less_Suc_eq)

lemma clear_fresh: "timer_ok s \<Longrightarrow> \<forall>iv\<in>set (es_intervals (clear_timer s)). iv_id iv < es_nextId (clear_timer s)"
  by (auto simp: timer_ok_def clear_timer_def)

lemma timer_ok_tick: "timer_ok s \<Longrightarrow> timer_ok (epic_tick iv s) \<and> orphans (epic_tick iv s) = orphans s"
  using timers_cong [of "(epic_stop s)\<lparr>es_cursor := c\<rparr>" "epic_stop s" for c]
    timers_cong [of "s\<lparr>es_cursor := c\<rparr>" s for c] timer_ok_stop [of s]
  by (simp add: epic_tick_def timers_def)

lemma not_playing_orphans: "timer_ok s \<Longrightarrow> \<not> es_playing s \<Longrightarrow> orphans s = es_intervals s"
  by (simp add: timer_ok_def orphans_def)

lemma timer_ok_toggle: "timer_ok s \<Longrightarrow> timer_ok (onToggle run s) \<and> orphans (onToggle run s) = orphans s"
  by (simp add: onToggle_def timer_ok_stop timer_ok_start orphans_start not_playing_orphans ids_fresh)

lemma timer_ok_handle:
  "timer_ok s \<Longrightarrow> timer_ok (epic_handle run a s) \<and> orphans (epic_handle run a s) = orphans s"
  using timers_cong [OF timers_handle [of a run s]] timer_ok_toggle by (cases "a = EToggle") auto

lemma mode_handle: "(\<And>m. a \<noteq> EMode m) \<Longrightarrow> es_mode (epic_handle run a s) = es_mode s"
  by (cases a) (auto simp: selectRun_def onSelectNode_def onOpenArtifact_def onToggle_def epic_stop_def clear_timer_def
    start_interval_def Let_def)

lemma mode_EMode [simp]: "es_mode (onMode m s) = m" "timers (onMode m s) = timers s"
  by (simp_all add: onMode_def timers_def)

text \<open>After the effect only an interrupted replay has left an interval behind.\<close>

lemma after_change_timers:
  assumes "timer_ok s"
  shows "timer_ok (after_change epic old s) \<and> orphans (after_change epic old s) =
    (if es_mode old = M_REPLAY \<and> es_mode s = M_LIVE_SIM then es_intervals s else orphans s)"
proof (cases "es_mode old = es_mode s \<and> es_speed old = es_speed s \<and> route_len epic old = route_len epic s")
  case True
  then show ?thesis using assms by (auto simp: after_change_def)
next
  case False
  have stop: "timer_ok (epic_stop (clear_timer s)) \<and> orphans (epic_stop (clear_timer s)) = orphans s"
    using assms by (auto simp: timer_ok_def epic_stop_def clear_timer_def orphans_def)
  show ?thesis
    using False assms stop orphans_start [OF ids_fresh [OF assms]] orphans_start [OF clear_fresh [OF assms]]
      timer_ok_start [OF ids_fresh [OF assms]] timer_ok_start [OF clear_fresh [OF assms]] timer_ok_stop [OF assms]
    by (cases "es_mode old"; cases "es_mode s") (simp_all add: after_change_def mode_effect_def)
qed

lemma intervals_handle: "a \<noteq> EToggle \<Longrightarrow> es_intervals (epic_handle run a s) = es_intervals s"
  using timers_handle [of a run s] by (simp add: timers_def)

lemma act_timers:
  assumes "timer_ok s" and "epic_act epic a s = Inr s'"
  shows "timer_ok s' \<and> orphans s' = (if interrupts a s then es_intervals s else orphans s)"
proof -
  obtain run where s': "s' = after_change epic s (epic_handle run a s)"
    using assms(2) by (auto simp: epic_act_def split: sum.splits)
  note h = timer_ok_handle [OF assms(1), of run a]
  show ?thesis
  proof (cases "\<exists>m. a = EMode m")
    case True
    then obtain m where a: "a = EMode m" by blast
    then show ?thesis
      using after_change_timers [of "epic_handle run a s" epic s] h s' intervals_handle [of a run s] not_playing_orphans [OF assms(1)]
      by (cases m) (auto simp: interrupts_def)
  next
    case False
    then have "es_mode (epic_handle run a s) = es_mode s" using mode_handle by blast
    then show ?thesis
      using after_change_timers [of "epic_handle run a s" epic s] h s' False by (auto simp: interrupts_def)
  qed
qed

lemma deep_link_timers: "timers (deep_link epic q r0 s) = timers s"
  by (simp add: deep_link_def timers_def Let_def split: option.split)

lemma mode_effect_initial: "mode_effect len (epic_initial r0 opts) = epic_stop (epic_initial r0 opts)"
  by (simp add: mode_effect_def epic_initial_def)

lemma mount_timers:
  assumes "epic_mount epic q = Some s"
  shows "timer_ok s \<and> orphans s = []"
proof -
  obtain r0 where r0: "s = after_change epic (epic_stop (epic_initial r0 (url_opts q)))
      (deep_link epic q r0 (epic_stop (epic_initial r0 (url_opts q))))"
    using assms by (auto simp: epic_mount_def mode_effect_initial Let_def split: list.splits)
  define s1 where "s1 = epic_stop (epic_initial r0 (url_opts q))"
  have s: "s = after_change epic s1 (deep_link epic q r0 s1)" using r0 by (simp add: s1_def)
  have ok: "timer_ok s1" "orphans s1 = []" "es_intervals s1 = []"
    by (auto simp: s1_def timer_ok_def orphans_def epic_stop_def clear_timer_def epic_initial_def)
  note d = timers_cong [OF deep_link_timers [of epic q r0 s1]]
  have "es_intervals (deep_link epic q r0 s1) = []" using deep_link_timers [of epic q r0 s1] ok by (simp add: timers_def)
  then show ?thesis using after_change_timers [of "deep_link epic q r0 s1" epic s1] d ok s by auto
qed

lemma move_timers: "timers (epic_move b s) = timers s"
  by (simp add: epic_move_def timers_def)

lemma epic_timer_ok: "epic_reachable epic q s \<Longrightarrow> timer_ok s"
proof (induction rule: epic_reachable.induct)
  case (epic_moved s b)
  then show ?case using timers_cong [OF move_timers] by blast
qed (use mount_timers timer_ok_tick act_timers in blast)+

section \<open>Playing to the end\<close>

text \<open>The oldest interval fires.\<close>

definition fire :: "epicState \<Rightarrow> epicState" where
  "fire s = (case es_intervals s of [] \<Rightarrow> s | iv # _ \<Rightarrow> epic_tick iv s)"

definition plays :: "nat \<Rightarrow> int \<Rightarrow> int \<Rightarrow> epicState \<Rightarrow> bool" where
  "plays i len c s \<longleftrightarrow> es_intervals s = [\<lparr> iv_id = i, iv_len = len \<rparr>] \<and> es_timer s = Some i \<and> es_playing s \<and> es_cursor s = c"

definition at_rest :: "int \<Rightarrow> epicState \<Rightarrow> bool" where
  "at_rest c s \<longleftrightarrow> es_cursor s = c \<and> \<not> es_playing s \<and> es_intervals s = []"

interpretation epic_player: tick_player fire "\<lambda>k. plays i (int n) (int k)" "at_rest (int n - 1)" n for i n
  by unfold_locales (auto simp: plays_def at_rest_def fire_def epic_tick_def epic_stop_def clear_timer_def)

lemma live_sim_starts:
  assumes "getRun epic (es_runId s) = Inr run" and "es_mode s = M_REPLAY" and "es_intervals s = []"
    and "epic_act epic (EMode M_LIVE_SIM) s = Inr s'"
  shows "plays (es_nextId s) (int (length (er_route run))) 0 s' \<and> es_mode s' = M_LIVE_SIM"
proof -
  have len: "route_len epic (onMode M_LIVE_SIM s) = int (length (er_route run))"
    using assms(1) by (simp add: route_len_def onMode_def)
  then show ?thesis
    using assms len by (auto simp: epic_act_def after_change_def mode_effect_def plays_def start_interval_def) (simp_all add: onMode_def)
qed

section \<open>Properties\<close>

text \<open>
  C14. LIVE SIM plays the whole route and stops. Entered from a replay at rest, it starts at the first
  step; after \<open>k\<close> firings of its interval, for every \<open>k\<close> below the length of the route, the player is
  playing at step \<open>k\<close>; one more firing after the last step leaves the cursor there, shows the player as
  paused and leaves no interval behind.
\<close>

theorem live_sim_plays_route:
  assumes "getRun epic (es_runId s) = Inr run" and "er_route run \<noteq> []" and "es_mode s = M_REPLAY" and "es_intervals s = []"
    and "epic_act epic (EMode M_LIVE_SIM) s = Inr s'"
  shows "(\<forall>k < length (er_route run). es_playing ((fire ^^ k) s') \<and> es_cursor ((fire ^^ k) s') = int k) \<and>
    (let e = (fire ^^ length (er_route run)) s'
     in es_cursor e = int (length (er_route run)) - 1 \<and> \<not> es_playing e \<and> es_intervals e = [])"
proof -
  have "plays (es_nextId s) (int (length (er_route run))) (int 0) s'" using live_sim_starts [OF assms(1,3,4,5)] by simp
  from epic_player.plays_through [OF this] assms(2) show ?thesis by (simp add: plays_def at_rest_def Let_def)
qed

text \<open>
  C40. Exactly when an interval is lost. A firing interval never changes which intervals nobody can
  clear any more, and a user action adds to them only when it enters LIVE SIM while a replay is
  playing: then the replay's interval, which is there, joins them, and no later action takes it out.
\<close>

theorem interval_lost_exactly_on_interrupt:
  assumes "epic_reachable epic q s"
  shows "orphans (epic_tick iv s) = orphans s \<and>
    (epic_act epic a s = Inr s' \<longrightarrow> orphans s' = (if interrupts a s then es_intervals s else orphans s)) \<and>
    (interrupts a s \<longrightarrow> length (orphans s) < length (es_intervals s))"
proof -
  note ok = epic_timer_ok [OF assms]
  have "length (orphans s) < length (es_intervals s)" if live: "interrupts a s"
  proof -
    obtain iv where "iv \<in> set (es_intervals s)" "es_timer s = Some (iv_id iv)"
      using ok live by (auto simp: timer_ok_def interrupts_def)
    then show ?thesis unfolding orphans_def by (intro length_filter_less) auto
  qed
  then show ?thesis using timer_ok_tick [OF ok] act_timers [OF ok] by simp
qed

definition demo_fixture :: epicFixture where
  "demo_fixture = \<lparr> ef_epic_id = [], ef_title = [], ef_run_count = 1, ef_runtime_node_count = 3, ef_runtime_model = [],
     ef_runs = [demo_erun] \<rparr>"

definition no_link :: deepLink where
  "no_link = \<lparr> dl_run = None, dl_cursor = None, dl_mode = None, dl_tab = None, dl_modal = None, dl_dir = None, dl_form = None,
     dl_group = None \<rparr>"

lemma demo_mount: "epic_mount demo_fixture no_link = Some (epic_initial demo_erun (url_opts no_link))"
  by (simp add: epic_mount_def demo_fixture_def mode_effect_initial after_change_def deep_link_def no_link_def link_run_def
    given_str_def Let_def epic_stop_def clear_timer_def) (simp add: epic_initial_def)

lemmas epic_eval = epic_initial_def demo_erun_def after_change_def mode_effect_def onMode_def onToggle_def epic_stop_def
  clear_timer_def start_interval_def route_len_def getRun_def demo_fixture_def epic_act_def

definition demo_playing :: epicState where
  "demo_playing = start_interval 3 (epic_initial demo_erun (url_opts no_link))"

lemma demo_playing_reachable: "epic_reachable demo_fixture no_link demo_playing"
proof -
  let ?s = "epic_initial demo_erun (url_opts no_link)"
  have "epic_act demo_fixture EToggle ?s = Inr demo_playing"
    by (simp add: demo_playing_def epic_eval)
  then show ?thesis by (intro epic_used [OF epic_mounted [OF demo_mount]]) auto
qed

text \<open>Play, LIVE SIM, back to REPLAY: the player is paused, and the first interval still moves the cursor.\<close>

theorem interval_lost_exactly_on_interrupt_witness:
  "\<exists>live rest iv. epic_act demo_fixture (EMode M_LIVE_SIM) demo_playing = Inr live \<and>
     epic_act demo_fixture (EMode M_REPLAY) live = Inr rest \<and> orphans live = [iv] \<and> es_intervals rest = [iv] \<and>
     \<not> es_playing rest \<and> es_timer rest = None \<and> es_cursor (epic_tick iv rest) = es_cursor rest + 1"
proof -
  let ?iv = "\<lparr> iv_id = 0, iv_len = 3 \<rparr>"
  define live where "live = start_interval 3 (demo_playing\<lparr>es_cursor := 0, es_mode := M_LIVE_SIM\<rparr>)"
  have l: "epic_act demo_fixture (EMode M_LIVE_SIM) demo_playing = Inr live"
    by (simp add: demo_playing_def live_def epic_eval)
  have o: "orphans live = [?iv]"
    using interval_lost_exactly_on_interrupt [OF demo_playing_reachable, of ?iv "EMode M_LIVE_SIM" live] l
    by (simp add: interrupts_def demo_playing_def epic_eval)
  have "epic_act demo_fixture (EMode M_REPLAY) live = Inr (live\<lparr>es_mode := M_REPLAY, es_playing := False, es_timer := None, es_intervals := [?iv]\<rparr>)"
    by (simp add: demo_playing_def live_def epic_eval)
  with l o show ?thesis
    by (intro exI conjI) (auto simp: epic_tick_def live_def demo_playing_def epic_eval)
qed

theorem live_sim_plays_route_witness:
  "\<exists>s'. epic_act demo_fixture (EMode M_LIVE_SIM) (epic_initial demo_erun (url_opts no_link)) = Inr s' \<and>
     es_cursor ((fire ^^ 2) s') = 2 \<and> \<not> es_playing ((fire ^^ 3) s')"
proof -
  let ?s = "epic_initial demo_erun (url_opts no_link)"
  obtain s' where s': "epic_act demo_fixture (EMode M_LIVE_SIM) ?s = Inr s'"
    by (simp add: epic_eval)
  have "getRun demo_fixture (es_runId ?s) = Inr demo_erun" "length (er_route demo_erun) = 3" "er_route demo_erun \<noteq> []"
    "es_mode ?s = M_REPLAY" "es_intervals ?s = []"
    by (simp_all add: epic_eval)
  with live_sim_plays_route [of demo_fixture ?s demo_erun s'] s' show ?thesis by (auto simp: Let_def)
qed

end
