(* ===== verification/EpicView.thy ===== *)
theory EpicView
  imports Complex_Main EpicUI
begin

text \<open>
  What the Login Epic page draws: \<open>EpicRunRail\<close>, \<open>GateClusterNode\<close>, \<open>FamilyBandNode\<close>,
  \<open>RuntimeNodeCard\<close>, \<open>RuntimeEdge\<close>, \<open>MiniMap\<close>, \<open>RuntimeGraphCanvas\<close>, \<open>RuntimeDetailsPanel\<close>,
  \<open>RuntimePlayer\<close>, \<open>ArtifactModal\<close> and the page \<open>LoginEpicRunGraph\<close>, all under
  \<open>components/login-epic\<close>.

  React Flow is a parameter \<open>flow\<close> of the canvas: it is given the nodes, the edges, the renderers of
  their types and the click handler, and returns the drawn graph. A rendering that throws is \<open>None\<close>.
\<close>

section \<open>The run rail\<close>

definition padStart2 :: "jsstring \<Rightarrow> jsstring" where
  "padStart2 s = replicate (2 - length s) 48 @ s"

definition EpicRunRail :: "epicRun list \<Rightarrow> jsstring \<Rightarrow> epicAction vdom" where
  "EpicRunRail runs selectedRunId = El ''section'' [cls ''leg-epic'', testid ''login-epic-run-graph''] [
     El ''h2'' [] [Txt (js ''1 '' @ [0xB7] @ js '' Epic Run Graph (click a run '' @ [0xB7] @ js '' R00 '' @ [0x2192] @ js '' R09)'')],
     El ''div'' [cls ''leg-epic-cards''] (map (\<lambda>(r, i). El ''div'' [cls ''leg-epic-pair'']
       (El ''button'' [Attr ''class'' (js ''leg-run-card'' @ (if selectedRunId = er_id r then js '' active'' else [])),
          testid ''login-epic-run-card'', Attr ''data-run-id'' (er_id r), On ''click'' (ESelectRun (er_id r))] [
          El ''div'' [cls ''leg-run-idx''] [Txt (js ''R'' @ padStart2 (show_int (er_index r)))],
          El ''div'' [cls ''leg-run-id''] [Txt (er_id r)],
          El ''div'' [cls ''leg-run-kind''] [Txt (er_run_kind r)],
          El ''div'' [cls ''leg-run-summary''] [Txt (er_summary r)]] #
        shown_if (int i < int (length runs) - 1)
          (El ''span'' [cls ''leg-run-arrow'', testid ''login-epic-run-arrow'', Attr ''aria-hidden'' (js ''true'')] [Txt ([0x2192])])))
       (zip runs [0..<length runs]))]"

section \<open>Graph nodes and edges\<close>

record gateData =
  gd_gateId :: jsstring
  gd_gateLabel :: jsstring
  gd_gateSummary :: jsstring
  gd_boundary :: jsstring
  gd_headerH :: int
  gd_nodeCount :: nat
  gd_artifactCount :: nat
  gd_state :: gateState

record nodeData =
  nd_node :: runtimeNode
  nd_state :: nodeState
  nd_active :: bool
  nd_selected :: bool
  nd_boundary :: jsstring

text \<open>The node types of the graph with the \<open>data\<close> each carries.\<close>

datatype rfData =
    GateCluster gateData
  | FamilyBand jsstring jsstring
  | RuntimeNode nodeData

record rfNode =
  rf_id :: jsstring
  rf_data :: rfData
  rf_x :: int
  rf_y :: int
  rf_selectable :: bool
  rf_zIndex :: nat
  rf_size :: "(int \<times> int) option"

record edgeStyle =
  st_stroke :: jsstring
  st_strokeWidth :: rat
  st_strokeDasharray :: "jsstring option"
  st_animation :: "jsstring option"

record rfEdge =
  re_id :: jsstring
  re_source :: jsstring
  re_target :: jsstring
  re_style :: edgeStyle
  re_kind :: layoutEdgeKind
  re_active :: bool
  re_className :: jsstring

definition BOUNDARY_LABELS :: "(jsstring \<times> jsstring) list" where
  "BOUNDARY_LABELS = [(js ''read_only'', (js ''read_only '' @ [0xB7] @ js '' G0'')), (js ''g2_execution_boundary'', (js ''product/ui '' @ [0xB7] @ js '' G2'')),
     (js ''g3_pr_boundary'', (js ''code_review '' @ [0xB7] @ js '' G3'')), (js ''g4_merge_boundary'', (js ''merge_control '' @ [0xB7] @ js '' G4'')),
     (js ''g5_deploy_boundary'', (js ''backend/api '' @ [0xB7] @ js '' G5'')), (js ''g6_production_boundary'', (js ''client/api '' @ [0xB7] @ js '' G6''))]"

definition boundary_label :: "jsstring \<Rightarrow> jsstring" where
  "boundary_label b = (case map_of BOUNDARY_LABELS b of Some l \<Rightarrow> l | None \<Rightarrow> b)"

fun gate_state_name :: "gateState \<Rightarrow> string" where
  "gate_state_name GDone = ''done''"
| "gate_state_name GActive = ''active''"
| "gate_state_name GFuture = ''future''"
| "gate_state_name GEmpty = ''empty''"

definition GateClusterNode :: "gateData \<Rightarrow> epicAction vdom" where
  "GateClusterNode d = El ''div''
     [Attr ''class'' (js ''leg-gate-cluster leg-gate-'' @ js (gate_state_name (gd_state d)) @ js '' leg-boundary-'' @ gd_boundary d),
      testid ''runtime-gate-cluster'', Attr ''data-gate-id'' (gd_gateId d), Attr ''data-boundary'' (gd_boundary d)] [
     El ''div'' [cls ''leg-gate-banner'', Attr ''data-boundary'' (gd_boundary d), Attr ''height'' (show_int (gd_headerH d))] [
       El ''div'' [cls ''leg-gate-banner-top''] [
         El ''span'' [cls ''leg-gate-id''] [Txt (gd_gateId d)],
         El ''span'' [cls ''leg-gate-band'', Attr ''data-boundary'' (gd_boundary d)] [Txt (boundary_label (gd_boundary d))],
         El ''span'' [cls ''leg-gate-state''] [Txt (toUpperCase (js (gate_state_name (gd_state d))))]],
       El ''div'' [cls ''leg-gate-banner-sub''] [Txt (gd_gateLabel d @ (js '' '' @ [0xB7] @ js '' '') @ gd_gateSummary d)],
       El ''div'' [cls ''leg-gate-banner-meta''] [
         El ''span'' [] [num (gd_nodeCount d), tx '' nodes''],
         El ''span'' [] [num (gd_artifactCount d), tx '' artifacts'']]]]"

definition FamilyBandNode :: "jsstring \<Rightarrow> jsstring \<Rightarrow> epicAction vdom" where
  "FamilyBandNode family boundary = El ''div''
     [Attr ''class'' (js ''leg-family-band leg-boundary-'' @ boundary), testid ''runtime-family-band'', Attr ''data-family'' family]
     [El ''span'' [cls ''leg-family-band-label''] [Txt family]]"

definition RuntimeNodeCard :: "nodeData \<Rightarrow> epicAction vdom" where
  "RuntimeNodeCard d = (let n = nd_node d in El ''div''
     [Attr ''class'' (js ''leg-node leg-node-'' @ state_name (nd_state d) @ (if nd_selected d then js '' selected'' else [])),
      testid ''runtime-node-card'', Attr ''data-node-id'' (rn_id n), Attr ''data-boundary'' (nd_boundary d),
      Attr ''data-active'' (if nd_active d then js ''true'' else js ''false'')] [
     El ''Handle'' [Attr ''type'' (js ''target''), Attr ''position'' (js ''left'')] [],
     El ''div'' [cls ''leg-node-top''] [
       El ''span'' [] [Txt (rn_family n)],
       El ''span'' [cls ''leg-state''] [Txt (toUpperCase (state_name (nd_state d)))]],
     El ''div'' [cls ''leg-node-title''] [Txt (rn_title n)],
     El ''div'' [cls ''leg-node-id''] [Txt (rn_id n)],
     El ''div'' [cls ''leg-node-purpose''] [Txt (rn_purpose n)],
     El ''div'' [cls ''leg-node-boundary''] [Txt (([0x2316] @ js '' '') @ nd_boundary d)],
     El ''div'' [cls ''leg-node-meta''] [
       El ''span'' [] [num (length (rn_artifacts n)), tx '' art''],
       El ''span'' [] [num (length (rn_fileReads n)), tx '' rd''],
       El ''span'' [] [num (length (rn_fileWrites n)), tx '' wr''],
       El ''span'' [] [num (length (rn_taskControllerHistory n)), tx '' TC''],
       El ''span'' [] [num (length (rn_executorHistory n)), tx '' EX'']],
     El ''Handle'' [Attr ''type'' (js ''source''), Attr ''position'' (js ''right'')] []])"

text \<open>The class and the style that \<open>RuntimeEdge\<close> hands to \<open>BaseEdge\<close>; the path is React Flow's.\<close>

definition RuntimeEdge :: "rfEdge \<Rightarrow> jsstring option \<times> edgeStyle" where
  "RuntimeEdge e = (if re_active e
     then (Some (js ''runtime-active-edge''), (re_style e)\<lparr>st_stroke := js ''#ffd34d'', st_strokeWidth := 3,
       st_strokeDasharray := Some (js ''6 4''), st_animation := Some (js ''runtime-edge-dash 0.8s linear infinite'')\<rparr>)
     else (None, re_style e))"

fun nodeTypes :: "rfData \<Rightarrow> epicAction vdom" where
  "nodeTypes (GateCluster d) = GateClusterNode d"
| "nodeTypes (FamilyBand family boundary) = FamilyBandNode family boundary"
| "nodeTypes (RuntimeNode d) = RuntimeNodeCard d"

section \<open>The canvas\<close>

definition gate_of_id :: "epicRun \<Rightarrow> jsstring \<Rightarrow> runtimeGate option" where
  "gate_of_id run i = find (\<lambda>x. rg_id x = i) (er_gates run)"

definition gate_rf :: "epicRun \<Rightarrow> int \<Rightarrow> layoutGate \<Rightarrow> rfNode option" where
  "gate_rf run cursor g = (case getGateState run (lg_id g) cursor of Inl _ \<Rightarrow> None
     | Inr state \<Rightarrow> let gate = gate_of_id run (lg_id g) in Some \<lparr>
         rf_id = js ''gate-'' @ lg_id g,
         rf_data = GateCluster \<lparr> gd_gateId = lg_id g,
           gd_gateLabel = (case gate of Some x \<Rightarrow> rg_label x | None \<Rightarrow> lg_id g),
           gd_gateSummary = (case gate of Some x \<Rightarrow> rg_summary x | None \<Rightarrow> []),
           gd_boundary = lg_boundary g, gd_headerH = lg_headerH g,
           gd_nodeCount = (case gate of Some x \<Rightarrow> length (rg_nodes x) | None \<Rightarrow> 0),
           gd_artifactCount = (case gate of Some x \<Rightarrow> length (rg_gateArtifacts x) | None \<Rightarrow> 0),
           gd_state = state \<rparr>,
         rf_x = lg_x g, rf_y = lg_y g, rf_selectable = False, rf_zIndex = 0, rf_size = Some (lg_w g, lg_h g) \<rparr>)"

definition family_rf :: "layoutGate \<Rightarrow> familyBand \<Rightarrow> rfNode" where
  "family_rf g f = \<lparr> rf_id = js ''fam-'' @ lg_id g @ js ''-'' @ fb_family f,
     rf_data = FamilyBand (fb_family f) (lg_boundary g), rf_x = fb_x f, rf_y = fb_y f, rf_selectable = False,
     rf_zIndex = 1, rf_size = Some (fb_w f, fb_h f) \<rparr>"

definition card_rf :: "epicRun \<Rightarrow> int \<Rightarrow> epicSelection \<Rightarrow> layoutNode \<Rightarrow> rfNode option" where
  "card_rf run cursor sel l = map_option (\<lambda>n. let state = getNodeState run (rn_id n) cursor in \<lparr>
       rf_id = rn_id n,
       rf_data = RuntimeNode \<lparr> nd_node = n, nd_state = state, nd_active = (state = Active),
         nd_selected = (sel = SNode (rn_id n)), nd_boundary = rn_boundary n \<rparr>,
       rf_x = ln_x l, rf_y = ln_y l, rf_selectable = True, rf_zIndex = 2, rf_size = None \<rparr>)
     (find (\<lambda>x. rn_id x = ln_id l) (concat (map rg_nodes (er_gates run))))"

text \<open>All values, or none when one is missing.\<close>

fun all_some :: "'a option list \<Rightarrow> 'a list option" where
  "all_some [] = Some []"
| "all_some (None # xs) = None"
| "all_some (Some x # xs) = map_option ((#) x) (all_some xs)"

definition rfNodes :: "epicRun \<Rightarrow> layoutOpts \<Rightarrow> int \<Rightarrow> epicSelection \<Rightarrow> rfNode list option" where
  "rfNodes run opts cursor sel = (let layout = computeRunLayout run opts in
     all_some (concat (map (\<lambda>g. gate_rf run cursor g # map (Some \<circ> family_rf g) (lg_families g)) (rl_gates layout)) @
       map (card_rf run cursor sel) (rl_nodes layout)))"

definition edge_style :: "layoutEdgeKind \<Rightarrow> edgeStyle" where
  "edge_style k = (case k of
     LE_fanout \<Rightarrow> \<lparr> st_stroke = js ''rgba(140,147,166,0.25)'', st_strokeWidth = 1, st_strokeDasharray = Some (js ''3 4''), st_animation = None \<rparr>
   | LE_route \<Rightarrow> \<lparr> st_stroke = js ''#8a93a6'', st_strokeWidth = 15 / 10, st_strokeDasharray = None, st_animation = None \<rparr>)"

text \<open>\<open>None\<close>: \<open>active.node_id\<close> of an empty route throws for a route edge.\<close>

definition rfEdges :: "epicRun \<Rightarrow> layoutOpts \<Rightarrow> int \<Rightarrow> rfEdge list option" where
  "rfEdges run opts cursor = (case getActiveRoute run cursor of
     None \<Rightarrow> (if list_ex (\<lambda>e. le_kind e = LE_route) (rl_edges (computeRunLayout run opts)) then None else
       Some (map (\<lambda>e. \<lparr> re_id = le_id e, re_source = le_source e, re_target = le_target e, re_style = edge_style (le_kind e),
         re_kind = le_kind e, re_active = False, re_className = [] \<rparr>) (rl_edges (computeRunLayout run opts))))
   | Some active \<Rightarrow> Some (map (\<lambda>e. let activeRoute = (le_kind e = LE_route \<and> le_source e = rt_node_id active) in
       \<lparr> re_id = le_id e, re_source = le_source e, re_target = le_target e, re_style = edge_style (le_kind e),
         re_kind = le_kind e, re_active = activeRoute,
         re_className = (if activeRoute then js ''runtime-active-edge'' else []) \<rparr>) (rl_edges (computeRunLayout run opts))))"

definition MiniMap :: "epicRun \<Rightarrow> jsstring option \<Rightarrow> epicAction vdom" where
  "MiniMap run activeGateId = El ''div'' [cls ''leg-minimap'', testid ''runtime-minimap'']
     (map (\<lambda>g. El ''button'' [Attr ''class'' (js ''leg-mini-gate'' @ (if activeGateId = Some g then js '' active'' else [])),
         On ''click'' (ECenterGate g), Attr ''title'' (rg_label (the (gate_of_id run g)))] [Txt g])
       (filter (\<lambda>g. list_ex (\<lambda>x. rg_id x = g) (er_gates run)) GATE_CHAIN))"

text \<open>\<open>onNodeClick\<close>: only a click on a runtime node selects.\<close>

definition onNodeClick :: "rfNode \<Rightarrow> epicAction" where
  "onNodeClick n = (case rf_data n of RuntimeNode _ \<Rightarrow> ESelectNode (rf_id n) | _ \<Rightarrow> EViewport)"

type_synonym reactFlow = "rfNode list \<Rightarrow> rfEdge list \<Rightarrow> (rfData \<Rightarrow> epicAction vdom) \<Rightarrow> (rfEdge \<Rightarrow> jsstring option \<times> edgeStyle) \<Rightarrow>
  (rfNode \<Rightarrow> epicAction) \<Rightarrow> epicAction vdom"

definition on_class :: "bool \<Rightarrow> epicAction attr" where
  "on_class b = cls (if b then ''on'' else '''')"

definition layout_bar :: "layoutOpts \<Rightarrow> epicAction vdom" where
  "layout_bar o1 = El ''div'' [cls ''leg-layout-bar''] [
     El ''span'' [cls ''leg-layout-label''] [tx ''Layout''],
     El ''button'' [testid ''layout-lr'', on_class (lo_dir o1 = LR), On ''click'' (EDir LR)] [tx ''LR''],
     El ''button'' [testid ''layout-td'', on_class (lo_dir o1 = TD), On ''click'' (EDir TD)] [tx ''TD''],
     El ''span'' [cls ''leg-layout-sep''] [],
     El ''button'' [testid ''layout-stack'', on_class (lo_form o1 = F_stack), On ''click'' (EForm F_stack)] [tx ''Stack''],
     El ''button'' [testid ''layout-grid'', on_class (lo_form o1 = F_grid), On ''click'' (EForm F_grid)] [tx ''Grid''],
     El ''span'' [cls ''leg-layout-sep''] [],
     El ''button'' [testid ''layout-group'', on_class (lo_group o1), On ''click'' EGroup] [tx ''Group'']]"

definition zoom_bar :: "epicAction vdom" where
  "zoom_bar = El ''div'' [cls ''leg-zoombar''] [
     El ''button'' [testid ''runtime-zoom-in'', On ''click'' EViewport] [tx ''+''],
     El ''button'' [testid ''runtime-zoom-out'', On ''click'' EViewport] [Txt ([0x2212])],
     El ''button'' [testid ''runtime-fit'', On ''click'' EViewport] [tx ''Fit''],
     El ''button'' [testid ''runtime-reset'', On ''click'' EViewport] [tx ''Reset'']]"

text \<open>The effect that follows the cursor reads \<open>active.node_id\<close> in its dependencies and throws without one.\<close>

definition RuntimeGraphCanvas :: "reactFlow \<Rightarrow> epicRun \<Rightarrow> epicState \<Rightarrow> epicAction vdom option" where
  "RuntimeGraphCanvas flow run s =
     (case (rfNodes run (es_opts s) (es_cursor s) (es_selection s), rfEdges run (es_opts s) (es_cursor s), getActiveRoute run (es_cursor s)) of
        (Some nodes, Some edges, Some active) \<Rightarrow> Some (El ''div'' [cls ''leg-canvas-wrap'', testid ''runtime-graph-canvas''] [
          layout_bar (es_opts s), flow nodes edges nodeTypes RuntimeEdge onNodeClick, zoom_bar, MiniMap run (Some (rt_gate_id active))])
      | _ \<Rightarrow> None)"

section \<open>The details panel\<close>

definition DETAIL_TABS :: "(string \<times> string) list" where
  "DETAIL_TABS = [(''overview'', ''Overview''), (''files'', ''Files''), (''artifacts'', ''Artifacts''), (''runbook'', ''Runbook''),
     (''history'', ''History''), (''raw'', ''Raw'')]"

definition leg_field :: "string \<Rightarrow> epicAction vdom list \<Rightarrow> epicAction vdom" where
  "leg_field label kids = El ''div'' [cls ''leg-field''] (El ''span'' [] [tx label] # kids)"

definition open_buttons :: "string \<Rightarrow> string \<Rightarrow> jsstring list \<Rightarrow> epicAction vdom list" where
  "open_buttons tid kind paths = map (\<lambda>p. El ''button'' [cls ''leg-open'', testid tid, On ''click'' (EOpen p (js kind))] [Txt p]) paths"

definition or_none :: "epicAction vdom list \<Rightarrow> epicAction vdom list" where
  "or_none kids = (if kids = [] then [El ''i'' [] [tx ''none'']] else kids)"

definition leg_events :: "jsstring list \<Rightarrow> epicAction vdom list" where
  "leg_events es = map (\<lambda>e. El ''div'' [cls ''leg-event''] [El ''b'' [] [Txt e]]) es"

definition rnode_json :: "runtimeNode \<Rightarrow> json" where
  "rnode_json n = JObj [
     (js ''gate_id'', JStr (rn_gate_id n)), (js ''id'', JStr (rn_id n)), (js ''title'', JStr (rn_title n)), (js ''family'', JStr (rn_family n)),
     (js ''type'', JStr (rn_type n)), (js ''boundary'', JStr (rn_boundary n)), (js ''purpose'', JStr (rn_purpose n)),
     (js ''fileReads'', strs (rn_fileReads n)), (js ''fileWrites'', strs (rn_fileWrites n)), (js ''artifacts'', strs (rn_artifacts n)),
     (js ''runbook'', strs (rn_runbook n)), (js ''taskControllerHistory'', strs (rn_taskControllerHistory n)),
     (js ''executorHistory'', strs (rn_executorHistory n)), (js ''checkpoints'', strs (rn_checkpoints n)),
     (js ''x'', JNum (rn_x n)), (js ''y'', JNum (rn_y n)), (js ''w'', JNum (rn_w n)), (js ''h'', JNum (rn_h n))]"

definition detail_pane :: "string \<Rightarrow> runtimeGate \<Rightarrow> runtimeNode \<Rightarrow> epicAction vdom list" where
  "detail_pane tab gate n =
     (if tab = ''overview'' then [
        leg_field ''Gate'' [El ''b'' [] [Txt (rg_id gate @ (js '' '' @ [0xB7] @ js '' '') @ rg_label gate)]],
        leg_field ''Family / Type'' [El ''b'' [] [Txt (rn_family n @ js '' / '' @ rn_type n)]],
        leg_field ''Boundary'' [El ''b'' [] [Txt (rn_boundary n)]]]
      else if tab = ''files'' then [
        leg_field ''File Reads'' (or_none (open_buttons ''runtime-file-read'' ''fileRead'' (rn_fileReads n))),
        leg_field ''File Writes / Source-code writes'' (or_none (open_buttons ''runtime-file-write'' ''fileWrite'' (rn_fileWrites n)))]
      else if tab = ''artifacts'' then [
        leg_field ''Artifacts'' (open_buttons ''runtime-artifact'' ''artifact'' (rn_artifacts n)),
        leg_field ''Checkpoints'' (or_none (open_buttons ''runtime-checkpoint'' ''checkpoint'' (rn_checkpoints n)))]
      else if tab = ''runbook'' then
        map (\<lambda>(s, i). El ''div'' [cls ''leg-event''] [El ''b'' [] [Txt (show_nat (i + 1) @ js ''. '' @ s)]])
          (zip (rn_runbook n) [0..<length (rn_runbook n)])
      else if tab = ''history'' then
        [El ''h3'' [] [tx ''TaskController History'']] @ or_none (leg_events (rn_taskControllerHistory n)) @
        [El ''h3'' [] [tx ''Executor History'']] @ or_none (leg_events (rn_executorHistory n))
      else [El ''pre'' [cls ''leg-raw''] [Txt (stringify2 (rnode_json n))]])"

definition RuntimeDetailsPanel :: "epicRun \<Rightarrow> runtimeGate option \<Rightarrow> runtimeNode option \<Rightarrow> jsstring \<Rightarrow> epicAction vdom" where
  "RuntimeDetailsPanel run gate node tab = (case (node, gate) of
     (Some n, Some g) \<Rightarrow> El ''div'' [cls ''leg-details'', testid ''runtime-details-panel''] ([
       El ''div'' [cls ''leg-current''] [
         El ''div'' [cls ''leg-current-id''] [Txt (rn_id n)],
         El ''div'' [cls ''leg-current-name''] [Txt (rn_title n)],
         El ''div'' [cls ''leg-current-purpose''] [Txt (rn_purpose n)],
         El ''div'' [cls ''leg-current-meta''] [Txt (rg_id g @ (js '' '' @ [0xB7] @ js '' '') @ rn_family n @ (js '' '' @ [0xB7] @ js '' '') @ rn_boundary n)]],
       El ''div'' [cls ''leg-tabs''] (map (\<lambda>(t, l). El ''button''
         [cls (''leg-tab'' @ (if tab = js t then '' active'' else '''')), testid (''runtime-detail-tab-'' @ t), On ''click'' (EPanelTab (js t))]
         [tx l]) DETAIL_TABS)] @
       map (\<lambda>(t, _). El ''div'' [cls ''leg-pane'', Attr ''data-pane'' (js t)] (detail_pane t g n)) (filter (\<lambda>(t, _). tab = js t) DETAIL_TABS) @
       [El ''span'' [Flag ''hidden'' True] [num (length (makeArtifactPreview run gate node
         (case rn_artifacts n of p # _ \<Rightarrow> p | [] \<Rightarrow> js ''n/a'') 0))]])
   | _ \<Rightarrow> El ''div'' [cls ''leg-details'', testid ''runtime-details-panel'']
       [El ''div'' [cls ''leg-current''] [tx ''Select a runtime node to inspect its details.'']])"

section \<open>Player, modal, page\<close>

fun epic_mode_name :: "epicMode \<Rightarrow> jsstring" where
  "epic_mode_name M_REPLAY = js ''REPLAY''"
| "epic_mode_name M_LIVE_SIM = js ''LIVE_SIM''"

definition leg_btn :: "string \<Rightarrow> string \<Rightarrow> epicAction \<Rightarrow> jsstring \<Rightarrow> epicAction vdom" where
  "leg_btn c tid a label = El ''button'' [cls c, testid tid, On ''click'' a] [Txt label]"

definition EPIC_SPEEDS :: "(int \<times> string) list" where
  "EPIC_SPEEDS = [(1200, ''0.5x''), (750, ''1x''), (400, ''2x'')]"

definition RuntimePlayer :: "epicState \<Rightarrow> int \<Rightarrow> jsstring \<Rightarrow> epicAction vdom" where
  "RuntimePlayer s len label = El ''div'' [cls ''leg-player'', testid ''runtime-player''] [
     El ''div'' [cls ''leg-controls''] [
       leg_btn ''leg-btn'' ''runtime-player-first'' EFirst ([0x23EE]),
       leg_btn ''leg-btn'' ''runtime-player-prev'' EPrev ([0x25C0]),
       leg_btn ''leg-btn leg-primary'' ''runtime-player-play'' EToggle (if es_playing s then ([0x275A, 0x275A]) else ([0x25B6])),
       leg_btn ''leg-btn'' ''runtime-player-next'' ENext ([0x25B6] @ js ''|''),
       leg_btn ''leg-btn'' ''runtime-player-last'' ELast ([0x23ED]),
       leg_btn ''leg-btn leg-live'' ''runtime-live-sim'' (EMode M_LIVE_SIM) ([0x25CF] @ js '' LIVE SIM'')],
     El ''div'' [cls ''leg-scrub''] [
       El ''div'' [cls ''leg-scrub-info''] [
         El ''span'' [] [Txt label],
         El ''span'' [] [Txt (show_int (es_cursor s + 1) @ js '' / '' @ show_int len)]],
       El ''input'' [Attr ''type'' (js ''range''), Attr ''min'' (js ''0''), Attr ''max'' (show_int (max 0 (len - 1))),
         Attr ''value'' (show_int (es_cursor s)), testid ''runtime-player-scrubber'', OnRange ''change'' 0 (max 0 (len - 1)) EScrub] []],
     El ''div'' [cls ''leg-selects''] [
       El ''select'' [Attr ''value'' (epic_mode_name (es_mode s)), OnPick ''change'' [EMode M_REPLAY, EMode M_LIVE_SIM]]
         [El ''option'' [Attr ''value'' (js ''REPLAY'')] [tx ''REPLAY''], El ''option'' [Attr ''value'' (js ''LIVE_SIM'')] [tx ''LIVE SIM'']],
       El ''select'' [Attr ''value'' (show_int (es_speed s)), testid ''runtime-player-speed'',
           OnPick ''change'' (map (\<lambda>(ms, _). ESpeed ms) EPIC_SPEEDS)]
         (map (\<lambda>(ms, l). El ''option'' [Attr ''value'' (show_int ms)] [tx l]) EPIC_SPEEDS)]]"

definition ArtifactModal :: "jsstring \<Rightarrow> jsstring \<Rightarrow> epicAction vdom" where
  "ArtifactModal path content = El ''div'' [cls ''leg-modal-backdrop'', testid ''artifact-modal'', On ''click'' ECloseModal] [
     El ''div'' [cls ''leg-modal'', On ''click'' EStopPropagation] [
       El ''div'' [cls ''leg-modal-head''] [
         El ''div'' [cls ''leg-modal-title'', testid ''artifact-modal-title''] [Txt path],
         El ''button'' [cls ''leg-close'', On ''click'' ECloseModal] [tx ''Close'']],
       El ''pre'' [cls ''leg-modal-body''] [Txt content]]]"

definition epic_header :: "epicFixture \<Rightarrow> epicAction vdom" where
  "epic_header epic = El ''header'' [cls ''leg-header''] [
     El ''div'' [] [
       El ''h1'' [] [Txt (js ''Login Epic '' @ [0x2014] @ js '' GWC Runtime Graph'')],
       El ''p'' [] [Txt (js ''Epic '' @ [0x2192] @ js '' 10 Runs '' @ [0x2192] @ js '' G0'' @ [0x2013] @ js ''G6 '' @ [0x2192] @ js '' Runtime Nodes. Each node owns fileReads / fileWrites / artifacts / runbook / TC & Executor history / checkpoints.'')]],
     El ''div'' [cls ''leg-chips''] [
       El ''span'' [cls ''leg-chip''] [tx ''SIMULATED''],
       El ''span'' [cls ''leg-chip''] [Txt (ef_epic_id epic)],
       El ''span'' [cls ''leg-chip''] [Txt (show_int (ef_run_count epic) @ js '' RUNS'')],
       El ''span'' [cls ''leg-chip''] [Txt (show_int (ef_runtime_node_count epic) @ js '' NODES'')],
       El ''span'' [cls ''leg-chip''] [tx ''HISTORY OVERLAY VISUAL-ONLY'']]]"

definition run_head :: "epicRun \<Rightarrow> epicState \<Rightarrow> epicAction vdom" where
  "run_head run s = El ''div'' [cls ''leg-run-head''] [
     El ''h2'' [] [Txt ((js ''2 '' @ [0xB7] @ js '' Run-Level Graph '' @ [0x2014] @ js '' '') @ er_id run)],
     El ''div'' [cls ''leg-follow''] [
       El ''button'' [testid ''runtime-follow-cursor'', Attr ''data-follow'' (if es_followCursor s then js ''on'' else js ''off''),
           cls (if es_followCursor s then ''on'' else ''off''), On ''click'' EToggleFollow]
         [tx ''Follow: '', tx (if es_followCursor s then ''ON'' else ''OFF'')],
       El ''span'' [cls ''leg-follow-note''] [tx ''manual pan disables Follow'']]]"

definition LoginEpicRunGraph :: "reactFlow \<Rightarrow> epicFixture \<Rightarrow> epicState \<Rightarrow> epicAction vdom option" where
  "LoginEpicRunGraph flow epic s = (case getRun epic (es_runId s) of Inl _ \<Rightarrow> None
     | Inr run \<Rightarrow>
       (case (RuntimeGraphCanvas flow run s, getActiveRoute run (es_cursor s)) of
          (Some canvas, Some active) \<Rightarrow> Some (El ''div'' [cls ''leg-root'', testid ''login-epic-run-graph-root''] ([
            epic_header epic,
            EpicRunRail (ef_runs epic) (es_runId s),
            El ''section'' [cls ''leg-main''] [
              El ''div'' [cls ''leg-graph-col''] [run_head run s, canvas],
              El ''aside'' [cls ''leg-side''] [RuntimeDetailsPanel run (sel_runtime_gate run (es_selection s))
                (sel_runtime_node run (es_selection s)) (es_panelTab s)]],
            RuntimePlayer s (int (length (er_route run))) (rt_gate_id active @ (js '' '' @ [0xB7] @ js '' '') @ rt_node_id active)] @
            (case es_modal s of None \<Rightarrow> [] | Some (title, body) \<Rightarrow> [ArtifactModal title body])))
        | _ \<Rightarrow> None))"

section \<open>Following the cursor\<close>

text \<open>
  The two refs of the canvas and whether the timeout that ends a programmatic move is pending. The
  effect runs when its dependencies change, after the cleanup of the run before it: only a run that
  moved the viewport returned a cleanup, which clears its timeout.
\<close>

record followRefs =
  fr_prevActive :: "jsstring option"
  fr_programmaticMove :: bool
  fr_timeout :: bool

definition follow_effect :: "bool \<Rightarrow> jsstring \<Rightarrow> rfNode list \<Rightarrow> followRefs \<Rightarrow> followRefs \<times> (int \<times> int) option" where
  "follow_effect followCursor activeNodeId nodes refs0 = (let refs = refs0\<lparr>fr_timeout := False\<rparr> in
     if \<not> followCursor \<or> fr_prevActive refs = Some activeNodeId then (refs, None)
     else (case find (\<lambda>n. rf_id n = activeNodeId) nodes of
       None \<Rightarrow> (refs\<lparr>fr_prevActive := Some activeNodeId\<rparr>, None)
     | Some n \<Rightarrow> (refs\<lparr>fr_prevActive := Some activeNodeId, fr_programmaticMove := True, fr_timeout := True\<rparr>,
         Some (rf_x n + 100, rf_y n + 60))))"

definition move_timeout :: "followRefs \<Rightarrow> followRefs" where
  "move_timeout refs = (if fr_timeout refs then refs\<lparr>fr_programmaticMove := False, fr_timeout := False\<rparr> else refs)"

definition onMoveStart :: "followRefs \<Rightarrow> epicState \<Rightarrow> epicState" where
  "onMoveStart refs s = epic_move (fr_programmaticMove refs) s"

section \<open>Rendering\<close>

lemma all_some_iff: "(\<exists>ys. all_some xs = Some ys) \<longleftrightarrow> None \<notin> set xs"
  by (induction xs rule: all_some.induct) auto

lemma all_some_map: "all_some xs = Some ys \<Longrightarrow> map Some ys = xs"
  by (induction xs arbitrary: ys rule: all_some.induct) auto

lemma find_found: "x \<in> set xs \<Longrightarrow> P x \<Longrightarrow> \<exists>y. find P xs = Some y"
  by (induction xs) auto

lemma active_exists: "er_route run \<noteq> [] \<Longrightarrow> \<exists>st. getActiveRoute run c = Some st"
  by (cases "er_route run") (auto simp: getActiveRoute_def EpicGraph.clampCursor_def Let_def)

lemma gate_state_exists:
  assumes "er_route run \<noteq> []" and "g \<in> set (er_gates run)"
  shows "\<exists>st. getGateState run (rg_id g) c = Inr st"
proof -
  obtain h where "find (\<lambda>x. rg_id x = rg_id g) (er_gates run) = Some h"
    using find_found [OF assms(2), of "\<lambda>x. rg_id x = rg_id g"] by auto
  moreover obtain st where "getActiveRoute run (EpicGraph.clampCursor run c) = Some st" using active_exists assms(1) by blast
  ultimately show ?thesis by (auto simp: getGateState_def getGate_def Let_def)
qed

lemma gate_box_id: "lg_id (gate_box opts gi g) = rg_id g"
  by (simp add: gate_box_def Let_def)

lemma layout_gate_ids:
  assumes "g \<in> set (rl_gates (computeRunLayout run opts))"
  shows "\<exists>h\<in>set (er_gates run). lg_id g = rg_id h"
proof -
  obtain h gi where "(h, gi) \<in> set (zip (er_gates run) [0..<length (er_gates run)])" "g = gate_box opts gi h"
    using assms by (auto simp: computeRunLayout_def Let_def)
  then show ?thesis by (metis gate_box_id set_zip_leftD)
qed

lemma layout_card_ids:
  assumes "l \<in> set (rl_nodes (computeRunLayout run opts))"
  shows "\<exists>n\<in>set (concat (map rg_nodes (er_gates run))). rn_id n = ln_id l"
proof -
  obtain g gi where g: "g \<in> set (er_gates run)" "l \<in> set (gate_cards opts gi g)"
    using assms by (auto simp: computeRunLayout_def Let_def dest: set_zip_leftD)
  have "ln_id l \<in> set (map rn_id (rg_nodes g))"
    using mset_eq_setD [OF cards_ids [of opts gi g]] g(2) by (metis image_eqI list.set_map)
  then obtain n where "n \<in> set (rg_nodes g)" "rn_id n = ln_id l" by auto
  then show ?thesis using g(1) by (intro bexI [of _ n]) auto
qed

lemma nodes_render: "er_route run \<noteq> [] \<Longrightarrow> \<exists>ns. rfNodes run opts c sel = Some ns"
proof -
  assume route: "er_route run \<noteq> []"
  have "gate_rf run c g \<noteq> None" if g: "g \<in> set (rl_gates (computeRunLayout run opts))" for g
  proof -
    obtain h where "h \<in> set (er_gates run)" "lg_id g = rg_id h" using layout_gate_ids [OF g] by blast
    with gate_state_exists [OF route this(1), of c] show ?thesis by (auto simp: gate_rf_def Let_def)
  qed
  moreover have "card_rf run c sel l \<noteq> None" if l: "l \<in> set (rl_nodes (computeRunLayout run opts))" for l
  proof -
    obtain n where "n \<in> set (concat (map rg_nodes (er_gates run)))" "rn_id n = ln_id l" using layout_card_ids [OF l] by blast
    with find_found [of n _ "\<lambda>x. rn_id x = ln_id l"] show ?thesis by (fastforce simp: card_rf_def)
  qed
  ultimately show ?thesis by (fastforce simp: rfNodes_def Let_def all_some_iff)
qed

lemma edges_render: "er_route run \<noteq> [] \<Longrightarrow> \<exists>es. rfEdges run opts c = Some es"
  using active_exists [of run c] by (auto simp: rfEdges_def)

text \<open>What the code relies on of React Flow: it calls the click handler with a node it was given.\<close>

definition flow_clicks :: "reactFlow \<Rightarrow> bool" where
  "flow_clicks flow \<longleftrightarrow> (\<forall>ns es nt et click. actions (flow ns es nt et click) \<subseteq>
     click ` set ns \<union> \<Union> (actions ` nt ` rf_data ` set ns) \<union> {EViewport})"

lemma node_views_passive: "actions (nodeTypes d) = {}"
  by (cases d) (simp_all add: GateClusterNode_def FamilyBandNode_def RuntimeNodeCard_def Let_def)

lemma canvas_selects_no_run:
  assumes "flow_clicks flow" and "RuntimeGraphCanvas flow run s = Some canvas"
  shows "ESelectRun i \<notin> actions canvas"
proof -
  have "ESelectRun i \<notin> actions (flow ns es nodeTypes RuntimeEdge onNodeClick)" for ns es
    using assms(1) by (force simp: flow_clicks_def node_views_passive onNodeClick_def split: rfData.splits)
  then show ?thesis
    using assms(2) by (auto simp: RuntimeGraphCanvas_def layout_bar_def on_class_def zoom_bar_def MiniMap_def split: option.splits)
qed

lemma panel_selects_no_run: "ESelectRun i \<notin> actions (RuntimeDetailsPanel run gate node tab)"
  by (auto simp: RuntimeDetailsPanel_def detail_pane_def leg_field_def open_buttons_def or_none_def leg_events_def
    split: option.split if_splits)

lemma player_selects_no_run: "ESelectRun i \<notin> actions (RuntimePlayer s len label)"
  by (auto simp: RuntimePlayer_def leg_btn_def EPIC_SPEEDS_def)

lemma rail_selects: "ESelectRun i \<in> actions (EpicRunRail runs sel) \<Longrightarrow> i \<in> er_id ` set runs"
  by (auto simp: EpicRunRail_def split: if_splits dest: set_zip_leftD)

lemma epic_page_selects:
  assumes "flow_clicks flow" and "LoginEpicRunGraph flow epic s = Some page" and "ESelectRun i \<in> actions page"
  shows "i \<in> er_id ` set (ef_runs epic)"
  using assms(2,3) canvas_selects_no_run [OF assms(1)] panel_selects_no_run player_selects_no_run rail_selects
  by (auto simp: LoginEpicRunGraph_def epic_header_def run_head_def ArtifactModal_def split: sum.splits option.splits)

section \<open>The selected run\<close>

definition run_known :: "epicFixture \<Rightarrow> epicState \<Rightarrow> bool" where
  "run_known epic s \<longleftrightarrow> es_runId s \<in> er_id ` set (ef_runs epic)"

lemma run_known_get: "run_known epic s \<Longrightarrow> \<exists>run\<in>set (ef_runs epic). getRun epic (es_runId s) = Inr run"
  using find_found by (fastforce simp: run_known_def getRun_def find_Some_iff in_set_conv_nth split: option.split)

lemma runId_effects [simp]: "es_runId (epic_stop s) = es_runId s" "es_runId (clear_timer s) = es_runId s"
    "es_runId (start_interval len s) = es_runId s" "es_runId (mode_effect len s) = es_runId s"
    "es_runId (after_change epic old s) = es_runId s" "es_runId (epic_tick iv s) = es_runId s" "es_runId (epic_move b s) = es_runId s"
  by (simp_all add: epic_stop_def clear_timer_def start_interval_def mode_effect_def after_change_def epic_tick_def epic_move_def)

lemma runId_handle: "es_runId (epic_handle run a s) = (case a of ESelectRun i \<Rightarrow> i | _ \<Rightarrow> es_runId s)"
  by (cases a) (simp_all add: selectRun_def onSelectNode_def onOpenArtifact_def onToggle_def onMode_def Let_def)

lemma epic_run_known: "epic_reachable epic q s \<Longrightarrow> run_known epic s"
proof (induction rule: epic_reachable.induct)
  case (epic_mounted s)
  obtain r0 rs where r0: "ef_runs epic = r0 # rs" using epic_mounted by (auto simp: epic_mount_def split: list.splits)
  have link: "r \<in> set (ef_runs epic)" if "link_run epic q = Some r" for r
    using that by (auto simp: link_run_def find_Some_iff split: option.splits if_splits)
  have "es_runId s = (case link_run epic q of Some r \<Rightarrow> er_id r | None \<Rightarrow> er_id r0)"
    using epic_mounted r0 by (auto simp: epic_mount_def Let_def deep_link_def epic_initial_def split: option.split)
  then show ?case using link r0 by (auto simp: run_known_def split: option.splits)
next
  case (epic_used s a s')
  then obtain run where "s' = after_change epic s (epic_handle run a s)" by (auto simp: epic_act_def split: sum.splits)
  then have "es_runId s' = (case a of ESelectRun i \<Rightarrow> i | _ \<Rightarrow> es_runId s)" by (simp only: runId_effects runId_handle)
  then show ?case using epic_used by (cases a) (simp_all add: run_known_def)
qed (auto simp: run_known_def)

section \<open>The page as a machine\<close>

definition epic_env :: "epicState \<Rightarrow> epicState \<Rightarrow> bool" where
  "epic_env s s' \<longleftrightarrow> (\<exists>iv\<in>set (es_intervals s). s' = epic_tick iv s) \<or> (\<exists>b. s' = epic_move b s)"

definition act_ok :: "epicFixture \<Rightarrow> epicAction \<Rightarrow> epicState \<Rightarrow> epicState option" where
  "act_ok epic a s = (case epic_act epic a s of Inr s' \<Rightarrow> Some s' | Inl _ \<Rightarrow> None)"

lemma act_ok_Some: "act_ok epic a s = Some s' \<longleftrightarrow> epic_act epic a s = Inr s'"
  by (simp add: act_ok_def split: sum.split)

lemma page_exists:
  assumes "\<forall>run\<in>set (ef_runs epic). er_route run \<noteq> []" and "run_known epic s"
  shows "\<exists>page. LoginEpicRunGraph flow epic s = Some page"
proof -
  obtain run where run: "run \<in> set (ef_runs epic)" "getRun epic (es_runId s) = Inr run"
    using run_known_get [OF assms(2)] by blast
  then have route: "er_route run \<noteq> []" using assms(1) by blast
  show ?thesis
    using run(2) active_exists [OF route, of "es_cursor s"] nodes_render [OF route, of "es_opts s" "es_cursor s" "es_selection s"]
      edges_render [OF route, of "es_opts s" "es_cursor s"]
    by (auto simp: LoginEpicRunGraph_def RuntimeGraphCanvas_def)
qed

interpretation epic_page: ui_machine "flow_clicks flow \<and> (\<forall>run\<in>set (ef_runs epic). er_route run \<noteq> [])"
    "\<lambda>s. epic_mount epic q = Some s" epic_env "LoginEpicRunGraph flow epic" "act_ok epic" "epic_reachable epic q" for flow epic q
proof unfold_locales
  show "epic_reachable epic q s" if "epic_mount epic q = Some s" for s using epic_mounted [OF that] .
  show "epic_reachable epic q s'" if "epic_reachable epic q s" "epic_env s s'" for s s'
    using that epic_ticked epic_moved by (auto simp: epic_env_def)
  show "epic_reachable epic q s'" if "flow_clicks flow \<and> (\<forall>run\<in>set (ef_runs epic). er_route run \<noteq> [])" "epic_reachable epic q s"
      "LoginEpicRunGraph flow epic s = Some v" "a \<in> actions v" "act_ok epic a s = Some s'" for s v a s'
  proof -
    have "case a of ESelectRun i \<Rightarrow> i \<in> er_id ` set (ef_runs epic) | _ \<Rightarrow> True"
      using epic_page_selects that by (cases a) auto
    then show ?thesis using epic_used that by (auto simp: act_ok_Some)
  qed
  show "\<exists>v. LoginEpicRunGraph flow epic s = Some v"
    if "flow_clicks flow \<and> (\<forall>run\<in>set (ef_runs epic). er_route run \<noteq> [])" "epic_reachable epic q s" for s
    using page_exists epic_run_known that by blast
  show "\<exists>s'. act_ok epic a s = Some s'" if "epic_reachable epic q s" for a s
    using run_known_get [OF epic_run_known [OF that]] by (auto simp: act_ok_Some epic_act_def)
qed

section \<open>Highlighted edges\<close>

lemma route_spine_nth:
  assumes "Suc i < length (er_route run)"
  shows "route_spine run ! i = \<lparr> le_id = js ''route-'' @ show_nat (Suc i), le_source = rt_node_id (er_route run ! i),
     le_target = rt_node_id (er_route run ! Suc i), le_kind = LE_route \<rparr>"
proof -
  have "[1..<length (er_route run)] ! i = Suc i" using nth_upt [of 1 i "length (er_route run)"] assms by simp
  then show ?thesis using assms by (simp add: route_spine_def)
qed

lemma fanout_kind: "e \<in> set (fanout_edges gs) \<Longrightarrow> le_kind e = LE_fanout"
  by (induction gs rule: fanout_edges.induct) (auto simp: Let_def split: if_splits)

lemma spine_sources: "map le_source (route_spine run) = butlast (map rt_node_id (er_route run))"
  by (rule nth_equalityI) (auto simp: route_spine_def nth_butlast)

text \<open>Filtering a list by a key that is unique in a longer list.\<close>

lemma filter_key_butlast:
  assumes "map f xs = butlast ys" and "distinct ys" and "i < length ys"
  shows "filter (\<lambda>x. f x = ys ! i) xs = (if Suc i < length ys then [xs ! i] else [])"
proof -
  have len: "length xs = length ys - 1" using arg_cong [OF assms(1), of length] by simp
  have key: "f (xs ! j) = ys ! j" if "j < length xs" for j
    using arg_cong [OF assms(1), of "\<lambda>l. l ! j"] that len by (simp add: nth_butlast)
  have hit: "f (xs ! j) = ys ! i \<longleftrightarrow> j = i" if "j < length xs" for j
    using key [OF that] that len assms by (simp add: nth_eq_iff_index_eq)
  show ?thesis
  proof (cases "Suc i < length ys")
    case True
    then have i: "i < length xs" using len by simp
    have "distinct (map f xs)" using assms(1,2) by (simp add: distinct_butlast)
    moreover have "f x = ys ! i \<longleftrightarrow> f x = f (xs ! i)" for x using key [OF i] by simp
    ultimately have "filter (\<lambda>x. f x = ys ! i) xs = [xs ! i]"
      using i by (intro filter_unique [of f]) auto
    with True show ?thesis by simp
  next
    case False
    then have "f x \<noteq> ys ! i" if "x \<in> set xs" for x using that hit len by (auto simp: in_set_conv_nth)
    with False show ?thesis by simp
  qed
qed

lemma active_edges:
  assumes "rfEdges run opts c = Some es" and "getActiveRoute run c = Some st"
  shows "map re_id (filter re_active es) = map le_id (filter (\<lambda>e. le_source e = rt_node_id st) (route_spine run))"
proof -
  have "filter (\<lambda>e. le_kind e = LE_route \<and> le_source e = rt_node_id st) (fanout_edges (er_gates run)) = []"
    using fanout_kind by (fastforce simp: filter_empty_conv)
  moreover have "filter (\<lambda>e. le_kind e = LE_route \<and> P e) (route_spine run) = filter P (route_spine run)" for P
    by (rule filter_cong) (auto simp: route_spine_def)
  ultimately show ?thesis
    using assms by (auto simp: rfEdges_def Let_def filter_map comp_def computeRunLayout_def)
qed

section \<open>Properties\<close>


text \<open>
  The highlighted edge of the graph. When no node occurs twice on the route, the edge list marks
  as active exactly the route edge that leaves the node under the cursor, the one whose target is the
  next step, and no edge at the last step; fan-out edges are never marked.
\<close>

theorem one_edge_highlighted:
  assumes "distinct (map rt_node_id (er_route run))" and "c < length (er_route run)" and "rfEdges run opts (int c) = Some es"
  shows "map re_id (filter re_active es) = (if Suc c < length (er_route run) then [js ''route-'' @ show_nat (Suc c)] else [])"
proof -
  have clamp: "EpicGraph.clampCursor run (int c) = int c" using assms(2) by (auto simp: EpicGraph.clampCursor_def Let_def)
  then have "getActiveRoute run (int c) = Some (er_route run ! c)" using assms(2) by (simp add: getActiveRoute_def)
  from active_edges [OF assms(3) this] show ?thesis
    using filter_key_butlast [OF spine_sources assms(1), of c] assms(2) by (auto simp: route_spine_nth)
qed

text \<open>
  Follow gets stuck. When the viewport has been moved to the active node and the effect runs again for
  the same node before the timeout (a selection or a layout switch does that), its cleanup removes the
  timeout: the refs still say that the move is programmatic, no timeout will ever reset them, and panning
  does not switch Follow off.
\<close>

lemma follow_stuck:
  assumes "find (\<lambda>n. rf_id n = i) nodes = Some n" and "fr_prevActive refs \<noteq> Some i"
  shows "let r1 = fst (follow_effect True i nodes refs); r2 = fst (follow_effect True i nodes' r1)
    in fr_timeout r1 \<and> \<not> fr_timeout r2 \<and> move_timeout r2 = r2 \<and> onMoveStart r2 s = s"
  using assms by (simp add: follow_effect_def Let_def move_timeout_def onMoveStart_def epic_move_def shouldDisableFollowOnMove_def)

text \<open>The tab of a deep link is stored and never shown.\<close>

lemma tab_link_ignored: "LoginEpicRunGraph flow epic (s\<lparr>es_detailTab := t\<rparr>) = LoginEpicRunGraph flow epic s"
  by (simp add: LoginEpicRunGraph_def RuntimeGraphCanvas_def RuntimePlayer_def run_head_def split: sum.split option.split)

section \<open>Witnesses\<close>

text \<open>A plain drawing of the graph: every node with its view and the click handler.\<close>

definition plain_flow :: reactFlow where
  "plain_flow ns es nt et click = El ''div'' [] (map (\<lambda>n. El ''div'' [On ''click'' (click n)] [nt (rf_data n)]) ns)"

lemma plain_flow_clicks: "flow_clicks plain_flow"
  by (auto simp: flow_clicks_def plain_flow_def)


theorem one_edge_highlighted_witness:
  "\<exists>es. rfEdges demo_erun (url_opts no_link) 1 = Some es \<and> map re_id (filter re_active es) = [js ''route-'' @ show_nat 2]"
proof -
  obtain es where es: "rfEdges demo_erun (url_opts no_link) (int 1) = Some es"
    using edges_render [of demo_erun "url_opts no_link" "int 1"] by (auto simp: demo_erun_def)
  have "distinct (map rt_node_id (er_route demo_erun))" "1 < length (er_route demo_erun)" "Suc 1 < length (er_route demo_erun)"
    by (simp_all add: demo_erun_def)
  with one_edge_highlighted [OF this(1,2) es] es show ?thesis by (auto simp: numeral_2_eq_2)
qed

end
