(* ===== verification/EpicFixture.thy ===== *)
theory EpicFixture
  imports EpicGraph
begin

text \<open>
  The loader of the Login Epic fixture, \<open>lib/loginEpicFixture.ts\<close>: the first of three files that can
  be read and parsed, either plain JSON or a script that assigns it to \<open>window.EPIC\<close>. The file system
  (\<open>readFileSync\<close>, \<open>None\<close> when it throws) and \<open>JSON.parse\<close> (\<open>None\<close> when it throws) are arguments.
\<close>

section \<open>Definitions\<close>

definition FILE_RAW :: jsstring where
  "FILE_RAW = js ''login_epic_10_runs_gwc_taskcontroller_data.raw.json''"

definition FILE_JSON :: jsstring where
  "FILE_JSON = js ''login_epic_10_runs_gwc_taskcontroller_data.json''"

text \<open>\<open>path.join\<close> on an absolute working directory and names without dot segments\<close>

definition candidates :: "jsstring \<Rightarrow> jsstring list" where
  "candidates cwd = [js_join (js ''/'') [cwd, FILE_RAW], js_join (js ''/'') [cwd, js ''projects/dw-observation/fixtures'', FILE_JSON],
     js_join (js ''/'') [cwd, js ''fixtures'', FILE_JSON]]"

text \<open>\<open>replace(/^window\.EPIC\s*=\s*/, "")\<close>\<close>

definition strip_assignment :: "jsstring \<Rightarrow> jsstring" where
  "strip_assignment s =
     (if startsWith s (js ''window.EPIC'') then
        (case dropWhile is_space (drop 11 s) of
           c # r \<Rightarrow> if c = 61 then dropWhile is_space r else s
         | [] \<Rightarrow> s)
      else s)"

text \<open>\<open>replace(/;\s*$/, "")\<close>: a semicolon followed by nothing but white space is the last one.\<close>

definition strip_semicolon :: "jsstring \<Rightarrow> jsstring" where
  "strip_semicolon s = (case dropWhile is_space (rev s) of
     c # r \<Rightarrow> if c = 59 then rev r else s | [] \<Rightarrow> s)"

text \<open>One candidate: \<open>None\<close> when reading or parsing throws or the text has neither form.\<close>

definition load_candidate :: "(jsstring \<Rightarrow> jsstring option) \<Rightarrow> (jsstring \<Rightarrow> 'f option) \<Rightarrow> jsstring \<Rightarrow> 'f option" where
  "load_candidate readFile parse f = (case readFile f of None \<Rightarrow> None
     | Some raw \<Rightarrow> let t = trim raw in
         if startsWith t (js ''{'') then parse t
         else if startsWith t (js ''window.EPIC'') then parse (strip_semicolon (strip_assignment t))
         else None)"

fun first_loaded :: "(jsstring \<Rightarrow> 'f option) \<Rightarrow> jsstring list \<Rightarrow> 'f thrown" where
  "first_loaded load [] = Inl (js ''login epic fixture not found in any known location'')"
| "first_loaded load (f # fs) = (case load f of Some x \<Rightarrow> Inr x | None \<Rightarrow> first_loaded load fs)"

definition loadLoginEpicFixture :: "(jsstring \<Rightarrow> jsstring option) \<Rightarrow> (jsstring \<Rightarrow> 'f option) \<Rightarrow> jsstring \<Rightarrow> 'f thrown" where
  "loadLoginEpicFixture readFile parse cwd = first_loaded (load_candidate readFile parse) (candidates cwd)"

section \<open>Lemmas\<close>

lemma first_loaded_Inr:
  "first_loaded load fs = Inr x \<longleftrightarrow> (\<exists>i<length fs. load (fs ! i) = Some x \<and> (\<forall>j<i. load (fs ! j) = None))"
proof (induction fs)
  case (Cons f fs)
  show ?case
  proof (cases "load f")
    case None
    then show ?thesis using Cons.IH by (auto simp: Ex_less_Suc2 All_less_Suc2)
  next
    case (Some y)
    then show ?thesis by (auto simp: Ex_less_Suc2 All_less_Suc2)
  qed
qed simp

lemma first_loaded_Inl:
  "(\<exists>e. first_loaded load fs = Inl e) \<longleftrightarrow> (\<forall>f\<in>set fs. load f = None)"
  by (induction fs) (auto split: option.splits)

lemma dropWhile_solid: "s \<noteq> [] \<Longrightarrow> \<not> P (hd s) \<Longrightarrow> dropWhile P s = s"
  by (cases s) auto

lemma dropWhile_pad: "list_all P u \<Longrightarrow> s \<noteq> [] \<Longrightarrow> \<not> P (hd s) \<Longrightarrow> dropWhile P (u @ s) = s"
  by (induction u) (auto simp: dropWhile_solid)

lemma trim_padded:
  assumes "list_all is_space u" and "list_all is_space v" and "s \<noteq> []" and "\<not> is_space (hd s)" and "\<not> is_space (last s)"
  shows "trim (u @ s @ v) = s"
proof -
  have "dropWhile is_space (u @ s @ v) = s @ v" using assms by (intro dropWhile_pad) auto
  moreover have "dropWhile is_space (rev v @ rev s) = rev s"
    using assms by (intro dropWhile_pad) (auto simp: hd_rev list_all_iff)
  ultimately show ?thesis by (simp add: trim_def)
qed

section \<open>Properties\<close>

text \<open>
  C35. The assignment script is read as the object it assigns. For any object text, any white space
  around \<open>window.EPIC =\<close>, after it and at both ends of the file, and with or without the semicolon, what
  is parsed is exactly the object text.
\<close>

theorem epic_script_round_trip:
  assumes "list_all is_space (u1 @ u2 @ u3 @ u4)" and "obj = js ''{'' @ body @ js ''}''" and "semi = [] \<or> semi = js '';''"
    and "readFile f = Some (u1 @ js ''window.EPIC'' @ u2 @ js ''='' @ u3 @ obj @ semi @ u4)"
  shows "load_candidate readFile parse f = parse obj"
proof -
  let ?t = "js ''window.EPIC'' @ u2 @ js ''='' @ u3 @ obj @ semi"
  have ends: "hd ?t = 119" "last obj = 125" "hd obj = 123" "obj \<noteq> []" by (simp_all add: assms(2) js_def unit_of_def)
  have semi_last: "\<not> is_space (last (obj @ semi))" using assms(3) ends by (auto simp: js_def unit_of_def is_space_def)
  have "trim (u1 @ ?t @ u4) = ?t"
    using assms(1,3) ends semi_last by (intro trim_padded) (auto simp: is_space_def js_def unit_of_def)
  moreover have "strip_assignment ?t = obj @ semi"
  proof -
    have "dropWhile is_space (u2 @ js ''='' @ u3 @ obj @ semi) = js ''='' @ u3 @ obj @ semi"
      using assms(1) by (intro dropWhile_pad) (auto simp: js_def unit_of_def is_space_def)
    moreover have "dropWhile is_space (u3 @ obj @ semi) = obj @ semi"
      using assms(1) ends by (intro dropWhile_pad) (auto simp: is_space_def)
    moreover have "startsWith ?t (js ''window.EPIC'')" "drop 11 ?t = u2 @ js ''='' @ u3 @ obj @ semi"
      by (simp_all add: startsWith_def js_def)
    ultimately show ?thesis by (simp add: strip_assignment_def js_def unit_of_def)
  qed
  moreover have "strip_semicolon (obj @ semi) = obj"
    using assms(3) ends by (auto simp: strip_semicolon_def js_def unit_of_def is_space_def assms(2))
  moreover have "\<not> startsWith ?t (js ''{'')" "startsWith ?t (js ''window.EPIC'')"
    by (simp_all add: startsWith_def js_def unit_of_def)
  ultimately show ?thesis using assms(4) by (simp add: load_candidate_def Let_def)
qed

text \<open>
  The first candidate that loads wins, and the loader throws exactly when none does.
\<close>

theorem epic_loader_outcome:
  "(loadLoginEpicFixture readFile parse cwd = Inr x \<longleftrightarrow>
     (\<exists>i<3. load_candidate readFile parse (candidates cwd ! i) = Some x \<and>
        (\<forall>j<i. load_candidate readFile parse (candidates cwd ! j) = None))) \<and>
   ((\<exists>e. loadLoginEpicFixture readFile parse cwd = Inl e) \<longleftrightarrow>
     list_all (\<lambda>f. load_candidate readFile parse f = None) (candidates cwd))"
proof -
  have "length (candidates cwd) = 3" by (simp add: candidates_def)
  then show ?thesis
    using first_loaded_Inr [of "load_candidate readFile parse" "candidates cwd" x]
      first_loaded_Inl [of "load_candidate readFile parse" "candidates cwd"]
    by (simp add: loadLoginEpicFixture_def list_all_iff)
qed

theorem epic_script_round_trip_witness:
  "load_candidate (\<lambda>_. Some ([] @ js ''window.EPIC'' @ [32] @ js ''='' @ [32] @ (js ''{'' @ [] @ js ''}'') @ js '';'' @ [10])) Some [] =
   Some (js ''{'' @ [] @ js ''}'')"
  by (rule epic_script_round_trip [where ?u1.0 = "[]" and ?u2.0 = "[32]" and ?u3.0 = "[32]" and ?u4.0 = "[10]" and semi = "js '';''" and body = "[]"])
    (auto simp: is_space_def)

end
