(* ===== verification/Panes.thy ===== *)
theory Panes
  imports Dom Realtime Observatory
begin

text \<open>
  The panes of the run page: \<open>LiveBadge\<close>, \<open>LiveProjectionPane\<close>, \<open>ReplayPane\<close> with its state,
  \<open>ReviewPane\<close>, \<open>RootCard\<close>, \<open>Timeline\<close>, \<open>EvidenceInspector\<close>, \<open>DagView\<close>, \<open>RunGraphView\<close>,
  \<open>RunGraphNodeCard\<close> and \<open>RunGraphEdge\<close>, all under \<open>components\<close>.

  React Flow is a parameter of the two graph views: it is given nodes, edges and their renderers and
  draws them read-only.
\<close>

section \<open>Live projection\<close>

fun LIVE_LABEL :: "liveState \<Rightarrow> string \<times> string" where
  "LIVE_LABEL UNAVAILABLE = (''unavailable'', ''bg-edge text-muted'')"
| "LIVE_LABEL LIVE = (''live'', ''bg-green-500/20 text-green-400'')"
| "LIVE_LABEL CATCHING_UP = (''catching up'', ''bg-amber-500/20 text-amber-400'')"
| "LIVE_LABEL DEGRADED = (''degraded'', ''bg-amber-500/20 text-amber-400'')"
| "LIVE_LABEL PROJECTION_UNAVAILABLE = (''projection unavailable'', ''bg-red-500/20 text-red-400'')"

definition LiveBadge :: "liveState \<Rightarrow> 'a vdom" where
  "LiveBadge state = El ''span'' [Attr ''role'' (js ''status''), Attr ''aria-live'' (js ''polite''),
     cls (''rounded px-2 py-0.5 text-xs font-medium '' @ snd (LIVE_LABEL state))] [tx (fst (LIVE_LABEL state))]"

definition LiveProjectionPane :: "liveView \<Rightarrow> 'a vdom" where
  "LiveProjectionPane view = El ''div'' [cls ''rounded-lg border border-edge bg-panel p-4''] ([
     El ''div'' [cls ''flex items-center justify-between''] [
       El ''h2'' [cls ''mb-2 text-base font-semibold''] [tx ''Live projection''],
       LiveBadge (Live.v_state view)],
     El ''p'' [cls ''text-xs text-muted'']
       [tx ''Source of truth: durable Postgres projection (server read). Broadcast is transport only. Read-only; no remote mutation.''],
     El ''dl'' [cls ''mt-3 grid grid-cols-2 gap-x-6 gap-y-2 text-sm''] [
       El ''div'' [] [El ''dt'' [cls ''text-muted''] [tx ''Projected events''], El ''dd'' [cls ''code''] [num (v_eventCount view)]],
       El ''div'' [] [El ''dt'' [cls ''text-muted''] [tx ''Anomalies''], El ''dd'' [cls ''code''] [num (length (v_anomalies view))]]]] @
     shown_if (v_anomalies view \<noteq> []) (El ''ul'' [cls ''mt-2 space-y-1''] (map (\<lambda>(kind, message).
       El ''li'' [cls ''rounded border border-edge/60 bg-surface px-3 py-1.5 text-sm''] [
         El ''span'' [cls ''font-medium text-accent''] [Txt (kind_name kind)],
         El ''span'' [cls ''ml-2 text-xs text-muted''] [Txt message]]) (v_anomalies view))) @
     (case v_lastError view of Some e \<Rightarrow> shown_if (e \<noteq> []) (El ''p'' [cls ''mt-2 text-xs text-red-400''] [Txt e]) | None \<Rightarrow> []))"

section \<open>Replay\<close>

text \<open>The pane's session and the snapshot it last stored in its state.\<close>

datatype paneAction = RewindTo int | ResumeLive

record replayPane =
  rp_session :: session
  rp_snapshot :: surfaceSnapshot

definition pane_mount :: "event list \<Rightarrow> replayPane" where
  "pane_mount es = (let s = new_session es in \<lparr> rp_session = s, rp_snapshot = surfaces s \<rparr>)"

definition pane_sync :: "replayPane \<Rightarrow> replayPane" where
  "pane_sync p = p\<lparr>rp_snapshot := surfaces (rp_session p)\<rparr>"

fun pane_act :: "paneAction \<Rightarrow> replayPane \<Rightarrow> replayPane" where
  "pane_act (RewindTo c) p = pane_sync (p\<lparr>rp_session := snd (rewindTo (Fin (rat_of_int c)) (rp_session p))\<rparr>)"
| "pane_act ResumeLive p = pane_sync (p\<lparr>rp_session := snd (resumeLive (rp_session p))\<rparr>)"

text \<open>A new \<open>events\<close> array rebuilds the session; the snapshot state is kept.\<close>

definition pane_new_events :: "event list \<Rightarrow> replayPane \<Rightarrow> replayPane" where
  "pane_new_events es p = p\<lparr>rp_session := new_session es\<rparr>"

fun replay_mode_name :: "replayMode \<Rightarrow> string" where
  "replay_mode_name Replay.M_LIVE = ''LIVE''"
| "replay_mode_name Replay.M_REPLAY = ''REPLAY''"

definition r_button :: "string \<Rightarrow> paneAction \<Rightarrow> bool \<Rightarrow> string \<Rightarrow> paneAction vdom" where
  "r_button tid a off label = El ''button'' [Attr ''type'' (js ''button''), testid tid, On ''click'' a, Flag ''disabled'' off] [tx label]"

definition surface_div :: "string \<Rightarrow> nat \<Rightarrow> string \<Rightarrow> paneAction vdom list \<Rightarrow> paneAction vdom" where
  "surface_div tid c title kids = El ''div'' [testid tid, Attr ''data-cursor'' (show_nat c)] (El ''h3'' [] [tx title] # kids)"

definition replay_controls :: "surfaceSnapshot \<Rightarrow> paneAction vdom" where
  "replay_controls s = (let c = int (ss_cursor s); t = int (ss_total s) in
     El ''div'' [Attr ''role'' (js ''group''), Attr ''aria-label'' (js ''Replay controls'')] [
       r_button ''replay-start'' (RewindTo 0) (c = 0) ''Start'',
       r_button ''replay-back'' (RewindTo (c - 1)) (c = 0) ''Step back'',
       r_button ''replay-forward'' (RewindTo (c + 1)) (c = t) ''Step forward'',
       r_button ''replay-tip'' (RewindTo t) (c = t) ''Tip'',
       El ''button'' [Attr ''type'' (js ''button''), testid ''replay-resume'', On ''click'' ResumeLive] [tx ''Resume LIVE''],
       El ''input'' [Attr ''type'' (js ''range''), Attr ''aria-label'' (js ''Replay position''), testid ''replay-scrub'',
         Attr ''min'' (js ''0''), Attr ''max'' (show_int t), Attr ''value'' (show_int c), OnRange ''change'' 0 t RewindTo] []])"

definition root_surface :: "rootCard \<Rightarrow> paneAction vdom" where
  "root_surface r = surface_div ''surface-root-card'' (st_cursor r) ''RootCard'' [El ''dl'' [] [
     El ''dt'' [] [tx ''Run''], El ''dd'' [testid ''root-run-id''] [Txt (rc_runId r)],
     El ''dt'' [] [tx ''Started''], El ''dd'' [] [Txt (rc_startedAt r)],
     El ''dt'' [] [tx ''Applied''],
     El ''dd'' [testid ''root-applied''] [Txt (show_nat (rc_eventsApplied r) @ js '' of '' @ show_nat (rc_totalEvents r))],
     El ''dt'' [] [tx ''Anomalies''], El ''dd'' [testid ''root-anomaly-count''] [num (rc_anomalyCount r)]]]"

definition dag_surface :: "dagSurface \<Rightarrow> paneAction vdom" where
  "dag_surface d = surface_div ''surface-dag'' (st_cursor d) ''DAG'' [
     El ''ul'' [] (map (\<lambda>(k, n). El ''li'' [Attr ''data-testid'' (js ''dag-node-'' @ k)] [Txt (n_node n @ js '': '' @ n_status n)])
       (dict_entries (dg_nodes d))),
     El ''ul'' [] (map (\<lambda>(k, g). El ''li'' [Attr ''data-testid'' (js ''dag-gate-'' @ k)] [Txt (g_gate g @ js '': '' @ g_status g)])
       (dict_entries (dg_gates d)))]"

definition seq_text :: "int option \<Rightarrow> jsstring" where
  "seq_text s = (case s of None \<Rightarrow> em_dash | Some n \<Rightarrow> show_int n)"

definition timeline_surface :: "timelineSurface \<Rightarrow> paneAction vdom" where
  "timeline_surface t = surface_div ''surface-timeline'' (st_cursor t) ''Timeline'' [
     El ''p'' [testid ''timeline-pending''] [Txt (show_nat (tl_pendingCount t) @ js '' pending'')],
     El ''ol'' [] (map (\<lambda>e. El ''li'' [Attr ''data-testid'' (js ''timeline-event-'' @ ar_sourceEventId e)]
       [Txt (seq_text (ar_sequence e) @ (js '' '' @ [0xB7] @ js '' '') @ ar_eventType e)]) (tl_applied t))]"

definition evidence_surface :: "evidenceSurface \<Rightarrow> paneAction vdom" where
  "evidence_surface e = surface_div ''surface-evidence'' (st_cursor e) ''CI / Evidence'' [
     El ''ul'' [] (map (\<lambda>(_, ref). El ''li'' [testid ''evidence-ref''] [Txt ref]) (ev_refs e)),
     El ''p'' [testid ''evidence-authority''] [Txt (js_or (js_join (js '', '') (ev_authorityRefs e)) em_dash)]]"

definition inspector_surface :: "inspectorSurface \<Rightarrow> paneAction vdom" where
  "inspector_surface i = surface_div ''surface-inspector'' (st_cursor i) ''Inspector'' [
     El ''ul'' [] (map (\<lambda>(kind, message, _). El ''li'' [Attr ''data-testid'' (js ''inspector-anomaly-'' @ kind_name kind)]
       [Txt (kind_name kind @ js '': '' @ message)]) (in_anomalies i)),
     El ''p'' [testid ''inspector-selected''] [Txt (case in_selected i of Some s \<Rightarrow> sl_sourceEventId s | None \<Rightarrow> em_dash)]]"

definition replay_header :: "surfaceSnapshot \<Rightarrow> paneAction vdom" where
  "replay_header s = El ''header'' [] [
     El ''h2'' [] [tx ''Replay''],
     El ''span'' [testid ''replay-mode''] [tx (replay_mode_name (ss_mode s))],
     El ''span'' [testid ''replay-cursor''] [Txt (show_nat (ss_cursor s) @ js ''/'' @ show_nat (ss_total s))],
     El ''span'' [testid ''replay-digest''] [Txt (ss_digest s)],
     El ''span'' [testid ''replay-sync''] [tx (if isSynchronized s then ''SYNCHRONIZED'' else ''DESYNC'')]]"

definition ReplayPane :: "jsstring \<Rightarrow> bool \<Rightarrow> replayPane \<Rightarrow> paneAction vdom" where
  "ReplayPane runId storeDegraded p = (let s = rp_snapshot p in
     El ''section'' [Attr ''aria-label'' (js ''Replay''), testid ''replay-pane'']
      (if length (s_items (rp_session p)) = 0 then [
         El ''h2'' [] [tx ''Replay''],
         El ''p'' [testid ''replay-empty''] [Txt (if storeDegraded
           then (js ''PROJECTION_UNAVAILABLE '' @ [0x2014] @ js '' durable history unreadable; nothing to replay.'') else js ''No projection events to replay.'')]]
       else [
         replay_header s, replay_controls s, root_surface (ss_rootCard s), dag_surface (ss_dag s), timeline_surface (ss_timeline s),
         evidence_surface (ss_evidence s), inspector_surface (ss_inspector s),
         El ''p'' [testid ''replay-note''] [Txt (js ''Replay is a read-only projection of immutable history for run '' @ runId @
           js ''. It creates no authority and mutates nothing; LIVE resumes at the canonical tip with sequence state intact.'')]]))"

text \<open>Only the user moves the pane, through the actions it offers.\<close>

abbreviation pane_reachable :: "jsstring \<Rightarrow> bool \<Rightarrow> event list \<Rightarrow> replayPane \<Rightarrow> bool" where
  "pane_reachable runId degr es \<equiv> ui_reachable (\<lambda>p. p = pane_mount es) (\<lambda>_ _. False) (\<lambda>p. Some (ReplayPane runId degr p))
     (\<lambda>a p. Some (pane_act a p))"

section \<open>Review\<close>

text \<open>\<open>Math.round(value / 1000)\<close> and the remainder of JavaScript, which has the sign of the dividend.\<close>

definition js_rem :: "int \<Rightarrow> int \<Rightarrow> int" where
  "js_rem a b = sgn a * (\<bar>a\<bar> mod \<bar>b\<bar>)"

definition ms :: "int option \<Rightarrow> jsstring" where
  "ms value = (case value of None \<Rightarrow> em_dash
     | Some v \<Rightarrow> let totalSeconds = (v + 500) div 1000; m = totalSeconds div 60; s = js_rem totalSeconds 60
         in if m > 0 then show_int m @ js ''m '' @ show_int s @ js ''s'' else show_int s @ js ''s'')"

definition trace_text :: "traceRef \<Rightarrow> jsstring" where
  "trace_text t = tr_sourceSystem t @ js ''/'' @ tr_sourceEventId t @ (js '' '' @ [0xB7] @ js '' seq '') @ seq_text (tr_sequence t) @ (js '' '' @ [0xB7] @ js '' '') @ tr_eventType t @
     (if tr_evidenceRefs t \<noteq> [] then (js '' '' @ [0xB7] @ js '' '') @ js_join (js '', '') (tr_evidenceRefs t) else []) @
     (case tr_authorityRef t of Some a \<Rightarrow> if a \<noteq> [] then (js '' '' @ [0xB7] @ js '' authority '') @ a else [] | None \<Rightarrow> [])"

definition TraceList :: "traceRef list \<Rightarrow> string \<Rightarrow> 'a vdom" where
  "TraceList trace tid = (if trace = [] then El ''p'' [testid (tid @ ''-trace-empty'')] [Txt em_dash]
     else El ''ul'' [testid (tid @ ''-trace'')] (map (\<lambda>t. El ''li'' [testid (tid @ ''-trace-ref'')] [Txt (trace_text t)]) trace))"

fun confidence_name :: "confidence \<Rightarrow> string" where
  "confidence_name EXACT = ''EXACT''"
| "confidence_name PARTIAL = ''PARTIAL''"
| "confidence_name C_UNKNOWN = ''UNKNOWN''"

definition MetricRow :: "'v metric \<Rightarrow> string \<Rightarrow> string \<Rightarrow> ('v \<Rightarrow> jsstring) \<Rightarrow> 'a vdom" where
  "MetricRow m label tid rend = El ''div'' [testid tid] ([
     El ''h4'' [] [tx label],
     El ''p'' [testid (tid @ ''-value'')] [Txt (case m_value m of None \<Rightarrow> em_dash | Some v \<Rightarrow> rend v)],
     El ''p'' [testid (tid @ ''-confidence'')] [tx (confidence_name (m_confidence m))]] @
     shown_if (m_incomplete m \<noteq> []) (El ''p'' [testid (tid @ ''-incomplete'')] [Txt (js_join (js '', '') (map reason_name (m_incomplete m)))]) @
     [TraceList (m_trace m) tid])"

definition duration_text :: "durationBreakdown \<Rightarrow> jsstring" where
  "duration_text v = ms (d_totalMs v) @ (if d_terminated v then [] else js '' (elapsed, not terminated)'')"

definition wait_text :: "gapSpan \<Rightarrow> jsstring" where
  "wait_text v = ms (Some (gs_ms v)) @ js '' ('' @ gs_from v @ (js '' '' @ [0x2192] @ js '' '') @ gs_to v @ js '')''"

definition retries_text :: "retryStat list \<Rightarrow> jsstring" where
  "retries_text v = (if v = [] then js ''none recorded''
     else js_join (js ''; '') (map (\<lambda>s. rs_key s @ js '': '' @ show_nat (rs_attempts s) @ js '' attempts'') v))"

definition recoveries_text :: "recoverySpan list \<Rightarrow> jsstring" where
  "recoveries_text v = js_join (js ''; '') (map (\<lambda>s. if rv_recovered s then rv_target s @ js '': recovered in '' @ ms (rv_ms s)
     else rv_target s @ js '': NOT RECOVERED'') v)"

definition handoffs_text :: "handoffSpan list \<Rightarrow> jsstring" where
  "handoffs_text v = (if v = [] then js ''none recorded''
     else js_join (js ''; '') (map (\<lambda>h. ho_fromActor h @ (js '' '' @ [0x2192] @ js '' '') @ ho_toActor h @ js '' ('' @ ms (ho_ms h) @ js '')'') v))"

definition ReviewPane :: "date_parse \<Rightarrow> (jsstring \<Rightarrow> jsstring \<Rightarrow> int) \<Rightarrow> jsstring \<Rightarrow> event list \<Rightarrow> bool \<Rightarrow> 'a vdom" where
  "ReviewPane dp lc runId es storeDegraded = (let report = reviewRun dp lc runId es in
     El ''section'' [Attr ''aria-label'' (js ''Review intelligence''), testid ''review-pane'']
      (if es = [] then [
         El ''h2'' [] [tx ''Review intelligence''],
         El ''p'' [testid ''review-empty''] [Txt (if storeDegraded
           then (js ''PROJECTION_UNAVAILABLE '' @ [0x2014] @ js '' durable history unreadable; no metrics derived.'') else js ''No projection events; no metrics derived.'')]]
       else
         [El ''header'' [] ([
           El ''h2'' [] [tx ''Review intelligence''],
           El ''span'' [testid ''review-reducer-version''] [Txt (rr_reducerVersion report)],
           El ''span'' [testid ''review-event-count''] [Txt (show_nat (rr_eventCount report) @ js '' events'')],
           El ''span'' [testid ''review-complete''] [tx (if rr_historyComplete report then ''HISTORY_COMPLETE'' else ''HISTORY_INCOMPLETE'')]] @
           shown_if (rr_anomalyCount report > 0)
             (El ''span'' [testid ''review-anomaly-count''] [Txt (show_nat (rr_anomalyCount report) @ js '' anomalies'')]))] @
         shown_if (rr_incompleteMarkers report \<noteq> [])
           (El ''p'' [testid ''review-markers''] [Txt (js_join (js '', '') (map reason_name (rr_incompleteMarkers report)))]) @
         [MetricRow (rr_duration report) ''Duration'' ''metric-duration'' duration_text,
          MetricRow (rr_longestWait report) ''Longest wait'' ''metric-wait'' wait_text,
          MetricRow (rr_retries report) ''Retries'' ''metric-retries'' retries_text,
          MetricRow (rr_recoveries report) ''Recoveries'' ''metric-recoveries'' recoveries_text,
          MetricRow (rr_handoffs report) ''Handoffs'' ''metric-handoffs'' handoffs_text,
          El ''p'' [testid ''review-note''] [Txt (js ''Metrics are derived read-only from recorded projection events. This pane creates no authority and mutates nothing; unknown values are shown as '' @ ([0x201C]) @ em_dash @ ([0x201D] @ js '' rather than assumed.''))]]))"

section \<open>The replay pane in use\<close>

lemma surfaces_fields:
  "ss_cursor (surfaces s) = min (s_cursor s) (length (s_items s))" "ss_total (surfaces s) = length (s_items s)"
  by (simp_all add: surfaces_def projectSurfaces_def session_frame_def session_timeline_def new_timeline_def timeline_total_def Let_def)

lemma rewind_exact:
  assumes "0 \<le> c" and "c \<le> int (length (s_items s))"
  shows "s_cursor (snd (rewindTo (Fin (rat_of_int c)) s)) = nat c"
proof -
  have "Fin (rat_of_int c) = of_nat_num (nat c)" using assms(1) by (simp add: of_nat_num_def)
  then show ?thesis using assms by (simp add: rewindTo_def session_timeline_def new_timeline_def Let_def)
qed

lemma pane_actions:
  assumes "a \<in> actions (ReplayPane runId degr p)"
  shows "a = ResumeLive \<or> (\<exists>c. a = RewindTo c \<and> 0 \<le> c \<and> c \<le> int (ss_total (rp_snapshot p))) \<or>
    ss_total (rp_snapshot p) < ss_cursor (rp_snapshot p)"
  using assms
  by (auto simp: ReplayPane_def Let_def replay_header_def replay_controls_def r_button_def root_surface_def dag_surface_def
    timeline_surface_def evidence_surface_def inspector_surface_def surface_div_def split: if_splits)

definition pane_ok :: "event list \<Rightarrow> replayPane \<Rightarrow> bool" where
  "pane_ok es p \<longleftrightarrow> session_ok es (rp_session p) \<and> rp_snapshot p = surfaces (rp_session p)"

lemma pane_ok_act: "pane_ok es p \<Longrightarrow> pane_ok es (pane_act a p)"
  by (cases a) (auto simp: pane_ok_def pane_sync_def session_ok_rewind, simp add: session_ok_def resumeLive_def Let_def)

interpretation replay_pane: ui_machine True "\<lambda>p. p = pane_mount es" "\<lambda>_ _. False" "\<lambda>p. Some (ReplayPane runId degr p)"
    "\<lambda>a p. Some (pane_act a p)" "pane_ok es" for runId degr es
  by unfold_locales (auto simp: pane_ok_act, simp add: pane_ok_def pane_mount_def session_ok_new Let_def)

section \<open>Properties\<close>

text \<open>
  C16. The replay pane shows what its controls say. After any use of a mounted pane, the stored snapshot
  is the one of its session and all five surfaces carry the same cursor and digest; and every position
  a control offers lies in the recorded history and is exactly where using it moves the session, in
  REPLAY mode, or it is Resume LIVE and moves to the tip.
\<close>

theorem replay_pane_in_sync:
  assumes "pane_reachable runId degr es p"
  shows "rp_snapshot p = surfaces (rp_session p) \<and> isSynchronized (rp_snapshot p) \<and>
    (\<forall>a\<in>actions (ReplayPane runId degr p). case a of
        RewindTo c \<Rightarrow> 0 \<le> c \<and> c \<le> int (length es) \<and> ss_cursor (rp_snapshot (pane_act a p)) = nat c \<and>
          ss_mode (rp_snapshot (pane_act a p)) = Replay.M_REPLAY
      | ResumeLive \<Rightarrow> rp_session (pane_act a p) = new_session es)"
proof -
  have ok: "session_ok es (rp_session p)" "rp_snapshot p = surfaces (rp_session p)"
    using replay_pane.reachable_inv [OF assms] by (auto simp: pane_ok_def)
  have len: "length (s_items (rp_session p)) = length es" using ok(1) by (simp add: session_ok_def)
  have "case a of RewindTo c \<Rightarrow> 0 \<le> c \<and> c \<le> int (length es) \<and> ss_cursor (rp_snapshot (pane_act a p)) = nat c \<and>
      ss_mode (rp_snapshot (pane_act a p)) = Replay.M_REPLAY | ResumeLive \<Rightarrow> rp_session (pane_act a p) = new_session es"
    if offered: "a \<in> actions (ReplayPane runId degr p)" for a
  proof (cases a)
    case (RewindTo c)
    have c: "0 \<le> c" "c \<le> int (length es)"
      using pane_actions [OF offered] RewindTo ok(2) len by (auto simp: surfaces_fields)
    let ?s = "snd (rewindTo (Fin (rat_of_int c)) (rp_session p))"
    have "s_cursor ?s = nat c" "s_mode ?s = Replay.M_REPLAY" "length (s_items ?s) = length es"
      using rewind_exact [OF c(1), of "rp_session p"] c(2) len by (auto simp: rewindTo_def Let_def)
    then show ?thesis using RewindTo c by (simp add: pane_sync_def surfaces_fields) (simp add: surfaces_def projectSurfaces_def Let_def)
  next
    case ResumeLive
    then show ?thesis using ok(1) by (simp add: pane_sync_def session_ok_def resumeLive_def new_session_def Let_def)
  qed
  then show ?thesis using ok(2) by (auto simp: surfaces_def synchronized)
qed

text \<open>New events reach the session of a mounted pane, but not what it shows.\<close>

lemma stale_snapshot:
  "length (s_items (rp_session (pane_new_events es' (pane_mount es)))) = length es' \<and>
   ss_total (rp_snapshot (pane_new_events es' (pane_mount es))) = length es"
  by (simp add: pane_new_events_def pane_mount_def new_session_def surfaces_fields Let_def)

text \<open>A negative span of a minute or more loses its minutes.\<close>

lemma ms_negative: "ms (Some (- 90000)) = show_int (- 30) @ js ''s''"
  by (simp add: ms_def Let_def js_rem_def)

lemma pane_started: "pane_reachable runId degr es (pane_mount es)"
  by (rule ui_start) simp

theorem replay_pane_in_sync_witness:
  "RewindTo 0 \<in> actions (ReplayPane [] False (pane_mount [JObj []])) \<and>
   ss_cursor (rp_snapshot (pane_act (RewindTo 0) (pane_mount [JObj []]))) = 0"
proof -
  let ?p = "pane_mount [JObj []]"
  have "ss_cursor (rp_snapshot ?p) = 1" "length (s_items (rp_session ?p)) = 1"
    by (simp_all add: pane_mount_def new_session_def surfaces_fields Let_def)
  then have "RewindTo 0 \<in> actions (ReplayPane [] False ?p)"
    by (simp add: ReplayPane_def replay_controls_def r_button_def Let_def)
  then show ?thesis using replay_pane_in_sync [OF pane_started [of "[JObj []]" "[]" False]] by (auto split: paneAction.splits)
qed

end
