(* ===== verification/RunPage.thy ===== *)
theory RunPage
  imports Panes Store
begin

text \<open>
  The pages of the observatory: the run list \<open>app/runs/page.tsx\<close>, the run detail
  \<open>app/runs/[runId]/page.tsx\<close> with the components it arranges (\<open>RootCard\<close>, \<open>RunGraphView\<close>,
  \<open>DagView\<close>, \<open>Timeline\<close>, \<open>EvidenceInspector\<close>), and the sign-in form \<open>app/login/page.tsx\<close>.

  The database client, the environment and the fixture bundles are arguments as in \<open>Store\<close> and
  \<open>Observatory\<close>. React Flow is an argument of the page: it draws the nodes and edges it is given.
\<close>

section \<open>Root card, timeline, evidence\<close>

text \<open>\<open>value && value !== UNKNOWN ? value : UNKNOWN\<close>\<close>

definition Field :: "string \<Rightarrow> json \<Rightarrow> 'a vdom" where
  "Field label value = El ''div'' [] [
     El ''dt'' [cls ''text-muted''] [tx label],
     El ''dd'' [cls ''code''] [Txt (if truthy value \<and> value \<noteq> JStr em_dash then jsString value else em_dash)]]"

record supabaseReadiness =
  sr_project :: jsstring
  sr_status :: jsstring
  sr_readiness :: jsstring
  sr_publicTables :: nat
  sr_migrations :: nat
  sr_remoteApplyPerformed :: bool

definition SUPABASE_READINESS :: supabaseReadiness where
  "SUPABASE_READINESS = \<lparr> sr_project = js ''dw-observatory'', sr_status = js ''ACTIVE_HEALTHY'', sr_readiness = js ''NO_MIGRATION_READY'',
     sr_publicTables = 0, sr_migrations = 0, sr_remoteApplyPerformed = False \<rparr>"

definition RootCard :: "runView \<Rightarrow> supabaseReadiness option \<Rightarrow> 'a vdom" where
  "RootCard run ready = El ''div'' [cls ''rounded-lg border border-edge bg-panel p-4''] [
     El ''div'' [cls ''flex items-center justify-between''] [
       El ''h1'' [cls ''text-lg font-semibold''] [tx ''Run RootCard''],
       El ''span'' [cls ''rounded bg-edge px-2 py-0.5 text-xs text-muted''] [tx ''read-only'']],
     El ''dl'' [cls ''mt-3 grid grid-cols-2 gap-x-6 gap-y-3 text-sm sm:grid-cols-4''] ([
       Field ''Run'' (JStr (v_runId run)), Field ''Source system'' (JStr (v_sourceSystem run)),
       Field ''Started'' (v_startedAt run), Field ''Last event'' (v_lastEventAt run),
       Field ''Lane'' (JStr (v_lane run)), Field ''Task'' (JStr (v_task run)), Field ''Controller'' (JStr (v_controller run)),
       Field ''Executor'' (JStr (v_executor run)),
       Field ''Gate'' (case own_keys (v_gates run) of [] \<Rightarrow> JNull | k # _ \<Rightarrow> JStr k),
       Field ''Branch'' (JStr (v_branch run)), Field ''PR'' (JStr (v_pr run)), Field ''Exact HEAD'' (JStr (v_exactHead run)),
       Field ''Exact-bound CI'' (JStr (v_ci run)), Field ''Risk'' (JStr (v_risk run)), Field ''Blocker'' (JStr (v_blocker run)),
       Field ''Now'' (JStr (v_now run)), Field ''Next'' (JStr (v_next run)),
       El ''div'' [] [El ''dt'' [cls ''text-muted''] [tx ''Events / Anomalies''],
         El ''dd'' [cls ''code''] [Txt (show_nat (v_events_count run) @ js '' / '' @ show_nat (v_anomalyCount run))]]] @
       (case ready of None \<Rightarrow> [] | Some r \<Rightarrow> [El ''div'' [cls ''col-span-2 sm:col-span-4''] [
         El ''dt'' [cls ''text-muted''] [tx ''Supabase readiness''],
         El ''dd'' [cls ''code''] [Txt (sr_project r @ (js '' '' @ [0xB7] @ js '' '') @ sr_status r @ (js '' '' @ [0xB7] @ js '' '') @ sr_readiness r @ (js '' '' @ [0xB7] @ js '' tables='') @
           show_nat (sr_publicTables r) @ js '' migrations='' @ show_nat (sr_migrations r) @ js '' remoteApply='' @
           (if sr_remoteApplyPerformed r then js ''true'' else js ''false''))]]]))]"

definition timeline_item :: "normalizedEvent \<times> nat \<Rightarrow> 'a vdom" where
  "timeline_item = (\<lambda>(e, i). El ''li'' [cls ''rounded border border-edge/60 bg-surface px-3 py-2 text-sm''] [
     El ''div'' [cls ''flex flex-wrap items-center gap-2''] ([
       El ''span'' [cls ''code text-xs text-muted''] [Txt (js ''#'' @ show_nat i @
         (case e_seq e of None \<Rightarrow> [] | Some n \<Rightarrow> (js '' '' @ [0xB7] @ js '' seq '') @ show_int n))],
       El ''span'' [cls ''rounded bg-edge px-2 py-0.5 text-xs''] [Txt (e_eventType e)]] @
       shown_if (e_gate e \<noteq> em_dash) (El ''span'' [cls ''text-xs text-muted''] [Txt (js ''gate: '' @ e_gate e)]) @
       shown_if (e_nodeId e \<noteq> em_dash) (El ''span'' [cls ''text-xs text-muted''] [Txt (js ''node: '' @ e_nodeId e)]) @
       [El ''span'' [cls ''code text-xs text-muted''] [Txt (e_occurredAt e)]]),
     El ''p'' [cls ''mt-1 text-xs text-muted'']
       [Txt (js ''source_event_id: '' @ e_sourceEventId e @ (js '' '' @ [0xB7] @ js '' actor: '') @ e_actor e)]])"

definition Timeline :: "normalizedEvent list \<Rightarrow> 'a vdom" where
  "Timeline es = El ''div'' [cls ''rounded-lg border border-edge bg-panel p-4''] [
     El ''h2'' [cls ''mb-3 text-base font-semibold''] [tx ''Timeline''],
     (if es = [] then El ''p'' [cls ''text-sm text-muted''] [Txt em_dash]
      else El ''ol'' [cls ''space-y-2''] (map timeline_item (zip es [0..<length es])))]"

fun has_keys :: "json \<Rightarrow> bool" where
  "has_keys (JArr vs) = (vs \<noteq> [])"
| "has_keys (JObj kvs) = (kvs \<noteq> [])"
| "has_keys _ = False"

definition JsonView :: "json \<Rightarrow> 'a vdom" where
  "JsonView v = El ''pre'' [cls ''code mt-1 whitespace-pre-wrap text-xs text-muted''] [Txt (if has_keys v then stringify2 v else em_dash)]"

definition anomaly_item :: "json \<Rightarrow> 'a vdom" where
  "anomaly_item a = El ''li'' [cls ''rounded border border-edge/60 bg-surface px-3 py-1.5 text-sm''] (
     El ''span'' [cls ''font-medium text-accent''] [Txt (case fld a ''kind'' of JStr k \<Rightarrow> k | _ \<Rightarrow> em_dash)] #
     (case fld a ''at_index'' of JNum i \<Rightarrow> [El ''span'' [cls ''ml-2 text-xs text-muted''] [Txt (js ''@index '' @ show_int i)]] | _ \<Rightarrow> []) @
     (case fld a ''message'' of JStr m \<Rightarrow> [El ''span'' [cls ''ml-2 text-xs text-muted''] [Txt m]] | _ \<Rightarrow> []))"

definition evidence_item :: "normalizedEvent \<Rightarrow> 'a vdom" where
  "evidence_item e = El ''li'' [cls ''rounded border border-edge/60 bg-surface px-3 py-2 text-sm''] [
     El ''div'' [cls ''flex flex-wrap items-center gap-2''] [
       El ''span'' [cls ''code text-xs''] [Txt (e_sourceEventId e)],
       El ''span'' [cls ''rounded bg-edge px-2 py-0.5 text-xs''] [Txt (e_eventType e)],
       El ''span'' [cls ''text-xs text-muted''] [Txt (js ''authority_ref: '' @ e_authorityRef e)],
       El ''span'' [cls ''text-xs text-muted''] [Txt (js ''source_digest: '' @ e_sourceDigest e)]],
     El ''div'' [cls ''mt-2 grid grid-cols-1 gap-2 sm:grid-cols-2''] [
       El ''div'' [] [El ''p'' [cls ''text-xs text-muted''] [tx ''before''], JsonView (e_before e)],
       El ''div'' [] [El ''p'' [cls ''text-xs text-muted''] [tx ''after''], JsonView (e_after e)]],
     El ''div'' [cls ''mt-2''] [
       El ''p'' [cls ''text-xs text-muted''] [tx ''evidence_refs''],
       (if e_evidenceRefs e = [] then El ''p'' [cls ''code text-xs text-muted''] [Txt em_dash]
        else El ''ul'' [cls ''code text-xs text-muted''] (map (\<lambda>r. El ''li'' [] [El ''a''
          (if startsWith r (js ''http'') then [Attr ''href'' r] else []) [Txt r]]) (e_evidenceRefs e)))]]"

definition EvidenceInspector :: "normalizedEvent list \<Rightarrow> json list \<Rightarrow> 'a vdom" where
  "EvidenceInspector es anomalies = El ''div'' [cls ''rounded-lg border border-edge bg-panel p-4''] [
     El ''h2'' [cls ''mb-3 text-base font-semibold''] [tx ''Evidence inspector''],
     El ''h3'' [cls ''mb-1 text-sm text-muted''] [tx ''Anomalies (explicit)''],
     (if anomalies = [] then El ''p'' [cls ''mb-3 text-sm text-muted''] [Txt em_dash]
      else El ''ul'' [cls ''mb-4 space-y-1''] (map anomaly_item anomalies)),
     El ''h3'' [cls ''mb-1 text-sm text-muted''] [tx ''Per-event provenance''],
     (if es = [] then El ''p'' [cls ''text-sm text-muted''] [Txt em_dash] else El ''ul'' [cls ''space-y-3''] (map evidence_item es)),
     El ''p'' [cls ''mt-3 text-xs text-muted''] [Txt (show_nat (length (filter (\<lambda>e. e_evidenceRefs e \<noteq> []) es)) @
       js '' event(s) carry evidence_refs. SHA/CI/evidence links are rendered only when explicitly present in the source fixture.'')]]"

section \<open>Graph views\<close>

record dagNode =
  dn_id :: jsstring
  dn_x :: nat
  dn_y :: nat
  dn_label :: jsstring

record dagEdge =
  de_id :: jsstring
  de_source :: jsstring
  de_target :: jsstring
  de_label :: jsstring

definition dag_status :: "json \<Rightarrow> jsstring" where
  "dag_status g = (case fld g ''status'' of JStr s \<Rightarrow> s | _ \<Rightarrow> js ''unknown'')"

definition dag_items :: "json dict \<Rightarrow> json dict \<Rightarrow> (jsstring \<times> jsstring) list" where
  "dag_items gates nodes =
     map (\<lambda>(name, g). (js ''gate:'' @ name, js ''GATE '' @ name @ (js '' '' @ [0xB7] @ js '' '') @ dag_status g)) (dict_entries gates) @
     map (\<lambda>(name, n). (js ''node:'' @ name, js ''NODE '' @ name @ (js '' '' @ [0xB7] @ js '' '') @ dag_status n)) (dict_entries nodes)"

definition dag_nodes :: "json dict \<Rightarrow> json dict \<Rightarrow> dagNode list" where
  "dag_nodes gates nodes = map (\<lambda>((i, label), k). \<lparr> dn_id = i, dn_x = 40 + (k mod 3) * 260, dn_y = 40 + (k div 3) * 110, dn_label = label \<rparr>)
     (zip (dag_items gates nodes) [0..<length (dag_items gates nodes)])"

definition dag_edges :: "connector list \<Rightarrow> dagEdge list" where
  "dag_edges edges = map (\<lambda>(e, i). \<lparr> de_id = js ''edge:'' @ show_nat i, de_source = cn_from e, de_target = cn_to e, de_label = cn_label e \<rparr>)
     (zip edges [0..<length edges])"

definition DagView :: "(dagNode list \<Rightarrow> dagEdge list \<Rightarrow> 'a vdom) \<Rightarrow> json dict \<Rightarrow> json dict \<Rightarrow> connector list option \<Rightarrow> 'a vdom" where
  "DagView flow gates nodes edges = El ''div'' [cls ''rounded-lg border border-edge bg-panel p-4''] [
     El ''h2'' [cls ''mb-1 text-base font-semibold''] [tx ''Read-only DAG''],
     El ''p'' [cls ''mb-3 text-xs text-muted''] [Txt (js ''Rendered from explicitly recorded gates/nodes. Edges shown only when explicitly recorded (never inferred). Non-draggable '' @ [0xB7] @ js '' non-connectable '' @ [0xB7] @ js '' non-editable.'')],
     El ''div'' [cls ''rounded border border-edge/60 bg-surface'']
       [flow (dag_nodes gates nodes) (dag_edges (case edges of Some es \<Rightarrow> es | None \<Rightarrow> []))]]"

record graphNode =
  gn_id :: jsstring
  gn_x :: nat
  gn_y :: nat
  gn_node :: hierarchyNode
  gn_active :: bool

record graphEdge =
  ge_id :: jsstring
  ge_source :: jsstring
  ge_target :: jsstring
  ge_label :: jsstring
  ge_animated :: bool
  ge_color :: jsstring
  ge_active :: bool

fun column :: "hierarchyKind \<Rightarrow> nat" where
  "column K_root = 0"
| "column K_gate = 2"
| "column K_node = 1"
| "column K_issue = 1"

fun KIND_LABEL :: "hierarchyKind \<Rightarrow> string" where
  "KIND_LABEL K_root = ''ROOT''"
| "KIND_LABEL K_gate = ''GATE''"
| "KIND_LABEL K_node = ''NODE''"
| "KIND_LABEL K_issue = ''ISSUE''"

fun KIND_RING :: "hierarchyKind \<Rightarrow> string" where
  "KIND_RING K_root = ''border-accent/70''"
| "KIND_RING K_gate = ''border-amber-400/60''"
| "KIND_RING K_node = ''border-edge''"
| "KIND_RING K_issue = ''border-fuchsia-400/60''"

fun hkind_name :: "hierarchyKind \<Rightarrow> string" where
  "hkind_name K_root = ''root''"
| "hkind_name K_gate = ''gate''"
| "hkind_name K_node = ''node''"
| "hkind_name K_issue = ''issue''"

definition RunGraphNodeCard :: "hierarchyNode \<Rightarrow> bool \<Rightarrow> 'a vdom" where
  "RunGraphNodeCard n active = El ''div'' [testid ''runflow-node'', Attr ''data-node-id'' (hn_id n),
     Attr ''data-node-kind'' (js (hkind_name (hn_kind n))), Attr ''data-active'' (if active then js ''true'' else js ''false''),
     cls (''runflow-graph-node w-52 rounded-lg border bg-panel p-3 '' @ KIND_RING (hn_kind n) @ '' '' @ (if active then ''runflow-graph-active'' else ''''))] ([
     El ''Handle'' [Attr ''type'' (js ''target''), Attr ''position'' (js ''top''), cls ''!bg-slate-400''] [],
     El ''div'' [cls ''flex items-center justify-between''] [
       El ''span'' [cls ''rounded bg-surface px-1.5 py-0.5 text-[10px] font-semibold uppercase tracking-wide text-muted''] [tx (KIND_LABEL (hn_kind n))],
       El ''span'' [cls ''font-semibold''] [Txt (hn_id n)]],
     El ''div'' [cls ''mt-1 text-xs text-muted''] [Txt (hn_label n)],
     El ''div'' [cls ''mt-1 text-[11px]''] [El ''span'' [cls ''text-muted''] [tx ''status: ''], El ''span'' [cls ''code''] [Txt (hn_status n)]]] @
     (case hn_detail n of Some d \<Rightarrow> shown_if (d \<noteq> []) (El ''div'' [cls ''mt-0.5 text-[11px] text-muted''] [Txt (([0xB7] @ js '' '') @ d)]) | None \<Rightarrow> []) @
     [El ''Handle'' [Attr ''type'' (js ''source''), Attr ''position'' (js ''bottom''), cls ''!bg-slate-400''] []])"

text \<open>\<open>id.replace(/^e-/, "")\<close>\<close>

definition edge_base_id :: "jsstring \<Rightarrow> jsstring" where
  "edge_base_id i = (if startsWith i (js ''e-'') then drop 2 i else i)"

definition RunGraphEdge :: "graphEdge \<Rightarrow> 'a vdom list" where
  "RunGraphEdge e = (let edgeId = edge_base_id (ge_id e); color = (if ge_active e then js ''#5b9dff'' else js ''#94a3b8'') in
     El ''BaseEdge'' [Attr ''id'' (ge_id e), testid ''runflow-edge'', Attr ''data-edge-id'' edgeId,
       Attr ''markerEnd'' (js ''url(#react-flow__arrowclosed)''), Attr ''stroke'' color,
       Attr ''strokeWidth'' (if ge_active e then js ''2'' else js ''1.2'')] [] #
     shown_if (ge_label e \<noteq> []) (El ''EdgeLabelRenderer'' [] [El ''div'' [testid ''runflow-edge-label'', Attr ''data-edge-id'' edgeId,
       Attr ''color'' color] [Txt (ge_label e)]]))"

definition graph_nodes :: "runHierarchy \<Rightarrow> jsstring option \<Rightarrow> graphNode list" where
  "graph_nodes h activeId = map (\<lambda>(n, i). \<lparr> gn_id = hn_id n, gn_x = column (hn_kind n) * 240, gn_y = i * 84, gn_node = n,
     gn_active = (activeId = Some (hn_id n)) \<rparr>) (zip (rh_nodes h) [0..<length (rh_nodes h)])"

definition graph_edges :: "runHierarchy \<Rightarrow> jsstring option \<Rightarrow> graphEdge list" where
  "graph_edges h activeId = map (\<lambda>c. let active = (activeId = Some (cn_to c) \<or> activeId = Some (cn_from c)) in
     \<lparr> ge_id = js ''e-'' @ cn_from c @ js ''-'' @ cn_to c, ge_source = cn_from c, ge_target = cn_to c, ge_label = cn_label c,
       ge_animated = active, ge_color = (if active then js ''#5b9dff'' else js ''#94a3b8''), ge_active = active \<rparr>) (rh_connectors h)"

definition RunGraphView :: "(graphNode list \<Rightarrow> graphEdge list \<Rightarrow> 'a vdom) \<Rightarrow> runHierarchy \<Rightarrow> jsstring option \<Rightarrow> 'a vdom" where
  "RunGraphView flow h activeId = El ''div'' [testid ''run-graph-view'', cls ''rounded-lg border border-edge bg-panel p-4''] [
     El ''h2'' [cls ''mb-1 text-base font-semibold''] [tx ''Hierarchical run graph''],
     El ''p'' [cls ''mb-3 text-xs text-muted''] [tx ''Source-backed nodes/edges (React Flow). Each card is a recorded step/gate/issue; edges are explicit, never inferred. Read-only.''],
     El ''div'' [cls ''rounded border border-edge/60 bg-surface''] [flow (graph_nodes h activeId) (graph_edges h activeId)]]"

section \<open>Run detail\<close>

definition normalizeActor :: "json \<Rightarrow> jsstring" where
  "normalizeActor raw = (case raw of JStr s \<Rightarrow> s
     | _ \<Rightarrow> if is_object raw then
         (let part = (\<lambda>k. case fld raw k of JStr s \<Rightarrow> if s \<noteq> [] then [s] else [] | _ \<Rightarrow> []);
              joined = strip_colon (js_join (js '':'') (part ''kind'' @ part ''id''))
          in if length joined > 0 then joined else em_dash)
       else em_dash)"

definition str_or_unknown :: "json \<Rightarrow> jsstring" where
  "str_or_unknown v = (case v of JStr s \<Rightarrow> s | _ \<Rightarrow> em_dash)"

definition projectionToNormalized :: "event \<Rightarrow> normalizedEvent" where
  "projectionToNormalized e = \<lparr> e_sourceEventId = jsString (fld e ''source_event_id''), e_seq = num_of (fld e ''sequence''),
     e_occurredAt = str_or_unknown (fld e ''occurred_at''), e_eventType = str_or_unknown (fld e ''event_type''),
     e_source = jsString (fld e ''source_system''), e_actor = normalizeActor (fld e ''actor''),
     e_gate = str_or_unknown (fld e ''gate''), e_nodeId = str_or_unknown (fld e ''node_id''),
     e_before = or_empty_object (fld e ''before''), e_after = or_empty_object (fld e ''after''),
     e_evidenceRefs = map jsString (asArray (fld e ''evidence_refs'')),
     e_authorityRef = str_or_unknown (fld e ''authority_ref''), e_sourceDigest = str_or_unknown (fld e ''source_digest''),
     e_annotations = JObj [] \<rparr>"

definition rows_by :: "string \<Rightarrow> json list \<Rightarrow> json dict" where
  "rows_by key rows = fold (\<lambda>r m. case fld r key of JStr i \<Rightarrow> dict_put i r m | _ \<Rightarrow> m) rows []"

definition runViewFromDetail :: "jsstring \<Rightarrow> runDetail \<Rightarrow> runView" where
  "runViewFromDetail runId d = (let run = or_empty_object (rd_run d); events = map projectionToNormalized (rd_events d) in
     \<lparr> v_runId = runId, v_sourceSystem = str_or_unknown (fld run ''source_system''),
       v_startedAt = (case fld run ''started_at'' of JStr s \<Rightarrow> JStr s | _ \<Rightarrow> JNull), v_lastEventAt = JNull,
       v_lane = em_dash, v_task = em_dash, v_controller = em_dash, v_executor = em_dash,
       v_branch = str_or_unknown (fld run ''branch''),
       v_pr = (case fld run ''pr_number'' of JNum n \<Rightarrow> show_int n | JStr s \<Rightarrow> s | _ \<Rightarrow> em_dash),
       v_exactHead = str_or_unknown (fld run ''head_sha''), v_ci = str_or_unknown (fld run ''ci_status''),
       v_risk = em_dash, v_blocker = em_dash, v_now = em_dash, v_next = em_dash,
       v_events_count = length events, v_anomalyCount = 0, v_events = events,
       v_gates = rows_by ''gate_id'' (rd_gates d), v_nodes = rows_by ''node_id'' (rd_nodes d), v_anomaly_list = [] \<rparr>)"

fun backend_name :: "backend \<Rightarrow> string" where
  "backend_name Supabase_publishable = ''supabase_publishable''"
| "backend_name Supabase_service = ''supabase_service''"
| "backend_name Backend_none = ''none''"

fun status_name :: "projectionStatus \<Rightarrow> string" where
  "status_name AVAILABLE = ''AVAILABLE''"
| "status_name STATUS_UNAVAILABLE = ''PROJECTION_UNAVAILABLE''"

text \<open>What the page is given besides the run: the two graph drawings, date parsing and collation, and the live view.\<close>

record pageEnv =
  pe_graphFlow :: "graphNode list \<Rightarrow> graphEdge list \<Rightarrow> paneAction vdom"
  pe_dagFlow :: "dagNode list \<Rightarrow> dagEdge list \<Rightarrow> paneAction vdom"
  pe_date :: date_parse
  pe_localeCompare :: "jsstring \<Rightarrow> jsstring \<Rightarrow> int"

definition page_panes :: "pageEnv \<Rightarrow> jsstring \<Rightarrow> runView \<Rightarrow> runHierarchy \<Rightarrow> jsstring option \<Rightarrow> event list \<Rightarrow> liveView \<Rightarrow> replayPane \<Rightarrow>
    paneAction vdom list" where
  "page_panes pe runId run h activeId es view rp = [
     RootCard run (Some SUPABASE_READINESS),
     RunGraphView (pe_graphFlow pe) h activeId,
     DagView (pe_dagFlow pe) (v_gates run) (v_nodes run) (map_of DAG_EDGES (v_runId run)),
     Timeline (v_events run),
     EvidenceInspector (v_events run) (v_anomaly_list run),
     LiveProjectionPane view,
     ReplayPane runId False rp,
     ReviewPane (pe_date pe) (pe_localeCompare pe) runId es False]"

datatype pageResult = NotFound | Rendered "paneAction vdom"

definition MOCK_BACKEND :: jsstring where
  "MOCK_BACKEND = js ''mock''"

definition is_mock :: "(string \<Rightarrow> jsstring option) \<Rightarrow> bool" where
  "is_mock env \<longleftrightarrow> env ''OBSERVATORY_DATA_SOURCE'' = Some (js ''mock'')"

definition mono_badge :: "string \<Rightarrow> jsstring \<Rightarrow> 'a vdom" where
  "mono_badge tid t = El ''p'' [testid tid, cls ''text-xs font-mono rounded border border-muted px-2 py-1 inline-block''] [Txt t]"

definition mock_page :: "pageEnv \<Rightarrow> bundles \<Rightarrow> jsstring \<Rightarrow> liveView \<Rightarrow> replayPane \<Rightarrow> pageResult" where
  "mock_page pe bundles runId view rp = (case getRun bundles runId Mock of None \<Rightarrow> NotFound
     | Some run \<Rightarrow>
       let h = buildHierarchy run Mock; activeId = (if v_runId run = MOCK_RUN_ID then Some (js ''#80'') else None);
           es = getMockProjectionEvents bundles runId
       in Rendered (El ''section'' [cls ''space-y-6''] (page_panes pe runId run h activeId es view rp @ [
         El ''p'' [cls ''text-xs text-muted''] [Txt (js ''This is a read-only historical projection. No authority, gate, or live state is inferred beyond what the source records. Missing values are shown explicitly as '' @ ([0x201C]) @ em_dash @ ([0x201D] @ js ''. Realtime Broadcast is transport only; the durable store remains the source of truth.''))],
         mono_badge ''data-source-badge'' ((js ''data-source: mock '' @ [0xB7] @ js '' backend: '') @ MOCK_BACKEND @ (js '' '' @ [0xB7] @ js '' run: '') @ v_runId run)])))"

definition degraded_page :: "jsstring \<Rightarrow> paneAction vdom" where
  "degraded_page runId = El ''section'' [cls ''space-y-6''] [El ''div'' [cls ''rounded-lg border border-edge bg-panel p-4''] [
     El ''p'' [cls ''text-sm font-semibold text-accent''] [tx ''PROJECTION_UNAVAILABLE''],
     El ''p'' [cls ''mt-1 text-xs text-muted''] [tx ''Supabase is not configured or the read was denied (RLS). Real run detail is unavailable; no fixture fallback.''],
     El ''p'' [testid ''projection-status'', cls ''mt-3 text-xs font-mono rounded border border-muted px-2 py-1 inline-block'']
       [Txt ((js ''canonicalHistoryAvailable: false '' @ [0xB7] @ js '' projection: PROJECTION_UNAVAILABLE '' @ [0xB7] @ js '' run: '') @ runId)]]]"

definition status_badge :: "runDetail \<Rightarrow> 'a vdom" where
  "status_badge d = mono_badge ''projection-status'' (js ''canonicalHistoryAvailable: '' @
     (if rd_canonicalHistoryAvailable d then js ''true'' else js ''false'') @ (js '' '' @ [0xB7] @ js '' projection: '') @ js (status_name (rd_projectionStatus d)))"

definition real_page :: "pageEnv \<Rightarrow> jsstring \<Rightarrow> runDetail \<Rightarrow> liveView \<Rightarrow> replayPane \<Rightarrow> pageResult" where
  "real_page pe runId d view rp =
     (if rd_degraded d then Rendered (degraded_page runId)
      else if \<not> truthy (rd_run d) then NotFound
      else let run = runViewFromDetail runId d in
        Rendered (El ''section'' [cls ''space-y-6''] (page_panes pe runId run (buildHierarchy run Real) None (rd_events d) view rp @ [
          El ''p'' [cls ''text-xs text-muted''] [Txt (js ''Real read from the publishable/RLS-compatible server path. Exact stored values only; genuinely absent fields shown as '' @ ([0x201C]) @ em_dash @ ([0x201D] @ js ''. Reconstructed historical runs with zero canonical events surface PROJECTION_UNAVAILABLE; canonical history is never synthesized.''))],
          mono_badge ''data-source-badge'' ((js ''data-source: real '' @ [0xB7] @ js '' backend: '') @ js (backend_name (rd_backend d)) @ (js '' '' @ [0xB7] @ js '' run: '') @ v_runId run),
          status_badge d])))"

text \<open>
  The page with its client panes freshly mounted; \<open>view\<close> is what \<open>useLiveProjection\<close> shows for the
  snapshot the page hands over.
\<close>

definition RunDetailPage ::
    "pageEnv \<Rightarrow> bundles \<Rightarrow> (jsstring \<Rightarrow> jsstring \<Rightarrow> 'cl) \<Rightarrow> ('cl \<Rightarrow> query \<Rightarrow> json \<times> bool) \<Rightarrow> (string \<Rightarrow> jsstring option) \<Rightarrow> jsstring \<Rightarrow>
     (event list \<Rightarrow> liveView) \<Rightarrow> pageResult" where
  "RunDetailPage pe bundles mk run env runId view =
     (if is_mock env then
        let es = getMockProjectionEvents bundles runId in mock_page pe bundles runId (view es) (pane_mount es)
      else
        let d = readServerRunDetail mk run env runId None in real_page pe runId d (view (rd_events d)) (pane_mount (rd_events d)))"

section \<open>Run list\<close>

record listItem =
  li_id :: jsstring
  li_source :: jsstring
  li_kind :: jsstring
  li_started :: json

definition real_item :: "json \<Rightarrow> listItem list" where
  "real_item row = (case fld row ''run_id'' of
     JStr i \<Rightarrow> if i \<noteq> [] then [\<lparr> li_id = i, li_source = str_or_unknown (fld row ''source_system''),
         li_kind = str_or_unknown (fld row ''run_kind''),
         li_started = (case fld row ''started_at'' of JStr s \<Rightarrow> JStr s | _ \<Rightarrow> JNull) \<rparr>] else []
   | _ \<Rightarrow> [])"

definition mock_item :: "runView \<Rightarrow> listItem" where
  "mock_item r = \<lparr> li_id = v_runId r, li_source = v_sourceSystem r, li_kind = js ''mock'', li_started = v_startedAt r \<rparr>"

definition run_card :: "(jsstring \<Rightarrow> jsstring) \<Rightarrow> listItem \<Rightarrow> 'a vdom" where
  "run_card encode r = El ''a'' [Attr ''href'' (js ''/runs/'' @ encode (li_id r)),
       cls ''block rounded-lg border border-edge bg-panel p-4 transition-colors hover:border-accent/60''] [
     El ''div'' [cls ''flex items-center justify-between''] [
       El ''span'' [cls ''code text-sm font-medium''] [Txt (li_id r)],
       El ''span'' [cls ''rounded bg-edge px-2 py-0.5 text-[10px] uppercase tracking-wide text-muted''] [Txt (li_source r)]],
     El ''dl'' [cls ''mt-3 grid grid-cols-2 gap-x-4 gap-y-1 text-xs''] [
       El ''div'' [] [El ''dt'' [cls ''text-muted''] [tx ''Kind''], El ''dd'' [cls ''code''] [Txt (li_kind r)]],
       El ''div'' [] [El ''dt'' [cls ''text-muted''] [tx ''Started''],
         El ''dd'' [cls ''code''] [Txt (if nullish (li_started r) then em_dash else jsString (li_started r))]]]]"

definition list_section :: "(jsstring \<Rightarrow> jsstring) \<Rightarrow> bool \<Rightarrow> listItem list \<Rightarrow> string \<Rightarrow> string \<Rightarrow> 'a vdom" where
  "list_section encode degr items source bk = El ''section'' [] [
     El ''h1'' [cls ''mb-1 text-xl font-semibold''] [tx ''Run history''],
     (if degr then El ''div'' [cls ''mb-4 rounded-lg border border-edge bg-panel p-4''] [
        El ''p'' [cls ''text-sm text-accent''] [tx ''PROJECTION_UNAVAILABLE''],
        El ''p'' [cls ''mt-1 text-xs text-muted''] [tx ''Supabase is not configured or the read was denied (RLS). Real run list is unavailable; no fixture fallback.'']]
      else if items = [] then El ''p'' [cls ''mb-4 text-sm text-muted''] [tx ''No runs recorded.'']
      else El ''div'' [cls ''grid gap-3 sm:grid-cols-2 lg:grid-cols-3''] (map (run_card encode) items)),
     El ''div'' [cls ''mt-6 rounded-lg border border-edge bg-panel p-4''] [
       El ''h2'' [cls ''text-sm font-semibold text-accent''] [tx ''Simulated visualizations''],
       El ''p'' [cls ''mt-1 text-xs text-muted''] [tx ''Local review-only playground. No real data, no Supabase, no mutations.''],
       El ''a'' [Attr ''href'' (js ''/runs/login-epic''), cls ''mt-3 inline-block rounded border border-accent/50 bg-accent/10 px-3 py-1.5 text-sm text-accent transition-colors hover:bg-accent/20'']
         [Txt (js ''Open Login Epic GWC Runtime Graph '' @ [0x2192])]],
     El ''p'' [testid ''list-data-source-badge'', cls ''mt-6 text-xs font-mono rounded border border-muted px-2 py-1 inline-block'']
       [Txt (js ''data-source: '' @ js source @ (js '' '' @ [0xB7] @ js '' backend: '') @ js bk)]]"

definition RunsPage ::
    "(jsstring \<Rightarrow> jsstring) \<Rightarrow> bundles \<Rightarrow> (jsstring \<Rightarrow> jsstring \<Rightarrow> 'cl) \<Rightarrow> ('cl \<Rightarrow> query \<Rightarrow> json \<times> bool) \<Rightarrow>
     (string \<Rightarrow> jsstring option) \<Rightarrow> 'a vdom" where
  "RunsPage encode bundles mk run env =
     (if is_mock env then list_section encode False (map mock_item (listRuns bundles Mock)) ''mock'' ''mock''
      else let res = readServerRunList mk run env None in
        if rl_degraded res then list_section encode True [] ''real'' ''none''
        else list_section encode False (concat (map real_item (rl_runs res))) ''real'' ''supabase_publishable'')"

section \<open>Sign-in form\<close>

text \<open>\<open>!s.trim()\<close>\<close>

definition blank :: "jsstring \<Rightarrow> bool" where
  "blank s = list_all is_space s"

datatype loginAction = SetEmail jsstring | SetPassword jsstring | Submit

record loginState =
  lg_email :: jsstring
  lg_password :: jsstring
  lg_errEmail :: "jsstring option"
  lg_errPassword :: "jsstring option"
  lg_isSubmitting :: bool
  lg_feedback :: jsstring
  lg_timeouts :: nat

definition handleSubmit :: "loginState \<Rightarrow> loginState" where
  "handleSubmit s =
     (let e = (if blank (lg_email s) then Some (js ''Email is required'') else None);
          p = (if blank (lg_password s) then Some (js ''Password is required'') else None);
          s1 = s\<lparr>lg_errEmail := e, lg_errPassword := p\<rparr>
      in if e \<noteq> None \<or> p \<noteq> None then s1
         else s1\<lparr>lg_isSubmitting := True, lg_feedback := js ''Signing in...'', lg_timeouts := lg_timeouts s + 1\<rparr>)"

definition login_timeout :: "loginState \<Rightarrow> loginState" where
  "login_timeout s = s\<lparr>lg_isSubmitting := False, lg_feedback := js ''Sign-in completed (local only)'', lg_timeouts := lg_timeouts s - 1\<rparr>"

fun login_act :: "loginAction \<Rightarrow> loginState \<Rightarrow> loginState" where
  "login_act (SetEmail v) s = s\<lparr>lg_email := v\<rparr>"
| "login_act (SetPassword v) s = s\<lparr>lg_password := v\<rparr>"
| "login_act Submit s = handleSubmit s"

definition login_start :: loginState where
  "login_start = \<lparr> lg_email = [], lg_password = [], lg_errEmail = None, lg_errPassword = None, lg_isSubmitting = False,
     lg_feedback = [], lg_timeouts = 0 \<rparr>"

definition login_field :: "string \<Rightarrow> string \<Rightarrow> jsstring \<Rightarrow> (jsstring \<Rightarrow> loginAction) \<Rightarrow> jsstring \<Rightarrow> jsstring option \<Rightarrow> loginAction vdom" where
  "login_field i label value upd placeholder err = El ''div'' [] ([
     El ''label'' [Attr ''for'' (js i), cls ''block text-sm font-medium mb-1''] [tx label],
     El ''input'' [Attr ''id'' (js i), Attr ''type'' (js i), Attr ''value'' value, OnText ''change'' upd,
       cls ''w-full rounded border border-edge bg-transparent px-3 py-2 text-sm'', Attr ''placeholder'' placeholder] []] @
     (case err of Some m \<Rightarrow> [El ''p'' [cls ''mt-1 text-xs text-red-400''] [Txt m]] | None \<Rightarrow> []))"

text \<open>A form is submitted through its submit button, and not at all while that is disabled.\<close>

definition LoginPage :: "loginState \<Rightarrow> loginAction vdom" where
  "LoginPage s = El ''div'' [cls ''min-h-screen flex items-center justify-center px-4''] [
     El ''div'' [cls ''w-full max-w-md rounded-lg border border-edge p-8''] [
       El ''h1'' [cls ''text-2xl font-semibold mb-2''] [tx ''DW Run Observatory''],
       El ''p'' [cls ''text-sm text-muted mb-6''] [tx ''Sign in to your account''],
       El ''form'' [testid ''login-form'', cls ''space-y-4''] ([
         login_field ''email'' ''Email'' (lg_email s) SetEmail (js ''you@example.com'') (lg_errEmail s),
         login_field ''password'' ''Password'' (lg_password s) SetPassword ([0x2022, 0x2022, 0x2022, 0x2022, 0x2022, 0x2022, 0x2022, 0x2022]) (lg_errPassword s),
         El ''button'' [Attr ''type'' (js ''submit''), Flag ''disabled'' (lg_isSubmitting s), On ''submit'' Submit,
             cls ''w-full rounded bg-blue-600 px-4 py-2 text-sm font-medium hover:bg-blue-700 disabled:opacity-50'']
           [tx (if lg_isSubmitting s then ''Signing in...'' else ''Sign in'')]] @
         shown_if (lg_feedback s \<noteq> []) (El ''p'' [cls ''text-sm text-muted text-center''] [Txt (lg_feedback s)]))]]"

definition login_env :: "loginState \<Rightarrow> loginState \<Rightarrow> bool" where
  "login_env s s' \<longleftrightarrow> lg_timeouts s > 0 \<and> s' = login_timeout s"

abbreviation login_reachable :: "loginState \<Rightarrow> bool" where
  "login_reachable \<equiv> ui_reachable (\<lambda>s. s = login_start) login_env (\<lambda>s. Some (LoginPage s)) (\<lambda>a s. Some (login_act a s))"

definition one_timeout :: "loginState \<Rightarrow> bool" where
  "one_timeout s \<longleftrightarrow> lg_timeouts s = (if lg_isSubmitting s then 1 else 0)"

lemma submit_offered: "Submit \<in> actions (LoginPage s) \<longleftrightarrow> \<not> lg_isSubmitting s"
  by (auto simp: LoginPage_def login_field_def split: option.splits)

lemma one_timeout_act: "one_timeout s \<Longrightarrow> a \<in> actions (LoginPage s) \<Longrightarrow> one_timeout (login_act a s)"
  using submit_offered [of s] by (cases a) (auto simp: one_timeout_def handleSubmit_def Let_def)

interpretation login_page: ui_machine True "\<lambda>s. s = login_start" login_env "\<lambda>s. Some (LoginPage s)" "\<lambda>a s. Some (login_act a s)"
    one_timeout
  by unfold_locales (auto simp: one_timeout_act, auto simp: one_timeout_def login_start_def login_env_def login_timeout_def)

section \<open>What the database returns\<close>

text \<open>
  The columns a query selects, and the documented behaviour of the query service that the page relies
  on: a row of the result has the selected columns and no others.
\<close>

fun split_units :: "code_unit \<Rightarrow> jsstring \<Rightarrow> jsstring list" where
  "split_units c [] = [[]]"
| "split_units c (x # xs) = (if x = c then [] # split_units c xs
     else (case split_units c xs of [] \<Rightarrow> [[x]] | w # ws \<Rightarrow> (x # w) # ws))"

definition columns :: "jsstring \<Rightarrow> jsstring list" where
  "columns s = map (filter (\<lambda>c. c \<noteq> 32)) (split_units 44 s)"

definition projects_columns :: "('cl \<Rightarrow> query \<Rightarrow> json \<times> bool) \<Rightarrow> bool" where
  "projects_columns run \<longleftrightarrow> (\<forall>cl q row k. row \<in> set (toRows (fst (run cl q))) \<longrightarrow> jfield row k \<noteq> JUndef \<longrightarrow>
     k \<in> set (columns (q_select q)))"

definition without_status :: "json \<Rightarrow> bool" where
  "without_status row \<longleftrightarrow> fld row ''status'' = JUndef \<and> fld row ''node'' = JUndef"

lemma no_status_column:
  "js ''status'' \<notin> set (columns GATE_COLUMNS)" "js ''node'' \<notin> set (columns GATE_COLUMNS)"
  "js ''status'' \<notin> set (columns NODE_COLUMNS)" "js ''node'' \<notin> set (columns NODE_COLUMNS)"
  by code_simp+

lemma detail_rows_without_status:
  assumes "projects_columns run" and "d = readServerRunDetail mk run env runId None"
    and "row \<in> set (rd_gates d) \<union> set (rd_nodes d)"
  shows "without_status row"
proof -
  have sel: "jfield row k = JUndef" if "row \<in> set (toRows (fst (run cl q)))" "k \<notin> set (columns (q_select q))" for cl q k
    using assms(1) that unfolding projects_columns_def by blast
  have gates: "without_status row" if "row \<in> set (toRows (fst (run cl (by_run tbl GATE_COLUMNS runId ord b))))" for cl tbl ord b
    using sel [OF that] no_status_column by (simp add: without_status_def fld_def by_run_def)
  have nodes: "without_status row" if "row \<in> set (toRows (fst (run cl (by_run tbl NODE_COLUMNS runId ord b))))" for cl tbl ord b
    using sel [OF that] no_status_column by (simp add: without_status_def fld_def by_run_def)
  show ?thesis
    using assms(2,3) gates nodes
    by (auto simp: readServerRunDetail_def degradedDetail_def Let_def split: option.splits prod.splits if_splits)
qed

section \<open>Rows by id\<close>

lemma update_entries: "set (AList.update k v m) \<subseteq> insert (k, v) (set m)"
  by (induction m) auto

lemma rows_by_loop:
  "(k, r) \<in> set (fold (\<lambda>r m. case fld r key of JStr i \<Rightarrow> dict_put i r m | _ \<Rightarrow> m) rows m) \<Longrightarrow> r \<in> set rows \<or> (k, r) \<in> set m"
proof (induction rows arbitrary: m)
  case (Cons x xs)
  let ?m = "case fld x key of JStr i \<Rightarrow> dict_put i x m | _ \<Rightarrow> m"
  have "r \<in> set xs \<or> (k, r) \<in> set ?m" using Cons by simp
  moreover have "(k, r) \<in> set ?m \<Longrightarrow> r = x \<or> (k, r) \<in> set m"
    using update_entries by (fastforce simp: dict_put_def split: json.splits)
  ultimately show ?case by auto
qed simp

lemma rows_by_values: "map_of (rows_by key rows) k = Some r \<Longrightarrow> r \<in> set rows"
  using rows_by_loop [of k r key rows "[]"] by (auto simp: rows_by_def dest: map_of_SomeD)

lemma status_unknown: "(\<forall>r\<in>set rows. without_status r) \<Longrightarrow> statusOf (rows_by key rows) i = em_dash"
  by (auto simp: statusOf_def without_status_def Let_def dest!: rows_by_values split: option.split)

lemma dag_status_unknown: "without_status r \<Longrightarrow> dag_status r = js ''unknown''"
  by (simp add: dag_status_def without_status_def)

lemma entries_are_rows: "(k, r) \<in> set (dict_entries (rows_by key rows)) \<Longrightarrow> r \<in> set rows"
proof -
  assume "(k, r) \<in> set (dict_entries (rows_by key rows))"
  then have "k \<in> fst ` set (rows_by key rows)" "r = the (map_of (rows_by key rows) k)"
    by (auto simp: dict_entries_def own_keys_set)
  then show ?thesis using rows_by_values [of key rows k r] by (auto simp: map_of_eq_None_iff)
qed

section \<open>Properties\<close>

text \<open>The text at the very end of a rendered tree.\<close>

fun last_text :: "'a vdom \<Rightarrow> jsstring" where
  "last_text (Txt s) = s"
| "last_text (El t as kids) = (if kids = [] then [] else last (map last_text kids))"

text \<open>All reads of the run detail succeed; then the rows they return.\<close>

definition reads_succeed :: "(jsstring \<Rightarrow> jsstring \<Rightarrow> 'cl) \<Rightarrow> ('cl \<Rightarrow> query \<Rightarrow> json \<times> bool) \<Rightarrow> (string \<Rightarrow> jsstring option) \<Rightarrow> jsstring \<Rightarrow> bool" where
  "reads_succeed mk run env runId = (case built_client mk env None of None \<Rightarrow> False
     | Some (cl, _) \<Rightarrow> \<not> snd (run cl (by_run (js ''runs'') RUN_COLUMNS runId None True)) \<and>
         \<not> snd (run cl (by_run (js ''run_gates'') GATE_COLUMNS runId (Some (js ''gate_id'')) False)) \<and>
         \<not> snd (run cl (by_run (js ''run_nodes'') NODE_COLUMNS runId (Some (js ''node_id'')) False)) \<and>
         \<not> snd (run cl (by_run (js ''projection_events'') EVENT_COLUMNS runId (Some (js ''projection_ordinal'')) False)))"

definition event_rows :: "(jsstring \<Rightarrow> jsstring \<Rightarrow> 'cl) \<Rightarrow> ('cl \<Rightarrow> query \<Rightarrow> json \<times> bool) \<Rightarrow> (string \<Rightarrow> jsstring option) \<Rightarrow> jsstring \<Rightarrow> json list" where
  "event_rows mk run env runId = (case built_client mk env None of None \<Rightarrow> []
     | Some (cl, _) \<Rightarrow> toRows (fst (run cl (by_run (js ''projection_events'') EVENT_COLUMNS runId (Some (js ''projection_ordinal'')) False))))"

definition run_row :: "(jsstring \<Rightarrow> jsstring \<Rightarrow> 'cl) \<Rightarrow> ('cl \<Rightarrow> query \<Rightarrow> json \<times> bool) \<Rightarrow> (string \<Rightarrow> jsstring option) \<Rightarrow> jsstring \<Rightarrow> json" where
  "run_row mk run env runId = (case built_client mk env None of None \<Rightarrow> JNull
     | Some (cl, _) \<Rightarrow> fst (run cl (by_run (js ''runs'') RUN_COLUMNS runId None True)))"

lemma detail_degraded: "rd_degraded (readServerRunDetail mk run env runId None) \<longleftrightarrow> \<not> reads_succeed mk run env runId"
  by (auto simp: readServerRunDetail_def reads_succeed_def degradedDetail_def Let_def split: option.split)

lemma detail_of_reads:
  assumes "reads_succeed mk run env runId"
  shows "let d = readServerRunDetail mk run env runId None in
    (truthy (rd_run d) \<longleftrightarrow> truthy (run_row mk run env runId)) \<and>
    (rd_canonicalHistoryAvailable d \<longleftrightarrow> event_rows mk run env runId \<noteq> []) \<and>
    rd_projectionStatus d = (if event_rows mk run env runId \<noteq> [] then AVAILABLE else STATUS_UNAVAILABLE)"
proof -
  obtain cl b where "built_client mk env None = Some (cl, b)"
    using assms by (auto simp: reads_succeed_def split: option.splits)
  moreover have "truthy (if nullish v then JNull else v) = truthy v" for v by (cases v) auto
  ultimately show ?thesis
    using assms by (auto simp: readServerRunDetail_def reads_succeed_def event_rows_def run_row_def Let_def)
qed

text \<open>
  C26. What the run page claims about the database is true. In real mode the page is the not-found page
  exactly when every read succeeded and there is no such run; otherwise it renders, and its status line
  says that canonical history is available exactly when every read succeeded and at least one event row
  came back, that the projection is unavailable when there was no event row, and so too, with the run
  id, when a read failed or nothing was configured. The fixtures have no part in it.
\<close>

theorem real_page_tells_truth:
  assumes "\<not> is_mock env"
  shows "(case RunDetailPage pe bundles mk run env runId view of
      NotFound \<Rightarrow> reads_succeed mk run env runId \<and> \<not> truthy (run_row mk run env runId)
    | Rendered page \<Rightarrow> (reads_succeed mk run env runId \<longrightarrow> truthy (run_row mk run env runId)) \<and>
        last_text page =
          (if \<not> reads_succeed mk run env runId then
             (js ''canonicalHistoryAvailable: false '' @ [0xB7] @ js '' projection: PROJECTION_UNAVAILABLE '' @ [0xB7] @ js '' run: '') @ runId
           else if event_rows mk run env runId \<noteq> [] then (js ''canonicalHistoryAvailable: true '' @ [0xB7] @ js '' projection: AVAILABLE'')
           else (js ''canonicalHistoryAvailable: false '' @ [0xB7] @ js '' projection: PROJECTION_UNAVAILABLE''))) \<and>
    RunDetailPage pe bundles mk run env runId view = RunDetailPage pe bundles' mk run env runId view"
  using assms detail_degraded [of mk run env runId] detail_of_reads [of mk run env runId]
  by (auto simp: RunDetailPage_def real_page_def degraded_page_def status_badge_def mono_badge_def page_panes_def Let_def)
    (simp_all add: js_def)


text \<open>
  The sign-in form runs one sign-in at a time. Over any sequence of edits, submissions the form
  accepts and timeouts, it is submitting exactly while its one timeout is pending, and it can be
  submitted exactly when it is not.
\<close>

theorem login_one_at_a_time:
  assumes "login_reachable s"
  shows "lg_timeouts s = (if lg_isSubmitting s then 1 else 0) \<and> (Submit \<in> actions (LoginPage s) \<longleftrightarrow> \<not> lg_isSubmitting s)"
  using login_page.reachable_inv [OF assms] submit_offered by (simp add: one_timeout_def)

text \<open>After a completed sign-in, a submission that is refused still shows the old success message.\<close>

lemma stale_feedback:
  "lg_feedback (handleSubmit (login_timeout s\<lparr>lg_email := []\<rparr>)) = js ''Sign-in completed (local only)'' \<and>
   lg_errEmail (handleSubmit (login_timeout s\<lparr>lg_email := []\<rparr>)) = Some (js ''Email is required'')"
  by (simp add: handleSubmit_def login_timeout_def blank_def Let_def)

text \<open>The root card of a real run reports no anomaly, whatever its events are.\<close>

lemma real_anomalies_not_counted: "v_anomalyCount (runViewFromDetail runId d) = 0"
  by (simp add: runViewFromDetail_def Let_def)

section \<open>Witnesses\<close>

definition demo_env :: "string \<Rightarrow> jsstring option" where
  "demo_env k = (if k = ''SUPABASE_URL'' then Some (js ''u'') else if k = ''SUPABASE_READ_PUBLISHABLE_KEY'' then Some (js ''k'') else None)"

text \<open>A database that returns the selected columns of its rows.\<close>

definition project_row :: "jsstring list \<Rightarrow> json \<Rightarrow> json" where
  "project_row cols row = JObj (filter (\<lambda>(k, _). k \<in> set cols) (asRecord row))"

definition demo_rows :: "jsstring \<Rightarrow> json list" where
  "demo_rows tbl = (if tbl = js ''runs'' \<or> tbl = js ''projection_events'' then [JObj [(js ''run_id'', JStr (js ''r''))]]
     else if tbl = js ''run_gates'' then [JObj [(js ''gate_id'', JStr (js ''G0'')), (js ''state'', JStr (js ''done''))]] else [])"

definition demo_db :: "unit \<Rightarrow> query \<Rightarrow> json \<times> bool" where
  "demo_db cl q = (let rows = map (project_row (columns (q_select q))) (demo_rows (q_from q)) in
     (if q_maybeSingle q then (if rows = [] then JNull else hd rows) else JArr rows, False))"

lemma project_row_field: "jfield (project_row cols row) k \<noteq> JUndef \<Longrightarrow> k \<in> set cols"
  by (auto simp: project_row_def dest!: map_of_SomeD split: option.splits)

lemma demo_db_projects: "projects_columns demo_db"
proof -
  have "\<exists>r. row = project_row (columns (q_select q)) r" if "row \<in> set (toRows (fst (demo_db cl q)))" for row cl q
    using that by (cases "demo_rows (q_from q)") (auto simp: demo_db_def Let_def project_row_def split: if_splits)
  then show ?thesis using project_row_field unfolding projects_columns_def by metis
qed

definition demo_page :: pageEnv where
  "demo_page = \<lparr> pe_graphFlow = (\<lambda>_ _. Txt []), pe_dagFlow = (\<lambda>_ _. Txt []), pe_date = (\<lambda>_. None), pe_localeCompare = cmp_units \<rparr>"

abbreviation demo_client :: "jsstring \<Rightarrow> jsstring \<Rightarrow> unit" where
  "demo_client \<equiv> \<lambda>_ _. ()"

lemma demo_built: "built_client demo_client demo_env None = Some ((), Supabase_publishable)"
  by (simp add: built_client_def run_createServerClient_def run_readServerConfig_def env_value_def demo_env_def given_def js_def)

theorem real_page_tells_truth_witness:
  "\<exists>page. RunDetailPage demo_page [] demo_client demo_db demo_env (js ''r'') (\<lambda>_. view_of (new_client [])) = Rendered page \<and>
     last_text page = (js ''canonicalHistoryAvailable: true '' @ [0xB7] @ js '' projection: AVAILABLE'')"
proof -
  have m: "\<not> is_mock demo_env" by (simp add: is_mock_def demo_env_def)
  have "reads_succeed demo_client demo_db demo_env (js ''r'')"
    by (simp add: reads_succeed_def demo_built demo_db_def Let_def)
  moreover have "truthy (run_row demo_client demo_db demo_env (js ''r''))"
    by (simp add: run_row_def demo_built demo_db_def by_run_def demo_rows_def project_row_def)
  moreover have "event_rows demo_client demo_db demo_env (js ''r'') \<noteq> []"
    by (simp add: event_rows_def demo_built demo_db_def by_run_def demo_rows_def)
  ultimately show ?thesis
    using real_page_tells_truth [OF m, where pe = demo_page and bundles = "[]" and bundles' = "[]" and mk = demo_client and run = demo_db and
      runId = "js ''r''" and view = "\<lambda>_. view_of (new_client [])"]
    by (cases "RunDetailPage demo_page [] demo_client demo_db demo_env (js ''r'') (\<lambda>_. view_of (new_client []))") auto
qed


theorem login_one_at_a_time_witness: "lg_timeouts (login_act Submit login_start) = 0"
proof -
  have "Submit \<in> actions (LoginPage login_start)" by (simp add: LoginPage_def login_start_def)
  then have "login_reachable (login_act Submit login_start)" by (auto intro: ui_used ui_start)
  from login_one_at_a_time [OF this] show ?thesis
    by (auto simp: handleSubmit_def login_start_def blank_def Let_def)
qed

end
