(* ===== verification/SimDom.thy ===== *)
theory SimDom
  imports SimUI
begin

text \<open>
  The document behind the page of the simulated run. \<open>SimRunView\<close> edits it directly in three places that
  React does not know of: Expand and Collapse change the class list of the gate sections, \<open>selectTab\<close>
  changes the class lists of the tabs and panes and the \<open>hidden\<close> property of the panes, and \<open>zoomTo\<close>
  sets a style. React writes an attribute only when the value it was given changes from one rendering
  to the next, so such an edit stays until then. The tabs and panes are given the same attributes in
  every rendering, so React never touches them after the first.

  The tab effect adds a listener to every tab each time a selection is set. Its clean-up removes a
  function it has just created, which removes nothing, so listeners accumulate and a click runs
  \<open>selectTab\<close> once for each of them.
\<close>

section \<open>Class lists\<close>

definition cl_add :: "string \<Rightarrow> string list \<Rightarrow> string list" where
  "cl_add t ts = (if t \<in> set ts then ts else ts @ [t])"

definition cl_remove :: "string \<Rightarrow> string list \<Rightarrow> string list" where
  "cl_remove t ts = filter (\<lambda>u. u \<noteq> t) ts"

definition cl_toggle :: "string \<Rightarrow> bool \<Rightarrow> string list \<Rightarrow> string list" where
  "cl_toggle t force ts = (if force then cl_add t ts else cl_remove t ts)"

section \<open>Document\<close>

record simDoc =
  sd_page :: pageState
  sd_gates :: "string list list"
  sd_tabs :: "string list list"
  sd_panes :: "(string list \<times> bool) list"
  sd_scale :: "rat option"
  sd_listeners :: nat

text \<open>The class of a gate section as React is given it.\<close>

definition gate_tokens :: "simRun \<Rightarrow> pageState \<Rightarrow> simGate \<Rightarrow> string list" where
  "gate_tokens run p g = [''sr-gate''] @ (if sg_id g \<in> set (pg_collapsed p) then [''collapsed''] else []) @
     (if isGateActiveAt run (sg_id g) (sv_cursor (pg_view p)) then [''active''] else [])"

definition doc_mount :: "simRun \<Rightarrow> simDoc" where
  "doc_mount run = \<lparr> sd_page = page_mount run, sd_gates = map (gate_tokens run (page_mount run)) (sr_gates run),
     sd_tabs = map (\<lambda>_. [''sr-tab'']) TABS, sd_panes = map (\<lambda>t. ([''sr-tab-pane''], t \<noteq> ''overview'')) TABS,
     sd_scale = None, sd_listeners = 1 \<rparr>"

text \<open>A rendering: only a gate section whose class changes is written.\<close>

definition commit :: "simRun \<Rightarrow> pageState \<Rightarrow> simDoc \<Rightarrow> simDoc" where
  "commit run p' d = d\<lparr>sd_page := p', sd_gates := map2 (\<lambda>g c.
     if gate_tokens run p' g = gate_tokens run (sd_page d) g then c else gate_tokens run p' g) (sr_gates run) (sd_gates d)\<rparr>"

definition edit_tab :: "jsstring \<Rightarrow> string \<Rightarrow> string list \<Rightarrow> string list" where
  "edit_tab tab t c = cl_toggle ''active'' (js t = tab) c"

definition edit_pane :: "jsstring \<Rightarrow> string \<Rightarrow> string list \<times> bool \<Rightarrow> string list \<times> bool" where
  "edit_pane tab t p = (cl_toggle ''active'' (js t = tab) (fst p), js t \<noteq> tab)"

definition selectTab :: "jsstring \<Rightarrow> simDoc \<Rightarrow> simDoc" where
  "selectTab tab d = d\<lparr>sd_page := (sd_page d)\<lparr>pg_view := (pg_view (sd_page d))\<lparr>sv_activeTab := tab\<rparr>\<rparr>,
     sd_tabs := map2 (edit_tab tab) TABS (sd_tabs d), sd_panes := map2 (edit_pane tab) TABS (sd_panes d)\<rparr>"

text \<open>The actions whose handler sets the selection, which is a new object every time.\<close>

fun sets_selection :: "simRun \<Rightarrow> simAction \<Rightarrow> simView \<Rightarrow> bool" where
  "sets_selection run STick v = (sv_timer v \<and> sv_cursor v < int (timelineLength run) - 1)"
| "sets_selection run (SMode m) v = (m \<noteq> sv_mode v \<and> m = P_LIVE)"
| "sets_selection run SPlayToggle v = False"
| "sets_selection run (SSpeed ms) v = False"
| "sets_selection run (SOpen path kind) v = False"
| "sets_selection run SCloseModal v = False"
| "sets_selection run (STab tab) v = False"
| "sets_selection run _ v = True"

definition tab_effect :: "bool \<Rightarrow> simDoc \<Rightarrow> simDoc" where
  "tab_effect changed d = (if changed then d\<lparr>sd_listeners := Suc (sd_listeners d)\<rparr> else d)"

fun doc_act :: "simRun \<Rightarrow> pageAction \<Rightarrow> simDoc \<Rightarrow> simDoc option" where
  "doc_act run ExpandAll d = Some (d\<lparr>sd_gates := map (cl_remove ''collapsed'') (sd_gates d)\<rparr>)"
| "doc_act run CollapseAll d = Some (d\<lparr>sd_gates := map (cl_add ''collapsed'') (sd_gates d)\<rparr>)"
| "doc_act run (Player (STab tab)) d = Some ((selectTab tab ^^ sd_listeners d) d)"
| "doc_act run (Player a) d = map_option (\<lambda>p. tab_effect (sets_selection run a (pg_view (sd_page d))) (commit run p d))
     (page_act run (Player a) (sd_page d))"
| "doc_act run (ZoomTo z) d = map_option (\<lambda>p. (commit run p d)\<lparr>sd_scale := Some (pg_zoom p)\<rparr>) (page_act run (ZoomTo z) (sd_page d))"
| "doc_act run a d = map_option (\<lambda>p. commit run p d) (page_act run a (sd_page d))"

definition doc_tick :: "simRun \<Rightarrow> simDoc \<Rightarrow> simDoc \<Rightarrow> bool" where
  "doc_tick run d d' \<longleftrightarrow> doc_act run (Player STick) d = Some d'"

abbreviation doc_reachable :: "simRun \<Rightarrow> simDoc \<Rightarrow> bool" where
  "doc_reachable run \<equiv> ui_reachable (\<lambda>d. d = doc_mount run) (doc_tick run) (\<lambda>d. SimRunView run (sd_page d)) (doc_act run)"

text \<open>What the style sheet hides: the body of a gate whose class list has \<open>collapsed\<close>.\<close>

definition shown_collapsed :: "simDoc \<Rightarrow> nat \<Rightarrow> bool" where
  "shown_collapsed d i \<longleftrightarrow> ''collapsed'' \<in> set (sd_gates d ! i)"

section \<open>Lemmas\<close>

lemma cl_member [simp]:
  "u \<in> set (cl_add t ts) \<longleftrightarrow> u = t \<or> u \<in> set ts" "u \<in> set (cl_remove t ts) \<longleftrightarrow> u \<noteq> t \<and> u \<in> set ts"
  "u \<in> set (cl_toggle t b ts) \<longleftrightarrow> (if u = t then b else u \<in> set ts)"
  by (auto simp: cl_add_def cl_remove_def cl_toggle_def)

text \<open>The token list is the class attribute that \<open>GateContainer\<close> renders.\<close>

lemma gate_class_text:
  "\<exists>kids. GateContainer run (pg_view p) (sg_id g \<in> set (pg_collapsed p)) g =
     El ''section'' [Attr ''class'' (js_join (js '' '') (map js (gate_tokens run p g))), Attr ''data-gate-id'' (sg_id g)] kids"
  by (simp add: GateContainer_def gate_tokens_def js_def)

lemma toggle_idem: "cl_toggle t b (cl_toggle t b ts) = cl_toggle t b ts"
  by (auto simp: cl_toggle_def cl_add_def cl_remove_def)

lemma map2_idem:
  assumes "\<And>x y. f x (f x y) = f x y"
  shows "map2 f xs (map2 f xs ys) = map2 f xs ys"
proof (induction xs arbitrary: ys)
  case (Cons x xs)
  then show ?case by (cases ys) (auto simp: assms)
qed simp

lemma edits_idem: "edit_tab tab t (edit_tab tab t c) = edit_tab tab t c" "edit_pane tab t (edit_pane tab t p) = edit_pane tab t p"
  by (simp_all add: edit_tab_def edit_pane_def toggle_idem)

lemma selectTab_idem: "selectTab tab (selectTab tab d) = selectTab tab d"
  by (simp add: selectTab_def map2_idem [of "edit_tab tab", OF edits_idem(1)] map2_idem [of "edit_pane tab", OF edits_idem(2)])

text \<open>However many listeners a tab has collected, a click does what one of them does.\<close>

lemma selectTab_funpow: "n > 0 \<Longrightarrow> (selectTab tab ^^ n) d = selectTab tab d"
proof (induction n)
  case (Suc n)
  then show ?case by (cases n) (auto simp: selectTab_idem)
qed simp

section \<open>What the document shows\<close>

lemma gate_active [simp]: "''active'' \<in> set (gate_tokens run p g) \<longleftrightarrow> isGateActiveAt run (sg_id g) (sv_cursor (pg_view p))"
  by (simp add: gate_tokens_def)

lemma gate_collapsed [simp]: "''collapsed'' \<in> set (gate_tokens run p g) \<longleftrightarrow> sg_id g \<in> set (pg_collapsed p)"
  by (simp add: gate_tokens_def)

definition gates_ok :: "simRun \<Rightarrow> simDoc \<Rightarrow> bool" where
  "gates_ok run d \<longleftrightarrow> list_all2 (\<lambda>g c. ''active'' \<in> set c \<longleftrightarrow> isGateActiveAt run (sg_id g) (sv_cursor (pg_view (sd_page d))))
     (sr_gates run) (sd_gates d)"

text \<open>Before the first click no tab is marked; after it exactly the tab of the state is.\<close>

definition tabs_ok :: "simDoc \<Rightarrow> bool" where
  "tabs_ok d \<longleftrightarrow> (let tab = sv_activeTab (pg_view (sd_page d)) in
     length (sd_tabs d) = length TABS \<and> map snd (sd_panes d) = map (\<lambda>t. js t \<noteq> tab) TABS \<and>
     (sd_tabs d = map (\<lambda>_. [''sr-tab'']) TABS \<or> map (\<lambda>c. ''active'' \<in> set c) (sd_tabs d) = map (\<lambda>t. js t = tab) TABS))"

definition doc_ok :: "simRun \<Rightarrow> simDoc \<Rightarrow> bool" where
  "doc_ok run d \<longleftrightarrow> sim_ok run (pg_view (sd_page d)) \<and> sd_listeners d > 0 \<and> gates_ok run d \<and> tabs_ok d \<and>
     pg_zoom (sd_page d) = (case sd_scale d of None \<Rightarrow> 1 | Some z \<Rightarrow> z)"

lemma activeTab_act: "sim_act run a v = Some v' \<Longrightarrow> (\<And>tab. a \<noteq> STab tab) \<Longrightarrow> sv_activeTab v' = sv_activeTab v"
  by (cases a) (auto simp: sim_tick_def sim_mode_def goTo_def onSelectNode_def onSelectGate_def openArtifact_def sim_play_def
    sim_stop_def select_step_def Let_def split: if_splits option.splits)

lemma gates_ok_commit: "gates_ok run d \<Longrightarrow> gates_ok run (commit run p d)"
  by (auto simp: gates_ok_def commit_def list_all2_conv_all_nth) (metis gate_active)+

lemma tabs_ok_cong:
  "sd_tabs d' = sd_tabs d \<Longrightarrow> sd_panes d' = sd_panes d \<Longrightarrow>
   sv_activeTab (pg_view (sd_page d')) = sv_activeTab (pg_view (sd_page d)) \<Longrightarrow> tabs_ok d' = tabs_ok d"
  by (simp add: tabs_ok_def)

lemma tabs_ok_select: "tabs_ok d \<Longrightarrow> tabs_ok (selectTab tab d)"
proof -
  assume ok: "tabs_ok d"
  then have "length (sd_tabs d) = length TABS" "length (sd_panes d) = length TABS"
    by (auto simp: tabs_ok_def Let_def dest: arg_cong [where f = length])
  then show ?thesis
    by (simp add: tabs_ok_def Let_def selectTab_def edit_tab_def edit_pane_def split_beta comp_def map2_map_map)
      (simp add: list_eq_iff_nth_eq)
qed

lemma mounted_page: "pg_view (page_mount run) = sim_mount run" "pg_zoom (page_mount run) = 1" "sv_activeTab (sim_mount run) = js ''overview''"
  by (simp_all add: page_mount_def sim_mount_def)

lemma doc_ok_mount: "doc_ok run (doc_mount run)"
  by (simp add: doc_ok_def doc_mount_def gates_ok_def tabs_ok_def mounted_page sim_ok_mount list_all2_map2 list.rel_refl)

lemma commit_fields [simp]:
  "sd_page (commit run p d) = p" "sd_tabs (commit run p d) = sd_tabs d" "sd_panes (commit run p d) = sd_panes d"
  "sd_scale (commit run p d) = sd_scale d" "sd_listeners (commit run p d) = sd_listeners d"
  by (simp_all add: commit_def)

lemma tab_effect_fields [simp]:
  "sd_page (tab_effect b d) = sd_page d" "sd_tabs (tab_effect b d) = sd_tabs d" "sd_panes (tab_effect b d) = sd_panes d"
  "sd_scale (tab_effect b d) = sd_scale d" "sd_gates (tab_effect b d) = sd_gates d"
  "sd_listeners (tab_effect b d) = sd_listeners d + (if b then 1 else 0)"
  by (simp_all add: tab_effect_def)

lemma gates_ok_cong: "sd_gates d' = sd_gates d \<Longrightarrow> sv_cursor (pg_view (sd_page d')) = sv_cursor (pg_view (sd_page d)) \<Longrightarrow>
    gates_ok run d' = gates_ok run d"
  by (simp add: gates_ok_def)

lemma gates_ok_map: "(\<And>c. ''active'' \<in> set (f c) \<longleftrightarrow> ''active'' \<in> set c) \<Longrightarrow> gates_ok run (d\<lparr>sd_gates := map f (sd_gates d)\<rparr>) = gates_ok run d"
  by (simp add: gates_ok_def list_all2_map2)

lemma doc_ok_edit:
  assumes "doc_ok run d" and "\<And>c. ''active'' \<in> set (f c) \<longleftrightarrow> ''active'' \<in> set c"
  shows "doc_ok run (d\<lparr>sd_gates := map f (sd_gates d)\<rparr>)"
  using assms gates_ok_map [OF assms(2)] by (simp add: doc_ok_def tabs_ok_def)

lemma doc_ok_selectTab: "doc_ok run d \<Longrightarrow> doc_ok run (selectTab tab d)"
  using tabs_ok_select [of d tab] by (simp add: doc_ok_def sim_ok_def gates_ok_def selectTab_def)

lemma doc_ok_player:
  assumes "doc_ok run d" and "clickable run a" and "\<And>tab. a \<noteq> STab tab" and "page_act run (Player a) (sd_page d) = Some p"
  shows "doc_ok run (tab_effect b (commit run p d))"
proof -
  obtain v where v: "sim_act run a (pg_view (sd_page d)) = Some v" "p = (sd_page d)\<lparr>pg_view := v\<rparr>" using assms(4) by auto
  then have "sim_ok run v" "sv_activeTab v = sv_activeTab (pg_view (sd_page d))"
    using assms(1-3) sim_ok_act activeTab_act by (auto simp: doc_ok_def)
  moreover have "gates_ok run (tab_effect b (commit run p d))"
    using gates_ok_commit [of run d p] assms(1) gates_ok_cong [of "tab_effect b (commit run p d)" "commit run p d"] by (simp add: doc_ok_def)
  moreover have "tabs_ok (tab_effect b (commit run p d)) = tabs_ok d" using calculation v by (intro tabs_ok_cong) auto
  ultimately show ?thesis using assms(1) v by (simp add: doc_ok_def split: option.splits)
qed

lemma doc_ok_commit:
  assumes "doc_ok run d" and "pg_view p = pg_view (sd_page d)" and "pg_zoom p = (case z of None \<Rightarrow> 1 | Some z \<Rightarrow> z)"
  shows "doc_ok run ((commit run p d)\<lparr>sd_scale := z\<rparr>)"
proof -
  let ?d = "(commit run p d)\<lparr>sd_scale := z\<rparr>"
  have "gates_ok run ?d" using gates_ok_commit [of run d p] assms(1) gates_ok_cong [of ?d "commit run p d"] by (simp add: doc_ok_def)
  moreover have "tabs_ok ?d = tabs_ok d" using assms(2) by (intro tabs_ok_cong) auto
  ultimately show ?thesis using assms by (simp add: doc_ok_def)
qed

lemma doc_act_player:
  "(\<And>tab. a \<noteq> STab tab) \<Longrightarrow> doc_act run (Player a) d =
     map_option (\<lambda>p. tab_effect (sets_selection run a (pg_view (sd_page d))) (commit run p d)) (page_act run (Player a) (sd_page d))"
  by (cases a) auto

lemma doc_ok_rerender:
  assumes "doc_ok run d" and "pg_view p = pg_view (sd_page d)" and "pg_zoom p = pg_zoom (sd_page d)"
  shows "doc_ok run (commit run p d)"
proof -
  have "(commit run p d)\<lparr>sd_scale := sd_scale d\<rparr> = commit run p d" by (simp add: commit_def)
  with doc_ok_commit [OF assms(1,2), of "sd_scale d"] assms show ?thesis by (simp add: doc_ok_def)
qed

lemma doc_ok_act:
  assumes "doc_ok run d" and "doc_act run a d = Some d'" and "\<And>b. a = Player b \<Longrightarrow> clickable run b"
  shows "doc_ok run d'"
proof (cases a)
  case (Player b)
  show ?thesis
  proof (cases "\<exists>tab. b = STab tab")
    case True
    then show ?thesis using assms Player doc_ok_selectTab by (auto simp: doc_ok_def selectTab_funpow)
  next
    case False
    then show ?thesis using assms doc_ok_player doc_act_player Player by (auto simp del: doc_act.simps page_act.simps)
  qed
next
  case (ZoomTo z)
  then show ?thesis using assms(1,2) doc_ok_commit [of run d "zoomTo z (sd_page d)" "Some (pg_zoom (zoomTo z (sd_page d)))"]
    by (auto simp: zoomTo_def)
next
  case (ToggleGate g)
  then show ?thesis using assms(1,2) doc_ok_rerender by auto
next
  case StopPropagation
  then show ?thesis using assms(1,2) doc_ok_rerender by auto
qed (use assms doc_ok_edit in auto)

lemma doc_progress:
  assumes "doc_ok run d" and "timelineLength run > 0"
  shows "\<exists>d'. doc_act run a d = Some d'"
proof -
  have p: "\<exists>p. page_act run a (sd_page d) = Some p" using page_progress assms by (simp add: doc_ok_def)
  then show ?thesis by (cases "(run, a, d)" rule: doc_act.cases) auto
qed

text \<open>The document refines the page: forgetting the edits turns its steps into steps of the page.\<close>

lemma doc_refines_page:
  assumes "doc_ok run d" and "doc_act run a d = Some d'"
  shows "page_act run a (sd_page d) = Some (sd_page d')"
proof (cases "\<exists>tab. a = Player (STab tab)")
  case True
  then show ?thesis using assms by (auto simp: doc_ok_def selectTab_funpow) (simp add: selectTab_def)
next
  case False
  then show ?thesis using assms(2) by (cases "(run, a, d)" rule: doc_act.cases) (auto simp del: page_act.simps simp: page_act.simps(4,5))
qed

interpretation sim_document: ui_machine "well_placed run \<and> timelineLength run > 0" "\<lambda>d. d = doc_mount run" "doc_tick run"
    "\<lambda>d. SimRunView run (sd_page d)" "doc_act run" "doc_ok run" for run
proof unfold_locales
  show "doc_ok run d" if "d = doc_mount run" for d using that doc_ok_mount by simp
  show "doc_ok run d'" if "doc_ok run d" "doc_tick run d d'" for d d'
    using doc_ok_act [of run d "Player STick" d'] that by (simp add: doc_tick_def)
  show "doc_ok run d'" if "well_placed run \<and> timelineLength run > 0" "doc_ok run d" "SimRunView run (sd_page d) = Some v"
      "a \<in> actions v" "doc_act run a d = Some d'" for d v a d'
    using doc_ok_act [of run d a d'] offered_clickable that by blast
  show "\<exists>v. SimRunView run (sd_page d) = Some v" if "well_placed run \<and> timelineLength run > 0" for d
    using page_renders timeline_gate that by blast
  show "\<exists>d'. doc_act run a d = Some d'" if "well_placed run \<and> timelineLength run > 0" "doc_ok run d" for a d
    using doc_progress that by blast
qed

lemma doc_page_reachable:
  assumes "doc_reachable run d" and "well_placed run \<and> timelineLength run > 0"
  shows "page_reachable run (sd_page d)"
  using assms(1)
proof induction
  case (ui_start d)
  then show ?case by (auto simp: doc_mount_def intro: ui_reachable.ui_start)
next
  case (ui_env d d')
  have "doc_ok run d" using sim_document.reachable_inv [OF ui_env.hyps(1) assms(2)] .
  then have "page_tick run (sd_page d) (sd_page d')"
    using doc_refines_page ui_env.hyps(2) unfolding doc_tick_def page_tick_def by blast
  with ui_env.IH show ?case by (rule ui_reachable.ui_env)
next
  case (ui_used d v a d')
  have "doc_ok run d" using sim_document.reachable_inv [OF ui_used.hyps(1) assms(2)] .
  then have "page_act run a (sd_page d) = Some (sd_page d')" using doc_refines_page ui_used.hyps(4) by blast
  with ui_used show ?case by (blast intro: ui_reachable.ui_used)
qed

lemma collapse_overwritten:
  assumes "doc_ok run d" and "doc_act run CollapseAll d = Some d1" and "i < length (sr_gates run)" and "g = sr_gates run ! i"
    and "doc_tick run d1 d2" and "doc_act run (ToggleGate (sg_id g)) d1 = Some d3"
  shows "shown_collapsed d1 i \<and>
    (shown_collapsed d2 i \<longleftrightarrow> sg_id g \<in> set (pg_collapsed (sd_page d)) \<or>
       isGateActiveAt run (sg_id g) (sv_cursor (pg_view (sd_page d2))) = isGateActiveAt run (sg_id g) (sv_cursor (pg_view (sd_page d)))) \<and>
    (sg_id g \<notin> set (pg_collapsed (sd_page d)) \<longrightarrow> shown_collapsed d3 i)"
proof -
  have len: "length (sd_gates d) = length (sr_gates run)" using assms(1) by (auto simp: doc_ok_def gates_ok_def dest: list_all2_lengthD)
  have d1: "sd_gates d1 = map (cl_add ''collapsed'') (sd_gates d)" "sd_page d1 = sd_page d" using assms(2) by auto
  have shown: "shown_collapsed d1 i" using len assms(3) by (simp add: shown_collapsed_def d1)
  have commit: "shown_collapsed (commit run p d1) i \<longleftrightarrow> (gate_tokens run p g = gate_tokens run (sd_page d) g \<or> sg_id g \<in> set (pg_collapsed p))" for p
    using len assms(3,4) shown by (auto simp: shown_collapsed_def commit_def d1)
  obtain v where v: "sim_tick run (pg_view (sd_page d)) = Some v" "sd_gates d2 = sd_gates (commit run ((sd_page d)\<lparr>pg_view := v\<rparr>) d1)"
      "sd_page d2 = (sd_page d)\<lparr>pg_view := v\<rparr>"
    using assms(5) by (auto simp: doc_tick_def d1)
  have "shown_collapsed d2 i \<longleftrightarrow> shown_collapsed (commit run (sd_page d2) d1) i" by (simp add: shown_collapsed_def v)
  moreover have "gate_tokens run (sd_page d2) g = gate_tokens run (sd_page d) g \<longleftrightarrow>
      isGateActiveAt run (sg_id g) (sv_cursor (pg_view (sd_page d2))) = isGateActiveAt run (sg_id g) (sv_cursor (pg_view (sd_page d)))"
    by (simp add: gate_tokens_def v)
  moreover have "shown_collapsed d3 i" if "sg_id g \<notin> set (pg_collapsed (sd_page d))"
  proof -
    have "d3 = commit run ((sd_page d)\<lparr>pg_collapsed := toggle (sg_id g) (pg_collapsed (sd_page d))\<rparr>) d1" using assms(6) by (simp add: d1)
    then show ?thesis unfolding commit using that commit by (simp add: toggle_def)
  qed
  ultimately show ?thesis using shown commit [of "sd_page d2"] by (simp add: v(3) disj_commute)
qed

section \<open>Properties\<close>

text \<open>
  C18. The document says what the state says. After any use of the page the panes that are hidden are
  exactly those of the tabs that are not selected, the gate sections marked active are exactly the gates
  under the cursor, the scale of the drawing is the zoom of the state, and the page shown is again one
  whose every action succeeds, although tabs, panes, scale and class lists are edited behind React's back.
\<close>

theorem document_in_step:
  assumes "well_placed run" and "timelineLength run > 0" and "doc_reachable run d"
  shows "map snd (sd_panes d) = map (\<lambda>t. js t \<noteq> sv_activeTab (pg_view (sd_page d))) TABS \<and>
    map (\<lambda>c. ''active'' \<in> set c) (sd_gates d) = map (\<lambda>g. isGateActiveAt run (sg_id g) (sv_cursor (pg_view (sd_page d)))) (sr_gates run) \<and>
    pg_zoom (sd_page d) = (case sd_scale d of None \<Rightarrow> 1 | Some z \<Rightarrow> z) \<and>
    (\<exists>page. SimRunView run (sd_page d) = Some page \<and> (\<forall>a\<in>actions page. \<exists>d'. doc_act run a d = Some d' \<and> doc_reachable run d'))"
proof -
  have ok: "doc_ok run d" using sim_document.reachable_inv assms by blast
  then have "map (\<lambda>c. ''active'' \<in> set c) (sd_gates d) = map (\<lambda>g. isGateActiveAt run (sg_id g) (sv_cursor (pg_view (sd_page d)))) (sr_gates run)"
    by (auto simp: doc_ok_def gates_ok_def list_all2_conv_all_nth list_eq_iff_nth_eq)
  with ok sim_document.reachable_safe [of run d] assms show ?thesis by (simp add: doc_ok_def tabs_ok_def Let_def)
qed

text \<open>
  Collapse does not last. Pressing Collapse shows every gate collapsed; the next step of the player
  opens exactly the gates whose active state the step changes, unless they were collapsed by their own
  header before; and the first click on the header of a gate that only Collapse closed leaves it closed.
\<close>

theorem collapse_does_not_last:
  assumes "well_placed run" and "timelineLength run > 0" and "doc_reachable run d" and "doc_act run CollapseAll d = Some d1" and "i < length (sr_gates run)" and "g = sr_gates run ! i"
    and "doc_tick run d1 d2" and "doc_act run (ToggleGate (sg_id g)) d1 = Some d3"
  shows "shown_collapsed d1 i \<and>
    (shown_collapsed d2 i \<longleftrightarrow> sg_id g \<in> set (pg_collapsed (sd_page d)) \<or>
       isGateActiveAt run (sg_id g) (sv_cursor (pg_view (sd_page d2))) = isGateActiveAt run (sg_id g) (sv_cursor (pg_view (sd_page d)))) \<and>
    (sg_id g \<notin> set (pg_collapsed (sd_page d)) \<longrightarrow> shown_collapsed d3 i)"
  using collapse_overwritten [OF _ assms(4-8)] sim_document.reachable_inv [OF assms(3)] assms(1,2) by blast

text \<open>
  Listeners pile up: the tab listeners are never removed, one is added by every action that sets a
  selection, and yet a click on a tab has the effect of a single one.
\<close>

theorem listeners_pile_up:
  assumes "doc_ok run d" and "doc_act run (Player a) d = Some d'"
  shows "sd_listeners d' = sd_listeners d + (if sets_selection run a (pg_view (sd_page d)) then 1 else 0) \<and>
    doc_act run (Player (STab tab)) d = Some (selectTab tab d)"
proof -
  have n: "sd_listeners d > 0" using assms(1) by (simp add: doc_ok_def)
  show ?thesis
  proof (cases "\<exists>tab. a = STab tab")
    case True
    then show ?thesis using assms(2) n by (auto simp: selectTab_funpow) (simp add: selectTab_def)
  next
    case False
    then show ?thesis using assms(2) n doc_act_player [of a run d] by (auto simp: selectTab_funpow simp del: page_act.simps)
  qed
qed

lemma doc_started: "doc_reachable run (doc_mount run)"
  by (rule ui_start) simp

theorem document_in_step_witness: "map snd (sd_panes (doc_mount demo_run)) = [False, True, True, True, True]"
  using document_in_step [OF demo_run_placed(1,2) doc_started] by (simp add: doc_mount_def TABS_def)

theorem listeners_pile_up_witness:
  "\<exists>d'. doc_act demo_run (Player SNext) (doc_mount demo_run) = Some d' \<and> sd_listeners d' = 2"
proof -
  obtain d' where d': "doc_act demo_run (Player SNext) (doc_mount demo_run) = Some d'"
    using doc_progress [OF doc_ok_mount demo_run_placed(2)] by blast
  with listeners_pile_up [OF doc_ok_mount d'] show ?thesis by (simp add: doc_mount_def)
qed

text \<open>
  In the two-gate run, playing from the first step after Collapse opens both gates: the step moves the
  active mark from one to the other.
\<close>

lemma collapse_opened_by_step:
  "\<exists>d0 d1 d2. doc_act demo_run (Player SPlayToggle) (doc_mount demo_run) = Some d0 \<and> doc_act demo_run CollapseAll d0 = Some d1 \<and>
     doc_tick demo_run d1 d2 \<and> shown_collapsed d1 1 \<and> \<not> shown_collapsed d2 1"
proof -
  let ?r = demo_run
  obtain d0 where d0: "doc_act ?r (Player SPlayToggle) (doc_mount ?r) = Some d0"
    using doc_progress [OF doc_ok_mount demo_run_placed(2)] by blast
  then have ok: "doc_ok ?r d0" using doc_ok_act [OF doc_ok_mount d0] by simp
  obtain d1 where d1: "doc_act ?r CollapseAll d0 = Some d1" by simp
  then have ok1: "doc_ok ?r d1" using doc_ok_act [OF ok d1] by simp
  obtain d2 d3 where d2: "doc_tick ?r d1 d2" and d3: "doc_act ?r (ToggleGate (sg_id (sr_gates ?r ! 1))) d1 = Some d3"
    using doc_progress [OF ok1 demo_run_placed(2)] unfolding doc_tick_def by blast
  have "1 < length (sr_gates ?r)" by (simp add: demo_run_def)
  note facts = collapse_overwritten [OF ok d1 this refl d2 d3]
  have p0: "sd_page d0 = (page_mount ?r)\<lparr>pg_view := (sim_mount ?r)\<lparr>sv_playing := True, sv_timer := True\<rparr>\<rparr>"
    using d0 by (auto simp: doc_mount_def page_mount_def sim_play_def sim_mount_def)
  have p1: "sd_page d1 = sd_page d0" using d1 by auto
  have tick: "sv_cursor (pg_view (sd_page d2)) = 1"
    using d2 by (auto simp: doc_tick_def p1 p0 sim_tick_def sim_mount_def timelineLength_def demo_timeline step_at_def select_step_def)
  have "sg_id (sr_gates ?r ! 1) = js ''G1''" by (simp add: demo_run_def demo_gate_def)
  moreover have "map ts_gate_id (buildTimeline ?r) = [js ''G1'', js ''G0'']" by (simp add: demo_timeline step_of_def demo_node_def)
  ultimately have act: "isGateActiveAt ?r (sg_id (sr_gates ?r ! 1)) 1 = False" "isGateActiveAt ?r (sg_id (sr_gates ?r ! 1)) 0 = True"
    by (simp_all add: isGateActiveAt_def activeGateIdAt_def step_at_def timelineLength_def demo_timeline)
  have "\<not> shown_collapsed d2 1" "shown_collapsed d1 1"
    using facts act tick by (simp_all add: p0 page_mount_def sim_mount_def)
  with d0 d1 d2 show ?thesis by blast
qed

theorem collapse_does_not_last_witness:
  "\<exists>d1. doc_act demo_run CollapseAll (doc_mount demo_run) = Some d1 \<and> shown_collapsed d1 1"
proof -
  let ?r = demo_run
  obtain d1 where d1: "doc_act ?r CollapseAll (doc_mount ?r) = Some d1" by simp
  then have ok1: "doc_ok ?r d1" using doc_ok_act [OF doc_ok_mount d1] by simp
  obtain d2 d3 where d2: "doc_tick ?r d1 d2" and d3: "doc_act ?r (ToggleGate (sg_id (sr_gates ?r ! 1))) d1 = Some d3"
    using doc_progress [OF ok1 demo_run_placed(2)] unfolding doc_tick_def by blast
  have "1 < length (sr_gates ?r)" by (simp add: demo_run_def)
  from collapse_does_not_last [OF demo_run_placed(1,2) doc_started d1 this refl d2 d3] d1 show ?thesis by blast
qed

end
