(* ===== verification/SimFixture.thy ===== *)
theory SimFixture
  imports SimUI
begin

text \<open>
  The run that the application ships, \<open>fixtures/simRunG0G6.ts\<close>, value by value: seven gates with 54
  runtime nodes.
\<close>

section \<open>Data\<close>

abbreviation event :: "jsstring \<Rightarrow> jsstring \<Rightarrow> jsstring \<Rightarrow> jsstring \<Rightarrow> jsstring list \<Rightarrow> historyEvent" where
  "event event_id type actor outcome evidence \<equiv> \<lparr> he_event_id = event_id, he_type = type, he_actor = actor,
     he_outcome = outcome, he_evidence = Some evidence \<rparr>"

abbreviation checkpoint_at :: "jsstring \<Rightarrow> int \<Rightarrow> jsstring \<Rightarrow> jsstring \<Rightarrow> jsstring \<Rightarrow> jsstring \<Rightarrow> jsstring \<Rightarrow> checkpoint" where
  "checkpoint_at checkpoint_id revision current_node_id next_node_id lease_owner fencing_token status \<equiv>
     \<lparr> cp_checkpoint_id = checkpoint_id, cp_revision = revision, cp_current_node_id = current_node_id,
       cp_next_node_id = next_node_id, cp_lease_owner = lease_owner, cp_fencing_token = fencing_token, cp_status = status \<rparr>"

definition node_01 :: simNode where
  "node_01 = \<lparr>
    sn_node_id = js ''intake_context.source-resolution'',
    sn_title = js ''Source Resolution'',
    sn_description = js ''Resolves whether the active instruction source is REPO, PACKAGE, or MIXED.'',
    sn_node_type = js ''workflow'',
    sn_family = js ''intake_context'',
    sn_authority_boundary = js ''read_only'',
    sn_catalog_path = Some (js ''core/node-architect/node-catalog/intake_context/source-resolution.node.json''),
    sn_source_status = Some (js ''proposed_registry_slot''),
    sn_maturity = Some (js ''experimental''),
    sn_implementation_refs = Some [js ''core/node-architect/node-catalog/intake_context/source-resolution.node.json''],
    sn_declared_gates = Some [js ''G0_CONTEXT''],
    sn_canonical = Some (js ''canonical''),
    sn_gate_id = js ''G0_CONTEXT'',
    sn_gate_label = Some ((js ''G0 '' @ [0xB7] @ js '' Context Boot'')),
    sn_sequence = 1,
    sn_node_label = Some (js ''G0_CONTEXT-N01''),
    sn_artifacts = [js ''.gwc/tasks/SCRUM-SIM-G0G6/session-inventory.json'',
      js ''.gwc/tasks/SCRUM-SIM-G0G6/g0/source-resolution.json''],
    sn_reads = [js ''AGENTS.md'',
      js ''workspace.yaml'',
      js ''.dw/powers/gwc/MANIFEST.json'',
      js ''.dw/powers/gwc/AGENTS.md'',
      js ''core/node-architect/node-registry.json'',
      js ''core/node-architect/runtime-graph-registry.json''],
    sn_runbook = [js ''Read root AGENTS.md'',
      js ''Resolve REPO/PACKAGE/MIXED instruction source'',
      js ''Select validated GWC Power package'',
      js ''Load Node Architect registry and graph''],
    sn_taskcontroller_history = [event (js ''tc-001-admit'') (js ''node_admitted'') (js ''TaskController'') (js ''accepted'')
        [js ''AGENTS.md''],
      event (js ''tc-001-project'') (js ''history_projected'') (js ''TaskController'') (js ''observed'')
        [js ''.gwc/tasks/SCRUM-SIM-G0G6/session-inventory.json'']],
    sn_executor_history = [event (js ''ex-001-start'') (js ''executor_started'') (js ''Hermes Mac / local_agent_sim'') (js ''running'')
        [js ''core/node-architect/node-catalog/intake_context/source-resolution.node.json''],
      event (js ''ex-001-finish'') (js ''executor_finished'') (js ''Hermes Mac / local_agent_sim'') (js ''success'')
        [js ''.gwc/tasks/SCRUM-SIM-G0G6/g0/source-resolution.json'']],
    sn_checkpoints = [checkpoint_at (js ''cp-001'') 1 (js ''intake_context.source-resolution'') (js ''pending'')
        (js ''hermes-mac-sim'') (js ''fnc-75ecfd01'') (js ''done'')],
    sn_options = Some [js ''continue'',
      js ''retry/self-remediate'',
      js ''block for human authority'',
      js ''mark not_applicable when gate conditional''] \<rparr>"

definition node_02 :: simNode where
  "node_02 = \<lparr>
    sn_node_id = js ''intake_context.request-intake'',
    sn_title = js ''Request Intake'',
    sn_description = js ''Normalizes the user request into a bounded intake fact set before any gate decision.'',
    sn_node_type = js ''workflow'',
    sn_family = js ''intake_context'',
    sn_authority_boundary = js ''read_only'',
    sn_catalog_path = Some (js ''core/node-architect/node-catalog/intake_context/request-intake.node.json''),
    sn_source_status = Some (js ''proposed_registry_slot''),
    sn_maturity = Some (js ''experimental''),
    sn_implementation_refs = Some [js ''core/node-architect/node-catalog/intake_context/request-intake.node.json''],
    sn_declared_gates = Some [js ''G0_CONTEXT''],
    sn_canonical = Some (js ''canonical''),
    sn_gate_id = js ''G0_CONTEXT'',
    sn_gate_label = Some ((js ''G0 '' @ [0xB7] @ js '' Context Boot'')),
    sn_sequence = 2,
    sn_node_label = Some (js ''G0_CONTEXT-N02''),
    sn_artifacts = [js ''.gwc/tasks/SCRUM-SIM-G0G6/g0/request-intake.json'',
      js ''.gwc/tasks/SCRUM-SIM-G0G6/g1/intake/g1-intake-brief.yaml''],
    sn_reads = [js ''user request transcript'',
      js ''active project profile''],
    sn_runbook = [js ''Parse user objective'',
      js ''Normalize non-goals'',
      js ''Assign task trace'',
      js ''Classify execution mode''],
    sn_taskcontroller_history = [event (js ''tc-002-admit'') (js ''node_admitted'') (js ''TaskController'') (js ''accepted'')
        [js ''user request transcript''],
      event (js ''tc-002-project'') (js ''history_projected'') (js ''TaskController'') (js ''observed'')
        [js ''.gwc/tasks/SCRUM-SIM-G0G6/g0/request-intake.json'']],
    sn_executor_history = [event (js ''ex-002-start'') (js ''executor_started'') (js ''Hermes Mac / local_agent_sim'') (js ''running'')
        [js ''core/node-architect/node-catalog/intake_context/request-intake.node.json''],
      event (js ''ex-002-finish'') (js ''executor_finished'') (js ''Hermes Mac / local_agent_sim'') (js ''success'')
        [js ''.gwc/tasks/SCRUM-SIM-G0G6/g1/intake/g1-intake-brief.yaml'']],
    sn_checkpoints = [checkpoint_at (js ''cp-002'') 2 (js ''intake_context.request-intake'') (js ''pending'')
        (js ''hermes-mac-sim'') (js ''fnc-75cf5b52'') (js ''done'')],
    sn_options = Some [js ''continue'',
      js ''retry/self-remediate'',
      js ''block for human authority'',
      js ''mark not_applicable when gate conditional''] \<rparr>"

definition node_03 :: simNode where
  "node_03 = \<lparr>
    sn_node_id = js ''intake_context.repo-identity-check'',
    sn_title = js ''Repository Identity Check'',
    sn_description = js ''Verifies repository identity, default branch, protected branch, and execution mode assumptions.'',
    sn_node_type = js ''workflow'',
    sn_family = js ''intake_context'',
    sn_authority_boundary = js ''read_only'',
    sn_catalog_path = Some (js ''core/node-architect/node-catalog/intake_context/repo-identity-check.node.json''),
    sn_source_status = Some (js ''proposed_registry_slot''),
    sn_maturity = Some (js ''experimental''),
    sn_implementation_refs = Some [js ''core/node-architect/node-catalog/intake_context/repo-identity-check.node.json''],
    sn_declared_gates = Some [js ''G0_CONTEXT''],
    sn_canonical = Some (js ''canonical''),
    sn_gate_id = js ''G0_CONTEXT'',
    sn_gate_label = Some ((js ''G0 '' @ [0xB7] @ js '' Context Boot'')),
    sn_sequence = 3,
    sn_node_label = Some (js ''G0_CONTEXT-N03''),
    sn_artifacts = [js ''.gwc/tasks/SCRUM-SIM-G0G6/g0/context-snapshot.yaml'',
      js ''.gwc/tasks/SCRUM-SIM-G0G6/g0/repo-identity.json''],
    sn_reads = [js ''projects/gwc/project-profile.yaml'',
      js ''target repo AGENTS.md'',
      js ''GitHub repository metadata''],
    sn_runbook = [js ''Resolve repository owner/name'',
      js ''Verify connector identity'',
      js ''Resolve protected base branch'',
      js ''Record write-enabled/project profile evidence''],
    sn_taskcontroller_history = [event (js ''tc-003-admit'') (js ''node_admitted'') (js ''TaskController'') (js ''accepted'')
        [js ''projects/gwc/project-profile.yaml''],
      event (js ''tc-003-project'') (js ''history_projected'') (js ''TaskController'') (js ''observed'')
        [js ''.gwc/tasks/SCRUM-SIM-G0G6/g0/context-snapshot.yaml'']],
    sn_executor_history = [event (js ''ex-003-start'') (js ''executor_started'') (js ''Hermes Mac / local_agent_sim'') (js ''running'')
        [js ''core/node-architect/node-catalog/intake_context/repo-identity-check.node.json''],
      event (js ''ex-003-finish'') (js ''executor_finished'') (js ''Hermes Mac / local_agent_sim'') (js ''success'')
        [js ''.gwc/tasks/SCRUM-SIM-G0G6/g0/repo-identity.json'']],
    sn_checkpoints = [checkpoint_at (js ''cp-003'') 3 (js ''intake_context.repo-identity-check'') (js ''pending'')
        (js ''hermes-mac-sim'') (js ''fnc-761b67cb'') (js ''done'')],
    sn_options = Some [js ''continue'',
      js ''retry/self-remediate'',
      js ''block for human authority'',
      js ''mark not_applicable when gate conditional''] \<rparr>"

definition node_04 :: simNode where
  "node_04 = \<lparr>
    sn_node_id = js ''intake_context.protected-base-capture'',
    sn_title = js ''Protected Base Capture'',
    sn_description = js ''Captures the exact protected base commit SHA used for later gate and PR evidence.'',
    sn_node_type = js ''workflow'',
    sn_family = js ''intake_context'',
    sn_authority_boundary = js ''read_only'',
    sn_catalog_path = Some (js ''core/node-architect/node-catalog/intake_context/protected-base-capture.node.json''),
    sn_source_status = Some (js ''proposed_registry_slot''),
    sn_maturity = Some (js ''experimental''),
    sn_implementation_refs = Some [js ''core/node-architect/node-catalog/intake_context/protected-base-capture.node.json''],
    sn_declared_gates = Some [js ''G0_CONTEXT''],
    sn_canonical = Some (js ''canonical''),
    sn_gate_id = js ''G0_CONTEXT'',
    sn_gate_label = Some ((js ''G0 '' @ [0xB7] @ js '' Context Boot'')),
    sn_sequence = 4,
    sn_node_label = Some (js ''G0_CONTEXT-N04''),
    sn_artifacts = [js ''.gwc/tasks/SCRUM-SIM-G0G6/g0_context/nodes/04-protected-base-capture.node-run.json'',
      js ''.gwc/tasks/SCRUM-SIM-G0G6/g0_context/nodes/04-protected-base-capture.runbook.yaml''],
    sn_reads = [js ''core/node-architect/node-catalog/**/*.node.json'',
      js ''core/node-architect/node-registry.json'',
      js ''core/node-architect/runtime-graph-registry.json'',
      js ''.gwc/tasks/SCRUM-SIM-G0G6/g0/context-snapshot.yaml''],
    sn_runbook = [js ''Load node descriptor intake_context.protected-base-capture'',
      js ''Validate gate/evidence preconditions'',
      js ''Execute or simulate node action'',
      js ''Read back evidence and append run event'',
      js ''Persist checkpoint/update node history''],
    sn_taskcontroller_history = [event (js ''tc-004-admit'') (js ''node_admitted'') (js ''TaskController'') (js ''accepted'')
        [js ''core/node-architect/node-catalog/**/*.node.json''],
      event (js ''tc-004-project'') (js ''history_projected'') (js ''TaskController'') (js ''observed'')
        [js ''.gwc/tasks/SCRUM-SIM-G0G6/g0_context/nodes/04-protected-base-capture.node-run.json'']],
    sn_executor_history = [event (js ''ex-004-start'') (js ''executor_started'') (js ''Hermes Mac / local_agent_sim'') (js ''running'')
        [js ''core/node-architect/node-catalog/intake_context/protected-base-capture.node.json''],
      event (js ''ex-004-finish'') (js ''executor_finished'') (js ''Hermes Mac / local_agent_sim'') (js ''success'')
        [js ''.gwc/tasks/SCRUM-SIM-G0G6/g0_context/nodes/04-protected-base-capture.runbook.yaml'']],
    sn_checkpoints = [checkpoint_at (js ''cp-004'') 4 (js ''intake_context.protected-base-capture'') (js ''pending'')
        (js ''hermes-mac-sim'') (js ''fnc-076dde96'') (js ''done'')],
    sn_options = Some [js ''continue'',
      js ''retry/self-remediate'',
      js ''block for human authority'',
      js ''mark not_applicable when gate conditional''] \<rparr>"

definition node_05 :: simNode where
  "node_05 = \<lparr>
    sn_node_id = js ''intake_context.files-read-scope'',
    sn_title = js ''Files Read Scope'',
    sn_description = js ''Renders the required read set for the current task from governance and task-specific inputs.'',
    sn_node_type = js ''workflow'',
    sn_family = js ''intake_context'',
    sn_authority_boundary = js ''read_only'',
    sn_catalog_path = Some (js ''core/node-architect/node-catalog/intake_context/files-read-scope.node.json''),
    sn_source_status = Some (js ''proposed_registry_slot''),
    sn_maturity = Some (js ''experimental''),
    sn_implementation_refs = Some [js ''core/node-architect/node-catalog/intake_context/files-read-scope.node.json''],
    sn_declared_gates = Some [js ''G0_CONTEXT''],
    sn_canonical = Some (js ''canonical''),
    sn_gate_id = js ''G0_CONTEXT'',
    sn_gate_label = Some ((js ''G0 '' @ [0xB7] @ js '' Context Boot'')),
    sn_sequence = 5,
    sn_node_label = Some (js ''G0_CONTEXT-N05''),
    sn_artifacts = [js ''.gwc/tasks/SCRUM-SIM-G0G6/g0_context/nodes/05-files-read-scope.node-run.json'',
      js ''.gwc/tasks/SCRUM-SIM-G0G6/g0_context/nodes/05-files-read-scope.runbook.yaml''],
    sn_reads = [js ''core/node-architect/node-catalog/**/*.node.json'',
      js ''core/node-architect/node-registry.json'',
      js ''core/node-architect/runtime-graph-registry.json'',
      js ''.gwc/tasks/SCRUM-SIM-G0G6/g0/context-snapshot.yaml''],
    sn_runbook = [js ''Load node descriptor intake_context.files-read-scope'',
      js ''Validate gate/evidence preconditions'',
      js ''Execute or simulate node action'',
      js ''Read back evidence and append run event'',
      js ''Persist checkpoint/update node history''],
    sn_taskcontroller_history = [event (js ''tc-005-admit'') (js ''node_admitted'') (js ''TaskController'') (js ''accepted'')
        [js ''core/node-architect/node-catalog/**/*.node.json''],
      event (js ''tc-005-project'') (js ''history_projected'') (js ''TaskController'') (js ''observed'')
        [js ''.gwc/tasks/SCRUM-SIM-G0G6/g0_context/nodes/05-files-read-scope.node-run.json'']],
    sn_executor_history = [event (js ''ex-005-start'') (js ''executor_started'') (js ''Hermes Mac / local_agent_sim'') (js ''running'')
        [js ''core/node-architect/node-catalog/intake_context/files-read-scope.node.json''],
      event (js ''ex-005-finish'') (js ''executor_finished'') (js ''Hermes Mac / local_agent_sim'') (js ''success'')
        [js ''.gwc/tasks/SCRUM-SIM-G0G6/g0_context/nodes/05-files-read-scope.runbook.yaml'']],
    sn_checkpoints = [checkpoint_at (js ''cp-005'') 5 (js ''intake_context.files-read-scope'') (js ''pending'')
        (js ''hermes-mac-sim'') (js ''fnc-48aa4c37'') (js ''done'')],
    sn_options = Some [js ''continue'',
      js ''retry/self-remediate'',
      js ''block for human authority'',
      js ''mark not_applicable when gate conditional''] \<rparr>"

definition node_06 :: simNode where
  "node_06 = \<lparr>
    sn_node_id = js ''intake_context.files-write-scope'',
    sn_title = js ''Files Write Scope'',
    sn_description = js ''Renders bounded write paths and exclusions for a later G2 execution envelope.'',
    sn_node_type = js ''workflow'',
    sn_family = js ''intake_context'',
    sn_authority_boundary = js ''read_only'',
    sn_catalog_path = Some (js ''core/node-architect/node-catalog/intake_context/files-write-scope.node.json''),
    sn_source_status = Some (js ''proposed_registry_slot''),
    sn_maturity = Some (js ''experimental''),
    sn_implementation_refs = Some [js ''core/node-architect/node-catalog/intake_context/files-write-scope.node.json''],
    sn_declared_gates = Some [js ''G0_CONTEXT''],
    sn_canonical = Some (js ''canonical''),
    sn_gate_id = js ''G0_CONTEXT'',
    sn_gate_label = Some ((js ''G0 '' @ [0xB7] @ js '' Context Boot'')),
    sn_sequence = 6,
    sn_node_label = Some (js ''G0_CONTEXT-N06''),
    sn_artifacts = [js ''.gwc/tasks/SCRUM-SIM-G0G6/g0_context/nodes/06-files-write-scope.node-run.json'',
      js ''.gwc/tasks/SCRUM-SIM-G0G6/g0_context/nodes/06-files-write-scope.runbook.yaml''],
    sn_reads = [js ''core/node-architect/node-catalog/**/*.node.json'',
      js ''core/node-architect/node-registry.json'',
      js ''core/node-architect/runtime-graph-registry.json'',
      js ''.gwc/tasks/SCRUM-SIM-G0G6/g0/context-snapshot.yaml''],
    sn_runbook = [js ''Load node descriptor intake_context.files-write-scope'',
      js ''Validate gate/evidence preconditions'',
      js ''Execute or simulate node action'',
      js ''Read back evidence and append run event'',
      js ''Persist checkpoint/update node history''],
    sn_taskcontroller_history = [event (js ''tc-006-admit'') (js ''node_admitted'') (js ''TaskController'') (js ''accepted'')
        [js ''core/node-architect/node-catalog/**/*.node.json''],
      event (js ''tc-006-project'') (js ''history_projected'') (js ''TaskController'') (js ''observed'')
        [js ''.gwc/tasks/SCRUM-SIM-G0G6/g0_context/nodes/06-files-write-scope.node-run.json'']],
    sn_executor_history = [event (js ''ex-006-start'') (js ''executor_started'') (js ''Hermes Mac / local_agent_sim'') (js ''running'')
        [js ''core/node-architect/node-catalog/intake_context/files-write-scope.node.json''],
      event (js ''ex-006-finish'') (js ''executor_finished'') (js ''Hermes Mac / local_agent_sim'') (js ''success'')
        [js ''.gwc/tasks/SCRUM-SIM-G0G6/g0_context/nodes/06-files-write-scope.runbook.yaml'']],
    sn_checkpoints = [checkpoint_at (js ''cp-006'') 6 (js ''intake_context.files-write-scope'') (js ''pending'')
        (js ''hermes-mac-sim'') (js ''fnc-00e6eaf6'') (js ''done'')],
    sn_options = Some [js ''continue'',
      js ''retry/self-remediate'',
      js ''block for human authority'',
      js ''mark not_applicable when gate conditional''] \<rparr>"

definition node_07 :: simNode where
  "node_07 = \<lparr>
    sn_node_id = js ''intake_context.risk-classification'',
    sn_title = js ''Risk Classification'',
    sn_description = js ''Classifies request risk flags before deciding which gate path is required.'',
    sn_node_type = js ''workflow'',
    sn_family = js ''intake_context'',
    sn_authority_boundary = js ''read_only'',
    sn_catalog_path = Some (js ''core/node-architect/node-catalog/intake_context/risk-classification.node.json''),
    sn_source_status = Some (js ''proposed_registry_slot''),
    sn_maturity = Some (js ''experimental''),
    sn_implementation_refs = Some [js ''core/node-architect/node-catalog/intake_context/risk-classification.node.json''],
    sn_declared_gates = Some [js ''G0_CONTEXT''],
    sn_canonical = Some (js ''canonical''),
    sn_gate_id = js ''G0_CONTEXT'',
    sn_gate_label = Some ((js ''G0 '' @ [0xB7] @ js '' Context Boot'')),
    sn_sequence = 7,
    sn_node_label = Some (js ''G0_CONTEXT-N07''),
    sn_artifacts = [js ''.gwc/tasks/SCRUM-SIM-G0G6/g0_context/nodes/07-risk-classification.node-run.json'',
      js ''.gwc/tasks/SCRUM-SIM-G0G6/g0_context/nodes/07-risk-classification.runbook.yaml''],
    sn_reads = [js ''core/node-architect/node-catalog/**/*.node.json'',
      js ''core/node-architect/node-registry.json'',
      js ''core/node-architect/runtime-graph-registry.json'',
      js ''.gwc/tasks/SCRUM-SIM-G0G6/g0/context-snapshot.yaml''],
    sn_runbook = [js ''Load node descriptor intake_context.risk-classification'',
      js ''Validate gate/evidence preconditions'',
      js ''Execute or simulate node action'',
      js ''Read back evidence and append run event'',
      js ''Persist checkpoint/update node history''],
    sn_taskcontroller_history = [event (js ''tc-007-admit'') (js ''node_admitted'') (js ''TaskController'') (js ''accepted'')
        [js ''core/node-architect/node-catalog/**/*.node.json''],
      event (js ''tc-007-project'') (js ''history_projected'') (js ''TaskController'') (js ''observed'')
        [js ''.gwc/tasks/SCRUM-SIM-G0G6/g0_context/nodes/07-risk-classification.node-run.json'']],
    sn_executor_history = [event (js ''ex-007-start'') (js ''executor_started'') (js ''Hermes Mac / local_agent_sim'') (js ''running'')
        [js ''core/node-architect/node-catalog/intake_context/risk-classification.node.json''],
      event (js ''ex-007-finish'') (js ''executor_finished'') (js ''Hermes Mac / local_agent_sim'') (js ''success'')
        [js ''.gwc/tasks/SCRUM-SIM-G0G6/g0_context/nodes/07-risk-classification.runbook.yaml'']],
    sn_checkpoints = [checkpoint_at (js ''cp-007'') 7 (js ''intake_context.risk-classification'') (js ''pending'')
        (js ''hermes-mac-sim'') (js ''fnc-5098d51c'') (js ''done'')],
    sn_options = Some [js ''continue'',
      js ''retry/self-remediate'',
      js ''block for human authority'',
      js ''mark not_applicable when gate conditional''] \<rparr>"

definition node_08 :: simNode where
  "node_08 = \<lparr>
    sn_node_id = js ''intake_context.context-gap-escalation'',
    sn_title = js ''Context Gap Escalation'',
    sn_description = js ''Fails closed when required context, repo evidence, or source instruction evidence is missing.'',
    sn_node_type = js ''workflow'',
    sn_family = js ''intake_context'',
    sn_authority_boundary = js ''read_only'',
    sn_catalog_path = Some (js ''core/node-architect/node-catalog/intake_context/context-gap-escalation.node.json''),
    sn_source_status = Some (js ''proposed_registry_slot''),
    sn_maturity = Some (js ''experimental''),
    sn_implementation_refs = Some [js ''core/node-architect/node-catalog/intake_context/context-gap-escalation.node.json''],
    sn_declared_gates = Some [js ''G0_CONTEXT''],
    sn_canonical = Some (js ''canonical''),
    sn_gate_id = js ''G0_CONTEXT'',
    sn_gate_label = Some ((js ''G0 '' @ [0xB7] @ js '' Context Boot'')),
    sn_sequence = 8,
    sn_node_label = Some (js ''G0_CONTEXT-N08''),
    sn_artifacts = [js ''.gwc/tasks/SCRUM-SIM-G0G6/g0_context/nodes/08-context-gap-escalation.node-run.json'',
      js ''.gwc/tasks/SCRUM-SIM-G0G6/g0_context/nodes/08-context-gap-escalation.runbook.yaml''],
    sn_reads = [js ''core/node-architect/node-catalog/**/*.node.json'',
      js ''core/node-architect/node-registry.json'',
      js ''core/node-architect/runtime-graph-registry.json'',
      js ''.gwc/tasks/SCRUM-SIM-G0G6/g0/context-snapshot.yaml''],
    sn_runbook = [js ''Load node descriptor intake_context.context-gap-escalation'',
      js ''Validate gate/evidence preconditions'',
      js ''Execute or simulate node action'',
      js ''Read back evidence and append run event'',
      js ''Persist checkpoint/update node history''],
    sn_taskcontroller_history = [event (js ''tc-008-admit'') (js ''node_admitted'') (js ''TaskController'') (js ''accepted'')
        [js ''core/node-architect/node-catalog/**/*.node.json''],
      event (js ''tc-008-project'') (js ''history_projected'') (js ''TaskController'') (js ''observed'')
        [js ''.gwc/tasks/SCRUM-SIM-G0G6/g0_context/nodes/08-context-gap-escalation.node-run.json'']],
    sn_executor_history = [event (js ''ex-008-start'') (js ''executor_started'') (js ''Hermes Mac / local_agent_sim'') (js ''running'')
        [js ''core/node-architect/node-catalog/intake_context/context-gap-escalation.node.json''],
      event (js ''ex-008-finish'') (js ''executor_finished'') (js ''Hermes Mac / local_agent_sim'') (js ''success'')
        [js ''.gwc/tasks/SCRUM-SIM-G0G6/g0_context/nodes/08-context-gap-escalation.runbook.yaml'']],
    sn_checkpoints = [checkpoint_at (js ''cp-008'') 8 (js ''intake_context.context-gap-escalation'') (js ''pending'')
        (js ''hermes-mac-sim'') (js ''fnc-42b64b8f'') (js ''done'')],
    sn_options = Some [js ''continue'',
      js ''retry/self-remediate'',
      js ''block for human authority'',
      js ''mark not_applicable when gate conditional''] \<rparr>"

definition node_09 :: simNode where
  "node_09 = \<lparr>
    sn_node_id = js ''intake_context.intake-card-render'',
    sn_title = js ''Intake Card Render'',
    sn_description = js ''Produces the standard GWC intake card with request type, reads, writes, risk, gate, and next action.'',
    sn_node_type = js ''workflow'',
    sn_family = js ''intake_context'',
    sn_authority_boundary = js ''read_only'',
    sn_catalog_path = Some (js ''core/node-architect/node-catalog/intake_context/intake-card-render.node.json''),
    sn_source_status = Some (js ''proposed_registry_slot''),
    sn_maturity = Some (js ''experimental''),
    sn_implementation_refs = Some [js ''core/node-architect/node-catalog/intake_context/intake-card-render.node.json''],
    sn_declared_gates = Some [js ''G0_CONTEXT''],
    sn_canonical = Some (js ''canonical''),
    sn_gate_id = js ''G0_CONTEXT'',
    sn_gate_label = Some ((js ''G0 '' @ [0xB7] @ js '' Context Boot'')),
    sn_sequence = 9,
    sn_node_label = Some (js ''G0_CONTEXT-N09''),
    sn_artifacts = [js ''.gwc/tasks/SCRUM-SIM-G0G6/g0_context/nodes/09-intake-card-render.node-run.json'',
      js ''.gwc/tasks/SCRUM-SIM-G0G6/g0_context/nodes/09-intake-card-render.runbook.yaml''],
    sn_reads = [js ''core/node-architect/node-catalog/**/*.node.json'',
      js ''core/node-architect/node-registry.json'',
      js ''core/node-architect/runtime-graph-registry.json'',
      js ''.gwc/tasks/SCRUM-SIM-G0G6/g0/context-snapshot.yaml''],
    sn_runbook = [js ''Load node descriptor intake_context.intake-card-render'',
      js ''Validate gate/evidence preconditions'',
      js ''Execute or simulate node action'',
      js ''Read back evidence and append run event'',
      js ''Persist checkpoint/update node history''],
    sn_taskcontroller_history = [event (js ''tc-009-admit'') (js ''node_admitted'') (js ''TaskController'') (js ''accepted'')
        [js ''core/node-architect/node-catalog/**/*.node.json''],
      event (js ''tc-009-project'') (js ''history_projected'') (js ''TaskController'') (js ''observed'')
        [js ''.gwc/tasks/SCRUM-SIM-G0G6/g0_context/nodes/09-intake-card-render.node-run.json'']],
    sn_executor_history = [event (js ''ex-009-start'') (js ''executor_started'') (js ''Hermes Mac / local_agent_sim'') (js ''running'')
        [js ''core/node-architect/node-catalog/intake_context/intake-card-render.node.json''],
      event (js ''ex-009-finish'') (js ''executor_finished'') (js ''Hermes Mac / local_agent_sim'') (js ''success'')
        [js ''.gwc/tasks/SCRUM-SIM-G0G6/g0_context/nodes/09-intake-card-render.runbook.yaml'']],
    sn_checkpoints = [checkpoint_at (js ''cp-009'') 9 (js ''intake_context.intake-card-render'') (js ''pending'')
        (js ''hermes-mac-sim'') (js ''fnc-630c4859'') (js ''done'')],
    sn_options = Some [js ''continue'',
      js ''retry/self-remediate'',
      js ''block for human authority'',
      js ''mark not_applicable when gate conditional''] \<rparr>"

definition gate_0 :: simGate where
  "gate_0 = \<lparr>
    sg_id = js ''G0_CONTEXT'',
    sg_label = (js ''G0 '' @ [0xB7] @ js '' Context Boot''),
    sg_summary = js ''Boot from AGENTS.md, resolve project/profile/source, risk and scope.'',
    sg_nodes = [node_01, node_02, node_03, node_04, node_05, node_06, node_07, node_08, node_09],
    sg_gate_artifacts = [js ''.gwc/tasks/SCRUM-SIM-G0G6/g0/context-snapshot.yaml''],
    sg_taskcontroller_history = [event (js ''tc-G0_CONTEXT-open'') (js ''gate_opened'') (js ''TaskController'') (js ''running'')
        [js ''.gwc/tasks/SCRUM-SIM-G0G6/g0_context/''],
      event (js ''tc-G0_CONTEXT-close'') (js ''gate_closed'') (js ''TaskController'') (js ''pass'')
        [js ''.gwc/tasks/SCRUM-SIM-G0G6/g0_context/gate-summary.json'']],
    sg_executor_history = [event (js ''ex-G0_CONTEXT-lease'') (js ''executor_gate_session'') (js ''Hermes Mac / local_agent_sim'') (js ''completed'')
        [js ''session://DW-OBS-ARCH-SIM-G0G6-20260823-R3/G0_CONTEXT'']] \<rparr>"

definition node_10 :: simNode where
  "node_10 = \<lparr>
    sn_node_id = js ''gate_authority.gate-state-resolution'',
    sn_title = js ''Gate State Resolution'',
    sn_description = js ''Resolves the active GWC gate from intake facts, task artifacts, and prior gate evidence before any transition is considered.'',
    sn_node_type = js ''gate'',
    sn_family = js ''gate_authority'',
    sn_authority_boundary = js ''g2_required'',
    sn_catalog_path = Some (js ''core/node-architect/node-catalog/gate_authority/gate-state-resolution.node.json''),
    sn_source_status = Some (js ''proposed_registry_slot''),
    sn_maturity = Some (js ''experimental''),
    sn_implementation_refs = Some [js ''core/node-architect/node-catalog/gate_authority/gate-state-resolution.node.json''],
    sn_declared_gates = Some [js ''G1_ALIGNMENT'',
      js ''G2_EXECUTION''],
    sn_canonical = Some (js ''canonical''),
    sn_gate_id = js ''G1_ALIGNMENT'',
    sn_gate_label = Some ((js ''G1 '' @ [0xB7] @ js '' Alignment / Decision'')),
    sn_sequence = 10,
    sn_node_label = Some (js ''G1_ALIGNMENT-N01''),
    sn_artifacts = [js ''.gwc/tasks/SCRUM-SIM-G0G6/g1_alignment/nodes/01-gate-state-resolution.node-run.json'',
      js ''.gwc/tasks/SCRUM-SIM-G0G6/g1_alignment/nodes/01-gate-state-resolution.runbook.yaml''],
    sn_reads = [js ''core/node-architect/node-catalog/**/*.node.json'',
      js ''core/node-architect/node-registry.json'',
      js ''core/node-architect/runtime-graph-registry.json'',
      js ''.gwc/tasks/SCRUM-SIM-G0G6/g1/intake/g1-intake-brief.yaml'',
      js ''.gwc/tasks/SCRUM-SIM-G0G6/g1/preflight/g1-preflight-report.yaml''],
    sn_runbook = [js ''Load node descriptor gate_authority.gate-state-resolution'',
      js ''Validate gate/evidence preconditions'',
      js ''Execute or simulate node action'',
      js ''Read back evidence and append run event'',
      js ''Persist checkpoint/update node history''],
    sn_taskcontroller_history = [event (js ''tc-010-admit'') (js ''node_admitted'') (js ''TaskController'') (js ''accepted'')
        [js ''core/node-architect/node-catalog/**/*.node.json''],
      event (js ''tc-010-project'') (js ''history_projected'') (js ''TaskController'') (js ''observed'')
        [js ''.gwc/tasks/SCRUM-SIM-G0G6/g1_alignment/nodes/01-gate-state-resolution.node-run.json'']],
    sn_executor_history = [event (js ''ex-010-start'') (js ''executor_started'') (js ''Hermes Mac / local_agent_sim'') (js ''running'')
        [js ''core/node-architect/node-catalog/gate_authority/gate-state-resolution.node.json''],
      event (js ''ex-010-finish'') (js ''executor_finished'') (js ''Hermes Mac / local_agent_sim'') (js ''success'')
        [js ''.gwc/tasks/SCRUM-SIM-G0G6/g1_alignment/nodes/01-gate-state-resolution.runbook.yaml'']],
    sn_checkpoints = [checkpoint_at (js ''cp-010'') 10 (js ''gate_authority.gate-state-resolution'') (js ''pending'')
        (js ''hermes-mac-sim'') (js ''fnc-4b0daaa1'') (js ''done'')],
    sn_options = Some [js ''continue'',
      js ''retry/self-remediate'',
      js ''block for human authority'',
      js ''mark not_applicable when gate conditional''] \<rparr>"

definition node_11 :: simNode where
  "node_11 = \<lparr>
    sn_node_id = js ''gate_authority.evidence-artifact-map'',
    sn_title = js ''Evidence Artifact Map'',
    sn_description = js ''Maps required gate evidence to canonical artifact locations so agents do not claim pass without traceable proof.'',
    sn_node_type = js ''schema'',
    sn_family = js ''gate_authority'',
    sn_authority_boundary = js ''g2_required'',
    sn_catalog_path = Some (js ''core/node-architect/node-catalog/gate_authority/evidence-artifact-map.node.json''),
    sn_source_status = Some (js ''proposed_registry_slot''),
    sn_maturity = Some (js ''experimental''),
    sn_implementation_refs = Some [js ''core/node-architect/node-catalog/gate_authority/evidence-artifact-map.node.json''],
    sn_declared_gates = Some [js ''G1_ALIGNMENT'',
      js ''G2_EXECUTION''],
    sn_canonical = Some (js ''canonical''),
    sn_gate_id = js ''G1_ALIGNMENT'',
    sn_gate_label = Some ((js ''G1 '' @ [0xB7] @ js '' Alignment / Decision'')),
    sn_sequence = 11,
    sn_node_label = Some (js ''G1_ALIGNMENT-N02''),
    sn_artifacts = [js ''.gwc/tasks/SCRUM-SIM-G0G6/g1/evidence-artifact-map.json'',
      js ''.gwc/tasks/SCRUM-SIM-G0G6/g1/preflight/g1-preflight-report.yaml''],
    sn_reads = [js ''core/GATE_LIFECYCLE_CONTRACT_v1.0.md'',
      js ''schemas/gate-action-authority.schema.json''],
    sn_runbook = [js ''Map each gate to required artifacts'',
      js ''Mark missing artifacts fail-closed'',
      js ''Bind evidence to task/repo/base/scope''],
    sn_taskcontroller_history = [event (js ''tc-011-admit'') (js ''node_admitted'') (js ''TaskController'') (js ''accepted'')
        [js ''core/GATE_LIFECYCLE_CONTRACT_v1.0.md''],
      event (js ''tc-011-project'') (js ''history_projected'') (js ''TaskController'') (js ''observed'')
        [js ''.gwc/tasks/SCRUM-SIM-G0G6/g1/evidence-artifact-map.json'']],
    sn_executor_history = [event (js ''ex-011-start'') (js ''executor_started'') (js ''Hermes Mac / local_agent_sim'') (js ''running'')
        [js ''core/node-architect/node-catalog/gate_authority/evidence-artifact-map.node.json''],
      event (js ''ex-011-finish'') (js ''executor_finished'') (js ''Hermes Mac / local_agent_sim'') (js ''success'')
        [js ''.gwc/tasks/SCRUM-SIM-G0G6/g1/preflight/g1-preflight-report.yaml'']],
    sn_checkpoints = [checkpoint_at (js ''cp-011'') 11 (js ''gate_authority.evidence-artifact-map'') (js ''pending'')
        (js ''hermes-mac-sim'') (js ''fnc-7747ffbd'') (js ''done'')],
    sn_options = Some [js ''continue'',
      js ''retry/self-remediate'',
      js ''block for human authority'',
      js ''mark not_applicable when gate conditional''] \<rparr>"

definition node_12 :: simNode where
  "node_12 = \<lparr>
    sn_node_id = js ''gate_authority.scope-hash-calculation'',
    sn_title = js ''Scope Hash Calculation'',
    sn_description = js ''Calculates deterministic scope hashes from approved files, actions, exclusions, base SHA, and expiry inputs.'',
    sn_node_type = js ''tool'',
    sn_family = js ''gate_authority'',
    sn_authority_boundary = js ''g2_required'',
    sn_catalog_path = Some (js ''core/node-architect/node-catalog/gate_authority/scope-hash-calculation.node.json''),
    sn_source_status = Some (js ''proposed_registry_slot''),
    sn_maturity = Some (js ''experimental''),
    sn_implementation_refs = Some [js ''core/node-architect/node-catalog/gate_authority/scope-hash-calculation.node.json''],
    sn_declared_gates = Some [js ''G1_ALIGNMENT'',
      js ''G2_EXECUTION''],
    sn_canonical = Some (js ''canonical''),
    sn_gate_id = js ''G1_ALIGNMENT'',
    sn_gate_label = Some ((js ''G1 '' @ [0xB7] @ js '' Alignment / Decision'')),
    sn_sequence = 12,
    sn_node_label = Some (js ''G1_ALIGNMENT-N03''),
    sn_artifacts = [js ''.gwc/tasks/SCRUM-SIM-G0G6/g1/scope-hash-input.json'',
      js ''.gwc/tasks/SCRUM-SIM-G0G6/g1/brainstorming/g1-options.yaml''],
    sn_reads = [js ''g1-intake-brief.yaml'',
      js ''g1-preflight-report.yaml'',
      js ''allowed_paths[]'',
      js ''authorized_actions[]''],
    sn_runbook = [js ''Normalize allowed paths/actions'',
      js ''Hash canonical scope packet'',
      js ''Bind approval tokens to scope_hash_16''],
    sn_taskcontroller_history = [event (js ''tc-012-admit'') (js ''node_admitted'') (js ''TaskController'') (js ''accepted'')
        [js ''g1-intake-brief.yaml''],
      event (js ''tc-012-project'') (js ''history_projected'') (js ''TaskController'') (js ''observed'')
        [js ''.gwc/tasks/SCRUM-SIM-G0G6/g1/scope-hash-input.json'']],
    sn_executor_history = [event (js ''ex-012-start'') (js ''executor_started'') (js ''Hermes Mac / local_agent_sim'') (js ''running'')
        [js ''core/node-architect/node-catalog/gate_authority/scope-hash-calculation.node.json''],
      event (js ''ex-012-finish'') (js ''executor_finished'') (js ''Hermes Mac / local_agent_sim'') (js ''success'')
        [js ''.gwc/tasks/SCRUM-SIM-G0G6/g1/brainstorming/g1-options.yaml'']],
    sn_checkpoints = [checkpoint_at (js ''cp-012'') 12 (js ''gate_authority.scope-hash-calculation'') (js ''pending'')
        (js ''hermes-mac-sim'') (js ''fnc-b666e1e4'') (js ''done'')],
    sn_options = Some [js ''continue'',
      js ''retry/self-remediate'',
      js ''block for human authority'',
      js ''mark not_applicable when gate conditional''] \<rparr>"

definition node_13 :: simNode where
  "node_13 = \<lparr>
    sn_node_id = js ''gate_authority.gate-transition-decision'',
    sn_title = js ''Gate Transition Decision'',
    sn_description = js ''Determines whether a gate should pass, block, request approval, continue validation, or fail closed.'',
    sn_node_type = js ''state'',
    sn_family = js ''gate_authority'',
    sn_authority_boundary = js ''g2_required'',
    sn_catalog_path = Some (js ''core/node-architect/node-catalog/gate_authority/gate-transition-decision.node.json''),
    sn_source_status = Some (js ''proposed_registry_slot''),
    sn_maturity = Some (js ''experimental''),
    sn_implementation_refs = Some [js ''core/node-architect/node-catalog/gate_authority/gate-transition-decision.node.json''],
    sn_declared_gates = Some [js ''G1_ALIGNMENT'',
      js ''G2_EXECUTION''],
    sn_canonical = Some (js ''canonical''),
    sn_gate_id = js ''G1_ALIGNMENT'',
    sn_gate_label = Some ((js ''G1 '' @ [0xB7] @ js '' Alignment / Decision'')),
    sn_sequence = 13,
    sn_node_label = Some (js ''G1_ALIGNMENT-N04''),
    sn_artifacts = [js ''.gwc/tasks/SCRUM-SIM-G0G6/g1_alignment/nodes/04-gate-transition-decision.node-run.json'',
      js ''.gwc/tasks/SCRUM-SIM-G0G6/g1_alignment/nodes/04-gate-transition-decision.runbook.yaml''],
    sn_reads = [js ''core/node-architect/node-catalog/**/*.node.json'',
      js ''core/node-architect/node-registry.json'',
      js ''core/node-architect/runtime-graph-registry.json'',
      js ''.gwc/tasks/SCRUM-SIM-G0G6/g1/intake/g1-intake-brief.yaml'',
      js ''.gwc/tasks/SCRUM-SIM-G0G6/g1/preflight/g1-preflight-report.yaml''],
    sn_runbook = [js ''Load node descriptor gate_authority.gate-transition-decision'',
      js ''Validate gate/evidence preconditions'',
      js ''Execute or simulate node action'',
      js ''Read back evidence and append run event'',
      js ''Persist checkpoint/update node history''],
    sn_taskcontroller_history = [event (js ''tc-013-admit'') (js ''node_admitted'') (js ''TaskController'') (js ''accepted'')
        [js ''core/node-architect/node-catalog/**/*.node.json''],
      event (js ''tc-013-project'') (js ''history_projected'') (js ''TaskController'') (js ''observed'')
        [js ''.gwc/tasks/SCRUM-SIM-G0G6/g1_alignment/nodes/04-gate-transition-decision.node-run.json'']],
    sn_executor_history = [event (js ''ex-013-start'') (js ''executor_started'') (js ''Hermes Mac / local_agent_sim'') (js ''running'')
        [js ''core/node-architect/node-catalog/gate_authority/gate-transition-decision.node.json''],
      event (js ''ex-013-finish'') (js ''executor_finished'') (js ''Hermes Mac / local_agent_sim'') (js ''success'')
        [js ''.gwc/tasks/SCRUM-SIM-G0G6/g1_alignment/nodes/04-gate-transition-decision.runbook.yaml'']],
    sn_checkpoints = [checkpoint_at (js ''cp-013'') 13 (js ''gate_authority.gate-transition-decision'') (js ''pending'')
        (js ''hermes-mac-sim'') (js ''fnc-9de8751f'') (js ''done'')],
    sn_options = Some [js ''continue'',
      js ''retry/self-remediate'',
      js ''block for human authority'',
      js ''mark not_applicable when gate conditional''] \<rparr>"

definition node_14 :: simNode where
  "node_14 = \<lparr>
    sn_node_id = js ''gate_authority.approval-token-generation'',
    sn_title = js ''Approval Token Generation'',
    sn_description = js ''Produces exact human approval commands with gate, approval request ID, scope hash, and UTC expiry for gated actions.'',
    sn_node_type = js ''workflow'',
    sn_family = js ''gate_authority'',
    sn_authority_boundary = js ''g2_required'',
    sn_catalog_path = Some (js ''core/node-architect/node-catalog/gate_authority/approval-token-generation.node.json''),
    sn_source_status = Some (js ''proposed_registry_slot''),
    sn_maturity = Some (js ''experimental''),
    sn_implementation_refs = Some [js ''core/node-architect/node-catalog/gate_authority/approval-token-generation.node.json''],
    sn_declared_gates = Some [js ''G1_ALIGNMENT'',
      js ''G2_EXECUTION''],
    sn_canonical = Some (js ''canonical''),
    sn_gate_id = js ''G1_ALIGNMENT'',
    sn_gate_label = Some ((js ''G1 '' @ [0xB7] @ js '' Alignment / Decision'')),
    sn_sequence = 14,
    sn_node_label = Some (js ''G1_ALIGNMENT-N05''),
    sn_artifacts = [js ''.gwc/tasks/SCRUM-SIM-G0G6/g1_alignment/nodes/05-approval-token-generation.node-run.json'',
      js ''.gwc/tasks/SCRUM-SIM-G0G6/g1_alignment/nodes/05-approval-token-generation.runbook.yaml''],
    sn_reads = [js ''core/node-architect/node-catalog/**/*.node.json'',
      js ''core/node-architect/node-registry.json'',
      js ''core/node-architect/runtime-graph-registry.json'',
      js ''.gwc/tasks/SCRUM-SIM-G0G6/g1/intake/g1-intake-brief.yaml'',
      js ''.gwc/tasks/SCRUM-SIM-G0G6/g1/preflight/g1-preflight-report.yaml''],
    sn_runbook = [js ''Load node descriptor gate_authority.approval-token-generation'',
      js ''Validate gate/evidence preconditions'',
      js ''Execute or simulate node action'',
      js ''Read back evidence and append run event'',
      js ''Persist checkpoint/update node history''],
    sn_taskcontroller_history = [event (js ''tc-014-admit'') (js ''node_admitted'') (js ''TaskController'') (js ''accepted'')
        [js ''core/node-architect/node-catalog/**/*.node.json''],
      event (js ''tc-014-project'') (js ''history_projected'') (js ''TaskController'') (js ''observed'')
        [js ''.gwc/tasks/SCRUM-SIM-G0G6/g1_alignment/nodes/05-approval-token-generation.node-run.json'']],
    sn_executor_history = [event (js ''ex-014-start'') (js ''executor_started'') (js ''Hermes Mac / local_agent_sim'') (js ''running'')
        [js ''core/node-architect/node-catalog/gate_authority/approval-token-generation.node.json''],
      event (js ''ex-014-finish'') (js ''executor_finished'') (js ''Hermes Mac / local_agent_sim'') (js ''success'')
        [js ''.gwc/tasks/SCRUM-SIM-G0G6/g1_alignment/nodes/05-approval-token-generation.runbook.yaml'']],
    sn_checkpoints = [checkpoint_at (js ''cp-014'') 14 (js ''gate_authority.approval-token-generation'') (js ''pending'')
        (js ''hermes-mac-sim'') (js ''fnc-c00269ae'') (js ''done'')],
    sn_options = Some [js ''continue'',
      js ''retry/self-remediate'',
      js ''block for human authority'',
      js ''mark not_applicable when gate conditional''] \<rparr>"

definition node_15 :: simNode where
  "node_15 = \<lparr>
    sn_node_id = js ''gate_authority.g2-execution-envelope-render'',
    sn_title = js ''G2 Execution Envelope Render'',
    sn_description = js ''Renders a bounded G2 execution envelope from G1 decision records, Files READ/WRITE, authorized actions, and exclusions.'',
    sn_node_type = js ''workflow'',
    sn_family = js ''gate_authority'',
    sn_authority_boundary = js ''g2_required'',
    sn_catalog_path = Some (js ''core/node-architect/node-catalog/gate_authority/g2-execution-envelope-render.node.json''),
    sn_source_status = Some (js ''proposed_registry_slot''),
    sn_maturity = Some (js ''experimental''),
    sn_implementation_refs = Some [js ''core/node-architect/node-catalog/gate_authority/g2-execution-envelope-render.node.json''],
    sn_declared_gates = Some [js ''G1_ALIGNMENT'',
      js ''G2_EXECUTION''],
    sn_canonical = Some (js ''canonical''),
    sn_gate_id = js ''G1_ALIGNMENT'',
    sn_gate_label = Some ((js ''G1 '' @ [0xB7] @ js '' Alignment / Decision'')),
    sn_sequence = 15,
    sn_node_label = Some (js ''G1_ALIGNMENT-N06''),
    sn_artifacts = [js ''.gwc/tasks/SCRUM-SIM-G0G6/g1_alignment/nodes/06-g2-execution-envelope-render.node-run.json'',
      js ''.gwc/tasks/SCRUM-SIM-G0G6/g1_alignment/nodes/06-g2-execution-envelope-render.runbook.yaml''],
    sn_reads = [js ''core/node-architect/node-catalog/**/*.node.json'',
      js ''core/node-architect/node-registry.json'',
      js ''core/node-architect/runtime-graph-registry.json'',
      js ''.gwc/tasks/SCRUM-SIM-G0G6/g1/intake/g1-intake-brief.yaml'',
      js ''.gwc/tasks/SCRUM-SIM-G0G6/g1/preflight/g1-preflight-report.yaml''],
    sn_runbook = [js ''Load node descriptor gate_authority.g2-execution-envelope-render'',
      js ''Validate gate/evidence preconditions'',
      js ''Execute or simulate node action'',
      js ''Read back evidence and append run event'',
      js ''Persist checkpoint/update node history''],
    sn_taskcontroller_history = [event (js ''tc-015-admit'') (js ''node_admitted'') (js ''TaskController'') (js ''accepted'')
        [js ''core/node-architect/node-catalog/**/*.node.json''],
      event (js ''tc-015-project'') (js ''history_projected'') (js ''TaskController'') (js ''observed'')
        [js ''.gwc/tasks/SCRUM-SIM-G0G6/g1_alignment/nodes/06-g2-execution-envelope-render.node-run.json'']],
    sn_executor_history = [event (js ''ex-015-start'') (js ''executor_started'') (js ''Hermes Mac / local_agent_sim'') (js ''running'')
        [js ''core/node-architect/node-catalog/gate_authority/g2-execution-envelope-render.node.json''],
      event (js ''ex-015-finish'') (js ''executor_finished'') (js ''Hermes Mac / local_agent_sim'') (js ''success'')
        [js ''.gwc/tasks/SCRUM-SIM-G0G6/g1_alignment/nodes/06-g2-execution-envelope-render.runbook.yaml'']],
    sn_checkpoints = [checkpoint_at (js ''cp-015'') 15 (js ''gate_authority.g2-execution-envelope-render'') (js ''pending'')
        (js ''hermes-mac-sim'') (js ''fnc-87158906'') (js ''done'')],
    sn_options = Some [js ''continue'',
      js ''retry/self-remediate'',
      js ''block for human authority'',
      js ''mark not_applicable when gate conditional''] \<rparr>"

definition node_16 :: simNode where
  "node_16 = \<lparr>
    sn_node_id = js ''gate_authority.approval-command-validation'',
    sn_title = js ''Approval Command Validation'',
    sn_description = js ''Validates that a human response matches the exact approval command before any G2, G4, G5, or G6 action proceeds.'',
    sn_node_type = js ''gate'',
    sn_family = js ''gate_authority'',
    sn_authority_boundary = js ''g2_required'',
    sn_catalog_path = Some (js ''core/node-architect/node-catalog/gate_authority/approval-command-validation.node.json''),
    sn_source_status = Some (js ''proposed_registry_slot''),
    sn_maturity = Some (js ''experimental''),
    sn_implementation_refs = Some [js ''core/node-architect/node-catalog/gate_authority/approval-command-validation.node.json''],
    sn_declared_gates = Some [js ''G1_ALIGNMENT'',
      js ''G2_EXECUTION''],
    sn_canonical = Some (js ''canonical''),
    sn_gate_id = js ''G1_ALIGNMENT'',
    sn_gate_label = Some ((js ''G1 '' @ [0xB7] @ js '' Alignment / Decision'')),
    sn_sequence = 16,
    sn_node_label = Some (js ''G1_ALIGNMENT-N07''),
    sn_artifacts = [js ''.gwc/tasks/SCRUM-SIM-G0G6/g1_alignment/nodes/07-approval-command-validation.node-run.json'',
      js ''.gwc/tasks/SCRUM-SIM-G0G6/g1_alignment/nodes/07-approval-command-validation.runbook.yaml''],
    sn_reads = [js ''core/node-architect/node-catalog/**/*.node.json'',
      js ''core/node-architect/node-registry.json'',
      js ''core/node-architect/runtime-graph-registry.json'',
      js ''.gwc/tasks/SCRUM-SIM-G0G6/g1/intake/g1-intake-brief.yaml'',
      js ''.gwc/tasks/SCRUM-SIM-G0G6/g1/preflight/g1-preflight-report.yaml''],
    sn_runbook = [js ''Load node descriptor gate_authority.approval-command-validation'',
      js ''Validate gate/evidence preconditions'',
      js ''Execute or simulate node action'',
      js ''Read back evidence and append run event'',
      js ''Persist checkpoint/update node history''],
    sn_taskcontroller_history = [event (js ''tc-016-admit'') (js ''node_admitted'') (js ''TaskController'') (js ''accepted'')
        [js ''core/node-architect/node-catalog/**/*.node.json''],
      event (js ''tc-016-project'') (js ''history_projected'') (js ''TaskController'') (js ''observed'')
        [js ''.gwc/tasks/SCRUM-SIM-G0G6/g1_alignment/nodes/07-approval-command-validation.node-run.json'']],
    sn_executor_history = [event (js ''ex-016-start'') (js ''executor_started'') (js ''Hermes Mac / local_agent_sim'') (js ''running'')
        [js ''core/node-architect/node-catalog/gate_authority/approval-command-validation.node.json''],
      event (js ''ex-016-finish'') (js ''executor_finished'') (js ''Hermes Mac / local_agent_sim'') (js ''success'')
        [js ''.gwc/tasks/SCRUM-SIM-G0G6/g1_alignment/nodes/07-approval-command-validation.runbook.yaml'']],
    sn_checkpoints = [checkpoint_at (js ''cp-016'') 16 (js ''gate_authority.approval-command-validation'') (js ''pending'')
        (js ''hermes-mac-sim'') (js ''fnc-657e3c97'') (js ''done'')],
    sn_options = Some [js ''continue'',
      js ''retry/self-remediate'',
      js ''block for human authority'',
      js ''mark not_applicable when gate conditional''] \<rparr>"

definition node_17 :: simNode where
  "node_17 = \<lparr>
    sn_node_id = js ''gate_authority.authority-boundary-check'',
    sn_title = js ''Authority Boundary Check'',
    sn_description = js ''Blocks actions that cross gate authority boundaries, including merge, deploy, production data, secrets, and branch-history operations.'',
    sn_node_type = js ''gate'',
    sn_family = js ''gate_authority'',
    sn_authority_boundary = js ''g2_required'',
    sn_catalog_path = Some (js ''core/node-architect/node-catalog/gate_authority/authority-boundary-check.node.json''),
    sn_source_status = Some (js ''proposed_registry_slot''),
    sn_maturity = Some (js ''experimental''),
    sn_implementation_refs = Some [js ''core/node-architect/node-catalog/gate_authority/authority-boundary-check.node.json''],
    sn_declared_gates = Some [js ''G1_ALIGNMENT'',
      js ''G2_EXECUTION''],
    sn_canonical = Some (js ''canonical''),
    sn_gate_id = js ''G1_ALIGNMENT'',
    sn_gate_label = Some ((js ''G1 '' @ [0xB7] @ js '' Alignment / Decision'')),
    sn_sequence = 17,
    sn_node_label = Some (js ''G1_ALIGNMENT-N08''),
    sn_artifacts = [js ''.gwc/tasks/SCRUM-SIM-G0G6/g1_alignment/nodes/08-authority-boundary-check.node-run.json'',
      js ''.gwc/tasks/SCRUM-SIM-G0G6/g1_alignment/nodes/08-authority-boundary-check.runbook.yaml''],
    sn_reads = [js ''core/node-architect/node-catalog/**/*.node.json'',
      js ''core/node-architect/node-registry.json'',
      js ''core/node-architect/runtime-graph-registry.json'',
      js ''.gwc/tasks/SCRUM-SIM-G0G6/g1/intake/g1-intake-brief.yaml'',
      js ''.gwc/tasks/SCRUM-SIM-G0G6/g1/preflight/g1-preflight-report.yaml''],
    sn_runbook = [js ''Load node descriptor gate_authority.authority-boundary-check'',
      js ''Validate gate/evidence preconditions'',
      js ''Execute or simulate node action'',
      js ''Read back evidence and append run event'',
      js ''Persist checkpoint/update node history''],
    sn_taskcontroller_history = [event (js ''tc-017-admit'') (js ''node_admitted'') (js ''TaskController'') (js ''accepted'')
        [js ''core/node-architect/node-catalog/**/*.node.json''],
      event (js ''tc-017-project'') (js ''history_projected'') (js ''TaskController'') (js ''observed'')
        [js ''.gwc/tasks/SCRUM-SIM-G0G6/g1_alignment/nodes/08-authority-boundary-check.node-run.json'']],
    sn_executor_history = [event (js ''ex-017-start'') (js ''executor_started'') (js ''Hermes Mac / local_agent_sim'') (js ''running'')
        [js ''core/node-architect/node-catalog/gate_authority/authority-boundary-check.node.json''],
      event (js ''ex-017-finish'') (js ''executor_finished'') (js ''Hermes Mac / local_agent_sim'') (js ''success'')
        [js ''.gwc/tasks/SCRUM-SIM-G0G6/g1_alignment/nodes/08-authority-boundary-check.runbook.yaml'']],
    sn_checkpoints = [checkpoint_at (js ''cp-017'') 17 (js ''gate_authority.authority-boundary-check'') (js ''pending'')
        (js ''hermes-mac-sim'') (js ''fnc-4d3eb0c1'') (js ''done'')],
    sn_options = Some [js ''continue'',
      js ''retry/self-remediate'',
      js ''block for human authority'',
      js ''mark not_applicable when gate conditional''] \<rparr>"

definition node_18 :: simNode where
  "node_18 = \<lparr>
    sn_node_id = js ''gate_authority.blocked-action-escalation'',
    sn_title = js ''Blocked Action Escalation'',
    sn_description = js ''Explains blocked actions and generates the next exact approval or remediation command instead of stopping vaguely.'',
    sn_node_type = js ''workflow'',
    sn_family = js ''gate_authority'',
    sn_authority_boundary = js ''g2_required'',
    sn_catalog_path = Some (js ''core/node-architect/node-catalog/gate_authority/blocked-action-escalation.node.json''),
    sn_source_status = Some (js ''proposed_registry_slot''),
    sn_maturity = Some (js ''experimental''),
    sn_implementation_refs = Some [js ''core/node-architect/node-catalog/gate_authority/blocked-action-escalation.node.json''],
    sn_declared_gates = Some [js ''G1_ALIGNMENT'',
      js ''G2_EXECUTION''],
    sn_canonical = Some (js ''canonical''),
    sn_gate_id = js ''G1_ALIGNMENT'',
    sn_gate_label = Some ((js ''G1 '' @ [0xB7] @ js '' Alignment / Decision'')),
    sn_sequence = 18,
    sn_node_label = Some (js ''G1_ALIGNMENT-N09''),
    sn_artifacts = [js ''.gwc/tasks/SCRUM-SIM-G0G6/g1_alignment/nodes/09-blocked-action-escalation.node-run.json'',
      js ''.gwc/tasks/SCRUM-SIM-G0G6/g1_alignment/nodes/09-blocked-action-escalation.runbook.yaml''],
    sn_reads = [js ''core/node-architect/node-catalog/**/*.node.json'',
      js ''core/node-architect/node-registry.json'',
      js ''core/node-architect/runtime-graph-registry.json'',
      js ''.gwc/tasks/SCRUM-SIM-G0G6/g1/intake/g1-intake-brief.yaml'',
      js ''.gwc/tasks/SCRUM-SIM-G0G6/g1/preflight/g1-preflight-report.yaml''],
    sn_runbook = [js ''Load node descriptor gate_authority.blocked-action-escalation'',
      js ''Validate gate/evidence preconditions'',
      js ''Execute or simulate node action'',
      js ''Read back evidence and append run event'',
      js ''Persist checkpoint/update node history''],
    sn_taskcontroller_history = [event (js ''tc-018-admit'') (js ''node_admitted'') (js ''TaskController'') (js ''accepted'')
        [js ''core/node-architect/node-catalog/**/*.node.json''],
      event (js ''tc-018-project'') (js ''history_projected'') (js ''TaskController'') (js ''observed'')
        [js ''.gwc/tasks/SCRUM-SIM-G0G6/g1_alignment/nodes/09-blocked-action-escalation.node-run.json'']],
    sn_executor_history = [event (js ''ex-018-start'') (js ''executor_started'') (js ''Hermes Mac / local_agent_sim'') (js ''running'')
        [js ''core/node-architect/node-catalog/gate_authority/blocked-action-escalation.node.json''],
      event (js ''ex-018-finish'') (js ''executor_finished'') (js ''Hermes Mac / local_agent_sim'') (js ''success'')
        [js ''.gwc/tasks/SCRUM-SIM-G0G6/g1_alignment/nodes/09-blocked-action-escalation.runbook.yaml'']],
    sn_checkpoints = [checkpoint_at (js ''cp-018'') 18 (js ''gate_authority.blocked-action-escalation'') (js ''pending'')
        (js ''hermes-mac-sim'') (js ''fnc-d0065b85'') (js ''done'')],
    sn_options = Some [js ''continue'',
      js ''retry/self-remediate'',
      js ''block for human authority'',
      js ''mark not_applicable when gate conditional''] \<rparr>"

definition gate_1 :: simGate where
  "gate_1 = \<lparr>
    sg_id = js ''G1_ALIGNMENT'',
    sg_label = (js ''G1 '' @ [0xB7] @ js '' Alignment / Decision''),
    sg_summary = js ''Materialize intake/preflight/options/decision and prepare G2.'',
    sg_nodes = [node_10, node_11, node_12, node_13, node_14, node_15, node_16, node_17, node_18],
    sg_gate_artifacts = [js ''.gwc/tasks/SCRUM-SIM-G0G6/g1/intake/g1-intake-brief.yaml'',
      js ''.gwc/tasks/SCRUM-SIM-G0G6/g1/preflight/g1-preflight-report.yaml'',
      js ''.gwc/tasks/SCRUM-SIM-G0G6/g1/brainstorming/g1-options.yaml'',
      js ''.gwc/tasks/SCRUM-SIM-G0G6/g1/decision/g1-decision-record.yaml''],
    sg_taskcontroller_history = [event (js ''tc-G1_ALIGNMENT-open'') (js ''gate_opened'') (js ''TaskController'') (js ''running'')
        [js ''.gwc/tasks/SCRUM-SIM-G0G6/g1_alignment/''],
      event (js ''tc-G1_ALIGNMENT-close'') (js ''gate_closed'') (js ''TaskController'') (js ''pass'')
        [js ''.gwc/tasks/SCRUM-SIM-G0G6/g1_alignment/gate-summary.json'']],
    sg_executor_history = [event (js ''ex-G1_ALIGNMENT-lease'') (js ''executor_gate_session'') (js ''Hermes Mac / local_agent_sim'') (js ''completed'')
        [js ''session://DW-OBS-ARCH-SIM-G0G6-20260823-R3/G1_ALIGNMENT'']] \<rparr>"

definition node_19 :: simNode where
  "node_19 = \<lparr>
    sn_node_id = js ''gate_authority.g2-execution-envelope-render'',
    sn_title = js ''G2 Execution Envelope Render'',
    sn_description = js ''Renders a bounded G2 execution envelope from G1 decision records, Files READ/WRITE, authorized actions, and exclusions.'',
    sn_node_type = js ''workflow'',
    sn_family = js ''gate_authority'',
    sn_authority_boundary = js ''g2_required'',
    sn_catalog_path = Some (js ''core/node-architect/node-catalog/gate_authority/g2-execution-envelope-render.node.json''),
    sn_source_status = Some (js ''proposed_registry_slot''),
    sn_maturity = Some (js ''experimental''),
    sn_implementation_refs = Some [js ''core/node-architect/node-catalog/gate_authority/g2-execution-envelope-render.node.json''],
    sn_declared_gates = Some [js ''G1_ALIGNMENT'',
      js ''G2_EXECUTION''],
    sn_canonical = Some (js ''canonical''),
    sn_gate_id = js ''G2_EXECUTION'',
    sn_gate_label = Some ((js ''G2 '' @ [0xB7] @ js '' Execution Runtime'')),
    sn_sequence = 19,
    sn_node_label = Some (js ''G2_EXECUTION-N01''),
    sn_artifacts = [js ''.gwc/tasks/SCRUM-SIM-G0G6/g2_execution/nodes/01-g2-execution-envelope-render.node-run.json'',
      js ''.gwc/tasks/SCRUM-SIM-G0G6/g2_execution/nodes/01-g2-execution-envelope-render.runbook.yaml''],
    sn_reads = [js ''core/node-architect/node-catalog/**/*.node.json'',
      js ''core/node-architect/node-registry.json'',
      js ''core/node-architect/runtime-graph-registry.json'',
      js ''.gwc/tasks/SCRUM-SIM-G0G6/g2/execution-envelope.yaml'',
      js ''.gwc/tasks/SCRUM-SIM-G0G6/g2/action-authority.json''],
    sn_runbook = [js ''Load node descriptor gate_authority.g2-execution-envelope-render'',
      js ''Validate gate/evidence preconditions'',
      js ''Execute or simulate node action'',
      js ''Read back evidence and append run event'',
      js ''Persist checkpoint/update node history''],
    sn_taskcontroller_history = [event (js ''tc-019-admit'') (js ''node_admitted'') (js ''TaskController'') (js ''accepted'')
        [js ''core/node-architect/node-catalog/**/*.node.json''],
      event (js ''tc-019-project'') (js ''history_projected'') (js ''TaskController'') (js ''observed'')
        [js ''.gwc/tasks/SCRUM-SIM-G0G6/g2_execution/nodes/01-g2-execution-envelope-render.node-run.json'']],
    sn_executor_history = [event (js ''ex-019-start'') (js ''executor_started'') (js ''Hermes Mac / local_agent_sim'') (js ''running'')
        [js ''core/node-architect/node-catalog/gate_authority/g2-execution-envelope-render.node.json''],
      event (js ''ex-019-finish'') (js ''executor_finished'') (js ''Hermes Mac / local_agent_sim'') (js ''success'')
        [js ''.gwc/tasks/SCRUM-SIM-G0G6/g2_execution/nodes/01-g2-execution-envelope-render.runbook.yaml'']],
    sn_checkpoints = [checkpoint_at (js ''cp-019'') 19 (js ''gate_authority.g2-execution-envelope-render'') (js ''pending'')
        (js ''hermes-mac-sim'') (js ''fnc-87158906'') (js ''done'')],
    sn_options = Some [js ''continue'',
      js ''retry/self-remediate'',
      js ''block for human authority'',
      js ''mark not_applicable when gate conditional''] \<rparr>"

definition node_20 :: simNode where
  "node_20 = \<lparr>
    sn_node_id = js ''gate_authority.approval-command-validation'',
    sn_title = js ''Approval Command Validation'',
    sn_description = js ''Validates that a human response matches the exact approval command before any G2, G4, G5, or G6 action proceeds.'',
    sn_node_type = js ''gate'',
    sn_family = js ''gate_authority'',
    sn_authority_boundary = js ''g2_required'',
    sn_catalog_path = Some (js ''core/node-architect/node-catalog/gate_authority/approval-command-validation.node.json''),
    sn_source_status = Some (js ''proposed_registry_slot''),
    sn_maturity = Some (js ''experimental''),
    sn_implementation_refs = Some [js ''core/node-architect/node-catalog/gate_authority/approval-command-validation.node.json''],
    sn_declared_gates = Some [js ''G1_ALIGNMENT'',
      js ''G2_EXECUTION''],
    sn_canonical = Some (js ''canonical''),
    sn_gate_id = js ''G2_EXECUTION'',
    sn_gate_label = Some ((js ''G2 '' @ [0xB7] @ js '' Execution Runtime'')),
    sn_sequence = 20,
    sn_node_label = Some (js ''G2_EXECUTION-N02''),
    sn_artifacts = [js ''.gwc/tasks/SCRUM-SIM-G0G6/g2_execution/nodes/02-approval-command-validation.node-run.json'',
      js ''.gwc/tasks/SCRUM-SIM-G0G6/g2_execution/nodes/02-approval-command-validation.runbook.yaml''],
    sn_reads = [js ''core/node-architect/node-catalog/**/*.node.json'',
      js ''core/node-architect/node-registry.json'',
      js ''core/node-architect/runtime-graph-registry.json'',
      js ''.gwc/tasks/SCRUM-SIM-G0G6/g2/execution-envelope.yaml'',
      js ''.gwc/tasks/SCRUM-SIM-G0G6/g2/action-authority.json''],
    sn_runbook = [js ''Load node descriptor gate_authority.approval-command-validation'',
      js ''Validate gate/evidence preconditions'',
      js ''Execute or simulate node action'',
      js ''Read back evidence and append run event'',
      js ''Persist checkpoint/update node history''],
    sn_taskcontroller_history = [event (js ''tc-020-admit'') (js ''node_admitted'') (js ''TaskController'') (js ''accepted'')
        [js ''core/node-architect/node-catalog/**/*.node.json''],
      event (js ''tc-020-project'') (js ''history_projected'') (js ''TaskController'') (js ''observed'')
        [js ''.gwc/tasks/SCRUM-SIM-G0G6/g2_execution/nodes/02-approval-command-validation.node-run.json'']],
    sn_executor_history = [event (js ''ex-020-start'') (js ''executor_started'') (js ''Hermes Mac / local_agent_sim'') (js ''running'')
        [js ''core/node-architect/node-catalog/gate_authority/approval-command-validation.node.json''],
      event (js ''ex-020-finish'') (js ''executor_finished'') (js ''Hermes Mac / local_agent_sim'') (js ''success'')
        [js ''.gwc/tasks/SCRUM-SIM-G0G6/g2_execution/nodes/02-approval-command-validation.runbook.yaml'']],
    sn_checkpoints = [checkpoint_at (js ''cp-020'') 20 (js ''gate_authority.approval-command-validation'') (js ''pending'')
        (js ''hermes-mac-sim'') (js ''fnc-657e3c97'') (js ''done'')],
    sn_options = Some [js ''continue'',
      js ''retry/self-remediate'',
      js ''block for human authority'',
      js ''mark not_applicable when gate conditional''] \<rparr>"

definition node_21 :: simNode where
  "node_21 = \<lparr>
    sn_node_id = js ''runtime_checkpoint.lease-acquisition'',
    sn_title = js ''Lease Acquisition'',
    sn_description = js ''Acquire bounded work leases before mutating guarded branch state.'',
    sn_node_type = js ''connector'',
    sn_family = js ''runtime_checkpoint'',
    sn_authority_boundary = js ''g2_required'',
    sn_catalog_path = Some (js ''core/node-architect/node-catalog/runtime_checkpoint/lease-acquisition.node.json''),
    sn_source_status = Some (js ''proposed_registry_slot''),
    sn_maturity = Some (js ''experimental''),
    sn_implementation_refs = Some [js ''core/node-architect/node-catalog/runtime_checkpoint/lease-acquisition.node.json''],
    sn_declared_gates = Some [js ''G2_EXECUTION''],
    sn_canonical = Some (js ''canonical''),
    sn_gate_id = js ''G2_EXECUTION'',
    sn_gate_label = Some ((js ''G2 '' @ [0xB7] @ js '' Execution Runtime'')),
    sn_sequence = 21,
    sn_node_label = Some (js ''G2_EXECUTION-N03''),
    sn_artifacts = [js ''.gwc/tasks/SCRUM-SIM-G0G6/g2/runtime-lease.json'',
      js ''.gwc/tasks/SCRUM-SIM-G0G6/g2/checkpoint-000.json''],
    sn_reads = [js ''g2/execution-envelope.yaml'',
      js ''checkpoint store''],
    sn_runbook = [js ''Load checkpoint'',
      js ''Acquire lease'',
      js ''Set fencing token'',
      js ''Mark active executor''],
    sn_taskcontroller_history = [event (js ''tc-021-admit'') (js ''node_admitted'') (js ''TaskController'') (js ''accepted'')
        [js ''g2/execution-envelope.yaml''],
      event (js ''tc-021-project'') (js ''history_projected'') (js ''TaskController'') (js ''observed'')
        [js ''.gwc/tasks/SCRUM-SIM-G0G6/g2/runtime-lease.json'']],
    sn_executor_history = [event (js ''ex-021-start'') (js ''executor_started'') (js ''Hermes Mac / local_agent_sim'') (js ''running'')
        [js ''core/node-architect/node-catalog/runtime_checkpoint/lease-acquisition.node.json''],
      event (js ''ex-021-finish'') (js ''executor_finished'') (js ''Hermes Mac / local_agent_sim'') (js ''success'')
        [js ''.gwc/tasks/SCRUM-SIM-G0G6/g2/checkpoint-000.json'']],
    sn_checkpoints = [checkpoint_at (js ''cp-021'') 21 (js ''runtime_checkpoint.lease-acquisition'') (js ''pending'')
        (js ''hermes-mac-sim'') (js ''fnc-d804309c'') (js ''done'')],
    sn_options = Some [js ''continue'',
      js ''retry/self-remediate'',
      js ''block for human authority'',
      js ''mark not_applicable when gate conditional''] \<rparr>"

definition node_22 :: simNode where
  "node_22 = \<lparr>
    sn_node_id = js ''runtime_checkpoint.checkpoint-capture'',
    sn_title = js ''Checkpoint Capture'',
    sn_description = js ''Capture a deterministic checkpoint before bounded execution state changes.'',
    sn_node_type = js ''state'',
    sn_family = js ''runtime_checkpoint'',
    sn_authority_boundary = js ''g2_required'',
    sn_catalog_path = Some (js ''core/node-architect/node-catalog/runtime_checkpoint/checkpoint-capture.node.json''),
    sn_source_status = Some (js ''proposed_registry_slot''),
    sn_maturity = Some (js ''experimental''),
    sn_implementation_refs = Some [js ''core/node-architect/node-catalog/runtime_checkpoint/checkpoint-capture.node.json''],
    sn_declared_gates = Some [js ''G2_EXECUTION''],
    sn_canonical = Some (js ''canonical''),
    sn_gate_id = js ''G2_EXECUTION'',
    sn_gate_label = Some ((js ''G2 '' @ [0xB7] @ js '' Execution Runtime'')),
    sn_sequence = 22,
    sn_node_label = Some (js ''G2_EXECUTION-N04''),
    sn_artifacts = [js ''.gwc/tasks/SCRUM-SIM-G0G6/g2_execution/nodes/04-checkpoint-capture.node-run.json'',
      js ''.gwc/tasks/SCRUM-SIM-G0G6/g2_execution/nodes/04-checkpoint-capture.runbook.yaml''],
    sn_reads = [js ''core/node-architect/node-catalog/**/*.node.json'',
      js ''core/node-architect/node-registry.json'',
      js ''core/node-architect/runtime-graph-registry.json'',
      js ''.gwc/tasks/SCRUM-SIM-G0G6/g2/execution-envelope.yaml'',
      js ''.gwc/tasks/SCRUM-SIM-G0G6/g2/action-authority.json''],
    sn_runbook = [js ''Load node descriptor runtime_checkpoint.checkpoint-capture'',
      js ''Validate gate/evidence preconditions'',
      js ''Execute or simulate node action'',
      js ''Read back evidence and append run event'',
      js ''Persist checkpoint/update node history''],
    sn_taskcontroller_history = [event (js ''tc-022-admit'') (js ''node_admitted'') (js ''TaskController'') (js ''accepted'')
        [js ''core/node-architect/node-catalog/**/*.node.json''],
      event (js ''tc-022-project'') (js ''history_projected'') (js ''TaskController'') (js ''observed'')
        [js ''.gwc/tasks/SCRUM-SIM-G0G6/g2_execution/nodes/04-checkpoint-capture.node-run.json'']],
    sn_executor_history = [event (js ''ex-022-start'') (js ''executor_started'') (js ''Hermes Mac / local_agent_sim'') (js ''running'')
        [js ''core/node-architect/node-catalog/runtime_checkpoint/checkpoint-capture.node.json''],
      event (js ''ex-022-finish'') (js ''executor_finished'') (js ''Hermes Mac / local_agent_sim'') (js ''success'')
        [js ''.gwc/tasks/SCRUM-SIM-G0G6/g2_execution/nodes/04-checkpoint-capture.runbook.yaml'']],
    sn_checkpoints = [checkpoint_at (js ''cp-022'') 22 (js ''runtime_checkpoint.checkpoint-capture'') (js ''pending'')
        (js ''hermes-mac-sim'') (js ''fnc-ecef0708'') (js ''done'')],
    sn_options = Some [js ''continue'',
      js ''retry/self-remediate'',
      js ''block for human authority'',
      js ''mark not_applicable when gate conditional''] \<rparr>"

definition node_23 :: simNode where
  "node_23 = \<lparr>
    sn_node_id = js ''runtime_checkpoint.cas-write-guard'',
    sn_title = js ''Cas Write Guard'',
    sn_description = js ''Guard branch and artifact writes with compare-and-swap expectations.'',
    sn_node_type = js ''gate'',
    sn_family = js ''runtime_checkpoint'',
    sn_authority_boundary = js ''g2_required'',
    sn_catalog_path = Some (js ''core/node-architect/node-catalog/runtime_checkpoint/cas-write-guard.node.json''),
    sn_source_status = Some (js ''proposed_registry_slot''),
    sn_maturity = Some (js ''experimental''),
    sn_implementation_refs = Some [js ''core/node-architect/node-catalog/runtime_checkpoint/cas-write-guard.node.json''],
    sn_declared_gates = Some [js ''G2_EXECUTION''],
    sn_canonical = Some (js ''canonical''),
    sn_gate_id = js ''G2_EXECUTION'',
    sn_gate_label = Some ((js ''G2 '' @ [0xB7] @ js '' Execution Runtime'')),
    sn_sequence = 23,
    sn_node_label = Some (js ''G2_EXECUTION-N05''),
    sn_artifacts = [js ''.gwc/tasks/SCRUM-SIM-G0G6/g2_execution/nodes/05-cas-write-guard.node-run.json'',
      js ''.gwc/tasks/SCRUM-SIM-G0G6/g2_execution/nodes/05-cas-write-guard.runbook.yaml''],
    sn_reads = [js ''core/node-architect/node-catalog/**/*.node.json'',
      js ''core/node-architect/node-registry.json'',
      js ''core/node-architect/runtime-graph-registry.json'',
      js ''.gwc/tasks/SCRUM-SIM-G0G6/g2/execution-envelope.yaml'',
      js ''.gwc/tasks/SCRUM-SIM-G0G6/g2/action-authority.json''],
    sn_runbook = [js ''Load node descriptor runtime_checkpoint.cas-write-guard'',
      js ''Validate gate/evidence preconditions'',
      js ''Execute or simulate node action'',
      js ''Read back evidence and append run event'',
      js ''Persist checkpoint/update node history''],
    sn_taskcontroller_history = [event (js ''tc-023-admit'') (js ''node_admitted'') (js ''TaskController'') (js ''accepted'')
        [js ''core/node-architect/node-catalog/**/*.node.json''],
      event (js ''tc-023-project'') (js ''history_projected'') (js ''TaskController'') (js ''observed'')
        [js ''.gwc/tasks/SCRUM-SIM-G0G6/g2_execution/nodes/05-cas-write-guard.node-run.json'']],
    sn_executor_history = [event (js ''ex-023-start'') (js ''executor_started'') (js ''Hermes Mac / local_agent_sim'') (js ''running'')
        [js ''core/node-architect/node-catalog/runtime_checkpoint/cas-write-guard.node.json''],
      event (js ''ex-023-finish'') (js ''executor_finished'') (js ''Hermes Mac / local_agent_sim'') (js ''success'')
        [js ''.gwc/tasks/SCRUM-SIM-G0G6/g2_execution/nodes/05-cas-write-guard.runbook.yaml'']],
    sn_checkpoints = [checkpoint_at (js ''cp-023'') 23 (js ''runtime_checkpoint.cas-write-guard'') (js ''pending'')
        (js ''hermes-mac-sim'') (js ''fnc-c8a4f4e5'') (js ''done'')],
    sn_options = Some [js ''continue'',
      js ''retry/self-remediate'',
      js ''block for human authority'',
      js ''mark not_applicable when gate conditional''] \<rparr>"

definition node_24 :: simNode where
  "node_24 = \<lparr>
    sn_node_id = js ''repo_delivery.branch-creation'',
    sn_title = js ''Branch Creation'',
    sn_description = js ''Create guarded branches from exact approved base SHA.'',
    sn_node_type = js ''connector'',
    sn_family = js ''repo_delivery'',
    sn_authority_boundary = js ''g2_required'',
    sn_catalog_path = Some (js ''core/node-architect/node-catalog/repo_delivery/branch-creation.node.json''),
    sn_source_status = Some (js ''proposed_registry_slot''),
    sn_maturity = Some (js ''experimental''),
    sn_implementation_refs = Some [js ''core/node-architect/node-catalog/repo_delivery/branch-creation.node.json''],
    sn_declared_gates = Some [js ''G2_EXECUTION'',
      js ''G3_PR''],
    sn_canonical = Some (js ''canonical''),
    sn_gate_id = js ''G2_EXECUTION'',
    sn_gate_label = Some ((js ''G2 '' @ [0xB7] @ js '' Execution Runtime'')),
    sn_sequence = 24,
    sn_node_label = Some (js ''G2_EXECUTION-N06''),
    sn_artifacts = [js ''.gwc/tasks/SCRUM-SIM-G0G6/g2_execution/nodes/06-branch-creation.node-run.json'',
      js ''.gwc/tasks/SCRUM-SIM-G0G6/g2_execution/nodes/06-branch-creation.runbook.yaml''],
    sn_reads = [js ''core/node-architect/node-catalog/**/*.node.json'',
      js ''core/node-architect/node-registry.json'',
      js ''core/node-architect/runtime-graph-registry.json'',
      js ''.gwc/tasks/SCRUM-SIM-G0G6/g2/execution-envelope.yaml'',
      js ''.gwc/tasks/SCRUM-SIM-G0G6/g2/action-authority.json''],
    sn_runbook = [js ''Load node descriptor repo_delivery.branch-creation'',
      js ''Validate gate/evidence preconditions'',
      js ''Execute or simulate node action'',
      js ''Read back evidence and append run event'',
      js ''Persist checkpoint/update node history''],
    sn_taskcontroller_history = [event (js ''tc-024-admit'') (js ''node_admitted'') (js ''TaskController'') (js ''accepted'')
        [js ''core/node-architect/node-catalog/**/*.node.json''],
      event (js ''tc-024-project'') (js ''history_projected'') (js ''TaskController'') (js ''observed'')
        [js ''.gwc/tasks/SCRUM-SIM-G0G6/g2_execution/nodes/06-branch-creation.node-run.json'']],
    sn_executor_history = [event (js ''ex-024-start'') (js ''executor_started'') (js ''Hermes Mac / local_agent_sim'') (js ''running'')
        [js ''core/node-architect/node-catalog/repo_delivery/branch-creation.node.json''],
      event (js ''ex-024-finish'') (js ''executor_finished'') (js ''Hermes Mac / local_agent_sim'') (js ''success'')
        [js ''.gwc/tasks/SCRUM-SIM-G0G6/g2_execution/nodes/06-branch-creation.runbook.yaml'']],
    sn_checkpoints = [checkpoint_at (js ''cp-024'') 24 (js ''repo_delivery.branch-creation'') (js ''pending'')
        (js ''hermes-mac-sim'') (js ''fnc-3474fe5c'') (js ''done'')],
    sn_options = Some [js ''continue'',
      js ''retry/self-remediate'',
      js ''block for human authority'',
      js ''mark not_applicable when gate conditional''] \<rparr>"

definition node_25 :: simNode where
  "node_25 = \<lparr>
    sn_node_id = js ''repo_delivery.scoped-file-write'',
    sn_title = js ''Scoped File Write'',
    sn_description = js ''Write only files allowed by the active G2 execution envelope.'',
    sn_node_type = js ''tool'',
    sn_family = js ''repo_delivery'',
    sn_authority_boundary = js ''g2_required'',
    sn_catalog_path = Some (js ''core/node-architect/node-catalog/repo_delivery/scoped-file-write.node.json''),
    sn_source_status = Some (js ''proposed_registry_slot''),
    sn_maturity = Some (js ''experimental''),
    sn_implementation_refs = Some [js ''core/node-architect/node-catalog/repo_delivery/scoped-file-write.node.json''],
    sn_declared_gates = Some [js ''G2_EXECUTION'',
      js ''G3_PR''],
    sn_canonical = Some (js ''canonical''),
    sn_gate_id = js ''G2_EXECUTION'',
    sn_gate_label = Some ((js ''G2 '' @ [0xB7] @ js '' Execution Runtime'')),
    sn_sequence = 25,
    sn_node_label = Some (js ''G2_EXECUTION-N07''),
    sn_artifacts = [js ''.gwc/tasks/SCRUM-SIM-G0G6/g2/write-readback.json'',
      js ''.gwc/tasks/SCRUM-SIM-G0G6/g2/changed-files.json''],
    sn_reads = [js ''approved design contract'',
      js ''allowed_paths[]'',
      js ''repo files''],
    sn_runbook = [js ''Read target files'',
      js ''Apply bounded patch'',
      js ''Read back changed bytes'',
      js ''Reject scope drift''],
    sn_taskcontroller_history = [event (js ''tc-025-admit'') (js ''node_admitted'') (js ''TaskController'') (js ''accepted'')
        [js ''approved design contract''],
      event (js ''tc-025-project'') (js ''history_projected'') (js ''TaskController'') (js ''observed'')
        [js ''.gwc/tasks/SCRUM-SIM-G0G6/g2/write-readback.json'']],
    sn_executor_history = [event (js ''ex-025-start'') (js ''executor_started'') (js ''Hermes Mac / local_agent_sim'') (js ''running'')
        [js ''core/node-architect/node-catalog/repo_delivery/scoped-file-write.node.json''],
      event (js ''ex-025-finish'') (js ''executor_finished'') (js ''Hermes Mac / local_agent_sim'') (js ''success'')
        [js ''.gwc/tasks/SCRUM-SIM-G0G6/g2/changed-files.json'']],
    sn_checkpoints = [checkpoint_at (js ''cp-025'') 25 (js ''repo_delivery.scoped-file-write'') (js ''pending'')
        (js ''hermes-mac-sim'') (js ''fnc-d9f4746b'') (js ''done'')],
    sn_options = Some [js ''continue'',
      js ''retry/self-remediate'',
      js ''block for human authority'',
      js ''mark not_applicable when gate conditional''] \<rparr>"

definition node_26 :: simNode where
  "node_26 = \<lparr>
    sn_node_id = js ''runtime_checkpoint.checkpoint-persist'',
    sn_title = js ''Checkpoint Persist'',
    sn_description = js ''Persist checkpoint artifacts to the approved workspace without production data access.'',
    sn_node_type = js ''tool'',
    sn_family = js ''runtime_checkpoint'',
    sn_authority_boundary = js ''g2_required'',
    sn_catalog_path = Some (js ''core/node-architect/node-catalog/runtime_checkpoint/checkpoint-persist.node.json''),
    sn_source_status = Some (js ''canonical_explicit''),
    sn_maturity = Some (js ''candidate''),
    sn_implementation_refs = Some [js ''core/node-architect/node-catalog/runtime_checkpoint/checkpoint-persist.node.json''],
    sn_declared_gates = Some [js ''G2_EXECUTION''],
    sn_canonical = Some (js ''canonical''),
    sn_gate_id = js ''G2_EXECUTION'',
    sn_gate_label = Some ((js ''G2 '' @ [0xB7] @ js '' Execution Runtime'')),
    sn_sequence = 26,
    sn_node_label = Some (js ''G2_EXECUTION-N08''),
    sn_artifacts = [js ''.gwc/tasks/SCRUM-SIM-G0G6/g2_execution/nodes/08-checkpoint-persist.node-run.json'',
      js ''.gwc/tasks/SCRUM-SIM-G0G6/g2_execution/nodes/08-checkpoint-persist.runbook.yaml''],
    sn_reads = [js ''core/node-architect/node-catalog/**/*.node.json'',
      js ''core/node-architect/node-registry.json'',
      js ''core/node-architect/runtime-graph-registry.json'',
      js ''.gwc/tasks/SCRUM-SIM-G0G6/g2/execution-envelope.yaml'',
      js ''.gwc/tasks/SCRUM-SIM-G0G6/g2/action-authority.json''],
    sn_runbook = [js ''Load node descriptor runtime_checkpoint.checkpoint-persist'',
      js ''Validate gate/evidence preconditions'',
      js ''Execute or simulate node action'',
      js ''Read back evidence and append run event'',
      js ''Persist checkpoint/update node history''],
    sn_taskcontroller_history = [event (js ''tc-026-admit'') (js ''node_admitted'') (js ''TaskController'') (js ''accepted'')
        [js ''core/node-architect/node-catalog/**/*.node.json''],
      event (js ''tc-026-project'') (js ''history_projected'') (js ''TaskController'') (js ''observed'')
        [js ''.gwc/tasks/SCRUM-SIM-G0G6/g2_execution/nodes/08-checkpoint-persist.node-run.json'']],
    sn_executor_history = [event (js ''ex-026-start'') (js ''executor_started'') (js ''Hermes Mac / local_agent_sim'') (js ''running'')
        [js ''core/node-architect/node-catalog/runtime_checkpoint/checkpoint-persist.node.json''],
      event (js ''ex-026-finish'') (js ''executor_finished'') (js ''Hermes Mac / local_agent_sim'') (js ''success'')
        [js ''.gwc/tasks/SCRUM-SIM-G0G6/g2_execution/nodes/08-checkpoint-persist.runbook.yaml'']],
    sn_checkpoints = [checkpoint_at (js ''cp-026'') 26 (js ''runtime_checkpoint.checkpoint-persist'') (js ''pending'')
        (js ''hermes-mac-sim'') (js ''fnc-afb9c83c'') (js ''done'')],
    sn_options = Some [js ''continue'',
      js ''retry/self-remediate'',
      js ''block for human authority'',
      js ''mark not_applicable when gate conditional''] \<rparr>"

definition node_27 :: simNode where
  "node_27 = \<lparr>
    sn_node_id = js ''package-export-package-manifest-load'',
    sn_title = js ''Package Manifest Load'',
    sn_description = js ''Load the approved project package manifest and preserve its stable entry order before export.'',
    sn_node_type = js ''tool'',
    sn_family = js ''package_export'',
    sn_authority_boundary = js ''g2_required'',
    sn_catalog_path = Some (js ''core/node-architect/node-catalog/package_export/package-manifest-load.node.json''),
    sn_source_status = Some (js ''lifecycle_artifact''),
    sn_maturity = Some (js ''contract''),
    sn_implementation_refs = Some [js ''core/node-architect/node-catalog/package_export/package-manifest-load.node.json''],
    sn_declared_gates = Some [js ''G2_EXECUTION''],
    sn_canonical = Some (js ''delivery_evidence''),
    sn_gate_id = js ''G2_EXECUTION'',
    sn_gate_label = Some ((js ''G2 '' @ [0xB7] @ js '' Execution Runtime'')),
    sn_sequence = 27,
    sn_node_label = Some (js ''G2_EXECUTION-N09''),
    sn_artifacts = [js ''.gwc/tasks/SCRUM-SIM-G0G6/g2_execution/nodes/09-package-export-package-manifest-load.node-run.json'',
      js ''.gwc/tasks/SCRUM-SIM-G0G6/g2_execution/nodes/09-package-export-package-manifest-load.runbook.yaml''],
    sn_reads = [js ''core/node-architect/node-catalog/**/*.node.json'',
      js ''core/node-architect/node-registry.json'',
      js ''core/node-architect/runtime-graph-registry.json'',
      js ''.gwc/tasks/SCRUM-SIM-G0G6/g2/execution-envelope.yaml'',
      js ''.gwc/tasks/SCRUM-SIM-G0G6/g2/action-authority.json''],
    sn_runbook = [js ''Load node descriptor package-export-package-manifest-load'',
      js ''Validate gate/evidence preconditions'',
      js ''Execute or simulate node action'',
      js ''Read back evidence and append run event'',
      js ''Persist checkpoint/update node history''],
    sn_taskcontroller_history = [event (js ''tc-027-admit'') (js ''node_admitted'') (js ''TaskController'') (js ''accepted'')
        [js ''core/node-architect/node-catalog/**/*.node.json''],
      event (js ''tc-027-project'') (js ''history_projected'') (js ''TaskController'') (js ''observed'')
        [js ''.gwc/tasks/SCRUM-SIM-G0G6/g2_execution/nodes/09-package-export-package-manifest-load.node-run.json'']],
    sn_executor_history = [event (js ''ex-027-start'') (js ''executor_started'') (js ''Hermes Mac / local_agent_sim'') (js ''running'')
        [js ''core/node-architect/node-catalog/package_export/package-manifest-load.node.json''],
      event (js ''ex-027-finish'') (js ''executor_finished'') (js ''Hermes Mac / local_agent_sim'') (js ''success'')
        [js ''.gwc/tasks/SCRUM-SIM-G0G6/g2_execution/nodes/09-package-export-package-manifest-load.runbook.yaml'']],
    sn_checkpoints = [checkpoint_at (js ''cp-027'') 27 (js ''package-export-package-manifest-load'') (js ''pending'')
        (js ''hermes-mac-sim'') (js ''fnc-d93593a0'') (js ''done'')],
    sn_options = Some [js ''continue'',
      js ''retry/self-remediate'',
      js ''block for human authority'',
      js ''mark not_applicable when gate conditional''] \<rparr>"

definition node_28 :: simNode where
  "node_28 = \<lparr>
    sn_node_id = js ''package-export-governance-tree-build'',
    sn_title = js ''Governance Tree Build'',
    sn_description = js ''Copy approved source bytes into the generated governance tree without changing canonical authority.'',
    sn_node_type = js ''workflow'',
    sn_family = js ''package_export'',
    sn_authority_boundary = js ''g2_required'',
    sn_catalog_path = Some (js ''core/node-architect/node-catalog/package_export/governance-tree-build.node.json''),
    sn_source_status = Some (js ''lifecycle_artifact''),
    sn_maturity = Some (js ''contract''),
    sn_implementation_refs = Some [js ''core/node-architect/node-catalog/package_export/governance-tree-build.node.json''],
    sn_declared_gates = Some [js ''G2_EXECUTION'',
      js ''G3_PR''],
    sn_canonical = Some (js ''delivery_evidence''),
    sn_gate_id = js ''G2_EXECUTION'',
    sn_gate_label = Some ((js ''G2 '' @ [0xB7] @ js '' Execution Runtime'')),
    sn_sequence = 28,
    sn_node_label = Some (js ''G2_EXECUTION-N10''),
    sn_artifacts = [js ''.gwc/tasks/SCRUM-SIM-G0G6/g2_execution/nodes/10-package-export-governance-tree-build.node-run.json'',
      js ''.gwc/tasks/SCRUM-SIM-G0G6/g2_execution/nodes/10-package-export-governance-tree-build.runbook.yaml''],
    sn_reads = [js ''core/node-architect/node-catalog/**/*.node.json'',
      js ''core/node-architect/node-registry.json'',
      js ''core/node-architect/runtime-graph-registry.json'',
      js ''.gwc/tasks/SCRUM-SIM-G0G6/g2/execution-envelope.yaml'',
      js ''.gwc/tasks/SCRUM-SIM-G0G6/g2/action-authority.json''],
    sn_runbook = [js ''Load node descriptor package-export-governance-tree-build'',
      js ''Validate gate/evidence preconditions'',
      js ''Execute or simulate node action'',
      js ''Read back evidence and append run event'',
      js ''Persist checkpoint/update node history''],
    sn_taskcontroller_history = [event (js ''tc-028-admit'') (js ''node_admitted'') (js ''TaskController'') (js ''accepted'')
        [js ''core/node-architect/node-catalog/**/*.node.json''],
      event (js ''tc-028-project'') (js ''history_projected'') (js ''TaskController'') (js ''observed'')
        [js ''.gwc/tasks/SCRUM-SIM-G0G6/g2_execution/nodes/10-package-export-governance-tree-build.node-run.json'']],
    sn_executor_history = [event (js ''ex-028-start'') (js ''executor_started'') (js ''Hermes Mac / local_agent_sim'') (js ''running'')
        [js ''core/node-architect/node-catalog/package_export/governance-tree-build.node.json''],
      event (js ''ex-028-finish'') (js ''executor_finished'') (js ''Hermes Mac / local_agent_sim'') (js ''success'')
        [js ''.gwc/tasks/SCRUM-SIM-G0G6/g2_execution/nodes/10-package-export-governance-tree-build.runbook.yaml'']],
    sn_checkpoints = [checkpoint_at (js ''cp-028'') 28 (js ''package-export-governance-tree-build'') (js ''pending'')
        (js ''hermes-mac-sim'') (js ''fnc-7f84fa17'') (js ''done'')],
    sn_options = Some [js ''continue'',
      js ''retry/self-remediate'',
      js ''block for human authority'',
      js ''mark not_applicable when gate conditional''] \<rparr>"

definition node_29 :: simNode where
  "node_29 = \<lparr>
    sn_node_id = js ''package-export-export-manifest-generation'',
    sn_title = js ''Export Manifest Generation'',
    sn_description = js ''Generate deterministic export evidence with source identity, entry status, byte counts, and SHA-256 values.'',
    sn_node_type = js ''workflow'',
    sn_family = js ''package_export'',
    sn_authority_boundary = js ''g2_required'',
    sn_catalog_path = Some (js ''core/node-architect/node-catalog/package_export/export-manifest-generation.node.json''),
    sn_source_status = Some (js ''lifecycle_artifact''),
    sn_maturity = Some (js ''contract''),
    sn_implementation_refs = Some [js ''core/node-architect/node-catalog/package_export/export-manifest-generation.node.json''],
    sn_declared_gates = Some [js ''G2_EXECUTION'',
      js ''G3_PR''],
    sn_canonical = Some (js ''delivery_evidence''),
    sn_gate_id = js ''G2_EXECUTION'',
    sn_gate_label = Some ((js ''G2 '' @ [0xB7] @ js '' Execution Runtime'')),
    sn_sequence = 29,
    sn_node_label = Some (js ''G2_EXECUTION-N11''),
    sn_artifacts = [js ''.gwc/tasks/SCRUM-SIM-G0G6/g2_execution/nodes/11-package-export-export-manifest-generation.node-run.json'',
      js ''.gwc/tasks/SCRUM-SIM-G0G6/g2_execution/nodes/11-package-export-export-manifest-generation.runbook.yaml''],
    sn_reads = [js ''core/node-architect/node-catalog/**/*.node.json'',
      js ''core/node-architect/node-registry.json'',
      js ''core/node-architect/runtime-graph-registry.json'',
      js ''.gwc/tasks/SCRUM-SIM-G0G6/g2/execution-envelope.yaml'',
      js ''.gwc/tasks/SCRUM-SIM-G0G6/g2/action-authority.json''],
    sn_runbook = [js ''Load node descriptor package-export-export-manifest-generation'',
      js ''Validate gate/evidence preconditions'',
      js ''Execute or simulate node action'',
      js ''Read back evidence and append run event'',
      js ''Persist checkpoint/update node history''],
    sn_taskcontroller_history = [event (js ''tc-029-admit'') (js ''node_admitted'') (js ''TaskController'') (js ''accepted'')
        [js ''core/node-architect/node-catalog/**/*.node.json''],
      event (js ''tc-029-project'') (js ''history_projected'') (js ''TaskController'') (js ''observed'')
        [js ''.gwc/tasks/SCRUM-SIM-G0G6/g2_execution/nodes/11-package-export-export-manifest-generation.node-run.json'']],
    sn_executor_history = [event (js ''ex-029-start'') (js ''executor_started'') (js ''Hermes Mac / local_agent_sim'') (js ''running'')
        [js ''core/node-architect/node-catalog/package_export/export-manifest-generation.node.json''],
      event (js ''ex-029-finish'') (js ''executor_finished'') (js ''Hermes Mac / local_agent_sim'') (js ''success'')
        [js ''.gwc/tasks/SCRUM-SIM-G0G6/g2_execution/nodes/11-package-export-export-manifest-generation.runbook.yaml'']],
    sn_checkpoints = [checkpoint_at (js ''cp-029'') 29 (js ''package-export-export-manifest-generation'') (js ''pending'')
        (js ''hermes-mac-sim'') (js ''fnc-3cf8f256'') (js ''done'')],
    sn_options = Some [js ''continue'',
      js ''retry/self-remediate'',
      js ''block for human authority'',
      js ''mark not_applicable when gate conditional''] \<rparr>"

definition node_30 :: simNode where
  "node_30 = \<lparr>
    sn_node_id = js ''package-export-deterministic-hash-verification'',
    sn_title = js ''Deterministic Hash Verification'',
    sn_description = js ''Read back generated files and verify source, target, and manifest hashes for the approved inputs.'',
    sn_node_type = js ''gate'',
    sn_family = js ''package_export'',
    sn_authority_boundary = js ''g2_required'',
    sn_catalog_path = Some (js ''core/node-architect/node-catalog/package_export/deterministic-hash-verification.node.json''),
    sn_source_status = Some (js ''lifecycle_artifact''),
    sn_maturity = Some (js ''contract''),
    sn_implementation_refs = Some [js ''core/node-architect/node-catalog/package_export/deterministic-hash-verification.node.json''],
    sn_declared_gates = Some [js ''G2_EXECUTION'',
      js ''G3_PR''],
    sn_canonical = Some (js ''delivery_evidence''),
    sn_gate_id = js ''G2_EXECUTION'',
    sn_gate_label = Some ((js ''G2 '' @ [0xB7] @ js '' Execution Runtime'')),
    sn_sequence = 30,
    sn_node_label = Some (js ''G2_EXECUTION-N12''),
    sn_artifacts = [js ''.gwc/tasks/SCRUM-SIM-G0G6/g2_execution/nodes/12-package-export-deterministic-hash-verification.node-run.json'',
      js ''.gwc/tasks/SCRUM-SIM-G0G6/g2_execution/nodes/12-package-export-deterministic-hash-verification.runbook.yaml''],
    sn_reads = [js ''core/node-architect/node-catalog/**/*.node.json'',
      js ''core/node-architect/node-registry.json'',
      js ''core/node-architect/runtime-graph-registry.json'',
      js ''.gwc/tasks/SCRUM-SIM-G0G6/g2/execution-envelope.yaml'',
      js ''.gwc/tasks/SCRUM-SIM-G0G6/g2/action-authority.json''],
    sn_runbook = [js ''Load node descriptor package-export-deterministic-hash-verification'',
      js ''Validate gate/evidence preconditions'',
      js ''Execute or simulate node action'',
      js ''Read back evidence and append run event'',
      js ''Persist checkpoint/update node history''],
    sn_taskcontroller_history = [event (js ''tc-030-admit'') (js ''node_admitted'') (js ''TaskController'') (js ''accepted'')
        [js ''core/node-architect/node-catalog/**/*.node.json''],
      event (js ''tc-030-project'') (js ''history_projected'') (js ''TaskController'') (js ''observed'')
        [js ''.gwc/tasks/SCRUM-SIM-G0G6/g2_execution/nodes/12-package-export-deterministic-hash-verification.node-run.json'']],
    sn_executor_history = [event (js ''ex-030-start'') (js ''executor_started'') (js ''Hermes Mac / local_agent_sim'') (js ''running'')
        [js ''core/node-architect/node-catalog/package_export/deterministic-hash-verification.node.json''],
      event (js ''ex-030-finish'') (js ''executor_finished'') (js ''Hermes Mac / local_agent_sim'') (js ''success'')
        [js ''.gwc/tasks/SCRUM-SIM-G0G6/g2_execution/nodes/12-package-export-deterministic-hash-verification.runbook.yaml'']],
    sn_checkpoints = [checkpoint_at (js ''cp-030'') 30 (js ''package-export-deterministic-hash-verification'') (js ''pending'')
        (js ''hermes-mac-sim'') (js ''fnc-56d73122'') (js ''done'')],
    sn_options = Some [js ''continue'',
      js ''retry/self-remediate'',
      js ''block for human authority'',
      js ''mark not_applicable when gate conditional''] \<rparr>"

definition node_31 :: simNode where
  "node_31 = \<lparr>
    sn_node_id = js ''sync-projection-task-center-sync'',
    sn_title = js ''Task Center Sync'',
    sn_description = js ''Synchronize bounded task metadata to Task Center while preserving repository and gate evidence as canonical.'',
    sn_node_type = js ''connector'',
    sn_family = js ''sync_projection'',
    sn_authority_boundary = js ''read_only'',
    sn_catalog_path = Some (js ''core/node-architect/node-catalog/sync_projection/task-center-sync.node.json''),
    sn_source_status = Some (js ''lifecycle_artifact''),
    sn_maturity = Some (js ''contract''),
    sn_implementation_refs = Some [js ''core/node-architect/node-catalog/sync_projection/task-center-sync.node.json''],
    sn_declared_gates = Some [js ''G2_EXECUTION'',
      js ''G3_PR''],
    sn_canonical = Some (js ''audit_projection''),
    sn_gate_id = js ''G2_EXECUTION'',
    sn_gate_label = Some ((js ''G2 '' @ [0xB7] @ js '' Execution Runtime'')),
    sn_sequence = 31,
    sn_node_label = Some (js ''G2_EXECUTION-N13''),
    sn_artifacts = [js ''.gwc/tasks/SCRUM-SIM-G0G6/g2_execution/nodes/13-sync-projection-task-center-sync.node-run.json'',
      js ''.gwc/tasks/SCRUM-SIM-G0G6/g2_execution/nodes/13-sync-projection-task-center-sync.runbook.yaml''],
    sn_reads = [js ''core/node-architect/node-catalog/**/*.node.json'',
      js ''core/node-architect/node-registry.json'',
      js ''core/node-architect/runtime-graph-registry.json'',
      js ''.gwc/tasks/SCRUM-SIM-G0G6/g2/execution-envelope.yaml'',
      js ''.gwc/tasks/SCRUM-SIM-G0G6/g2/action-authority.json''],
    sn_runbook = [js ''Load node descriptor sync-projection-task-center-sync'',
      js ''Validate gate/evidence preconditions'',
      js ''Execute or simulate node action'',
      js ''Read back evidence and append run event'',
      js ''Persist checkpoint/update node history''],
    sn_taskcontroller_history = [event (js ''tc-031-admit'') (js ''node_admitted'') (js ''TaskController'') (js ''accepted'')
        [js ''core/node-architect/node-catalog/**/*.node.json''],
      event (js ''tc-031-project'') (js ''history_projected'') (js ''TaskController'') (js ''observed'')
        [js ''.gwc/tasks/SCRUM-SIM-G0G6/g2_execution/nodes/13-sync-projection-task-center-sync.node-run.json'']],
    sn_executor_history = [event (js ''ex-031-start'') (js ''executor_started'') (js ''Hermes Mac / local_agent_sim'') (js ''running'')
        [js ''core/node-architect/node-catalog/sync_projection/task-center-sync.node.json''],
      event (js ''ex-031-finish'') (js ''executor_finished'') (js ''Hermes Mac / local_agent_sim'') (js ''success'')
        [js ''.gwc/tasks/SCRUM-SIM-G0G6/g2_execution/nodes/13-sync-projection-task-center-sync.runbook.yaml'']],
    sn_checkpoints = [checkpoint_at (js ''cp-031'') 31 (js ''sync-projection-task-center-sync'') (js ''pending'')
        (js ''hermes-mac-sim'') (js ''fnc-69002afd'') (js ''done'')],
    sn_options = Some [js ''continue'',
      js ''retry/self-remediate'',
      js ''block for human authority'',
      js ''mark not_applicable when gate conditional''] \<rparr>"

definition gate_2 :: simGate where
  "gate_2 = \<lparr>
    sg_id = js ''G2_EXECUTION'',
    sg_label = (js ''G2 '' @ [0xB7] @ js '' Execution Runtime''),
    sg_summary = js ''Validated approval, checkpoint engine, branch/write/export/projection.'',
    sg_nodes = [node_19, node_20, node_21, node_22, node_23, node_24, node_25, node_26, node_27, node_28, node_29, node_30, node_31],
    sg_gate_artifacts = [js ''.gwc/tasks/SCRUM-SIM-G0G6/g2/execution-envelope.yaml'',
      js ''.gwc/tasks/SCRUM-SIM-G0G6/g2/action-authority.json'',
      js ''.gwc/tasks/SCRUM-SIM-G0G6/g2/runtime-checkpoint.json''],
    sg_taskcontroller_history = [event (js ''tc-G2_EXECUTION-open'') (js ''gate_opened'') (js ''TaskController'') (js ''running'')
        [js ''.gwc/tasks/SCRUM-SIM-G0G6/g2_execution/''],
      event (js ''tc-G2_EXECUTION-close'') (js ''gate_closed'') (js ''TaskController'') (js ''pass'')
        [js ''.gwc/tasks/SCRUM-SIM-G0G6/g2_execution/gate-summary.json'']],
    sg_executor_history = [event (js ''ex-G2_EXECUTION-lease'') (js ''executor_gate_session'') (js ''Hermes Mac / local_agent_sim'') (js ''completed'')
        [js ''session://DW-OBS-ARCH-SIM-G0G6-20260823-R3/G2_EXECUTION'']] \<rparr>"

definition node_32 :: simNode where
  "node_32 = \<lparr>
    sn_node_id = js ''repo_delivery.diff-readback'',
    sn_title = js ''Diff Readback'',
    sn_description = js ''Read back compare metadata and changed-file scope after writes.'',
    sn_node_type = js ''workflow'',
    sn_family = js ''repo_delivery'',
    sn_authority_boundary = js ''g2_required'',
    sn_catalog_path = Some (js ''core/node-architect/node-catalog/repo_delivery/diff-readback.node.json''),
    sn_source_status = Some (js ''proposed_registry_slot''),
    sn_maturity = Some (js ''experimental''),
    sn_implementation_refs = Some [js ''core/node-architect/node-catalog/repo_delivery/diff-readback.node.json''],
    sn_declared_gates = Some [js ''G2_EXECUTION'',
      js ''G3_PR''],
    sn_canonical = Some (js ''delivery_evidence''),
    sn_gate_id = js ''G3_PR'',
    sn_gate_label = Some ((js ''G3 '' @ [0xB7] @ js '' PR / Review'')),
    sn_sequence = 32,
    sn_node_label = Some (js ''G3_PR-N01''),
    sn_artifacts = [js ''.gwc/tasks/SCRUM-SIM-G0G6/g3_pr/nodes/01-diff-readback.node-run.json'',
      js ''.gwc/tasks/SCRUM-SIM-G0G6/g3_pr/nodes/01-diff-readback.runbook.yaml''],
    sn_reads = [js ''core/node-architect/node-catalog/**/*.node.json'',
      js ''core/node-architect/node-registry.json'',
      js ''core/node-architect/runtime-graph-registry.json'',
      js ''.gwc/tasks/SCRUM-SIM-G0G6/g3/delivery-record.yaml'',
      js ''.gwc/tasks/SCRUM-SIM-G0G6/g3/ci-evidence.json''],
    sn_runbook = [js ''Load node descriptor repo_delivery.diff-readback'',
      js ''Validate gate/evidence preconditions'',
      js ''Execute or simulate node action'',
      js ''Read back evidence and append run event'',
      js ''Persist checkpoint/update node history''],
    sn_taskcontroller_history = [event (js ''tc-032-admit'') (js ''node_admitted'') (js ''TaskController'') (js ''accepted'')
        [js ''core/node-architect/node-catalog/**/*.node.json''],
      event (js ''tc-032-project'') (js ''history_projected'') (js ''TaskController'') (js ''observed'')
        [js ''.gwc/tasks/SCRUM-SIM-G0G6/g3_pr/nodes/01-diff-readback.node-run.json'']],
    sn_executor_history = [event (js ''ex-032-start'') (js ''executor_started'') (js ''Hermes Mac / local_agent_sim'') (js ''running'')
        [js ''core/node-architect/node-catalog/repo_delivery/diff-readback.node.json''],
      event (js ''ex-032-finish'') (js ''executor_finished'') (js ''Hermes Mac / local_agent_sim'') (js ''success'')
        [js ''.gwc/tasks/SCRUM-SIM-G0G6/g3_pr/nodes/01-diff-readback.runbook.yaml'']],
    sn_checkpoints = [checkpoint_at (js ''cp-032'') 32 (js ''repo_delivery.diff-readback'') (js ''pending'')
        (js ''hermes-mac-sim'') (js ''fnc-00780ab9'') (js ''done'')],
    sn_options = Some [js ''continue'',
      js ''retry/self-remediate'',
      js ''block for human authority'',
      js ''mark not_applicable when gate conditional''] \<rparr>"

definition node_33 :: simNode where
  "node_33 = \<lparr>
    sn_node_id = js ''validation-quality-unit-test-mapping'',
    sn_title = js ''Unit Test Mapping'',
    sn_description = js ''Map changed runtime catalog artifacts to focused unit tests.'',
    sn_node_type = js ''workflow'',
    sn_family = js ''validation_quality'',
    sn_authority_boundary = js ''g3_required'',
    sn_catalog_path = Some (js ''core/node-architect/node-catalog/validation_quality/unit-test-mapping.node.json''),
    sn_source_status = Some (js ''lifecycle_artifact''),
    sn_maturity = Some (js ''contract''),
    sn_implementation_refs = Some [js ''core/node-architect/node-catalog/validation_quality/unit-test-mapping.node.json''],
    sn_declared_gates = Some [js ''G3_PR''],
    sn_canonical = Some (js ''delivery_evidence''),
    sn_gate_id = js ''G3_PR'',
    sn_gate_label = Some ((js ''G3 '' @ [0xB7] @ js '' PR / Review'')),
    sn_sequence = 33,
    sn_node_label = Some (js ''G3_PR-N02''),
    sn_artifacts = [js ''.gwc/tasks/SCRUM-SIM-G0G6/g3_pr/nodes/02-validation-quality-unit-test-mapping.node-run.json'',
      js ''.gwc/tasks/SCRUM-SIM-G0G6/g3_pr/nodes/02-validation-quality-unit-test-mapping.runbook.yaml''],
    sn_reads = [js ''core/node-architect/node-catalog/**/*.node.json'',
      js ''core/node-architect/node-registry.json'',
      js ''core/node-architect/runtime-graph-registry.json'',
      js ''.gwc/tasks/SCRUM-SIM-G0G6/g3/delivery-record.yaml'',
      js ''.gwc/tasks/SCRUM-SIM-G0G6/g3/ci-evidence.json''],
    sn_runbook = [js ''Load node descriptor validation-quality-unit-test-mapping'',
      js ''Validate gate/evidence preconditions'',
      js ''Execute or simulate node action'',
      js ''Read back evidence and append run event'',
      js ''Persist checkpoint/update node history''],
    sn_taskcontroller_history = [event (js ''tc-033-admit'') (js ''node_admitted'') (js ''TaskController'') (js ''accepted'')
        [js ''core/node-architect/node-catalog/**/*.node.json''],
      event (js ''tc-033-project'') (js ''history_projected'') (js ''TaskController'') (js ''observed'')
        [js ''.gwc/tasks/SCRUM-SIM-G0G6/g3_pr/nodes/02-validation-quality-unit-test-mapping.node-run.json'']],
    sn_executor_history = [event (js ''ex-033-start'') (js ''executor_started'') (js ''Hermes Mac / local_agent_sim'') (js ''running'')
        [js ''core/node-architect/node-catalog/validation_quality/unit-test-mapping.node.json''],
      event (js ''ex-033-finish'') (js ''executor_finished'') (js ''Hermes Mac / local_agent_sim'') (js ''success'')
        [js ''.gwc/tasks/SCRUM-SIM-G0G6/g3_pr/nodes/02-validation-quality-unit-test-mapping.runbook.yaml'']],
    sn_checkpoints = [checkpoint_at (js ''cp-033'') 33 (js ''validation-quality-unit-test-mapping'') (js ''pending'')
        (js ''hermes-mac-sim'') (js ''fnc-24f98f98'') (js ''done'')],
    sn_options = Some [js ''continue'',
      js ''retry/self-remediate'',
      js ''block for human authority'',
      js ''mark not_applicable when gate conditional''] \<rparr>"

definition node_34 :: simNode where
  "node_34 = \<lparr>
    sn_node_id = js ''validation-quality-schema-validation'',
    sn_title = js ''Schema Validation'',
    sn_description = js ''Validate runtime node payloads against the canonical runtime-node schema.'',
    sn_node_type = js ''tool'',
    sn_family = js ''validation_quality'',
    sn_authority_boundary = js ''g3_required'',
    sn_catalog_path = Some (js ''core/node-architect/node-catalog/validation_quality/schema-validation.node.json''),
    sn_source_status = Some (js ''lifecycle_artifact''),
    sn_maturity = Some (js ''contract''),
    sn_implementation_refs = Some [js ''core/node-architect/node-catalog/validation_quality/schema-validation.node.json''],
    sn_declared_gates = Some [js ''G3_PR''],
    sn_canonical = Some (js ''delivery_evidence''),
    sn_gate_id = js ''G3_PR'',
    sn_gate_label = Some ((js ''G3 '' @ [0xB7] @ js '' PR / Review'')),
    sn_sequence = 34,
    sn_node_label = Some (js ''G3_PR-N03''),
    sn_artifacts = [js ''.gwc/tasks/SCRUM-SIM-G0G6/g3_pr/nodes/03-validation-quality-schema-validation.node-run.json'',
      js ''.gwc/tasks/SCRUM-SIM-G0G6/g3_pr/nodes/03-validation-quality-schema-validation.runbook.yaml''],
    sn_reads = [js ''core/node-architect/node-catalog/**/*.node.json'',
      js ''core/node-architect/node-registry.json'',
      js ''core/node-architect/runtime-graph-registry.json'',
      js ''.gwc/tasks/SCRUM-SIM-G0G6/g3/delivery-record.yaml'',
      js ''.gwc/tasks/SCRUM-SIM-G0G6/g3/ci-evidence.json''],
    sn_runbook = [js ''Load node descriptor validation-quality-schema-validation'',
      js ''Validate gate/evidence preconditions'',
      js ''Execute or simulate node action'',
      js ''Read back evidence and append run event'',
      js ''Persist checkpoint/update node history''],
    sn_taskcontroller_history = [event (js ''tc-034-admit'') (js ''node_admitted'') (js ''TaskController'') (js ''accepted'')
        [js ''core/node-architect/node-catalog/**/*.node.json''],
      event (js ''tc-034-project'') (js ''history_projected'') (js ''TaskController'') (js ''observed'')
        [js ''.gwc/tasks/SCRUM-SIM-G0G6/g3_pr/nodes/03-validation-quality-schema-validation.node-run.json'']],
    sn_executor_history = [event (js ''ex-034-start'') (js ''executor_started'') (js ''Hermes Mac / local_agent_sim'') (js ''running'')
        [js ''core/node-architect/node-catalog/validation_quality/schema-validation.node.json''],
      event (js ''ex-034-finish'') (js ''executor_finished'') (js ''Hermes Mac / local_agent_sim'') (js ''success'')
        [js ''.gwc/tasks/SCRUM-SIM-G0G6/g3_pr/nodes/03-validation-quality-schema-validation.runbook.yaml'']],
    sn_checkpoints = [checkpoint_at (js ''cp-034'') 34 (js ''validation-quality-schema-validation'') (js ''pending'')
        (js ''hermes-mac-sim'') (js ''fnc-9cd1760e'') (js ''done'')],
    sn_options = Some [js ''continue'',
      js ''retry/self-remediate'',
      js ''block for human authority'',
      js ''mark not_applicable when gate conditional''] \<rparr>"

definition node_35 :: simNode where
  "node_35 = \<lparr>
    sn_node_id = js ''validation-quality-validator-execution'',
    sn_title = js ''Validator Execution'',
    sn_description = js ''Run stdlib validators and capture deterministic return codes.'',
    sn_node_type = js ''tool'',
    sn_family = js ''validation_quality'',
    sn_authority_boundary = js ''g3_required'',
    sn_catalog_path = Some (js ''core/node-architect/node-catalog/validation_quality/validator-execution.node.json''),
    sn_source_status = Some (js ''lifecycle_artifact''),
    sn_maturity = Some (js ''contract''),
    sn_implementation_refs = Some [js ''core/node-architect/node-catalog/validation_quality/validator-execution.node.json''],
    sn_declared_gates = Some [js ''G3_PR''],
    sn_canonical = Some (js ''delivery_evidence''),
    sn_gate_id = js ''G3_PR'',
    sn_gate_label = Some ((js ''G3 '' @ [0xB7] @ js '' PR / Review'')),
    sn_sequence = 35,
    sn_node_label = Some (js ''G3_PR-N04''),
    sn_artifacts = [js ''.gwc/tasks/SCRUM-SIM-G0G6/g3_pr/nodes/04-validation-quality-validator-execution.node-run.json'',
      js ''.gwc/tasks/SCRUM-SIM-G0G6/g3_pr/nodes/04-validation-quality-validator-execution.runbook.yaml''],
    sn_reads = [js ''core/node-architect/node-catalog/**/*.node.json'',
      js ''core/node-architect/node-registry.json'',
      js ''core/node-architect/runtime-graph-registry.json'',
      js ''.gwc/tasks/SCRUM-SIM-G0G6/g3/delivery-record.yaml'',
      js ''.gwc/tasks/SCRUM-SIM-G0G6/g3/ci-evidence.json''],
    sn_runbook = [js ''Load node descriptor validation-quality-validator-execution'',
      js ''Validate gate/evidence preconditions'',
      js ''Execute or simulate node action'',
      js ''Read back evidence and append run event'',
      js ''Persist checkpoint/update node history''],
    sn_taskcontroller_history = [event (js ''tc-035-admit'') (js ''node_admitted'') (js ''TaskController'') (js ''accepted'')
        [js ''core/node-architect/node-catalog/**/*.node.json''],
      event (js ''tc-035-project'') (js ''history_projected'') (js ''TaskController'') (js ''observed'')
        [js ''.gwc/tasks/SCRUM-SIM-G0G6/g3_pr/nodes/04-validation-quality-validator-execution.node-run.json'']],
    sn_executor_history = [event (js ''ex-035-start'') (js ''executor_started'') (js ''Hermes Mac / local_agent_sim'') (js ''running'')
        [js ''core/node-architect/node-catalog/validation_quality/validator-execution.node.json''],
      event (js ''ex-035-finish'') (js ''executor_finished'') (js ''Hermes Mac / local_agent_sim'') (js ''success'')
        [js ''.gwc/tasks/SCRUM-SIM-G0G6/g3_pr/nodes/04-validation-quality-validator-execution.runbook.yaml'']],
    sn_checkpoints = [checkpoint_at (js ''cp-035'') 35 (js ''validation-quality-validator-execution'') (js ''pending'')
        (js ''hermes-mac-sim'') (js ''fnc-9b6e03a1'') (js ''done'')],
    sn_options = Some [js ''continue'',
      js ''retry/self-remediate'',
      js ''block for human authority'',
      js ''mark not_applicable when gate conditional''] \<rparr>"

definition node_36 :: simNode where
  "node_36 = \<lparr>
    sn_node_id = js ''repo_delivery.ci-run-capture'',
    sn_title = js ''Ci Run Capture'',
    sn_description = js ''Capture exact-head CI workflow status for G3 evidence.'',
    sn_node_type = js ''tool'',
    sn_family = js ''repo_delivery'',
    sn_authority_boundary = js ''g2_required'',
    sn_catalog_path = Some (js ''core/node-architect/node-catalog/repo_delivery/ci-run-capture.node.json''),
    sn_source_status = Some (js ''canonical_explicit''),
    sn_maturity = Some (js ''candidate''),
    sn_implementation_refs = Some [js ''core/node-architect/node-catalog/repo_delivery/ci-run-capture.node.json''],
    sn_declared_gates = Some [js ''G2_EXECUTION'',
      js ''G3_PR''],
    sn_canonical = Some (js ''delivery_evidence''),
    sn_gate_id = js ''G3_PR'',
    sn_gate_label = Some ((js ''G3 '' @ [0xB7] @ js '' PR / Review'')),
    sn_sequence = 36,
    sn_node_label = Some (js ''G3_PR-N05''),
    sn_artifacts = [js ''.gwc/tasks/SCRUM-SIM-G0G6/g3_pr/nodes/05-ci-run-capture.node-run.json'',
      js ''.gwc/tasks/SCRUM-SIM-G0G6/g3_pr/nodes/05-ci-run-capture.runbook.yaml''],
    sn_reads = [js ''core/node-architect/node-catalog/**/*.node.json'',
      js ''core/node-architect/node-registry.json'',
      js ''core/node-architect/runtime-graph-registry.json'',
      js ''.gwc/tasks/SCRUM-SIM-G0G6/g3/delivery-record.yaml'',
      js ''.gwc/tasks/SCRUM-SIM-G0G6/g3/ci-evidence.json''],
    sn_runbook = [js ''Load node descriptor repo_delivery.ci-run-capture'',
      js ''Validate gate/evidence preconditions'',
      js ''Execute or simulate node action'',
      js ''Read back evidence and append run event'',
      js ''Persist checkpoint/update node history''],
    sn_taskcontroller_history = [event (js ''tc-036-admit'') (js ''node_admitted'') (js ''TaskController'') (js ''accepted'')
        [js ''core/node-architect/node-catalog/**/*.node.json''],
      event (js ''tc-036-project'') (js ''history_projected'') (js ''TaskController'') (js ''observed'')
        [js ''.gwc/tasks/SCRUM-SIM-G0G6/g3_pr/nodes/05-ci-run-capture.node-run.json'']],
    sn_executor_history = [event (js ''ex-036-start'') (js ''executor_started'') (js ''Hermes Mac / local_agent_sim'') (js ''running'')
        [js ''core/node-architect/node-catalog/repo_delivery/ci-run-capture.node.json''],
      event (js ''ex-036-finish'') (js ''executor_finished'') (js ''Hermes Mac / local_agent_sim'') (js ''success'')
        [js ''.gwc/tasks/SCRUM-SIM-G0G6/g3_pr/nodes/05-ci-run-capture.runbook.yaml'']],
    sn_checkpoints = [checkpoint_at (js ''cp-036'') 36 (js ''repo_delivery.ci-run-capture'') (js ''pending'')
        (js ''hermes-mac-sim'') (js ''fnc-1d56997c'') (js ''done'')],
    sn_options = Some [js ''continue'',
      js ''retry/self-remediate'',
      js ''block for human authority'',
      js ''mark not_applicable when gate conditional''] \<rparr>"

definition node_37 :: simNode where
  "node_37 = \<lparr>
    sn_node_id = js ''validation-quality-ci-evidence-capture'',
    sn_title = js ''CI Evidence Capture'',
    sn_description = js ''Capture exact-head workflow runs and status evidence for G3.'',
    sn_node_type = js ''workflow'',
    sn_family = js ''validation_quality'',
    sn_authority_boundary = js ''g3_required'',
    sn_catalog_path = Some (js ''core/node-architect/node-catalog/validation_quality/ci-evidence-capture.node.json''),
    sn_source_status = Some (js ''lifecycle_artifact''),
    sn_maturity = Some (js ''contract''),
    sn_implementation_refs = Some [js ''core/node-architect/node-catalog/validation_quality/ci-evidence-capture.node.json''],
    sn_declared_gates = Some [js ''G3_PR''],
    sn_canonical = Some (js ''delivery_evidence''),
    sn_gate_id = js ''G3_PR'',
    sn_gate_label = Some ((js ''G3 '' @ [0xB7] @ js '' PR / Review'')),
    sn_sequence = 37,
    sn_node_label = Some (js ''G3_PR-N06''),
    sn_artifacts = [js ''.gwc/tasks/SCRUM-SIM-G0G6/g3/ci-evidence.json'',
      js ''.gwc/tasks/SCRUM-SIM-G0G6/g3/workflow-jobs.json''],
    sn_reads = [js ''GitHub Actions runs'',
      js ''exact head SHA'',
      js ''required checks''],
    sn_runbook = [js ''Read exact-head workflow run'',
      js ''Read job steps'',
      js ''Capture logs/artifacts'',
      js ''Reject stale SHA evidence''],
    sn_taskcontroller_history = [event (js ''tc-037-admit'') (js ''node_admitted'') (js ''TaskController'') (js ''accepted'')
        [js ''GitHub Actions runs''],
      event (js ''tc-037-project'') (js ''history_projected'') (js ''TaskController'') (js ''observed'')
        [js ''.gwc/tasks/SCRUM-SIM-G0G6/g3/ci-evidence.json'']],
    sn_executor_history = [event (js ''ex-037-start'') (js ''executor_started'') (js ''Hermes Mac / local_agent_sim'') (js ''running'')
        [js ''core/node-architect/node-catalog/validation_quality/ci-evidence-capture.node.json''],
      event (js ''ex-037-finish'') (js ''executor_finished'') (js ''Hermes Mac / local_agent_sim'') (js ''success'')
        [js ''.gwc/tasks/SCRUM-SIM-G0G6/g3/workflow-jobs.json'']],
    sn_checkpoints = [checkpoint_at (js ''cp-037'') 37 (js ''validation-quality-ci-evidence-capture'') (js ''pending'')
        (js ''hermes-mac-sim'') (js ''fnc-e56d94b5'') (js ''done'')],
    sn_options = Some [js ''continue'',
      js ''retry/self-remediate'',
      js ''block for human authority'',
      js ''mark not_applicable when gate conditional''] \<rparr>"

definition node_38 :: simNode where
  "node_38 = \<lparr>
    sn_node_id = js ''validation-quality-evidence-quality-check'',
    sn_title = js ''Evidence Quality Check'',
    sn_description = js ''Check evidence completeness before declaring G3 PASS.'',
    sn_node_type = js ''gate'',
    sn_family = js ''validation_quality'',
    sn_authority_boundary = js ''g3_required'',
    sn_catalog_path = Some (js ''core/node-architect/node-catalog/validation_quality/evidence-quality-check.node.json''),
    sn_source_status = Some (js ''lifecycle_artifact''),
    sn_maturity = Some (js ''contract''),
    sn_implementation_refs = Some [js ''core/node-architect/node-catalog/validation_quality/evidence-quality-check.node.json''],
    sn_declared_gates = Some [js ''G3_PR''],
    sn_canonical = Some (js ''delivery_evidence''),
    sn_gate_id = js ''G3_PR'',
    sn_gate_label = Some ((js ''G3 '' @ [0xB7] @ js '' PR / Review'')),
    sn_sequence = 38,
    sn_node_label = Some (js ''G3_PR-N07''),
    sn_artifacts = [js ''.gwc/tasks/SCRUM-SIM-G0G6/g3_pr/nodes/07-validation-quality-evidence-quality-check.node-run.json'',
      js ''.gwc/tasks/SCRUM-SIM-G0G6/g3_pr/nodes/07-validation-quality-evidence-quality-check.runbook.yaml''],
    sn_reads = [js ''core/node-architect/node-catalog/**/*.node.json'',
      js ''core/node-architect/node-registry.json'',
      js ''core/node-architect/runtime-graph-registry.json'',
      js ''.gwc/tasks/SCRUM-SIM-G0G6/g3/delivery-record.yaml'',
      js ''.gwc/tasks/SCRUM-SIM-G0G6/g3/ci-evidence.json''],
    sn_runbook = [js ''Load node descriptor validation-quality-evidence-quality-check'',
      js ''Validate gate/evidence preconditions'',
      js ''Execute or simulate node action'',
      js ''Read back evidence and append run event'',
      js ''Persist checkpoint/update node history''],
    sn_taskcontroller_history = [event (js ''tc-038-admit'') (js ''node_admitted'') (js ''TaskController'') (js ''accepted'')
        [js ''core/node-architect/node-catalog/**/*.node.json''],
      event (js ''tc-038-project'') (js ''history_projected'') (js ''TaskController'') (js ''observed'')
        [js ''.gwc/tasks/SCRUM-SIM-G0G6/g3_pr/nodes/07-validation-quality-evidence-quality-check.node-run.json'']],
    sn_executor_history = [event (js ''ex-038-start'') (js ''executor_started'') (js ''Hermes Mac / local_agent_sim'') (js ''running'')
        [js ''core/node-architect/node-catalog/validation_quality/evidence-quality-check.node.json''],
      event (js ''ex-038-finish'') (js ''executor_finished'') (js ''Hermes Mac / local_agent_sim'') (js ''success'')
        [js ''.gwc/tasks/SCRUM-SIM-G0G6/g3_pr/nodes/07-validation-quality-evidence-quality-check.runbook.yaml'']],
    sn_checkpoints = [checkpoint_at (js ''cp-038'') 38 (js ''validation-quality-evidence-quality-check'') (js ''pending'')
        (js ''hermes-mac-sim'') (js ''fnc-9f2c5ce9'') (js ''done'')],
    sn_options = Some [js ''continue'',
      js ''retry/self-remediate'',
      js ''block for human authority'',
      js ''mark not_applicable when gate conditional''] \<rparr>"

definition node_39 :: simNode where
  "node_39 = \<lparr>
    sn_node_id = js ''repo_delivery.draft-pr-creation'',
    sn_title = js ''Draft Pr Creation'',
    sn_description = js ''Open Draft PRs with approved scope, base, head, and exclusions.'',
    sn_node_type = js ''connector'',
    sn_family = js ''repo_delivery'',
    sn_authority_boundary = js ''g2_required'',
    sn_catalog_path = Some (js ''core/node-architect/node-catalog/repo_delivery/draft-pr-creation.node.json''),
    sn_source_status = Some (js ''proposed_registry_slot''),
    sn_maturity = Some (js ''experimental''),
    sn_implementation_refs = Some [js ''core/node-architect/node-catalog/repo_delivery/draft-pr-creation.node.json''],
    sn_declared_gates = Some [js ''G2_EXECUTION'',
      js ''G3_PR''],
    sn_canonical = Some (js ''canonical''),
    sn_gate_id = js ''G3_PR'',
    sn_gate_label = Some ((js ''G3 '' @ [0xB7] @ js '' PR / Review'')),
    sn_sequence = 39,
    sn_node_label = Some (js ''G3_PR-N08''),
    sn_artifacts = [js ''.gwc/tasks/SCRUM-SIM-G0G6/g3/pr-readback.json'',
      js ''.gwc/tasks/SCRUM-SIM-G0G6/g3/delivery-record.yaml''],
    sn_reads = [js ''branch head SHA'',
      js ''diff-readback.json'',
      js ''validator-output.json''],
    sn_runbook = [js ''Create/update Draft PR'',
      js ''Bind base/head/branch'',
      js ''Record PR readback'',
      js ''Stop before G4 merge''],
    sn_taskcontroller_history = [event (js ''tc-039-admit'') (js ''node_admitted'') (js ''TaskController'') (js ''accepted'')
        [js ''branch head SHA''],
      event (js ''tc-039-project'') (js ''history_projected'') (js ''TaskController'') (js ''observed'')
        [js ''.gwc/tasks/SCRUM-SIM-G0G6/g3/pr-readback.json'']],
    sn_executor_history = [event (js ''ex-039-start'') (js ''executor_started'') (js ''Hermes Mac / local_agent_sim'') (js ''running'')
        [js ''core/node-architect/node-catalog/repo_delivery/draft-pr-creation.node.json''],
      event (js ''ex-039-finish'') (js ''executor_finished'') (js ''Hermes Mac / local_agent_sim'') (js ''success'')
        [js ''.gwc/tasks/SCRUM-SIM-G0G6/g3/delivery-record.yaml'']],
    sn_checkpoints = [checkpoint_at (js ''cp-039'') 39 (js ''repo_delivery.draft-pr-creation'') (js ''pending'')
        (js ''hermes-mac-sim'') (js ''fnc-8179b7b9'') (js ''done'')],
    sn_options = Some [js ''continue'',
      js ''retry/self-remediate'',
      js ''block for human authority'',
      js ''mark not_applicable when gate conditional''] \<rparr>"

definition node_40 :: simNode where
  "node_40 = \<lparr>
    sn_node_id = js ''repo_delivery.pr-blocker-check'',
    sn_title = js ''Pr Blocker Check'',
    sn_description = js ''Check mergeability, review threads, review submissions, and unresolved blockers.'',
    sn_node_type = js ''gate'',
    sn_family = js ''repo_delivery'',
    sn_authority_boundary = js ''g2_required'',
    sn_catalog_path = Some (js ''core/node-architect/node-catalog/repo_delivery/pr-blocker-check.node.json''),
    sn_source_status = Some (js ''proposed_registry_slot''),
    sn_maturity = Some (js ''experimental''),
    sn_implementation_refs = Some [js ''core/node-architect/node-catalog/repo_delivery/pr-blocker-check.node.json''],
    sn_declared_gates = Some [js ''G2_EXECUTION'',
      js ''G3_PR''],
    sn_canonical = Some (js ''canonical''),
    sn_gate_id = js ''G3_PR'',
    sn_gate_label = Some ((js ''G3 '' @ [0xB7] @ js '' PR / Review'')),
    sn_sequence = 40,
    sn_node_label = Some (js ''G3_PR-N09''),
    sn_artifacts = [js ''.gwc/tasks/SCRUM-SIM-G0G6/g3_pr/nodes/09-pr-blocker-check.node-run.json'',
      js ''.gwc/tasks/SCRUM-SIM-G0G6/g3_pr/nodes/09-pr-blocker-check.runbook.yaml''],
    sn_reads = [js ''core/node-architect/node-catalog/**/*.node.json'',
      js ''core/node-architect/node-registry.json'',
      js ''core/node-architect/runtime-graph-registry.json'',
      js ''.gwc/tasks/SCRUM-SIM-G0G6/g3/delivery-record.yaml'',
      js ''.gwc/tasks/SCRUM-SIM-G0G6/g3/ci-evidence.json''],
    sn_runbook = [js ''Load node descriptor repo_delivery.pr-blocker-check'',
      js ''Validate gate/evidence preconditions'',
      js ''Execute or simulate node action'',
      js ''Read back evidence and append run event'',
      js ''Persist checkpoint/update node history''],
    sn_taskcontroller_history = [event (js ''tc-040-admit'') (js ''node_admitted'') (js ''TaskController'') (js ''accepted'')
        [js ''core/node-architect/node-catalog/**/*.node.json''],
      event (js ''tc-040-project'') (js ''history_projected'') (js ''TaskController'') (js ''observed'')
        [js ''.gwc/tasks/SCRUM-SIM-G0G6/g3_pr/nodes/09-pr-blocker-check.node-run.json'']],
    sn_executor_history = [event (js ''ex-040-start'') (js ''executor_started'') (js ''Hermes Mac / local_agent_sim'') (js ''running'')
        [js ''core/node-architect/node-catalog/repo_delivery/pr-blocker-check.node.json''],
      event (js ''ex-040-finish'') (js ''executor_finished'') (js ''Hermes Mac / local_agent_sim'') (js ''success'')
        [js ''.gwc/tasks/SCRUM-SIM-G0G6/g3_pr/nodes/09-pr-blocker-check.runbook.yaml'']],
    sn_checkpoints = [checkpoint_at (js ''cp-040'') 40 (js ''repo_delivery.pr-blocker-check'') (js ''pending'')
        (js ''hermes-mac-sim'') (js ''fnc-2ed3c77d'') (js ''done'')],
    sn_options = Some [js ''continue'',
      js ''retry/self-remediate'',
      js ''block for human authority'',
      js ''mark not_applicable when gate conditional''] \<rparr>"

definition node_41 :: simNode where
  "node_41 = \<lparr>
    sn_node_id = js ''validation-quality-g3-pass-decision'',
    sn_title = js ''G3 Pass Decision'',
    sn_description = js ''Decide whether exact-head CI, tests, and blocker checks satisfy G3.'',
    sn_node_type = js ''gate'',
    sn_family = js ''validation_quality'',
    sn_authority_boundary = js ''g3_required'',
    sn_catalog_path = Some (js ''core/node-architect/node-catalog/validation_quality/g3-pass-decision.node.json''),
    sn_source_status = Some (js ''lifecycle_artifact''),
    sn_maturity = Some (js ''contract''),
    sn_implementation_refs = Some [js ''core/node-architect/node-catalog/validation_quality/g3-pass-decision.node.json''],
    sn_declared_gates = Some [js ''G3_PR''],
    sn_canonical = Some (js ''delivery_evidence''),
    sn_gate_id = js ''G3_PR'',
    sn_gate_label = Some ((js ''G3 '' @ [0xB7] @ js '' PR / Review'')),
    sn_sequence = 41,
    sn_node_label = Some (js ''G3_PR-N10''),
    sn_artifacts = [js ''.gwc/tasks/SCRUM-SIM-G0G6/g3_pr/nodes/10-validation-quality-g3-pass-decision.node-run.json'',
      js ''.gwc/tasks/SCRUM-SIM-G0G6/g3_pr/nodes/10-validation-quality-g3-pass-decision.runbook.yaml''],
    sn_reads = [js ''core/node-architect/node-catalog/**/*.node.json'',
      js ''core/node-architect/node-registry.json'',
      js ''core/node-architect/runtime-graph-registry.json'',
      js ''.gwc/tasks/SCRUM-SIM-G0G6/g3/delivery-record.yaml'',
      js ''.gwc/tasks/SCRUM-SIM-G0G6/g3/ci-evidence.json''],
    sn_runbook = [js ''Load node descriptor validation-quality-g3-pass-decision'',
      js ''Validate gate/evidence preconditions'',
      js ''Execute or simulate node action'',
      js ''Read back evidence and append run event'',
      js ''Persist checkpoint/update node history''],
    sn_taskcontroller_history = [event (js ''tc-041-admit'') (js ''node_admitted'') (js ''TaskController'') (js ''accepted'')
        [js ''core/node-architect/node-catalog/**/*.node.json''],
      event (js ''tc-041-project'') (js ''history_projected'') (js ''TaskController'') (js ''observed'')
        [js ''.gwc/tasks/SCRUM-SIM-G0G6/g3_pr/nodes/10-validation-quality-g3-pass-decision.node-run.json'']],
    sn_executor_history = [event (js ''ex-041-start'') (js ''executor_started'') (js ''Hermes Mac / local_agent_sim'') (js ''running'')
        [js ''core/node-architect/node-catalog/validation_quality/g3-pass-decision.node.json''],
      event (js ''ex-041-finish'') (js ''executor_finished'') (js ''Hermes Mac / local_agent_sim'') (js ''success'')
        [js ''.gwc/tasks/SCRUM-SIM-G0G6/g3_pr/nodes/10-validation-quality-g3-pass-decision.runbook.yaml'']],
    sn_checkpoints = [checkpoint_at (js ''cp-041'') 41 (js ''validation-quality-g3-pass-decision'') (js ''pending'')
        (js ''hermes-mac-sim'') (js ''fnc-510f117c'') (js ''done'')],
    sn_options = Some [js ''continue'',
      js ''retry/self-remediate'',
      js ''block for human authority'',
      js ''mark not_applicable when gate conditional''] \<rparr>"

definition gate_3 :: simGate where
  "gate_3 = \<lparr>
    sg_id = js ''G3_PR'',
    sg_label = (js ''G3 '' @ [0xB7] @ js '' PR / Review''),
    sg_summary = js ''Diff, validation, CI, Draft PR and G3 pass decision.'',
    sg_nodes = [node_32, node_33, node_34, node_35, node_36, node_37, node_38, node_39, node_40, node_41],
    sg_gate_artifacts = [js ''.gwc/tasks/SCRUM-SIM-G0G6/g3/delivery-record.yaml'',
      js ''.gwc/tasks/SCRUM-SIM-G0G6/g3/ci-evidence.json'',
      js ''.gwc/tasks/SCRUM-SIM-G0G6/g3/pr-readback.json''],
    sg_taskcontroller_history = [event (js ''tc-G3_PR-open'') (js ''gate_opened'') (js ''TaskController'') (js ''running'')
        [js ''.gwc/tasks/SCRUM-SIM-G0G6/g3_pr/''],
      event (js ''tc-G3_PR-close'') (js ''gate_closed'') (js ''TaskController'') (js ''pass'')
        [js ''.gwc/tasks/SCRUM-SIM-G0G6/g3_pr/gate-summary.json'']],
    sg_executor_history = [event (js ''ex-G3_PR-lease'') (js ''executor_gate_session'') (js ''Hermes Mac / local_agent_sim'') (js ''completed'')
        [js ''session://DW-OBS-ARCH-SIM-G0G6-20260823-R3/G3_PR'']] \<rparr>"

definition node_42 :: simNode where
  "node_42 = \<lparr>
    sn_node_id = js ''gate_authority.authority-boundary-check'',
    sn_title = js ''Authority Boundary Check'',
    sn_description = js ''Blocks actions that cross gate authority boundaries, including merge, deploy, production data, secrets, and branch-history operations.'',
    sn_node_type = js ''gate'',
    sn_family = js ''gate_authority'',
    sn_authority_boundary = js ''g2_required'',
    sn_catalog_path = Some (js ''core/node-architect/node-catalog/gate_authority/authority-boundary-check.node.json''),
    sn_source_status = Some (js ''proposed_registry_slot''),
    sn_maturity = Some (js ''experimental''),
    sn_implementation_refs = Some [js ''core/node-architect/node-catalog/gate_authority/authority-boundary-check.node.json''],
    sn_declared_gates = Some [js ''G1_ALIGNMENT'',
      js ''G2_EXECUTION''],
    sn_canonical = Some (js ''canonical''),
    sn_gate_id = js ''G4_MERGE'',
    sn_gate_label = Some ((js ''G4 '' @ [0xB7] @ js '' Merge Authority'')),
    sn_sequence = 42,
    sn_node_label = Some (js ''G4_MERGE-N01''),
    sn_artifacts = [js ''.gwc/tasks/SCRUM-SIM-G0G6/g4_merge/nodes/01-authority-boundary-check.node-run.json'',
      js ''.gwc/tasks/SCRUM-SIM-G0G6/g4_merge/nodes/01-authority-boundary-check.runbook.yaml''],
    sn_reads = [js ''core/node-architect/node-catalog/**/*.node.json'',
      js ''core/node-architect/node-registry.json'',
      js ''core/node-architect/runtime-graph-registry.json'',
      js ''.gwc/tasks/SCRUM-SIM-G0G6/g4/merge-approval.yaml'',
      js ''.gwc/tasks/SCRUM-SIM-G0G6/g4/merge-readback.json''],
    sn_runbook = [js ''Load node descriptor gate_authority.authority-boundary-check'',
      js ''Validate gate/evidence preconditions'',
      js ''Execute or simulate node action'',
      js ''Read back evidence and append run event'',
      js ''Persist checkpoint/update node history''],
    sn_taskcontroller_history = [event (js ''tc-042-admit'') (js ''node_admitted'') (js ''TaskController'') (js ''accepted'')
        [js ''core/node-architect/node-catalog/**/*.node.json''],
      event (js ''tc-042-project'') (js ''history_projected'') (js ''TaskController'') (js ''observed'')
        [js ''.gwc/tasks/SCRUM-SIM-G0G6/g4_merge/nodes/01-authority-boundary-check.node-run.json'']],
    sn_executor_history = [event (js ''ex-042-start'') (js ''executor_started'') (js ''Hermes Mac / local_agent_sim'') (js ''running'')
        [js ''core/node-architect/node-catalog/gate_authority/authority-boundary-check.node.json''],
      event (js ''ex-042-finish'') (js ''executor_finished'') (js ''Hermes Mac / local_agent_sim'') (js ''success'')
        [js ''.gwc/tasks/SCRUM-SIM-G0G6/g4_merge/nodes/01-authority-boundary-check.runbook.yaml'']],
    sn_checkpoints = [checkpoint_at (js ''cp-042'') 42 (js ''gate_authority.authority-boundary-check'') (js ''pending'')
        (js ''hermes-mac-sim'') (js ''fnc-4d3eb0c1'') (js ''done'')],
    sn_options = Some [js ''continue'',
      js ''retry/self-remediate'',
      js ''block for human authority'',
      js ''mark not_applicable when gate conditional''] \<rparr>"

definition node_43 :: simNode where
  "node_43 = \<lparr>
    sn_node_id = js ''gate_authority.approval-command-validation'',
    sn_title = js ''Approval Command Validation'',
    sn_description = js ''Validates that a human response matches the exact approval command before any G2, G4, G5, or G6 action proceeds.'',
    sn_node_type = js ''gate'',
    sn_family = js ''gate_authority'',
    sn_authority_boundary = js ''g2_required'',
    sn_catalog_path = Some (js ''core/node-architect/node-catalog/gate_authority/approval-command-validation.node.json''),
    sn_source_status = Some (js ''proposed_registry_slot''),
    sn_maturity = Some (js ''experimental''),
    sn_implementation_refs = Some [js ''core/node-architect/node-catalog/gate_authority/approval-command-validation.node.json''],
    sn_declared_gates = Some [js ''G1_ALIGNMENT'',
      js ''G2_EXECUTION''],
    sn_canonical = Some (js ''canonical''),
    sn_gate_id = js ''G4_MERGE'',
    sn_gate_label = Some ((js ''G4 '' @ [0xB7] @ js '' Merge Authority'')),
    sn_sequence = 43,
    sn_node_label = Some (js ''G4_MERGE-N02''),
    sn_artifacts = [js ''.gwc/tasks/SCRUM-SIM-G0G6/g4_merge/nodes/02-approval-command-validation.node-run.json'',
      js ''.gwc/tasks/SCRUM-SIM-G0G6/g4_merge/nodes/02-approval-command-validation.runbook.yaml''],
    sn_reads = [js ''core/node-architect/node-catalog/**/*.node.json'',
      js ''core/node-architect/node-registry.json'',
      js ''core/node-architect/runtime-graph-registry.json'',
      js ''.gwc/tasks/SCRUM-SIM-G0G6/g4/merge-approval.yaml'',
      js ''.gwc/tasks/SCRUM-SIM-G0G6/g4/merge-readback.json''],
    sn_runbook = [js ''Load node descriptor gate_authority.approval-command-validation'',
      js ''Validate gate/evidence preconditions'',
      js ''Execute or simulate node action'',
      js ''Read back evidence and append run event'',
      js ''Persist checkpoint/update node history''],
    sn_taskcontroller_history = [event (js ''tc-043-admit'') (js ''node_admitted'') (js ''TaskController'') (js ''accepted'')
        [js ''core/node-architect/node-catalog/**/*.node.json''],
      event (js ''tc-043-project'') (js ''history_projected'') (js ''TaskController'') (js ''observed'')
        [js ''.gwc/tasks/SCRUM-SIM-G0G6/g4_merge/nodes/02-approval-command-validation.node-run.json'']],
    sn_executor_history = [event (js ''ex-043-start'') (js ''executor_started'') (js ''Hermes Mac / local_agent_sim'') (js ''running'')
        [js ''core/node-architect/node-catalog/gate_authority/approval-command-validation.node.json''],
      event (js ''ex-043-finish'') (js ''executor_finished'') (js ''Hermes Mac / local_agent_sim'') (js ''success'')
        [js ''.gwc/tasks/SCRUM-SIM-G0G6/g4_merge/nodes/02-approval-command-validation.runbook.yaml'']],
    sn_checkpoints = [checkpoint_at (js ''cp-043'') 43 (js ''gate_authority.approval-command-validation'') (js ''pending'')
        (js ''hermes-mac-sim'') (js ''fnc-657e3c97'') (js ''done'')],
    sn_options = Some [js ''continue'',
      js ''retry/self-remediate'',
      js ''block for human authority'',
      js ''mark not_applicable when gate conditional''] \<rparr>"

definition node_44 :: simNode where
  "node_44 = \<lparr>
    sn_node_id = js ''lifecycle.g4-merge-approval'',
    sn_title = js ''lifecycle.g4-merge-approval'',
    sn_description = js ''Lifecycle node for lifecycle.g4-merge-approval.'',
    sn_node_type = js ''runtime-node'',
    sn_family = js ''lifecycle_contract'',
    sn_authority_boundary = js ''gate_required'',
    sn_catalog_path = Some (js ''core/GATE_LIFECYCLE_CONTRACT_v1.0.md''),
    sn_source_status = Some (js ''lifecycle_artifact''),
    sn_maturity = Some (js ''contract''),
    sn_implementation_refs = Some [],
    sn_declared_gates = Some [js ''G4_MERGE''],
    sn_canonical = Some (js ''lifecycle''),
    sn_gate_id = js ''G4_MERGE'',
    sn_gate_label = Some ((js ''G4 '' @ [0xB7] @ js '' Merge Authority'')),
    sn_sequence = 44,
    sn_node_label = Some (js ''G4_MERGE-N03''),
    sn_artifacts = [js ''.gwc/tasks/SCRUM-SIM-G0G6/g4/merge-approval.yaml''],
    sn_reads = [js ''g3/delivery-record.yaml'',
      js ''PR readback'',
      js ''CI evidence'',
      js ''human APPROVE G4 line''],
    sn_runbook = [js ''Generate G4 approval envelope'',
      js ''Validate exact PR/head/base/method'',
      js ''Require human command'',
      js ''Fail stale approval''],
    sn_taskcontroller_history = [event (js ''tc-044-admit'') (js ''node_admitted'') (js ''TaskController'') (js ''accepted'')
        [js ''g3/delivery-record.yaml''],
      event (js ''tc-044-project'') (js ''history_projected'') (js ''TaskController'') (js ''observed'')
        [js ''.gwc/tasks/SCRUM-SIM-G0G6/g4/merge-approval.yaml'']],
    sn_executor_history = [event (js ''ex-044-start'') (js ''executor_started'') (js ''Hermes Mac / local_agent_sim'') (js ''running'')
        [js ''core/GATE_LIFECYCLE_CONTRACT_v1.0.md''],
      event (js ''ex-044-finish'') (js ''executor_finished'') (js ''Hermes Mac / local_agent_sim'') (js ''success'')
        [js ''.gwc/tasks/SCRUM-SIM-G0G6/g4/merge-approval.yaml'']],
    sn_checkpoints = [checkpoint_at (js ''cp-044'') 44 (js ''lifecycle.g4-merge-approval'') (js ''pending'')
        (js ''hermes-mac-sim'') (js ''fnc-2820199a'') (js ''done'')],
    sn_options = Some [js ''continue'',
      js ''retry/self-remediate'',
      js ''block for human authority'',
      js ''mark not_applicable when gate conditional''] \<rparr>"

definition node_45 :: simNode where
  "node_45 = \<lparr>
    sn_node_id = js ''repo_delivery.ready-for-review-promotion'',
    sn_title = js ''Ready For Review Promotion'',
    sn_description = js ''Promote Draft PR to Ready for Review only after G3 criteria pass.'',
    sn_node_type = js ''connector'',
    sn_family = js ''repo_delivery'',
    sn_authority_boundary = js ''g2_required'',
    sn_catalog_path = Some (js ''core/node-architect/node-catalog/repo_delivery/ready-for-review-promotion.node.json''),
    sn_source_status = Some (js ''proposed_registry_slot''),
    sn_maturity = Some (js ''experimental''),
    sn_implementation_refs = Some [js ''core/node-architect/node-catalog/repo_delivery/ready-for-review-promotion.node.json''],
    sn_declared_gates = Some [js ''G2_EXECUTION'',
      js ''G3_PR''],
    sn_canonical = Some (js ''canonical''),
    sn_gate_id = js ''G4_MERGE'',
    sn_gate_label = Some ((js ''G4 '' @ [0xB7] @ js '' Merge Authority'')),
    sn_sequence = 45,
    sn_node_label = Some (js ''G4_MERGE-N04''),
    sn_artifacts = [js ''.gwc/tasks/SCRUM-SIM-G0G6/g4_merge/nodes/04-ready-for-review-promotion.node-run.json'',
      js ''.gwc/tasks/SCRUM-SIM-G0G6/g4_merge/nodes/04-ready-for-review-promotion.runbook.yaml''],
    sn_reads = [js ''core/node-architect/node-catalog/**/*.node.json'',
      js ''core/node-architect/node-registry.json'',
      js ''core/node-architect/runtime-graph-registry.json'',
      js ''.gwc/tasks/SCRUM-SIM-G0G6/g4/merge-approval.yaml'',
      js ''.gwc/tasks/SCRUM-SIM-G0G6/g4/merge-readback.json''],
    sn_runbook = [js ''Load node descriptor repo_delivery.ready-for-review-promotion'',
      js ''Validate gate/evidence preconditions'',
      js ''Execute or simulate node action'',
      js ''Read back evidence and append run event'',
      js ''Persist checkpoint/update node history''],
    sn_taskcontroller_history = [event (js ''tc-045-admit'') (js ''node_admitted'') (js ''TaskController'') (js ''accepted'')
        [js ''core/node-architect/node-catalog/**/*.node.json''],
      event (js ''tc-045-project'') (js ''history_projected'') (js ''TaskController'') (js ''observed'')
        [js ''.gwc/tasks/SCRUM-SIM-G0G6/g4_merge/nodes/04-ready-for-review-promotion.node-run.json'']],
    sn_executor_history = [event (js ''ex-045-start'') (js ''executor_started'') (js ''Hermes Mac / local_agent_sim'') (js ''running'')
        [js ''core/node-architect/node-catalog/repo_delivery/ready-for-review-promotion.node.json''],
      event (js ''ex-045-finish'') (js ''executor_finished'') (js ''Hermes Mac / local_agent_sim'') (js ''success'')
        [js ''.gwc/tasks/SCRUM-SIM-G0G6/g4_merge/nodes/04-ready-for-review-promotion.runbook.yaml'']],
    sn_checkpoints = [checkpoint_at (js ''cp-045'') 45 (js ''repo_delivery.ready-for-review-promotion'') (js ''pending'')
        (js ''hermes-mac-sim'') (js ''fnc-2c19eef9'') (js ''done'')],
    sn_options = Some [js ''continue'',
      js ''retry/self-remediate'',
      js ''block for human authority'',
      js ''mark not_applicable when gate conditional''] \<rparr>"

definition node_46 :: simNode where
  "node_46 = \<lparr>
    sn_node_id = js ''sync-projection-external-audit-event-projection'',
    sn_title = js ''External Audit Event Projection'',
    sn_description = js ''Project sanitized lifecycle events to external audit surfaces without copying secrets or approval commands.'',
    sn_node_type = js ''projection'',
    sn_family = js ''sync_projection'',
    sn_authority_boundary = js ''read_only'',
    sn_catalog_path = Some (js ''core/node-architect/node-catalog/sync_projection/external-audit-event-projection.node.json''),
    sn_source_status = Some (js ''lifecycle_artifact''),
    sn_maturity = Some (js ''contract''),
    sn_implementation_refs = Some [js ''core/node-architect/node-catalog/sync_projection/external-audit-event-projection.node.json''],
    sn_declared_gates = Some [js ''G2_EXECUTION'',
      js ''G3_PR''],
    sn_canonical = Some (js ''audit_projection''),
    sn_gate_id = js ''G4_MERGE'',
    sn_gate_label = Some ((js ''G4 '' @ [0xB7] @ js '' Merge Authority'')),
    sn_sequence = 46,
    sn_node_label = Some (js ''G4_MERGE-N05''),
    sn_artifacts = [js ''.gwc/tasks/SCRUM-SIM-G0G6/g4_merge/nodes/05-sync-projection-external-audit-event-projection.node-run.json'',
      js ''.gwc/tasks/SCRUM-SIM-G0G6/g4_merge/nodes/05-sync-projection-external-audit-event-projection.runbook.yaml''],
    sn_reads = [js ''core/node-architect/node-catalog/**/*.node.json'',
      js ''core/node-architect/node-registry.json'',
      js ''core/node-architect/runtime-graph-registry.json'',
      js ''.gwc/tasks/SCRUM-SIM-G0G6/g4/merge-approval.yaml'',
      js ''.gwc/tasks/SCRUM-SIM-G0G6/g4/merge-readback.json''],
    sn_runbook = [js ''Load node descriptor sync-projection-external-audit-event-projection'',
      js ''Validate gate/evidence preconditions'',
      js ''Execute or simulate node action'',
      js ''Read back evidence and append run event'',
      js ''Persist checkpoint/update node history''],
    sn_taskcontroller_history = [event (js ''tc-046-admit'') (js ''node_admitted'') (js ''TaskController'') (js ''accepted'')
        [js ''core/node-architect/node-catalog/**/*.node.json''],
      event (js ''tc-046-project'') (js ''history_projected'') (js ''TaskController'') (js ''observed'')
        [js ''.gwc/tasks/SCRUM-SIM-G0G6/g4_merge/nodes/05-sync-projection-external-audit-event-projection.node-run.json'']],
    sn_executor_history = [event (js ''ex-046-start'') (js ''executor_started'') (js ''Hermes Mac / local_agent_sim'') (js ''running'')
        [js ''core/node-architect/node-catalog/sync_projection/external-audit-event-projection.node.json''],
      event (js ''ex-046-finish'') (js ''executor_finished'') (js ''Hermes Mac / local_agent_sim'') (js ''success'')
        [js ''.gwc/tasks/SCRUM-SIM-G0G6/g4_merge/nodes/05-sync-projection-external-audit-event-projection.runbook.yaml'']],
    sn_checkpoints = [checkpoint_at (js ''cp-046'') 46 (js ''sync-projection-external-audit-event-projection'') (js ''pending'')
        (js ''hermes-mac-sim'') (js ''fnc-f743a398'') (js ''done'')],
    sn_options = Some [js ''continue'',
      js ''retry/self-remediate'',
      js ''block for human authority'',
      js ''mark not_applicable when gate conditional''] \<rparr>"

definition gate_4 :: simGate where
  "gate_4 = \<lparr>
    sg_id = js ''G4_MERGE'',
    sg_label = (js ''G4 '' @ [0xB7] @ js '' Merge Authority''),
    sg_summary = js ''Separate merge approval, exact head merge, audit projection.'',
    sg_nodes = [node_42, node_43, node_44, node_45, node_46],
    sg_gate_artifacts = [js ''.gwc/tasks/SCRUM-SIM-G0G6/g4/merge-approval.yaml'',
      js ''.gwc/tasks/SCRUM-SIM-G0G6/g4/merge-readback.json''],
    sg_taskcontroller_history = [event (js ''tc-G4_MERGE-open'') (js ''gate_opened'') (js ''TaskController'') (js ''running'')
        [js ''.gwc/tasks/SCRUM-SIM-G0G6/g4_merge/''],
      event (js ''tc-G4_MERGE-close'') (js ''gate_closed'') (js ''TaskController'') (js ''pass'')
        [js ''.gwc/tasks/SCRUM-SIM-G0G6/g4_merge/gate-summary.json'']],
    sg_executor_history = [event (js ''ex-G4_MERGE-lease'') (js ''executor_gate_session'') (js ''Hermes Mac / local_agent_sim'') (js ''completed'')
        [js ''session://DW-OBS-ARCH-SIM-G0G6-20260823-R3/G4_MERGE'']] \<rparr>"

definition node_47 :: simNode where
  "node_47 = \<lparr>
    sn_node_id = js ''scale_control.exact-head-readiness-check'',
    sn_title = js ''Exact Head Readiness Check'',
    sn_description = js ''Require validation, workflow, and artifact evidence to bind to the exact current branch or merge commit before readiness can pass.'',
    sn_node_type = js ''gate'',
    sn_family = js ''scale_control'',
    sn_authority_boundary = js ''g5_required'',
    sn_catalog_path = Some (js ''core/node-architect/node-catalog/scale_control/exact-head-readiness-check.node.json''),
    sn_source_status = Some (js ''proposed_registry_slot''),
    sn_maturity = Some (js ''experimental''),
    sn_implementation_refs = Some [js ''core/node-architect/node-catalog/scale_control/exact-head-readiness-check.node.json''],
    sn_declared_gates = Some [js ''G5_DEPLOY''],
    sn_canonical = Some (js ''delivery_evidence''),
    sn_gate_id = js ''G5_DEPLOY'',
    sn_gate_label = Some ((js ''G5 '' @ [0xB7] @ js '' Deploy / Status'')),
    sn_sequence = 47,
    sn_node_label = Some (js ''G5_DEPLOY-N01''),
    sn_artifacts = [js ''.gwc/tasks/SCRUM-SIM-G0G6/g5_deploy/nodes/01-exact-head-readiness-check.node-run.json'',
      js ''.gwc/tasks/SCRUM-SIM-G0G6/g5_deploy/nodes/01-exact-head-readiness-check.runbook.yaml''],
    sn_reads = [js ''core/node-architect/node-catalog/**/*.node.json'',
      js ''core/node-architect/node-registry.json'',
      js ''core/node-architect/runtime-graph-registry.json'',
      js ''.gwc/tasks/SCRUM-SIM-G0G6/g5/deployment-approval.yaml'',
      js ''.gwc/tasks/SCRUM-SIM-G0G6/g5/status-verify.json''],
    sn_runbook = [js ''Load node descriptor scale_control.exact-head-readiness-check'',
      js ''Validate gate/evidence preconditions'',
      js ''Execute or simulate node action'',
      js ''Read back evidence and append run event'',
      js ''Persist checkpoint/update node history''],
    sn_taskcontroller_history = [event (js ''tc-047-admit'') (js ''node_admitted'') (js ''TaskController'') (js ''accepted'')
        [js ''core/node-architect/node-catalog/**/*.node.json''],
      event (js ''tc-047-project'') (js ''history_projected'') (js ''TaskController'') (js ''observed'')
        [js ''.gwc/tasks/SCRUM-SIM-G0G6/g5_deploy/nodes/01-exact-head-readiness-check.node-run.json'']],
    sn_executor_history = [event (js ''ex-047-start'') (js ''executor_started'') (js ''Hermes Mac / local_agent_sim'') (js ''running'')
        [js ''core/node-architect/node-catalog/scale_control/exact-head-readiness-check.node.json''],
      event (js ''ex-047-finish'') (js ''executor_finished'') (js ''Hermes Mac / local_agent_sim'') (js ''success'')
        [js ''.gwc/tasks/SCRUM-SIM-G0G6/g5_deploy/nodes/01-exact-head-readiness-check.runbook.yaml'']],
    sn_checkpoints = [checkpoint_at (js ''cp-047'') 47 (js ''scale_control.exact-head-readiness-check'') (js ''pending'')
        (js ''hermes-mac-sim'') (js ''fnc-706b8f3a'') (js ''done'')],
    sn_options = Some [js ''continue'',
      js ''retry/self-remediate'',
      js ''block for human authority'',
      js ''mark not_applicable when gate conditional''] \<rparr>"

definition node_48 :: simNode where
  "node_48 = \<lparr>
    sn_node_id = js ''scale_control.workflow-run-observability'',
    sn_title = js ''Workflow Run Observability'',
    sn_description = js ''Project exact-head CI evidence across pull-request and post-merge push events while distinguishing missing runs from connector visibility gaps.'',
    sn_node_type = js ''projection'',
    sn_family = js ''scale_control'',
    sn_authority_boundary = js ''read_only'',
    sn_catalog_path = Some (js ''core/node-architect/node-catalog/scale_control/workflow-run-observability.node.json''),
    sn_source_status = Some (js ''proposed_registry_slot''),
    sn_maturity = Some (js ''experimental''),
    sn_implementation_refs = Some [js ''core/node-architect/node-catalog/scale_control/workflow-run-observability.node.json''],
    sn_declared_gates = Some [js ''G5_DEPLOY''],
    sn_canonical = Some (js ''audit_projection''),
    sn_gate_id = js ''G5_DEPLOY'',
    sn_gate_label = Some ((js ''G5 '' @ [0xB7] @ js '' Deploy / Status'')),
    sn_sequence = 48,
    sn_node_label = Some (js ''G5_DEPLOY-N02''),
    sn_artifacts = [js ''.gwc/tasks/SCRUM-SIM-G0G6/g5_deploy/nodes/02-workflow-run-observability.node-run.json'',
      js ''.gwc/tasks/SCRUM-SIM-G0G6/g5_deploy/nodes/02-workflow-run-observability.runbook.yaml''],
    sn_reads = [js ''core/node-architect/node-catalog/**/*.node.json'',
      js ''core/node-architect/node-registry.json'',
      js ''core/node-architect/runtime-graph-registry.json'',
      js ''.gwc/tasks/SCRUM-SIM-G0G6/g5/deployment-approval.yaml'',
      js ''.gwc/tasks/SCRUM-SIM-G0G6/g5/status-verify.json''],
    sn_runbook = [js ''Load node descriptor scale_control.workflow-run-observability'',
      js ''Validate gate/evidence preconditions'',
      js ''Execute or simulate node action'',
      js ''Read back evidence and append run event'',
      js ''Persist checkpoint/update node history''],
    sn_taskcontroller_history = [event (js ''tc-048-admit'') (js ''node_admitted'') (js ''TaskController'') (js ''accepted'')
        [js ''core/node-architect/node-catalog/**/*.node.json''],
      event (js ''tc-048-project'') (js ''history_projected'') (js ''TaskController'') (js ''observed'')
        [js ''.gwc/tasks/SCRUM-SIM-G0G6/g5_deploy/nodes/02-workflow-run-observability.node-run.json'']],
    sn_executor_history = [event (js ''ex-048-start'') (js ''executor_started'') (js ''Hermes Mac / local_agent_sim'') (js ''running'')
        [js ''core/node-architect/node-catalog/scale_control/workflow-run-observability.node.json''],
      event (js ''ex-048-finish'') (js ''executor_finished'') (js ''Hermes Mac / local_agent_sim'') (js ''success'')
        [js ''.gwc/tasks/SCRUM-SIM-G0G6/g5_deploy/nodes/02-workflow-run-observability.runbook.yaml'']],
    sn_checkpoints = [checkpoint_at (js ''cp-048'') 48 (js ''scale_control.workflow-run-observability'') (js ''pending'')
        (js ''hermes-mac-sim'') (js ''fnc-cb589fc0'') (js ''done'')],
    sn_options = Some [js ''continue'',
      js ''retry/self-remediate'',
      js ''block for human authority'',
      js ''mark not_applicable when gate conditional''] \<rparr>"

definition node_49 :: simNode where
  "node_49 = \<lparr>
    sn_node_id = js ''scale_control.previous-batch-g5-verification'',
    sn_title = js ''Previous Batch G5 Verification'',
    sn_description = js ''Bind the next batch admission decision to successful post-merge validation evidence for the exact previous merge commit.'',
    sn_node_type = js ''workflow'',
    sn_family = js ''scale_control'',
    sn_authority_boundary = js ''g5_required'',
    sn_catalog_path = Some (js ''core/node-architect/node-catalog/scale_control/previous-batch-g5-verification.node.json''),
    sn_source_status = Some (js ''proposed_registry_slot''),
    sn_maturity = Some (js ''experimental''),
    sn_implementation_refs = Some [js ''core/node-architect/node-catalog/scale_control/previous-batch-g5-verification.node.json''],
    sn_declared_gates = Some [js ''G5_DEPLOY''],
    sn_canonical = Some (js ''delivery_evidence''),
    sn_gate_id = js ''G5_DEPLOY'',
    sn_gate_label = Some ((js ''G5 '' @ [0xB7] @ js '' Deploy / Status'')),
    sn_sequence = 49,
    sn_node_label = Some (js ''G5_DEPLOY-N03''),
    sn_artifacts = [js ''.gwc/tasks/SCRUM-SIM-G0G6/g5_deploy/nodes/03-previous-batch-g5-verification.node-run.json'',
      js ''.gwc/tasks/SCRUM-SIM-G0G6/g5_deploy/nodes/03-previous-batch-g5-verification.runbook.yaml''],
    sn_reads = [js ''core/node-architect/node-catalog/**/*.node.json'',
      js ''core/node-architect/node-registry.json'',
      js ''core/node-architect/runtime-graph-registry.json'',
      js ''.gwc/tasks/SCRUM-SIM-G0G6/g5/deployment-approval.yaml'',
      js ''.gwc/tasks/SCRUM-SIM-G0G6/g5/status-verify.json''],
    sn_runbook = [js ''Load node descriptor scale_control.previous-batch-g5-verification'',
      js ''Validate gate/evidence preconditions'',
      js ''Execute or simulate node action'',
      js ''Read back evidence and append run event'',
      js ''Persist checkpoint/update node history''],
    sn_taskcontroller_history = [event (js ''tc-049-admit'') (js ''node_admitted'') (js ''TaskController'') (js ''accepted'')
        [js ''core/node-architect/node-catalog/**/*.node.json''],
      event (js ''tc-049-project'') (js ''history_projected'') (js ''TaskController'') (js ''observed'')
        [js ''.gwc/tasks/SCRUM-SIM-G0G6/g5_deploy/nodes/03-previous-batch-g5-verification.node-run.json'']],
    sn_executor_history = [event (js ''ex-049-start'') (js ''executor_started'') (js ''Hermes Mac / local_agent_sim'') (js ''running'')
        [js ''core/node-architect/node-catalog/scale_control/previous-batch-g5-verification.node.json''],
      event (js ''ex-049-finish'') (js ''executor_finished'') (js ''Hermes Mac / local_agent_sim'') (js ''success'')
        [js ''.gwc/tasks/SCRUM-SIM-G0G6/g5_deploy/nodes/03-previous-batch-g5-verification.runbook.yaml'']],
    sn_checkpoints = [checkpoint_at (js ''cp-049'') 49 (js ''scale_control.previous-batch-g5-verification'') (js ''pending'')
        (js ''hermes-mac-sim'') (js ''fnc-a235cf7f'') (js ''done'')],
    sn_options = Some [js ''continue'',
      js ''retry/self-remediate'',
      js ''block for human authority'',
      js ''mark not_applicable when gate conditional''] \<rparr>"

definition node_50 :: simNode where
  "node_50 = \<lparr>
    sn_node_id = js ''failure_recovery.version-drift-rollback-routing'',
    sn_title = js ''Version Drift Rollback Routing'',
    sn_description = js ''Pin or restart on node-version drift and route rollback evidence without granting deployment authority.'',
    sn_node_type = js ''workflow'',
    sn_family = js ''failure_recovery'',
    sn_authority_boundary = js ''g5_required'',
    sn_catalog_path = Some (js ''core/node-architect/node-catalog/failure_recovery/version-drift-rollback-routing.node.json''),
    sn_source_status = Some (js ''proposed_registry_slot''),
    sn_maturity = Some (js ''experimental''),
    sn_implementation_refs = Some [js ''core/node-architect/node-catalog/failure_recovery/version-drift-rollback-routing.node.json''],
    sn_declared_gates = Some [js ''G5_DEPLOY''],
    sn_canonical = Some (js ''delivery_evidence''),
    sn_gate_id = js ''G5_DEPLOY'',
    sn_gate_label = Some ((js ''G5 '' @ [0xB7] @ js '' Deploy / Status'')),
    sn_sequence = 50,
    sn_node_label = Some (js ''G5_DEPLOY-N04''),
    sn_artifacts = [js ''.gwc/tasks/SCRUM-SIM-G0G6/g5_deploy/nodes/04-version-drift-rollback-routing.node-run.json'',
      js ''.gwc/tasks/SCRUM-SIM-G0G6/g5_deploy/nodes/04-version-drift-rollback-routing.runbook.yaml''],
    sn_reads = [js ''core/node-architect/node-catalog/**/*.node.json'',
      js ''core/node-architect/node-registry.json'',
      js ''core/node-architect/runtime-graph-registry.json'',
      js ''.gwc/tasks/SCRUM-SIM-G0G6/g5/deployment-approval.yaml'',
      js ''.gwc/tasks/SCRUM-SIM-G0G6/g5/status-verify.json''],
    sn_runbook = [js ''Load node descriptor failure_recovery.version-drift-rollback-routing'',
      js ''Validate gate/evidence preconditions'',
      js ''Execute or simulate node action'',
      js ''Read back evidence and append run event'',
      js ''Persist checkpoint/update node history''],
    sn_taskcontroller_history = [event (js ''tc-050-admit'') (js ''node_admitted'') (js ''TaskController'') (js ''accepted'')
        [js ''core/node-architect/node-catalog/**/*.node.json''],
      event (js ''tc-050-project'') (js ''history_projected'') (js ''TaskController'') (js ''observed'')
        [js ''.gwc/tasks/SCRUM-SIM-G0G6/g5_deploy/nodes/04-version-drift-rollback-routing.node-run.json'']],
    sn_executor_history = [event (js ''ex-050-start'') (js ''executor_started'') (js ''Hermes Mac / local_agent_sim'') (js ''running'')
        [js ''core/node-architect/node-catalog/failure_recovery/version-drift-rollback-routing.node.json''],
      event (js ''ex-050-finish'') (js ''executor_finished'') (js ''Hermes Mac / local_agent_sim'') (js ''success'')
        [js ''.gwc/tasks/SCRUM-SIM-G0G6/g5_deploy/nodes/04-version-drift-rollback-routing.runbook.yaml'']],
    sn_checkpoints = [checkpoint_at (js ''cp-050'') 50 (js ''failure_recovery.version-drift-rollback-routing'') (js ''pending'')
        (js ''hermes-mac-sim'') (js ''fnc-3474d7f0'') (js ''done'')],
    sn_options = Some [js ''continue'',
      js ''retry/self-remediate'',
      js ''block for human authority'',
      js ''mark not_applicable when gate conditional''] \<rparr>"

definition gate_5 :: simGate where
  "gate_5 = \<lparr>
    sg_id = js ''G5_DEPLOY'',
    sg_label = (js ''G5 '' @ [0xB7] @ js '' Deploy / Status''),
    sg_summary = js ''Read-only status/deploy observability and drift handling.'',
    sg_nodes = [node_47, node_48, node_49, node_50],
    sg_gate_artifacts = [js ''.gwc/tasks/SCRUM-SIM-G0G6/g5/deployment-approval.yaml'',
      js ''.gwc/tasks/SCRUM-SIM-G0G6/g5/status-verify.json''],
    sg_taskcontroller_history = [event (js ''tc-G5_DEPLOY-open'') (js ''gate_opened'') (js ''TaskController'') (js ''running'')
        [js ''.gwc/tasks/SCRUM-SIM-G0G6/g5_deploy/''],
      event (js ''tc-G5_DEPLOY-close'') (js ''gate_closed'') (js ''TaskController'') (js ''pass'')
        [js ''.gwc/tasks/SCRUM-SIM-G0G6/g5_deploy/gate-summary.json'']],
    sg_executor_history = [event (js ''ex-G5_DEPLOY-lease'') (js ''executor_gate_session'') (js ''Hermes Mac / local_agent_sim'') (js ''completed'')
        [js ''session://DW-OBS-ARCH-SIM-G0G6-20260823-R3/G5_DEPLOY'']] \<rparr>"

definition node_51 :: simNode where
  "node_51 = \<lparr>
    sn_node_id = js ''lifecycle.g6-production-approval'',
    sn_title = js ''lifecycle.g6-production-approval'',
    sn_description = js ''Lifecycle node for lifecycle.g6-production-approval.'',
    sn_node_type = js ''runtime-node'',
    sn_family = js ''lifecycle_contract'',
    sn_authority_boundary = js ''gate_required'',
    sn_catalog_path = Some (js ''core/GATE_LIFECYCLE_CONTRACT_v1.0.md''),
    sn_source_status = Some (js ''lifecycle_artifact''),
    sn_maturity = Some (js ''contract''),
    sn_implementation_refs = Some [],
    sn_declared_gates = Some [js ''G6_PRODUCTION_DATA''],
    sn_canonical = Some (js ''lifecycle''),
    sn_gate_id = js ''G6_PRODUCTION_DATA'',
    sn_gate_label = Some ((js ''G6 '' @ [0xB7] @ js '' Production Data'')),
    sn_sequence = 51,
    sn_node_label = Some (js ''G6_PRODUCTION_DATA-N01''),
    sn_artifacts = [js ''.gwc/tasks/SCRUM-SIM-G0G6/g6/production-approval.yaml''],
    sn_reads = [js ''production change plan'',
      js ''rollback plan'',
      js ''privacy boundary'',
      js ''human APPROVE G6 line''],
    sn_runbook = [js ''Generate production approval envelope'',
      js ''Bind target/data/config scope'',
      js ''Require rollback plan'',
      js ''Require human command''],
    sn_taskcontroller_history = [event (js ''tc-051-admit'') (js ''node_admitted'') (js ''TaskController'') (js ''accepted'')
        [js ''production change plan''],
      event (js ''tc-051-project'') (js ''history_projected'') (js ''TaskController'') (js ''observed'')
        [js ''.gwc/tasks/SCRUM-SIM-G0G6/g6/production-approval.yaml'']],
    sn_executor_history = [event (js ''ex-051-start'') (js ''executor_started'') (js ''Hermes Mac / local_agent_sim'') (js ''running'')
        [js ''core/GATE_LIFECYCLE_CONTRACT_v1.0.md''],
      event (js ''ex-051-finish'') (js ''executor_finished'') (js ''Hermes Mac / local_agent_sim'') (js ''success'')
        [js ''.gwc/tasks/SCRUM-SIM-G0G6/g6/production-approval.yaml'']],
    sn_checkpoints = [checkpoint_at (js ''cp-051'') 51 (js ''lifecycle.g6-production-approval'') (js ''pending'')
        (js ''hermes-mac-sim'') (js ''fnc-fed6ece4'') (js ''done'')],
    sn_options = Some [js ''continue'',
      js ''retry/self-remediate'',
      js ''block for human authority'',
      js ''mark not_applicable when gate conditional''] \<rparr>"

definition node_52 :: simNode where
  "node_52 = \<lparr>
    sn_node_id = js ''sync-projection-projection-privacy-boundary-check'',
    sn_title = js ''Projection Privacy Boundary Check'',
    sn_description = js ''Block secrets, credentials, production data, hidden reasoning, and unrestricted payloads from external projection.'',
    sn_node_type = js ''gate'',
    sn_family = js ''sync_projection'',
    sn_authority_boundary = js ''read_only'',
    sn_catalog_path = Some (js ''core/node-architect/node-catalog/sync_projection/projection-privacy-boundary-check.node.json''),
    sn_source_status = Some (js ''lifecycle_artifact''),
    sn_maturity = Some (js ''contract''),
    sn_implementation_refs = Some [js ''core/node-architect/node-catalog/sync_projection/projection-privacy-boundary-check.node.json''],
    sn_declared_gates = Some [js ''G2_EXECUTION'',
      js ''G3_PR''],
    sn_canonical = Some (js ''audit_projection''),
    sn_gate_id = js ''G6_PRODUCTION_DATA'',
    sn_gate_label = Some ((js ''G6 '' @ [0xB7] @ js '' Production Data'')),
    sn_sequence = 52,
    sn_node_label = Some (js ''G6_PRODUCTION_DATA-N02''),
    sn_artifacts = [js ''.gwc/tasks/SCRUM-SIM-G0G6/g6_production_data/nodes/02-sync-projection-projection-privacy-boundary-check.node-run.json'',
      js ''.gwc/tasks/SCRUM-SIM-G0G6/g6_production_data/nodes/02-sync-projection-projection-privacy-boundary-check.runbook.yaml''],
    sn_reads = [js ''core/node-architect/node-catalog/**/*.node.json'',
      js ''core/node-architect/node-registry.json'',
      js ''core/node-architect/runtime-graph-registry.json'',
      js ''.gwc/tasks/SCRUM-SIM-G0G6/g6/production-approval.yaml'',
      js ''.gwc/tasks/SCRUM-SIM-G0G6/g6/production-readback.json''],
    sn_runbook = [js ''Load node descriptor sync-projection-projection-privacy-boundary-check'',
      js ''Validate gate/evidence preconditions'',
      js ''Execute or simulate node action'',
      js ''Read back evidence and append run event'',
      js ''Persist checkpoint/update node history''],
    sn_taskcontroller_history = [event (js ''tc-052-admit'') (js ''node_admitted'') (js ''TaskController'') (js ''accepted'')
        [js ''core/node-architect/node-catalog/**/*.node.json''],
      event (js ''tc-052-project'') (js ''history_projected'') (js ''TaskController'') (js ''observed'')
        [js ''.gwc/tasks/SCRUM-SIM-G0G6/g6_production_data/nodes/02-sync-projection-projection-privacy-boundary-check.node-run.json'']],
    sn_executor_history = [event (js ''ex-052-start'') (js ''executor_started'') (js ''Hermes Mac / local_agent_sim'') (js ''running'')
        [js ''core/node-architect/node-catalog/sync_projection/projection-privacy-boundary-check.node.json''],
      event (js ''ex-052-finish'') (js ''executor_finished'') (js ''Hermes Mac / local_agent_sim'') (js ''success'')
        [js ''.gwc/tasks/SCRUM-SIM-G0G6/g6_production_data/nodes/02-sync-projection-projection-privacy-boundary-check.runbook.yaml'']],
    sn_checkpoints = [checkpoint_at (js ''cp-052'') 52 (js ''sync-projection-projection-privacy-boundary-check'') (js ''pending'')
        (js ''hermes-mac-sim'') (js ''fnc-42dd13f5'') (js ''done'')],
    sn_options = Some [js ''continue'',
      js ''retry/self-remediate'',
      js ''block for human authority'',
      js ''mark not_applicable when gate conditional''] \<rparr>"

definition node_53 :: simNode where
  "node_53 = \<lparr>
    sn_node_id = js ''sync-projection-external-audit-event-projection'',
    sn_title = js ''External Audit Event Projection'',
    sn_description = js ''Project sanitized lifecycle events to external audit surfaces without copying secrets or approval commands.'',
    sn_node_type = js ''projection'',
    sn_family = js ''sync_projection'',
    sn_authority_boundary = js ''read_only'',
    sn_catalog_path = Some (js ''core/node-architect/node-catalog/sync_projection/external-audit-event-projection.node.json''),
    sn_source_status = Some (js ''lifecycle_artifact''),
    sn_maturity = Some (js ''contract''),
    sn_implementation_refs = Some [js ''core/node-architect/node-catalog/sync_projection/external-audit-event-projection.node.json''],
    sn_declared_gates = Some [js ''G2_EXECUTION'',
      js ''G3_PR''],
    sn_canonical = Some (js ''audit_projection''),
    sn_gate_id = js ''G6_PRODUCTION_DATA'',
    sn_gate_label = Some ((js ''G6 '' @ [0xB7] @ js '' Production Data'')),
    sn_sequence = 53,
    sn_node_label = Some (js ''G6_PRODUCTION_DATA-N03''),
    sn_artifacts = [js ''.gwc/tasks/SCRUM-SIM-G0G6/g6_production_data/nodes/03-sync-projection-external-audit-event-projection.node-run.json'',
      js ''.gwc/tasks/SCRUM-SIM-G0G6/g6_production_data/nodes/03-sync-projection-external-audit-event-projection.runbook.yaml''],
    sn_reads = [js ''core/node-architect/node-catalog/**/*.node.json'',
      js ''core/node-architect/node-registry.json'',
      js ''core/node-architect/runtime-graph-registry.json'',
      js ''.gwc/tasks/SCRUM-SIM-G0G6/g6/production-approval.yaml'',
      js ''.gwc/tasks/SCRUM-SIM-G0G6/g6/production-readback.json''],
    sn_runbook = [js ''Load node descriptor sync-projection-external-audit-event-projection'',
      js ''Validate gate/evidence preconditions'',
      js ''Execute or simulate node action'',
      js ''Read back evidence and append run event'',
      js ''Persist checkpoint/update node history''],
    sn_taskcontroller_history = [event (js ''tc-053-admit'') (js ''node_admitted'') (js ''TaskController'') (js ''accepted'')
        [js ''core/node-architect/node-catalog/**/*.node.json''],
      event (js ''tc-053-project'') (js ''history_projected'') (js ''TaskController'') (js ''observed'')
        [js ''.gwc/tasks/SCRUM-SIM-G0G6/g6_production_data/nodes/03-sync-projection-external-audit-event-projection.node-run.json'']],
    sn_executor_history = [event (js ''ex-053-start'') (js ''executor_started'') (js ''Hermes Mac / local_agent_sim'') (js ''running'')
        [js ''core/node-architect/node-catalog/sync_projection/external-audit-event-projection.node.json''],
      event (js ''ex-053-finish'') (js ''executor_finished'') (js ''Hermes Mac / local_agent_sim'') (js ''success'')
        [js ''.gwc/tasks/SCRUM-SIM-G0G6/g6_production_data/nodes/03-sync-projection-external-audit-event-projection.runbook.yaml'']],
    sn_checkpoints = [checkpoint_at (js ''cp-053'') 53 (js ''sync-projection-external-audit-event-projection'') (js ''pending'')
        (js ''hermes-mac-sim'') (js ''fnc-f743a398'') (js ''done'')],
    sn_options = Some [js ''continue'',
      js ''retry/self-remediate'',
      js ''block for human authority'',
      js ''mark not_applicable when gate conditional''] \<rparr>"

definition node_54 :: simNode where
  "node_54 = \<lparr>
    sn_node_id = js ''failure_recovery.unknown-write-reconciliation'',
    sn_title = js ''Unknown Write Reconciliation'',
    sn_description = js ''Require provider readback after an ambiguous write result before any retry or PASS decision.'',
    sn_node_type = js ''gate'',
    sn_family = js ''failure_recovery'',
    sn_authority_boundary = js ''g2_required'',
    sn_catalog_path = Some (js ''core/node-architect/node-catalog/failure_recovery/unknown-write-reconciliation.node.json''),
    sn_source_status = Some (js ''proposed_registry_slot''),
    sn_maturity = Some (js ''experimental''),
    sn_implementation_refs = Some [js ''core/node-architect/node-catalog/failure_recovery/unknown-write-reconciliation.node.json''],
    sn_declared_gates = Some [js ''G2_EXECUTION''],
    sn_canonical = Some (js ''delivery_evidence''),
    sn_gate_id = js ''G6_PRODUCTION_DATA'',
    sn_gate_label = Some ((js ''G6 '' @ [0xB7] @ js '' Production Data'')),
    sn_sequence = 54,
    sn_node_label = Some (js ''G6_PRODUCTION_DATA-N04''),
    sn_artifacts = [js ''.gwc/tasks/SCRUM-SIM-G0G6/g6_production_data/nodes/04-unknown-write-reconciliation.node-run.json'',
      js ''.gwc/tasks/SCRUM-SIM-G0G6/g6_production_data/nodes/04-unknown-write-reconciliation.runbook.yaml''],
    sn_reads = [js ''core/node-architect/node-catalog/**/*.node.json'',
      js ''core/node-architect/node-registry.json'',
      js ''core/node-architect/runtime-graph-registry.json'',
      js ''.gwc/tasks/SCRUM-SIM-G0G6/g6/production-approval.yaml'',
      js ''.gwc/tasks/SCRUM-SIM-G0G6/g6/production-readback.json''],
    sn_runbook = [js ''Load node descriptor failure_recovery.unknown-write-reconciliation'',
      js ''Validate gate/evidence preconditions'',
      js ''Execute or simulate node action'',
      js ''Read back evidence and append run event'',
      js ''Persist checkpoint/update node history''],
    sn_taskcontroller_history = [event (js ''tc-054-admit'') (js ''node_admitted'') (js ''TaskController'') (js ''accepted'')
        [js ''core/node-architect/node-catalog/**/*.node.json''],
      event (js ''tc-054-project'') (js ''history_projected'') (js ''TaskController'') (js ''observed'')
        [js ''.gwc/tasks/SCRUM-SIM-G0G6/g6_production_data/nodes/04-unknown-write-reconciliation.node-run.json'']],
    sn_executor_history = [event (js ''ex-054-start'') (js ''executor_started'') (js ''Hermes Mac / local_agent_sim'') (js ''running'')
        [js ''core/node-architect/node-catalog/failure_recovery/unknown-write-reconciliation.node.json''],
      event (js ''ex-054-finish'') (js ''executor_finished'') (js ''Hermes Mac / local_agent_sim'') (js ''success'')
        [js ''.gwc/tasks/SCRUM-SIM-G0G6/g6_production_data/nodes/04-unknown-write-reconciliation.runbook.yaml'']],
    sn_checkpoints = [checkpoint_at (js ''cp-054'') 54 (js ''failure_recovery.unknown-write-reconciliation'') (js ''pending'')
        (js ''hermes-mac-sim'') (js ''fnc-dbba1fef'') (js ''done'')],
    sn_options = Some [js ''continue'',
      js ''retry/self-remediate'',
      js ''block for human authority'',
      js ''mark not_applicable when gate conditional''] \<rparr>"

definition gate_6 :: simGate where
  "gate_6 = \<lparr>
    sg_id = js ''G6_PRODUCTION_DATA'',
    sg_label = (js ''G6 '' @ [0xB7] @ js '' Production Data''),
    sg_summary = js ''Production approval, boundary check, audit/readback/reconciliation.'',
    sg_nodes = [node_51, node_52, node_53, node_54],
    sg_gate_artifacts = [js ''.gwc/tasks/SCRUM-SIM-G0G6/g6/production-approval.yaml'',
      js ''.gwc/tasks/SCRUM-SIM-G0G6/g6/production-readback.json''],
    sg_taskcontroller_history = [event (js ''tc-G6_PRODUCTION_DATA-open'') (js ''gate_opened'') (js ''TaskController'') (js ''running'')
        [js ''.gwc/tasks/SCRUM-SIM-G0G6/g6_production_data/''],
      event (js ''tc-G6_PRODUCTION_DATA-close'') (js ''gate_closed'') (js ''TaskController'') (js ''pass'')
        [js ''.gwc/tasks/SCRUM-SIM-G0G6/g6_production_data/gate-summary.json'']],
    sg_executor_history = [event (js ''ex-G6_PRODUCTION_DATA-lease'') (js ''executor_gate_session'') (js ''Hermes Mac / local_agent_sim'') (js ''completed'')
        [js ''session://DW-OBS-ARCH-SIM-G0G6-20260823-R3/G6_PRODUCTION_DATA'']] \<rparr>"

definition simRunG0G6 :: simRun where
  "simRunG0G6 = \<lparr>
    sr_run_id = js ''DW-OBS-ARCH-SIM-G0G6-20260823-R3'',
    sr_task_id = js ''SCRUM-SIM-G0G6'',
    sr_repository = js ''nhatnguyenquang1838-coder/DW-SuperApps'',
    sr_base_branch = js ''pre-prod'',
    sr_base_sha = js ''a992fa4824db17434f6bdf8aabe8d6f435cc5767'',
    sr_graph_revision = JObj [(js ''parent_revision_id'', JNull), (js ''revision_id'', JStr (js ''scrum-104-20260726'')), (js ''source_sha'', JStr (js ''7b7ddbab2dd8ca73d715e6e2ed7c67cda5df8ef1215a27c0e22a9b240722ee9d''))],
    sr_status = js ''simulated_complete'',
    sr_source_basis = JObj [(js ''gate_lifecycle'', JStr (js ''core/GATE_LIFECYCLE_CONTRACT_v1.0.md'')), (js ''g0g1_runbook'', JStr (js ''core/runbooks/GATE_G0_G1_OPERATIONAL_RUNBOOK_v1.0.md'')), (js ''runtime_node_schema'', JStr (js ''schemas/node-architect/runtime-node.schema.json'')), (js ''registry_adapter'', JStr (js ''tools/node_architect/viewer/registry_adapter.py'')), (js ''run_history_adapter'', JStr (js ''tools/node_architect/viewer/run_history_adapter.py''))],
    sr_gates = [gate_0, gate_1, gate_2, gate_3, gate_4, gate_5, gate_6] \<rparr>"

section \<open>Shape\<close>

definition node_key :: "simNode \<Rightarrow> jsstring \<times> jsstring \<times> int" where
  "node_key n = (sn_gate_id n, sn_node_id n, sn_sequence n)"

abbreviation shipped_nodes :: "simNode list" where
  "shipped_nodes \<equiv> concat (map sg_nodes (sr_gates simRunG0G6))"

lemma gate_0_keys:
  "sg_id gate_0 = js ''G0_CONTEXT''"
  "map node_key (sg_nodes gate_0) = [(js ''G0_CONTEXT'', js ''intake_context.source-resolution'', 1),
     (js ''G0_CONTEXT'', js ''intake_context.request-intake'', 2),
     (js ''G0_CONTEXT'', js ''intake_context.repo-identity-check'', 3),
     (js ''G0_CONTEXT'', js ''intake_context.protected-base-capture'', 4),
     (js ''G0_CONTEXT'', js ''intake_context.files-read-scope'', 5),
     (js ''G0_CONTEXT'', js ''intake_context.files-write-scope'', 6),
     (js ''G0_CONTEXT'', js ''intake_context.risk-classification'', 7),
     (js ''G0_CONTEXT'', js ''intake_context.context-gap-escalation'', 8),
     (js ''G0_CONTEXT'', js ''intake_context.intake-card-render'', 9)]"
  by (simp_all only: gate_0_def node_key_def list.map simGate.simps simNode.simps node_01_def node_02_def node_03_def node_04_def node_05_def node_06_def node_07_def node_08_def node_09_def)

lemma gate_1_keys:
  "sg_id gate_1 = js ''G1_ALIGNMENT''"
  "map node_key (sg_nodes gate_1) = [(js ''G1_ALIGNMENT'', js ''gate_authority.gate-state-resolution'', 10),
     (js ''G1_ALIGNMENT'', js ''gate_authority.evidence-artifact-map'', 11),
     (js ''G1_ALIGNMENT'', js ''gate_authority.scope-hash-calculation'', 12),
     (js ''G1_ALIGNMENT'', js ''gate_authority.gate-transition-decision'', 13),
     (js ''G1_ALIGNMENT'', js ''gate_authority.approval-token-generation'', 14),
     (js ''G1_ALIGNMENT'', js ''gate_authority.g2-execution-envelope-render'', 15),
     (js ''G1_ALIGNMENT'', js ''gate_authority.approval-command-validation'', 16),
     (js ''G1_ALIGNMENT'', js ''gate_authority.authority-boundary-check'', 17),
     (js ''G1_ALIGNMENT'', js ''gate_authority.blocked-action-escalation'', 18)]"
  by (simp_all only: gate_1_def node_key_def list.map simGate.simps simNode.simps node_10_def node_11_def node_12_def node_13_def node_14_def node_15_def node_16_def node_17_def node_18_def)

lemma gate_2_keys:
  "sg_id gate_2 = js ''G2_EXECUTION''"
  "map node_key (sg_nodes gate_2) = [(js ''G2_EXECUTION'', js ''gate_authority.g2-execution-envelope-render'', 19),
     (js ''G2_EXECUTION'', js ''gate_authority.approval-command-validation'', 20),
     (js ''G2_EXECUTION'', js ''runtime_checkpoint.lease-acquisition'', 21),
     (js ''G2_EXECUTION'', js ''runtime_checkpoint.checkpoint-capture'', 22),
     (js ''G2_EXECUTION'', js ''runtime_checkpoint.cas-write-guard'', 23),
     (js ''G2_EXECUTION'', js ''repo_delivery.branch-creation'', 24),
     (js ''G2_EXECUTION'', js ''repo_delivery.scoped-file-write'', 25),
     (js ''G2_EXECUTION'', js ''runtime_checkpoint.checkpoint-persist'', 26),
     (js ''G2_EXECUTION'', js ''package-export-package-manifest-load'', 27),
     (js ''G2_EXECUTION'', js ''package-export-governance-tree-build'', 28),
     (js ''G2_EXECUTION'', js ''package-export-export-manifest-generation'', 29),
     (js ''G2_EXECUTION'', js ''package-export-deterministic-hash-verification'', 30),
     (js ''G2_EXECUTION'', js ''sync-projection-task-center-sync'', 31)]"
  by (simp_all only: gate_2_def node_key_def list.map simGate.simps simNode.simps node_19_def node_20_def node_21_def node_22_def node_23_def node_24_def node_25_def node_26_def node_27_def node_28_def node_29_def node_30_def node_31_def)

lemma gate_3_keys:
  "sg_id gate_3 = js ''G3_PR''"
  "map node_key (sg_nodes gate_3) = [(js ''G3_PR'', js ''repo_delivery.diff-readback'', 32),
     (js ''G3_PR'', js ''validation-quality-unit-test-mapping'', 33),
     (js ''G3_PR'', js ''validation-quality-schema-validation'', 34),
     (js ''G3_PR'', js ''validation-quality-validator-execution'', 35),
     (js ''G3_PR'', js ''repo_delivery.ci-run-capture'', 36),
     (js ''G3_PR'', js ''validation-quality-ci-evidence-capture'', 37),
     (js ''G3_PR'', js ''validation-quality-evidence-quality-check'', 38),
     (js ''G3_PR'', js ''repo_delivery.draft-pr-creation'', 39),
     (js ''G3_PR'', js ''repo_delivery.pr-blocker-check'', 40),
     (js ''G3_PR'', js ''validation-quality-g3-pass-decision'', 41)]"
  by (simp_all only: gate_3_def node_key_def list.map simGate.simps simNode.simps node_32_def node_33_def node_34_def node_35_def node_36_def node_37_def node_38_def node_39_def node_40_def node_41_def)

lemma gate_4_keys:
  "sg_id gate_4 = js ''G4_MERGE''"
  "map node_key (sg_nodes gate_4) = [(js ''G4_MERGE'', js ''gate_authority.authority-boundary-check'', 42),
     (js ''G4_MERGE'', js ''gate_authority.approval-command-validation'', 43),
     (js ''G4_MERGE'', js ''lifecycle.g4-merge-approval'', 44),
     (js ''G4_MERGE'', js ''repo_delivery.ready-for-review-promotion'', 45),
     (js ''G4_MERGE'', js ''sync-projection-external-audit-event-projection'', 46)]"
  by (simp_all only: gate_4_def node_key_def list.map simGate.simps simNode.simps node_42_def node_43_def node_44_def node_45_def node_46_def)

lemma gate_5_keys:
  "sg_id gate_5 = js ''G5_DEPLOY''"
  "map node_key (sg_nodes gate_5) = [(js ''G5_DEPLOY'', js ''scale_control.exact-head-readiness-check'', 47),
     (js ''G5_DEPLOY'', js ''scale_control.workflow-run-observability'', 48),
     (js ''G5_DEPLOY'', js ''scale_control.previous-batch-g5-verification'', 49),
     (js ''G5_DEPLOY'', js ''failure_recovery.version-drift-rollback-routing'', 50)]"
  by (simp_all only: gate_5_def node_key_def list.map simGate.simps simNode.simps node_47_def node_48_def node_49_def node_50_def)

lemma gate_6_keys:
  "sg_id gate_6 = js ''G6_PRODUCTION_DATA''"
  "map node_key (sg_nodes gate_6) = [(js ''G6_PRODUCTION_DATA'', js ''lifecycle.g6-production-approval'', 51),
     (js ''G6_PRODUCTION_DATA'', js ''sync-projection-projection-privacy-boundary-check'', 52),
     (js ''G6_PRODUCTION_DATA'', js ''sync-projection-external-audit-event-projection'', 53),
     (js ''G6_PRODUCTION_DATA'', js ''failure_recovery.unknown-write-reconciliation'', 54)]"
  by (simp_all only: gate_6_def node_key_def list.map simGate.simps simNode.simps node_51_def node_52_def node_53_def node_54_def)

lemmas gate_keys = gate_0_keys gate_1_keys gate_2_keys gate_3_keys gate_4_keys gate_5_keys gate_6_keys

lemma placed_by_keys: "(\<forall>k\<in>set (map node_key ns). fst k = g) \<longleftrightarrow> (\<forall>n\<in>set ns. sn_gate_id n = g)"
  by (simp add: node_key_def)

lemma shipped_gates: "sr_gates simRunG0G6 = [gate_0, gate_1, gate_2, gate_3, gate_4, gate_5, gate_6]"
  by (simp only: simRunG0G6_def simRun.simps)

lemma shipped_placed: "well_placed simRunG0G6"
  by (simp add: well_placed_def shipped_gates placed_by_keys [symmetric] gate_keys del: set_map)

lemma shipped_sequences: "map sn_sequence shipped_nodes = [1..54]"
proof -
  have "map sn_sequence shipped_nodes = map (snd \<circ> snd) (concat (map (map node_key \<circ> sg_nodes) (sr_gates simRunG0G6)))"
    by (simp add: map_concat node_key_def comp_def)
  also have "\<dots> = [1..54]" by (simp add: shipped_gates gate_keys upto_rec1)
  finally show ?thesis .
qed

lemma shipped_distinct: "distinct (map (\<lambda>(g, n). (sg_id g, sn_node_id n)) (cards simRunG0G6))"
proof -
  have "map (\<lambda>n. (sn_gate_id n, sn_node_id n)) shipped_nodes =
      map (\<lambda>k. (fst k, fst (snd k))) (concat (map (map node_key \<circ> sg_nodes) (sr_gates simRunG0G6)))"
    by (simp add: map_concat node_key_def comp_def)
  then show ?thesis by (simp add: cards_keys [OF shipped_placed] shipped_gates gate_keys)
qed

lemma shipped_in_order: "buildTimeline simRunG0G6 = map step_of shipped_nodes"
proof -
  have "sorted_wrt (\<le>) (map sn_sequence shipped_nodes)" unfolding shipped_sequences by (simp add: sorted_wrt_upto sorted_wrt_mono_rel [of _ "(<)"])
  then have "sorted_wrt (\<lambda>a b. seq_cmp a b \<le> 0) shipped_nodes" by (simp add: sorted_wrt_map seq_cmp_def)
  then show ?thesis by (simp add: buildTimeline_def js_sort_idle)
qed

lemma shipped_length: "timelineLength simRunG0G6 = 54"
  using arg_cong [OF shipped_sequences, of length] by (simp add: timelineLength_def shipped_in_order)

lemma shipped_last:
  "ts_gate_id (buildTimeline simRunG0G6 ! 53) = js ''G6_PRODUCTION_DATA''"
  "ts_node_id (buildTimeline simRunG0G6 ! 53) = js ''failure_recovery.unknown-write-reconciliation''"
proof -
  have "map node_key shipped_nodes = concat (map (map node_key \<circ> sg_nodes) (sr_gates simRunG0G6))" by (simp add: map_concat comp_def)
  then have "node_key (shipped_nodes ! 53) = (js ''G6_PRODUCTION_DATA'', js ''failure_recovery.unknown-write-reconciliation'', 54)"
    using nth_map [of 53 shipped_nodes node_key] shipped_length by (simp add: timelineLength_def shipped_in_order shipped_gates gate_keys)
  moreover have "buildTimeline simRunG0G6 ! 53 = step_of (shipped_nodes ! 53)"
    using shipped_length by (simp add: timelineLength_def shipped_in_order)
  ultimately show "ts_gate_id (buildTimeline simRunG0G6 ! 53) = js ''G6_PRODUCTION_DATA''"
    "ts_node_id (buildTimeline simRunG0G6 ! 53) = js ''failure_recovery.unknown-write-reconciliation''"
    by (simp_all add: step_of_def node_key_def)
qed

end
