(* ===== verification/AppShell.thy ===== *)
theory AppShell
  imports SimFixture SimDom EpicView EpicFixture
begin

text \<open>
  The shell of the application: the root layout, the redirect of the home page and the two pages that
  hand a fixture to a component, \<open>app/layout.tsx\<close>, \<open>app/page.tsx\<close>, \<open>app/runs/login-epic/page.tsx\<close> and
  \<open>app/runs/sim-g0g6/page.tsx\<close>. With the shipped run the conditions of the theorems on the simulated
  run are facts.
\<close>

section \<open>Definitions\<close>

definition RootLayout :: "'a vdom \<Rightarrow> 'a vdom" where
  "RootLayout children = El ''html'' [Attr ''lang'' (js ''en'')] [El ''body'' [] [El ''div'' [cls ''min-h-screen''] [
     El ''header'' [cls ''border-b border-edge px-6 py-4''] [
       El ''a'' [Attr ''href'' (js ''/runs''), cls ''text-lg font-semibold''] [tx ''DW Run Observatory''],
       El ''span'' [cls ''ml-3 text-xs text-muted''] [tx ''read-only historical projection'']],
     El ''main'' [cls ''px-6 py-6''] [children]]]]"

text \<open>What a page does when it is opened: it renders, it redirects, or it throws.\<close>

datatype 'v opened = Opened 'v | Redirected jsstring | Thrown jsstring

definition Home :: "'v opened" where
  "Home = Redirected (js ''/runs'')"

definition LoginEpicPage ::
    "(jsstring \<Rightarrow> jsstring option) \<Rightarrow> (jsstring \<Rightarrow> epicFixture option) \<Rightarrow> jsstring \<Rightarrow> epicFixture opened" where
  "LoginEpicPage readFile parse cwd = (case loadLoginEpicFixture readFile parse cwd of Inl e \<Rightarrow> Thrown e | Inr epic \<Rightarrow> Opened epic)"

definition SimG0G6Page :: "pageState \<Rightarrow> pageAction vdom option" where
  "SimG0G6Page p = map_option RootLayout (SimRunView simRunG0G6 p)"

section \<open>Lemmas\<close>

lemma actions_layout [simp]: "actions (RootLayout v) = actions v"
  by (simp add: RootLayout_def)

lemma having_layout: "having active_mark (RootLayout v) = having active_mark v"
  by (simp add: RootLayout_def)

section \<open>Properties\<close>

text \<open>
  C17. The shipped simulation works. After any use of the page that the application serves, it renders,
  exactly one card is highlighted, the cursor is on one of the 54 steps, and every action it offers
  succeeds and leads to such a state again.
\<close>

theorem shipped_page_works:
  assumes "doc_reachable simRunG0G6 d"
  shows "\<exists>page. SimG0G6Page (sd_page d) = Some page \<and> length (having (Attr ''data-active'' (js ''true'')) page) = 1 \<and>
    sv_cursor (pg_view (sd_page d)) \<in> {0..53} \<and>
    (\<forall>a\<in>actions page. \<exists>d'. doc_act simRunG0G6 a d = Some d' \<and> doc_reachable simRunG0G6 d')"
proof -
  have len: "timelineLength simRunG0G6 > 0" by (simp add: shipped_length)
  obtain page where page: "SimRunView simRunG0G6 (sd_page d) = Some page"
      "\<forall>a\<in>actions page. \<exists>d'. doc_act simRunG0G6 a d = Some d' \<and> doc_reachable simRunG0G6 d'"
    using sim_document.reachable_safe [of simRunG0G6 d] shipped_placed len assms by blast
  have ok: "sim_ok simRunG0G6 (pg_view (sd_page d))"
    using sim_document.reachable_inv [OF assms] shipped_placed len by (simp add: doc_ok_def)
  have "length (having active_mark page) = 1"
    using highlighted_card [OF shipped_placed shipped_distinct len ok page(1)] by (elim exE conjE) simp
  moreover have "sv_cursor (pg_view (sd_page d)) \<in> {0..53}"
    using ok clampCursor_range [of simRunG0G6 "sv_cursor (pg_view (sd_page d))"]
    by (auto simp: sim_ok_def shipped_length)
  ultimately show ?thesis using page by (simp add: SimG0G6Page_def having_layout)
qed

text \<open>
  C15. LIVE SIM on the shipped run: entered when the page is opened, it plays the 54 nodes in the order
  of their sequence numbers, one per firing of the interval, and the 54th firing pauses it on the last
  node, which belongs to the production data gate.
\<close>

theorem shipped_run_plays:
  "map ts_sequence (buildTimeline simRunG0G6) = [1..54] \<and>
   (\<exists>v. sim_act simRunG0G6 (SMode P_LIVE) (sim_mount simRunG0G6) = Some v \<and>
      (\<forall>k<54. playing_at simRunG0G6 k ((sim_step simRunG0G6 ^^ k) (Some v))) \<and>
      (\<exists>e. (sim_step simRunG0G6 ^^ 54) (Some v) = Some e \<and> \<not> sv_playing e \<and>
         sv_selection e = SelNode (js ''G6_PRODUCTION_DATA'') (js ''failure_recovery.unknown-write-reconciliation'')))"
proof -
  let ?r = simRunG0G6
  have len: "timelineLength ?r > 0" by (simp add: shipped_length)
  have "sv_mode (sim_mount ?r) = P_REPLAY" by (simp add: sim_mount_def)
  from live_starts [OF this len] obtain v where
    v: "sim_act ?r (SMode P_LIVE) (sim_mount ?r) = Some v" "playing_at ?r 0 (Some v)" by blast
  have "\<forall>k<54. playing_at ?r k ((sim_step ?r ^^ k) (Some v))" "paused_at ?r 53 ((sim_step ?r ^^ 54) (Some v))"
    using sim_player.plays_through [OF v(2) len] by (simp_all add: shipped_length)
  moreover have "map ts_sequence (buildTimeline ?r) = [1..54]"
    using shipped_sequences by (simp add: shipped_in_order step_of_def comp_def)
  ultimately show ?thesis using v(1) shipped_last by (auto simp: paused_at_def shows_step_def)
qed

theorem shipped_page_works_witness: "\<exists>page. SimG0G6Page (page_mount simRunG0G6) = Some page"
proof -
  have "sd_page (doc_mount simRunG0G6) = page_mount simRunG0G6" by (simp add: doc_mount_def)
  with shipped_page_works [OF doc_started] show ?thesis by auto
qed

theorem shipped_run_plays_witness:
  "\<exists>v. sim_act simRunG0G6 (SMode P_LIVE) (sim_mount simRunG0G6) = Some v \<and> playing_at simRunG0G6 10 ((sim_step simRunG0G6 ^^ 10) (Some v))"
proof -
  have "(10::nat) < 54" by simp
  with shipped_run_plays show ?thesis by blast
qed

end
