(* ===== verification/UaApp.thy ===== *)
theory UaApp
  imports JsonText
begin

text \<open>
  The knowledge graph log of \<open>systems/test-ua-app/main.js\<close>: one page that fetches a graph and writes
  what it finds, line by line, into a text area. An expression that throws ends the \<open>try\<close> block; the
  lines written before it stay. Arguments are the two time stamps, the origin of the page, what
  \<open>fetch\<close> and \<open>resp.json()\<close> give, and the texts of the engine's type errors, which the language leaves
  open. The text area exists: it is in \<open>index.html\<close>.
\<close>

section \<open>Values that can throw\<close>

datatype typeFault = ReadOfNullish string | NotIterable | NotAFunction string

datatype response = Rejected jsstring | Response bool int "jsstring + json"

definition sbind :: "'e + 'a \<Rightarrow> ('a \<Rightarrow> 'e + 'b) \<Rightarrow> 'e + 'b" where
  "sbind x f = (case x of Inl e \<Rightarrow> Inl e | Inr a \<Rightarrow> f a)"

text \<open>\<open>v.k\<close> for a name \<open>k\<close> that no built-in prototype has\<close>

definition read_prop :: "(typeFault \<Rightarrow> jsstring) \<Rightarrow> json \<Rightarrow> string \<Rightarrow> jsstring + json" where
  "read_prop tm v k = (if nullish v then Inl (tm (ReadOfNullish k)) else Inr (fld v k))"

fun length_of :: "json \<Rightarrow> json" where
  "length_of (JArr vs) = JNum (int (length vs))"
| "length_of (JStr s) = JNum (int (length s))"
| "length_of v = fld v ''length''"

definition length_prop :: "(typeFault \<Rightarrow> jsstring) \<Rightarrow> json \<Rightarrow> jsstring + json" where
  "length_prop tm v = (if nullish v then Inl (tm (ReadOfNullish ''length'')) else Inr (length_of v))"

text \<open>\<open>v?.length ?? 0\<close>\<close>

definition opt_length :: "json \<Rightarrow> json" where
  "opt_length v = (if nullish v \<or> nullish (length_of v) then JNum 0 else length_of v)"

text \<open>\<open>for (const x of v)\<close>: a string is iterated by code points.\<close>

fun code_points :: "jsstring \<Rightarrow> jsstring list" where
  "code_points [] = []"
| "code_points [c] = [[c]]"
| "code_points (c # d # s) =
     (if is_high_surrogate c \<and> is_low_surrogate d then [c, d] # code_points s else [c] # code_points (d # s))"

fun iterate :: "(typeFault \<Rightarrow> jsstring) \<Rightarrow> json \<Rightarrow> jsstring + json list" where
  "iterate tm (JArr vs) = Inr vs"
| "iterate tm (JStr s) = Inr (map JStr (code_points s))"
| "iterate tm _ = Inl (tm NotIterable)"

text \<open>\<open>v?.join(', ') ?? 'N/A'\<close>\<close>

fun join_or_na :: "(typeFault \<Rightarrow> jsstring) \<Rightarrow> json \<Rightarrow> jsstring + jsstring" where
  "join_or_na tm JUndef = Inr (js ''N/A'')"
| "join_or_na tm JNull = Inr (js ''N/A'')"
| "join_or_na tm (JArr vs) = Inr (js_join (js '', '') (map (\<lambda>v. if nullish v then [] else jsString v) vs))"
| "join_or_na tm _ = Inl (tm (NotAFunction ''join''))"

section \<open>Writing\<close>

text \<open>What a piece of the \<open>try\<close> block writes, and the message it throws, if any.\<close>

type_synonym block = "jsstring list \<times> jsstring option"

definition wr :: "jsstring \<Rightarrow> block" where
  "wr s = ([s], None)"

definition attempt :: "jsstring + 'a \<Rightarrow> ('a \<Rightarrow> block) \<Rightarrow> block" where
  "attempt x f = (case x of Inl e \<Rightarrow> ([], Some e) | Inr a \<Rightarrow> f a)"

definition andThen :: "block \<Rightarrow> block \<Rightarrow> block" where
  "andThen b c = (case snd b of Some e \<Rightarrow> b | None \<Rightarrow> (fst b @ fst c, snd c))"

definition blocks :: "block list \<Rightarrow> block" where
  "blocks bs = foldr andThen bs ([], None)"

definition wr_value :: "string \<Rightarrow> jsstring + json \<Rightarrow> string \<Rightarrow> block" where
  "wr_value label x suffix = attempt x (\<lambda>v. wr (js label @ jsString v @ js suffix))"

definition GRAPH_URL :: jsstring where
  "GRAPH_URL = js ''/ua/knowledge-graph.json''"

definition preflight :: "jsstring \<Rightarrow> jsstring \<Rightarrow> jsstring list" where
  "preflight started origin = [
     (js ''=== UA Power '' @ [0x2014] @ js '' Development Process Log ===''),
     js ''Started at: '' @ started,
     [],
     js ''[Phase 0/4] Pre-flight...'',
     js ''  Resolving PROJECT_ROOT...'',
     js ''  PROJECT_ROOT = '' @ origin,
     js ''  Resolving UA_DIR...'',
     js ''  UA_DIR = '' @ origin @ js ''/.ua'',
     js ''  Checking for existing knowledge-graph.json...'',
     js ''  Fetching '' @ GRAPH_URL @ js ''...'',
     [],
     js ''[Phase 1/4] Fetching knowledge graph...'']"

definition describe :: "(typeFault \<Rightarrow> jsstring) \<Rightarrow> int \<Rightarrow> json \<Rightarrow> block" where
  "describe tm status graph = (let project = read_prop tm graph ''project'' in blocks [
     wr (js ''  Status: OK (HTTP '' @ show_int status @ js '')''),
     wr_value ''  Graph version: '' (read_prop tm graph ''version'') '''',
     wr_value ''  Project: '' (sbind project (\<lambda>p. read_prop tm p ''name'')) '''',
     wr_value ''  Analyzed at: '' (sbind project (\<lambda>p. read_prop tm p ''analyzedAt'')) '''',
     wr_value ''  Commit: '' (sbind project (\<lambda>p. read_prop tm p ''gitCommitHash'')) '''',
     wr_value ''  Mode: '' (sbind project (\<lambda>p. read_prop tm p ''analysisMode'')) '''',
     wr [],
     wr_value ''  Found '' (sbind (read_prop tm graph ''nodes'') (length_prop tm)) '' nodes'',
     wr_value ''  Found '' (sbind (read_prop tm graph ''edges'') (length_prop tm)) '' edges'',
     wr_value ''  Found '' (sbind (read_prop tm graph ''layers'') (Inr \<circ> opt_length)) '' layers'',
     wr_value ''  Found '' (sbind (read_prop tm graph ''tour'') (Inr \<circ> opt_length)) '' tour steps'',
     wr []])"

text \<open>\<open>byType[node.type] = (byType[node.type] || 0) + 1\<close> for every element\<close>

fun tally :: "(typeFault \<Rightarrow> jsstring) \<Rightarrow> json list \<Rightarrow> nat dict \<Rightarrow> jsstring + nat dict" where
  "tally tm [] m = Inr m"
| "tally tm (v # vs) m = sbind (read_prop tm v ''type'') (\<lambda>t. tally tm vs (dict_incr (jsString t) m))"

definition count_line :: "jsstring \<times> nat \<Rightarrow> jsstring" where
  "count_line e = js ''  '' @ fst e @ js '': '' @ show_nat (snd e)"

definition analyze :: "(typeFault \<Rightarrow> jsstring) \<Rightarrow> string \<Rightarrow> jsstring + json \<Rightarrow> block" where
  "analyze tm title vs = blocks [
     wr (js title),
     attempt (sbind (sbind vs (iterate tm)) (\<lambda>xs. tally tm xs [])) (\<lambda>m. blocks (map (wr \<circ> count_line) (dict_entries m))),
     wr []]"

definition limitations :: "(typeFault \<Rightarrow> jsstring) \<Rightarrow> json \<Rightarrow> block" where
  "limitations tm v = (if nullish v \<or> \<not> truthy (length_of v) then ([], None)
     else andThen (wr (js ''  Limitations:'')) (attempt (iterate tm v) (\<lambda>ls. blocks (map (\<lambda>l. wr (js ''    - '' @ jsString l)) ls))))"

definition summary :: "(typeFault \<Rightarrow> jsstring) \<Rightarrow> jsstring \<Rightarrow> json \<Rightarrow> block" where
  "summary tm finished graph = (let project = read_prop tm graph ''project'' in blocks [
     wr (js ''[Phase 4/4] Summary...''),
     attempt (sbind (sbind project (\<lambda>p. read_prop tm p ''languages'')) (join_or_na tm)) (\<lambda>s. wr (js ''  Languages: '' @ s)),
     attempt (sbind (sbind project (\<lambda>p. read_prop tm p ''frameworks'')) (join_or_na tm)) (\<lambda>s. wr (js ''  Frameworks: '' @ s)),
     attempt (sbind project (\<lambda>p. read_prop tm p ''limitations'')) (limitations tm),
     wr [],
     wr (js ''=== Process complete ===''),
     wr (js ''Finished at: '' @ finished)])"

definition try_block :: "(typeFault \<Rightarrow> jsstring) \<Rightarrow> jsstring \<Rightarrow> response \<Rightarrow> block" where
  "try_block tm finished resp = (case resp of
     Rejected e \<Rightarrow> ([], Some e)
   | Response ok status body \<Rightarrow>
       if \<not> ok then ([], Some (js ''HTTP '' @ show_int status))
       else attempt body (\<lambda>graph. blocks [
         describe tm status graph,
         analyze tm ''[Phase 2/4] Analyzing nodes...'' (read_prop tm graph ''nodes''),
         analyze tm ''[Phase 3/4] Analyzing edges...'' (read_prop tm graph ''edges''),
         summary tm finished graph]))"

definition load :: "(typeFault \<Rightarrow> jsstring) \<Rightarrow> jsstring \<Rightarrow> jsstring \<Rightarrow> jsstring \<Rightarrow> response \<Rightarrow> jsstring list" where
  "load tm started finished origin resp = preflight started origin @ (let b = try_block tm finished resp in
     fst b @ (case snd b of None \<Rightarrow> [] | Some e \<Rightarrow> [js ''  ERROR: '' @ e, [], js ''=== Process failed ==='']))"

text \<open>The text area after the last line: \<open>lines.join\<close> with line feeds.\<close>

definition log_value :: "jsstring list \<Rightarrow> jsstring" where
  "log_value lines = js_join [10] lines"

section \<open>Lemmas\<close>

lemma sbind_Inr [simp]: "sbind x f = Inr y \<longleftrightarrow> (\<exists>a. x = Inr a \<and> f a = Inr y)"
  by (auto simp: sbind_def split: sum.split)

lemma prop_Inr [simp]: "read_prop tm v k = Inr w \<longleftrightarrow> \<not> nullish v \<and> w = fld v k"
  by (auto simp: read_prop_def)

lemma length_Inr [simp]: "length_prop tm v = Inr w \<longleftrightarrow> \<not> nullish v \<and> w = length_of v"
  by (auto simp: length_prop_def)

lemma wr_ok [simp]: "snd (wr s) = None" "fst (wr s) = [s]"
  by (simp_all add: wr_def)

lemma attempt_ok [simp]: "snd (attempt x f) = None \<longleftrightarrow> (\<exists>a. x = Inr a \<and> snd (f a) = None)"
  by (auto simp: attempt_def split: sum.split)

lemma andThen_ok [simp]: "snd (andThen b c) = None \<longleftrightarrow> snd b = None \<and> snd c = None"
  by (auto simp: andThen_def split: option.split)

lemma blocks_ok [simp]: "snd (blocks bs) = None \<longleftrightarrow> list_all (\<lambda>b. snd b = None) bs"
  by (induction bs) (auto simp: blocks_def)

lemma blocks_lines: "list_all (\<lambda>b. snd b = None) bs \<Longrightarrow> fst (blocks bs) = concat (map fst bs)"
  by (induction bs) (auto simp: blocks_def andThen_def)

lemma wr_value_ok [simp]: "snd (wr_value l x s) = None \<longleftrightarrow> (\<exists>v. x = Inr v)"
  by (simp add: wr_value_def)

lemma iterate_Inr: "(\<exists>xs. iterate tm v = Inr xs) \<longleftrightarrow> (\<exists>vs. v = JArr vs) \<or> (\<exists>s. v = JStr s)"
  by (cases v) auto

lemma join_Inr: "(\<exists>s. join_or_na tm v = Inr s) \<longleftrightarrow> nullish v \<or> (\<exists>vs. v = JArr vs)"
  by (cases v) auto

lemma tally_Inr: "(\<exists>m'. tally tm vs m = Inr m') \<longleftrightarrow> list_all (\<lambda>v. \<not> nullish v) vs"
  by (induction vs arbitrary: m) auto

text \<open>The keys under which elements are counted.\<close>

definition type_key :: "json \<Rightarrow> jsstring" where
  "type_key v = jsString (fld v ''type'')"

lemma tally_fold: "tally tm vs m = Inr m' \<Longrightarrow> m' = fold (\<lambda>v. dict_incr (type_key v)) vs m"
  by (induction vs arbitrary: m) (auto simp: type_key_def)

lemma incr_get: "dict_get (dict_incr k m) k' = (if k' = k then Some (Suc (case dict_get m k of None \<Rightarrow> 0 | Some n \<Rightarrow> n)) else dict_get m k')"
  by (auto simp: dict_incr_def split: option.split)

lemma incr_sum: "sum_list (map snd (dict_incr k m)) = Suc (sum_list (map snd m))"
proof (induction m)
  case (Cons e m)
  then show ?case by (cases e) (auto simp: dict_incr_def dict_put_def dict_get_def)
qed (simp add: dict_incr_def dict_put_def)

lemma entries_mset: "distinct (map fst m) \<Longrightarrow> mset (dict_entries m) = mset m"
proof -
  assume d: "distinct (map fst m)"
  have "mset (dict_entries m) = image_mset (\<lambda>k. (k, the (map_of m k))) (mset (map fst m))"
    by (simp add: dict_entries_def own_keys_mset)
  also have "\<dots> = mset (map (\<lambda>e. (fst e, the (map_of m (fst e)))) m)" by (simp add: comp_def image_mset.compositionality)
  also have "map (\<lambda>e. (fst e, the (map_of m (fst e)))) m = m"
    using d by (intro map_idI) (auto simp: map_of_is_SomeI)
  finally show ?thesis .
qed

lemma fold_incr:
  "distinct (map fst m) \<Longrightarrow> distinct (map fst (fold (\<lambda>v. dict_incr (key v)) vs m))"
  "dict_get (fold (\<lambda>v. dict_incr (key v)) vs []) k =
     (let n = length (filter (\<lambda>v. key v = k) vs) in if n = 0 then None else Some n)"
  "sum_list (map snd (fold (\<lambda>v. dict_incr (key v)) vs m)) = length vs + sum_list (map snd m)"
proof -
  show "distinct (map fst m) \<Longrightarrow> distinct (map fst (fold (\<lambda>v. dict_incr (key v)) vs m))"
    by (induction vs arbitrary: m) (simp_all add: dict_incr_def)
  show "dict_get (fold (\<lambda>v. dict_incr (key v)) vs []) k = (let n = length (filter (\<lambda>v. key v = k) vs) in if n = 0 then None else Some n)"
    by (induction vs rule: rev_induct) (auto simp: incr_get Let_def)
  show "sum_list (map snd (fold (\<lambda>v. dict_incr (key v)) vs m)) = length vs + sum_list (map snd m)"
    by (induction vs arbitrary: m) (simp_all add: incr_sum)
qed

lemma dict_get_entry: "distinct (map fst m) \<Longrightarrow> (k, n) \<in> set m \<longleftrightarrow> dict_get m k = Some n"
  by (simp add: dict_get_def)

text \<open>When a graph can be logged to the end.\<close>

fun countable_value :: "json \<Rightarrow> bool" where
  "countable_value (JArr vs) = list_all (\<lambda>v. \<not> nullish v) vs"
| "countable_value (JStr s) = True"
| "countable_value _ = False"

fun joinable :: "json \<Rightarrow> bool" where
  "joinable (JArr vs) = True"
| "joinable v = nullish v"

fun iterable :: "json \<Rightarrow> bool" where
  "iterable (JArr vs) = True"
| "iterable (JStr s) = True"
| "iterable _ = False"

definition usable :: "json \<Rightarrow> bool" where
  "usable g \<longleftrightarrow> (let p = fld g ''project''; lim = fld p ''limitations'' in
     \<not> nullish g \<and> \<not> nullish p \<and> countable_value (fld g ''nodes'') \<and> countable_value (fld g ''edges'') \<and>
     joinable (fld p ''languages'') \<and> joinable (fld p ''frameworks'') \<and>
     (iterable lim \<or> nullish lim \<or> \<not> truthy (length_of lim)))"

lemma written [simp]: "snd (blocks (map (wr \<circ> f) xs)) = None" "snd (blocks (map (\<lambda>x. wr (f x)) xs)) = None"
  by (simp_all add: list_all_iff)

lemma written_lines: "fst (blocks (map (wr \<circ> f) xs)) = map f xs"
  by (induction xs) (simp_all add: blocks_def andThen_def)

lemma analyze_ok: "snd (analyze tm title (Inr v)) = None \<longleftrightarrow> countable_value v"
proof -
  have "snd (analyze tm title (Inr v)) = None \<longleftrightarrow> (\<exists>xs m. iterate tm v = Inr xs \<and> tally tm xs [] = Inr m)"
    by (auto simp: analyze_def)
  also have "\<dots> \<longleftrightarrow> (\<exists>xs. iterate tm v = Inr xs \<and> list_all (\<lambda>v. \<not> nullish v) xs)" by (simp flip: tally_Inr [of tm _ "[]"])
  also have "\<dots> \<longleftrightarrow> countable_value v" by (cases v) (auto simp: list_all_iff)
  finally show ?thesis .
qed

lemma limitations_ok: "snd (limitations tm v) = None \<longleftrightarrow> iterable v \<or> nullish v \<or> \<not> truthy (length_of v)"
  by (cases v) (auto simp: limitations_def simp del: blocks_ok)

lemma join_ok: "(\<exists>s. join_or_na tm v = Inr s) \<longleftrightarrow> joinable v"
  by (cases v) auto

lemma try_block_ok:
  "snd (try_block tm finished resp) = None \<longleftrightarrow> (\<exists>status g. resp = Response True status (Inr g) \<and> usable g)"
proof (cases "\<exists>status g. resp = Response True status (Inr g)")
  case True
  then obtain status g where r: "resp = Response True status (Inr g)" by blast
  have d: "snd (describe tm status g) = None \<longleftrightarrow>
      \<not> nullish g \<and> \<not> nullish (fld g ''project'') \<and> \<not> nullish (fld g ''nodes'') \<and> \<not> nullish (fld g ''edges'')"
    by (auto simp: describe_def Let_def)
  have s: "snd (summary tm finished g) = None \<longleftrightarrow> \<not> nullish g \<and> \<not> nullish (fld g ''project'') \<and>
      joinable (fld (fld g ''project'') ''languages'') \<and> joinable (fld (fld g ''project'') ''frameworks'') \<and>
      snd (limitations tm (fld (fld g ''project'') ''limitations'')) = None"
    by (auto simp: summary_def Let_def join_ok)
  have c: "countable_value v \<Longrightarrow> \<not> nullish v" for v by (cases v) auto
  show ?thesis
  proof (cases "nullish g")
    case True
    then show ?thesis by (simp add: r try_block_def attempt_def d usable_def Let_def)
  next
    case False
    then have rp: "read_prop tm g k = Inr (fld g k)" for k by simp
    show ?thesis using False c
      by (simp add: r rp try_block_def attempt_def d s analyze_ok limitations_ok usable_def Let_def) blast
  qed
next
  case False
  then show ?thesis by (auto simp: try_block_def attempt_def split: response.splits sum.splits if_splits)
qed

section \<open>Properties\<close>

text \<open>
  C25. The log ends truthfully. For every answer of the server the last lines say that the process is
  complete exactly when the answer was successful and its graph has a project, nodes and edges that can
  be counted, languages and frameworks that are lists or absent and limitations that can be listed;
  otherwise the error is logged and the last line says that the process failed. A failed answer is
  logged with its status.
\<close>

theorem ua_log_ends_truthfully:
  "if \<exists>status g. resp = Response True status (Inr g) \<and> usable g
   then \<exists>ls. load tm started finished origin resp = preflight started origin @ ls @
     [js ''=== Process complete ==='', js ''Finished at: '' @ finished]
   else \<exists>ls e. load tm started finished origin resp = preflight started origin @ ls @ [js ''  ERROR: '' @ e, [], js ''=== Process failed ===''] \<and>
     (case resp of Response False status body \<Rightarrow> ls = [] \<and> e = js ''HTTP '' @ show_int status | _ \<Rightarrow> True)"
proof (cases "\<exists>status g. resp = Response True status (Inr g) \<and> usable g")
  case True
  then obtain status g where r: "resp = Response True status (Inr g)" by blast
  have ok: "snd (try_block tm finished resp) = None" using True by (simp only: try_block_ok)
  then have sok: "snd (summary tm finished g) = None" by (simp add: r try_block_def attempt_def)
  have "\<exists>ls. fst (summary tm finished g) = ls @ [js ''=== Process complete ==='', js ''Finished at: '' @ finished]"
    using sok by (simp add: summary_def Let_def blocks_lines)
  moreover have "\<exists>ls. fst (try_block tm finished resp) = ls @ fst (summary tm finished g)"
    using ok by (simp add: r try_block_def attempt_def blocks_lines)
  ultimately show ?thesis using True ok by (auto simp: load_def)
next
  case False
  then obtain e where e: "snd (try_block tm finished resp) = Some e" using try_block_ok by (metis option.exhaust)
  moreover have "case resp of Response False status body \<Rightarrow> fst (try_block tm finished resp) = [] \<and> e = js ''HTTP '' @ show_int status | _ \<Rightarrow> True"
    using e by (auto simp: try_block_def split: response.split bool.split)
  ultimately show ?thesis using False by (auto simp: load_def)
qed

text \<open>
  Every element is counted once. For a list without null elements the phase writes its title and one
  line per type; the types are distinct, each line has the number of elements of that type, and the
  numbers add up to the length of the list.
\<close>

theorem ua_counts_add_up:
  assumes "list_all (\<lambda>v. \<not> nullish v) xs"
  shows "\<exists>es. analyze tm title (Inr (JArr xs)) = ([js title] @ map count_line es @ [[]], None) \<and> distinct (map fst es) \<and>
    set es = {(t, n). n = length (filter (\<lambda>v. type_key v = t) xs) \<and> n > 0} \<and> sum_list (map snd es) = length xs"
proof -
  let ?m = "fold (\<lambda>v. dict_incr (type_key v)) xs []"
  obtain m where "tally tm xs [] = Inr m" using assms tally_Inr by blast
  then have m: "tally tm xs [] = Inr ?m" using tally_fold by blast
  have d: "distinct (map fst ?m)" by (rule fold_incr(1)) simp
  note perm = entries_mset [OF d]
  have "analyze tm title (Inr (JArr xs)) = ([js title] @ map count_line (dict_entries ?m) @ [[]], None)"
    by (simp add: analyze_def sbind_def m attempt_def blocks_def andThen_def written_lines [unfolded blocks_def] written(1) [unfolded blocks_def])
  moreover have "distinct (map fst (dict_entries ?m))"
    using mset_eq_imp_distinct_iff [of "map fst (dict_entries ?m)" "map fst ?m"] d by (simp add: perm)
  moreover have "set (dict_entries ?m) = {(t, n). n = length (filter (\<lambda>v. type_key v = t) xs) \<and> n > 0}"
    unfolding mset_eq_setD [OF perm] by (auto simp: dict_get_entry [OF d] fold_incr(2) Let_def split: if_splits)
  moreover have "sum_list (map snd (dict_entries ?m)) = length xs"
    using fold_incr(3) [of type_key xs "[]"] arg_cong [OF perm, of "\<lambda>s. sum_mset (image_mset snd s)"]
    by (simp flip: mset_map sum_mset_sum_list)
  ultimately show ?thesis by blast
qed

theorem ua_counts_add_up_witness:
  "\<exists>es. analyze (\<lambda>_. []) ''t'' (Inr (JArr [JObj [(js ''type'', JStr (js ''file''))], JObj [(js ''type'', JStr (js ''class''))]])) =
     ([js ''t''] @ map count_line es @ [[]], None) \<and> sum_list (map snd es) = 2"
proof -
  have "list_all (\<lambda>v. \<not> nullish v) [JObj [(js ''type'', JStr (js ''file''))], JObj [(js ''type'', JStr (js ''class''))]]" by simp
  from ua_counts_add_up [OF this, of "\<lambda>_. []" "''t''"] show ?thesis by (elim exE conjE) (intro exI conjI, assumption, simp)
qed

end
