(* ===== verification/BackfillMain.thy ===== *)
theory BackfillMain
  imports Backfill JsonText
begin

text \<open>
  The script of \<open>scripts/backfillHistoricalRuns.ts\<close> from its environment to its exit code and output. Its
  arguments are the two environment variables, the timestamp in the meta file (\<open>None\<close> when the file
  cannot be read or parsed, \<open>Some None\<close> when it has none), the run ids in the two fixture files
  (\<open>None\<close> when a file cannot be read or parsed), the SHA-256 digest of the evidence file, and the hexadecimal SHA-256 of a
  text. An uncaught exception is \<open>Inl\<close>.
\<close>

section \<open>Rows as values\<close>

definition opt_num :: "int option \<Rightarrow> json" where
  "opt_num v = (case v of None \<Rightarrow> JUndef | Some n \<Rightarrow> JNum n)"

definition run_value :: "runsRow \<Rightarrow> json" where
  "run_value r = JObj [
     (js ''run_id'', JStr (ru_run_id r)), (js ''run_kind'', JStr (ru_run_kind r)), (js ''source_system'', JStr (ru_source_system r)),
     (js ''jira_key'', opt_str (ru_jira_key r)), (js ''parent_issue'', opt_str (ru_parent_issue r)),
     (js ''authority_ref'', opt_str (ru_authority_ref r)), (js ''scope_hash'', opt_str (ru_scope_hash r)),
     (js ''base_sha'', opt_str (ru_base_sha r)), (js ''head_sha'', opt_str (ru_head_sha r)), (js ''merge_sha'', opt_str (ru_merge_sha r)),
     (js ''base_branch'', opt_str (ru_base_branch r)), (js ''branch'', opt_str (ru_branch r)), (js ''pr_number'', opt_num (ru_pr_number r)),
     (js ''ci_run_id'', opt_str (ru_ci_run_id r)), (js ''ci_status'', opt_str (ru_ci_status r)), (js ''started_at'', opt_str (ru_started_at r)),
     (js ''completed_at'', opt_str (ru_completed_at r)), (js ''reconstruction_basis'', opt_str (ru_reconstruction_basis r)),
     (js ''source_refs'', strs (ru_source_refs r)), (js ''confidence'', opt_str (ru_confidence r)),
     (js ''evidence_quality'', opt_str (ru_evidence_quality r)), (js ''reconstructed_by'', opt_str (ru_reconstructed_by r)),
     (js ''reconstructed_at'', opt_str (ru_reconstructed_at r)), (js ''payload'', ru_payload r)]"

definition source_value :: "sourceRow \<Rightarrow> json" where
  "source_value s = JObj [
     (js ''source_id'', JStr (so_source_id s)), (js ''run_id'', JStr (so_run_id s)), (js ''source_system'', JStr (so_source_system s)),
     (js ''source_event_id'', opt_str (so_source_event_id s)), (js ''source_kind'', JStr (so_source_kind s)),
     (js ''capture_provenance_verified'', JBool (so_verified s)), (js ''source_ref'', opt_str (so_source_ref s)),
     (js ''source_digest'', opt_str (so_source_digest s)), (js ''occurred_at'', opt_str (so_occurred_at s)),
     (js ''authority_ref'', opt_str (so_authority_ref s)), (js ''evidence_refs'', strs (so_evidence_refs s))]"

definition gate_value :: "gateRow \<Rightarrow> json" where
  "gate_value g = JObj [
     (js ''gate_id'', JStr (ga_gate_id g)), (js ''run_id'', JStr (ga_run_id g)), (js ''gate_label'', opt_str (ga_gate_label g)),
     (js ''authority_ref'', opt_str (ga_authority_ref g)), (js ''state'', opt_str (ga_state g)), (js ''summary'', opt_str (ga_summary g)),
     (js ''node_count'', opt_num (ga_node_count g)), (js ''artifact_count'', opt_num (ga_artifact_count g)),
     (js ''source_refs'', strs (ga_source_refs g))]"

definition node_value :: "nodeRow \<Rightarrow> json" where
  "node_value n = JObj [
     (js ''node_id'', JStr (no_node_id n)), (js ''run_id'', JStr (no_run_id n)), (js ''gate_id'', opt_str (no_gate_id n)),
     (js ''state'', opt_str (no_state n)), (js ''label'', opt_str (no_label n)), (js ''source_refs'', strs (no_source_refs n))]"

definition artifact_value :: "artifactRow \<Rightarrow> json" where
  "artifact_value a = JObj [
     (js ''artifact_id'', JStr (ar_artifact_id a)), (js ''run_id'', JStr (ar_run_id a)), (js ''artifact_type'', JStr (ar_artifact_type a)),
     (js ''artifact_status'', JStr (ar_artifact_status a)), (js ''original_artifact_present'', JBool (ar_original_present a)),
     (js ''source_occurred_at'', opt_str (ar_source_occurred_at a)), (js ''effective_at'', opt_str (ar_effective_at a)),
     (js ''reconstructed_at'', opt_str (ar_reconstructed_at a)), (js ''reconstruction_basis'', opt_str (ar_reconstruction_basis a)),
     (js ''source_refs'', strs (ar_source_refs a)), (js ''confidence'', opt_str (ar_confidence a)),
     (js ''evidence_quality'', opt_str (ar_evidence_quality a)), (js ''reconstructed_by'', opt_str (ar_reconstructed_by a)),
     (js ''payload'', ar_payload a)]"

section \<open>The script\<close>

text \<open>The exceptions that end the script.\<close>

datatype scriptError = RequiredMissing jsstring | FixtureUnreadable string | EvidenceMissing

definition set_var :: "jsstring option \<Rightarrow> bool" where
  "set_var v = (case v of Some s \<Rightarrow> s \<noteq> [] | None \<Rightarrow> False)"

definition resolvedReconstructedAt :: "jsstring option \<Rightarrow> jsstring option option \<Rightarrow> scriptError + jsstring" where
  "resolvedReconstructedAt env meta =
     (if set_var env then Inr (the env)
      else case meta of
        Some v \<Rightarrow> if set_var v then Inr (the v) else Inl (RequiredMissing (js ''DW_OBS_RECONSTRUCTED_AT or RECONSTRUCTION_META.json required''))
      | None \<Rightarrow> Inl (RequiredMissing (js ''DW_OBS_RECONSTRUCTED_AT or RECONSTRUCTION_META.json required'')))"

definition loadFixture :: "(string \<Rightarrow> jsstring option) \<Rightarrow> string \<Rightarrow> scriptError + jsstring" where
  "loadFixture fixture name = (case fixture name of None \<Rightarrow> Inl (FixtureUnreadable name) | Some i \<Rightarrow> Inr i)"

definition digestOf :: "(jsstring \<Rightarrow> jsstring) \<Rightarrow> json \<Rightarrow> jsstring" where
  "digestOf sha256 obj = sha256 (case compact obj of Some t \<Rightarrow> t | None \<Rightarrow> [])"

definition rows_value :: "backfillRows \<Rightarrow> json" where
  "rows_value b = JObj [
     (js ''runs'', JArr (map run_value (br_runs b))), (js ''events'', JArr []), (js ''gates'', JArr (map gate_value (br_gates b))),
     (js ''nodes'', JArr (map node_value (br_nodes b))), (js ''sources'', JArr (map source_value (br_sources b))),
     (js ''artifacts'', JArr (map artifact_value (br_artifacts b)))]"

definition counts_value :: "nat dict \<Rightarrow> json" where
  "counts_value m = JObj (map (map_prod id (JNum \<circ> int)) m)"

definition report_fields :: "dryRunReport \<Rightarrow> jsstring \<Rightarrow> (jsstring \<times> json) list" where
  "report_fields r digest = [
     (js ''ok'', JBool (dr_ok r)), (js ''counts'', counts_value (dr_counts r)), (js ''byRunKind'', counts_value (dr_byRunKind r)),
     (js ''byArtifactStatus'', counts_value (dr_byArtifactStatus r)),
     (js ''artifactStatusByRun'', JObj (map (map_prod id counts_value) (dr_artifactStatusByRun r))),
     (js ''upsertKeyConflicts'', strs (dr_upsertKeyConflicts r)), (js ''duplicateRunRows'', strs (dr_duplicateRunRows r)),
     (js ''realVsSimSeparation'', JBool (dr_realVsSimSeparation r)), (js ''riChecks'', strs (dr_riChecks r)),
     (js ''provenanceChecks'', strs (dr_provenanceChecks r)), (js ''schemaChecks'', strs (dr_schemaChecks r)),
     (js ''rollback'', JStr (dr_rollback r)), (js ''errors'', strs (dr_errors r)), (js ''digest'', JStr digest)]"

definition output_value :: "jsstring \<Rightarrow> backfillRows \<Rightarrow> dryRunReport \<Rightarrow> jsstring \<Rightarrow> json" where
  "output_value at b r digest = JObj ([
     (js ''migration_ddl'', JStr (js ''20260823080000_observatory_history.sql'')),
     (js ''migration_dml'', JStr (js ''20260823090000_observatory_backfill_dml.sql'')),
     (js ''target_project'', JStr (js ''auswvdxoetufwiaxutib'')), (js ''dry_run'', JBool True), (js ''remote_apply'', JBool False),
     (js ''apply_path'', JStr (js ''supabase db push --linked --include-all (committed migration; no separate psql)'')),
     (js ''g6_boundary'', JStr (js ''STOP '' @ [0x2014] @ js '' no remote apply until exact G6 approval bound'')),
     (js ''reconstructed_at'', JStr at)] @ report_fields r digest @
    [(js ''runs'', JArr (map run_value (br_runs b))),
     (js ''note_events'', JStr (js ''run_events=0: golden fixture events are NOT canonical live events (seq=11).''))])"

text \<open>All rows of the script: the golden sources come first.\<close>

definition all_rows :: "jsstring \<Rightarrow> jsstring \<Rightarrow> backfillRows \<Rightarrow> backfillRows" where
  "all_rows tc gwc rec = rec\<lparr>br_sources := buildFixtureSources tc gwc @ br_sources rec\<rparr>"

text \<open>The exit code and what is written to the standard output.\<close>

definition finish_script :: "(jsstring \<Rightarrow> jsstring) \<Rightarrow> bool \<Rightarrow> jsstring \<Rightarrow> backfillRows \<Rightarrow> nat \<times> jsstring" where
  "finish_script sha256 emit at b = (let report = validate (br_runs b) [] (br_gates b) (br_nodes b) (br_sources b) (br_artifacts b) in
     if emit then (0, emitDML b)
     else (if dr_ok report then 0 else 1, stringify2 (output_value at b report (digestOf sha256 (rows_value b))) @ [10]))"

definition backfill_main ::
    "(jsstring \<Rightarrow> jsstring) \<Rightarrow> (string \<Rightarrow> jsstring option) \<Rightarrow> jsstring option option \<Rightarrow> jsstring option \<Rightarrow>
     (string \<Rightarrow> jsstring option) \<Rightarrow> scriptError + nat \<times> jsstring" where
  "backfill_main sha256 env meta digest fixture =
     (case resolvedReconstructedAt (env ''DW_OBS_RECONSTRUCTED_AT'') meta of Inl e \<Rightarrow> Inl e
      | Inr at \<Rightarrow> (case loadFixture fixture ''run_scrum555_m0.json'' of Inl e \<Rightarrow> Inl e
        | Inr tc \<Rightarrow> (case loadFixture fixture ''run_gwc_durable_m0.json'' of Inl e \<Rightarrow> Inl e
          | Inr gwc \<Rightarrow> (case buildReconstructed at digest of None \<Rightarrow> Inl EvidenceMissing
            | Some rec \<Rightarrow> Inr (finish_script sha256 (set_var (env ''DW_OBS_EMIT_DML'')) at (all_rows tc gwc rec))))))"

section \<open>Properties\<close>

lemma report_of_rows:
  assumes "buildReconstructed at digest = Some rec"
  shows "main_report at digest tc gwc = Some (let b = all_rows tc gwc rec in
    validate (br_runs b) [] (br_gates b) (br_nodes b) (br_sources b) (br_artifacts b))"
  using assms by (simp add: main_report_def all_rows_def Let_def)

lemma script_outcome:
  assumes "fixture ''run_scrum555_m0.json'' = Some tc" and "fixture ''run_gwc_durable_m0.json'' = Some gwc"
    and "resolvedReconstructedAt (env ''DW_OBS_RECONSTRUCTED_AT'') meta = Inr at"
  shows "\<exists>rec out. buildReconstructed at digest = Some rec \<and> map ru_run_id (br_runs rec) = map rd_run_id RECONSTRUCTED \<and>
    backfill_main sha256 env meta digest fixture = Inr
      (if set_var (env ''DW_OBS_EMIT_DML'') then (0, emitDML (all_rows tc gwc rec))
       else (if tc \<in> rd_run_id ` set RECONSTRUCTED then 0 else 1, out))"
proof -
  obtain rec r where rec: "buildReconstructed at digest = Some rec" "map ru_run_id (br_runs rec) = map rd_run_id RECONSTRUCTED"
      and r: "main_report at digest tc gwc = Some r" "dr_ok r \<longleftrightarrow> tc \<in> rd_run_id ` set RECONSTRUCTED"
    using backfill_validates [of at digest tc gwc] by blast
  have "\<exists>out. backfill_main sha256 env meta digest fixture = Inr
      (if set_var (env ''DW_OBS_EMIT_DML'') then (0, emitDML (all_rows tc gwc rec))
       else (if tc \<in> rd_run_id ` set RECONSTRUCTED then 0 else 1, out))"
    using r report_of_rows [OF rec(1), of tc gwc] assms
    by (simp add: backfill_main_def loadFixture_def rec(1) finish_script_def Let_def)
  with rec show ?thesis by blast
qed

lemma resolved_iff: "(\<exists>at. resolvedReconstructedAt env meta = Inr at) \<longleftrightarrow> set_var env \<or> (\<exists>v. meta = Some v \<and> set_var v)"
  by (auto simp: resolvedReconstructedAt_def split: option.splits)

text \<open>
  C32. The outcome of the backfill script. Once a timestamp and both fixtures are there, the script never
  fails on its own evidence table: it writes the four reconstructed runs. As a dry run it exits with 0
  exactly when the task-controller fixture names one of these runs, with any other run id the golden
  sources would be orphans and it exits with 1. With \<open>DW_OBS_EMIT_DML\<close> set it writes the SQL for the same
  rows and exits with 0 in either case. Without a timestamp it fails with the message that asks for one.
\<close>

theorem backfill_script_outcome:
  assumes "fixture ''run_scrum555_m0.json'' = Some tc" and "fixture ''run_gwc_durable_m0.json'' = Some gwc"
  shows "if set_var (env ''DW_OBS_RECONSTRUCTED_AT'') \<or> (\<exists>v. meta = Some v \<and> set_var v)
    then \<exists>at rec out. buildReconstructed at digest = Some rec \<and> map ru_run_id (br_runs rec) = map rd_run_id RECONSTRUCTED \<and>
      backfill_main sha256 env meta digest fixture = Inr
        (if set_var (env ''DW_OBS_EMIT_DML'') then (0, emitDML (all_rows tc gwc rec))
         else (if tc \<in> rd_run_id ` set RECONSTRUCTED then 0 else 1, out))
    else backfill_main sha256 env meta digest fixture = Inl (RequiredMissing (js ''DW_OBS_RECONSTRUCTED_AT or RECONSTRUCTION_META.json required''))"
proof (cases "\<exists>at. resolvedReconstructedAt (env ''DW_OBS_RECONSTRUCTED_AT'') meta = Inr at")
  case True
  then show ?thesis using script_outcome [of fixture tc gwc env meta _ digest sha256] assms resolved_iff [of "env ''DW_OBS_RECONSTRUCTED_AT''" meta]
    by fastforce
next
  case False
  then have "\<not> (set_var (env ''DW_OBS_RECONSTRUCTED_AT'') \<or> (\<exists>v. meta = Some v \<and> set_var v))" by (simp only: resolved_iff) simp
  moreover from False obtain e where e: "resolvedReconstructedAt (env ''DW_OBS_RECONSTRUCTED_AT'') meta = Inl e" by (meson obj_sumE)
  moreover have "e = RequiredMissing (js ''DW_OBS_RECONSTRUCTED_AT or RECONSTRUCTION_META.json required'')"
    using e by (auto simp: resolvedReconstructedAt_def split: option.splits if_splits)
  ultimately show ?thesis by (simp add: backfill_main_def e)
qed

text \<open>
  The SQL is not guarded by the validation: with a task-controller fixture of another run the dry run
  fails, and the emission of the very same rows succeeds.
\<close>

theorem emission_is_unchecked:
  assumes "fixture = (\<lambda>_. Some (js ''other''))" and "env = (\<lambda>v. if v = ''DW_OBS_EMIT_DML'' then emit else Some (js ''t''))"
  shows "\<exists>n out. backfill_main sha256 env meta digest fixture = Inr (n, out) \<and> (n = 0 \<longleftrightarrow> set_var emit)"
proof -
  have "js ''other'' \<notin> rd_run_id ` set RECONSTRUCTED" by (simp add: RECONSTRUCTED_def recon_def)
  moreover have "resolvedReconstructedAt (env ''DW_OBS_RECONSTRUCTED_AT'') meta = Inr (js ''t'')"
    by (simp add: assms(2) resolvedReconstructedAt_def set_var_def)
  with script_outcome [of fixture "js ''other''" "js ''other''" env meta "js ''t''" digest sha256] obtain rec out where "backfill_main sha256 env meta digest fixture = Inr
      (if set_var emit then (0, emitDML (all_rows (js ''other'') (js ''other'') rec))
       else (if js ''other'' \<in> rd_run_id ` set RECONSTRUCTED then 0 else 1, out))"
    by (force simp: assms)
  ultimately show ?thesis by auto
qed

theorem backfill_script_outcome_witness:
  "\<exists>out. backfill_main (\<lambda>t. t) (\<lambda>v. if v = ''DW_OBS_RECONSTRUCTED_AT'' then Some (js ''2026-08-23'') else None) None None
     (\<lambda>_. Some (js ''DW-OBS-M0-20260821-R2'')) = Inr (0, out)"
proof -
  have "js ''DW-OBS-M0-20260821-R2'' \<in> rd_run_id ` set RECONSTRUCTED" by (simp add: RECONSTRUCTED_def recon_def)
  then show ?thesis
    using backfill_script_outcome [of "\<lambda>_. Some (js ''DW-OBS-M0-20260821-R2'')" "js ''DW-OBS-M0-20260821-R2''" "js ''DW-OBS-M0-20260821-R2''"
      "\<lambda>v. if v = ''DW_OBS_RECONSTRUCTED_AT'' then Some (js ''2026-08-23'') else None" None None "\<lambda>t. t"]
    by (auto simp: set_var_def)
qed

end
