(* ===== verification/LivePane.thy ===== *)
theory LivePane
  imports Realtime
begin

text \<open>
  The live pane as a whole: the effect of \<open>lib/useLiveProjection.ts\<close> and the transport of
  \<open>lib/supabaseRealtime.ts\<close> that \<open>components/LiveProjectionPane.tsx\<close> creates for it, with the callbacks of
  the channel between them. The transport is made once per run and snapshot; the effect subscribes
  it and its clean-up closes it. React may clean the effect up and run it again with the same
  transport: in strict mode it does so right after every mount.

  A channel that was unsubscribed does not report that it is subscribed; that is the only thing
  assumed of it.
\<close>

section \<open>Definitions\<close>

record 'cl livePane =
  lp_hook :: hook
  lp_transport :: "'cl transport option"
  lp_bound :: bool

text \<open>One run of the effect. The messages of the channel go to the client that opened it.\<close>

definition run_effect ::
    "(jsstring \<Rightarrow> jsstring \<Rightarrow> 'cl) \<Rightarrow> (string \<Rightarrow> jsstring option) \<Rightarrow> jsstring \<Rightarrow> 'cl transport option \<Rightarrow> 'cl livePane" where
  "run_effect mk env runId tr = (case tr of
     None \<Rightarrow> \<lparr> lp_hook = mount runId [], lp_transport = None, lp_bound = False \<rparr>
   | Some t \<Rightarrow> (case transport_subscribe mk env t of (t', ns) \<Rightarrow>
       \<lparr> lp_hook = mount runId ns, lp_transport = Some t', lp_bound = (\<not> t_closed t \<and> t_channel t') \<rparr>))"

definition open_pane :: "(jsstring \<Rightarrow> jsstring \<Rightarrow> 'cl) \<Rightarrow> (string \<Rightarrow> jsstring option) \<Rightarrow> jsstring \<Rightarrow> 'cl livePane" where
  "open_pane mk env runId = run_effect mk env runId (buildTransport env runId)"

text \<open>The clean-up: \<open>cancelled = true; client.close()\<close>\<close>

definition leave_pane :: "'cl livePane \<Rightarrow> 'cl livePane" where
  "leave_pane p = p\<lparr>lp_hook := unmount (lp_hook p), lp_transport := map_option transport_close (lp_transport p)\<rparr>"

definition notify :: "'cl transport \<times> notification list \<Rightarrow> 'cl livePane \<Rightarrow> 'cl livePane" where
  "notify tn p = p\<lparr>lp_transport := Some (fst tn), lp_hook := hook_statuses (snd tn) (lp_hook p)\<rparr>"

definition is_load :: "hookAction \<Rightarrow> bool" where
  "is_load a \<longleftrightarrow> (case a of HStatus n \<Rightarrow> False | HFrame m \<Rightarrow> False | HUnmount \<Rightarrow> False | _ \<Rightarrow> True)"

definition reports_subscribed :: "jsstring \<Rightarrow> bool" where
  "reports_subscribed s \<longleftrightarrow> toUpperCase s = js ''SUBSCRIBED'' \<or> toUpperCase s = js ''JOINED''"

inductive live_step ::
    "(jsstring \<Rightarrow> jsstring \<Rightarrow> 'cl) \<Rightarrow> (string \<Rightarrow> jsstring option) \<Rightarrow> jsstring \<Rightarrow> 'cl livePane \<Rightarrow> 'cl livePane \<Rightarrow> bool"
  for mk env runId where
  load: "is_load a \<Longrightarrow> hook_act a (lp_hook p) = Some h \<Longrightarrow> live_step mk env runId p (p\<lparr>lp_hook := h\<rparr>)"
| channel: "lp_transport p = Some t \<Longrightarrow> t_channel t \<Longrightarrow> (t_closed t \<Longrightarrow> \<not> reports_subscribed s) \<Longrightarrow>
    live_step mk env runId p (notify (on_channel_status s t) p)"
| disconnect: "lp_transport p = Some t \<Longrightarrow> t_channel t \<Longrightarrow> live_step mk env runId p (notify (on_system_disconnect t) p)"
| frame: "lp_bound p \<Longrightarrow> hook_act (HFrame m) (lp_hook p) = Some h \<Longrightarrow> live_step mk env runId p (p\<lparr>lp_hook := h\<rparr>)"
| leave: "\<not> h_cancelled (lp_hook p) \<Longrightarrow> live_step mk env runId p (leave_pane p)"
| rerun: "h_cancelled (lp_hook p) \<Longrightarrow> live_step mk env runId p (run_effect mk env runId (lp_transport p))"

inductive live_reachable ::
    "(jsstring \<Rightarrow> jsstring \<Rightarrow> 'cl) \<Rightarrow> (string \<Rightarrow> jsstring option) \<Rightarrow> jsstring \<Rightarrow> 'cl livePane \<Rightarrow> 'cl livePane \<Rightarrow> bool"
  for mk env runId p0 where
  here: "live_reachable mk env runId p0 p0"
| stepped: "live_reachable mk env runId p0 p \<Longrightarrow> live_step mk env runId p p' \<Longrightarrow> live_reachable mk env runId p0 p'"

section \<open>A client without a channel\<close>

definition mute :: "client \<Rightarrow> bool" where
  "mute c \<longleftrightarrow> \<not> c_transportReady c \<and> c_state c \<noteq> LIVE \<and> TReconnect \<notin> set (c_pending c) \<and> (\<forall>ok. TReconnectCont ok \<notin> set (c_pending c))"

lemma mute_emit [simp]: "mute (emitChange c) = mute c"
  by (simp add: mute_def emitChange_def)

lemma mute_error [simp]: "mute (c\<lparr>c_lastError := e\<rparr>) = mute c"
  by (simp add: mute_def)

lemma recompute_pending [simp]: "c_pending (recomputeState c) = c_pending c"
  by (simp add: recomputeState_def)

lemma mute_recompute: "\<not> c_transportReady c \<Longrightarrow> TReconnect \<notin> set (c_pending c) \<Longrightarrow>
    (\<forall>ok. TReconnectCont ok \<notin> set (c_pending c)) \<Longrightarrow> mute (recomputeState c)"
  by (auto simp: mute_def)

lemma mute_receive: "mute c \<Longrightarrow> mute (snd (receiveLive m c))"
  by (auto simp: receiveLive_def receiveEvent_def receiveSequenced_def startLoad_def Let_def
      split: option.split) (auto simp: mute_def recomputeState_def)

lemma mute_receiveAll: "mute c \<Longrightarrow> mute (receiveAll ms c)"
  by (induction ms arbitrary: c) (auto intro: mute_receive)

lemma mute_finish: "mute c \<Longrightarrow> mute (finish t c)"
  by (auto simp: mute_def finish_def dest: notin_set_remove1)

lemma mute_boot_loaded: "mute c \<Longrightarrow> mute (bootstrap_loaded es c)"
  unfolding bootstrap_loaded_def Let_def mute_emit
  by (rule mute_receiveAll) (auto simp: mute_def)

lemma mute_resync_loaded: "mute c \<Longrightarrow> mute (snd (resync_loaded r c))"
proof (cases r)
  case (Loaded fresh)
  assume "mute c"
  then show ?thesis unfolding Loaded resync_loaded.simps Let_def snd_conv mute_emit
    by (intro mute_receiveAll) (auto simp: mute_def)
qed (auto simp: mute_def)

lemma mute_down: "mute c \<Longrightarrow> mute (markTransportDown c)"
  by (auto simp: markTransportDown_def mute_def)

lemma mute_status: "toUpperCase s \<noteq> js ''SUBSCRIBED'' \<Longrightarrow> mute c \<Longrightarrow> mute (handleStatus s c)"
  by (auto simp: handleStatus_def Let_def mute_def)

section \<open>A pane without a channel\<close>

definition quiet :: "hook \<Rightarrow> bool" where
  "quiet h \<longleftrightarrow> c_onChange (h_client h) \<and> mute (h_client h) \<and> v_state (h_view h) \<noteq> LIVE"

lemma quiet_on_client:
  assumes "notifying f" and "\<And>c. mute c \<Longrightarrow> mute (f c)" and "quiet h"
  shows "quiet (on_client f h)"
proof -
  have r: "reported (h_client h) (f (h_client h))" using notifying.reports [OF assms(1)] assms(3) by (simp add: quiet_def)
  moreover have "mute (f (h_client h))" using assms(2,3) by (simp add: quiet_def)
  ultimately show ?thesis
    using assms(3) by (auto simp: quiet_def on_client_def Let_def reported_def mute_def view_of_def split: if_splits)
qed

lemma quiet_sync: "quiet h \<Longrightarrow> quiet (sync h)"
  by (auto simp: quiet_def sync_def mute_def view_of_def)

lemma quiet_error: "quiet h \<Longrightarrow> quiet (h\<lparr>h_client := (h_client h)\<lparr>c_lastError := e\<rparr>\<rparr>)"
  by (simp add: quiet_def)

lemma quiet_status: "toUpperCase (fst n) \<noteq> js ''SUBSCRIBED'' \<Longrightarrow> quiet h \<Longrightarrow> quiet (hook_status n h)"
proof -
  assume n: "toUpperCase (fst n) \<noteq> js ''SUBSCRIBED''" and "quiet h"
  then have q: "quiet (on_client (handleStatus (fst n)) h)" by (intro quiet_on_client [OF status.notifying_axioms] mute_status)
  then have "quiet ((on_client (handleStatus (fst n)) h)\<lparr>h_client := (h_client (on_client (handleStatus (fst n)) h))\<lparr>
      c_state := PROJECTION_UNAVAILABLE, c_lastError := Some (js ''realtime channel unavailable'')\<rparr>\<rparr>)"
    by (simp add: quiet_def mute_def)
  with q show ?thesis by (simp add: hook_status_def statusListener_def quiet_sync)
qed

lemma quiet_statuses: "list_all (\<lambda>n. toUpperCase (fst n) \<noteq> js ''SUBSCRIBED'') ns \<Longrightarrow> quiet h \<Longrightarrow> quiet (hook_statuses ns h)"
  by (induction ns arbitrary: h) (auto intro: quiet_status)

lemma quiet_mount: "quiet (mount runId [])"
proof -
  have "quiet \<lparr> h_client = (new_client runId)\<lparr>c_onChange := True\<rparr>,
      h_view = \<lparr>v_state = UNAVAILABLE, v_anomalies = [], v_eventCount = 0, v_lastError = None\<rparr>, h_cancelled = False \<rparr>"
    by (simp add: quiet_def mute_def new_client_def)
  then show ?thesis unfolding mount_def
    by (intro quiet_on_client [OF boot.notifying_axioms]) (auto simp: bootstrap_def startLoad_def mute_def)
qed

lemma quiet_load:
  assumes "quiet h" and "is_load a" and "hook_act a h = Some h'"
  shows "quiet h'"
proof (cases a)
  case (HBootstrapLoaded es)
  then show ?thesis
    using assms by (auto simp: hook_bootstrap_loaded_def mute_boot_loaded mute_finish
        intro!: quiet_sync quiet_on_client [OF boot_loaded.notifying_axioms] split: if_splits)
next
  case (HBootstrapFailed err)
  have "quiet (on_client (markTransportDown \<circ> finish TBootstrap) h)"
    using assms(1) by (intro quiet_on_client [OF down.notifying_axioms]) (auto simp: mute_down mute_finish)
  with HBootstrapFailed assms show ?thesis
    by (auto simp: hook_bootstrap_failed_def Let_def intro!: quiet_sync quiet_error split: if_splits)
next
  case (HResyncLoaded r)
  then show ?thesis
    using assms by (auto simp: mute_resync_loaded mute_finish intro!: quiet_on_client [OF resynced.notifying_axioms] split: if_splits)
qed (use assms in \<open>auto simp: quiet_def mute_def is_load_def split: if_splits\<close>)

definition silent :: "'cl livePane \<Rightarrow> bool" where
  "silent p \<longleftrightarrow> quiet (lp_hook p) \<and> \<not> lp_bound p \<and> (case lp_transport p of None \<Rightarrow> True | Some t \<Rightarrow> t_closed t)"

lemma upper_unit_idem: "upper_unit (upper_unit c) = upper_unit c"
proof (cases "97 \<le> c \<and> c \<le> 122")
  case True
  then have "unat (c - 32) = unat c - 32" by (intro trans [OF unat_sub]) (auto simp: word_le_nat_alt)
  moreover have "unat c \<le> 122" using True by (simp add: word_le_nat_alt)
  ultimately have "\<not> 97 \<le> c - 32" by (simp add: word_le_nat_alt)
  with True show ?thesis by (simp add: upper_unit_def)
qed (auto simp: upper_unit_def)

lemma toUpperCase_idem [simp]: "toUpperCase (toUpperCase s) = toUpperCase s"
  by (simp add: toUpperCase_def upper_unit_idem)

lemma channel_reports: "\<not> reports_subscribed s \<Longrightarrow> list_all (\<lambda>n. toUpperCase (fst n) \<noteq> js ''SUBSCRIBED'') (snd (on_channel_status s t))"
  by (auto simp: on_channel_status_def Let_def reports_subscribed_def js_eval)

lemma channel_closed: "t_closed (fst (on_channel_status s t)) = t_closed t"
  by (simp add: on_channel_status_def Let_def)

lemma silent_effect: "case tr of None \<Rightarrow> True | Some t \<Rightarrow> t_closed t \<Longrightarrow> silent (run_effect mk env runId tr)"
  by (auto simp: silent_def run_effect_def transport_subscribe_def quiet_mount split: option.splits)

lemma silent_step: "live_step mk env runId p p' \<Longrightarrow> silent p \<Longrightarrow> silent p'"
proof (induction rule: live_step.induct)
  case (load a p h)
  then show ?case using quiet_load by (auto simp: silent_def)
next
  case (channel p t s)
  then have "quiet (hook_statuses (snd (on_channel_status s t)) (lp_hook p))"
    by (intro quiet_statuses channel_reports) (auto simp: silent_def)
  with channel show ?case by (simp add: silent_def notify_def channel_closed)
next
  case (disconnect p t)
  then have "quiet (hook_statuses (snd (on_system_disconnect t)) (lp_hook p))"
    by (intro quiet_statuses) (auto simp: silent_def on_system_disconnect_def js_eval)
  with disconnect show ?case by (simp add: silent_def notify_def on_system_disconnect_def)
next
  case (frame p m h)
  then show ?case by (simp add: silent_def)
next
  case (leave p)
  then show ?case by (auto simp: silent_def leave_pane_def quiet_def unmount_def transport_close_def split: option.splits)
next
  case (rerun p)
  then show ?case using silent_effect by (auto simp: silent_def)
qed

lemma silent_reachable: "live_reachable mk env runId p0 p \<Longrightarrow> silent p0 \<Longrightarrow> silent p"
  by (induction rule: live_reachable.induct) (auto intro: silent_step)

section \<open>Properties\<close>

text \<open>
  C12. Once cleaned up, never live again. When the effect of the live pane is cleaned up and run again on
  the same transport, as React's strict mode does after every mount, then in every later state, whatever
  the channel reports, loads return and however often the effect runs, the pane does not show LIVE.
  The clean-up closes the transport for good, and a closed transport does not subscribe.
\<close>

theorem rerun_pane_never_live:
  assumes "live_reachable mk env runId (run_effect mk env runId (lp_transport (leave_pane p))) p'"
  shows "v_state (h_view (lp_hook p')) \<noteq> LIVE"
proof -
  have "silent (run_effect mk env runId (lp_transport (leave_pane p)))"
    by (intro silent_effect) (simp add: leave_pane_def transport_close_def split: option.split)
  with silent_reachable [OF assms] show ?thesis by (simp add: silent_def quiet_def)
qed

text \<open>Without a browser configuration the pane shows the snapshot and never LIVE.\<close>

theorem inert_pane_never_live:
  assumes "(buildTransport env runId :: 'cl transport option) = None"
    and "live_reachable (mk :: jsstring \<Rightarrow> jsstring \<Rightarrow> 'cl) env runId (open_pane mk env runId) p"
  shows "v_state (h_view (lp_hook p)) \<noteq> LIVE"
proof -
  have "silent (open_pane mk env runId)" unfolding open_pane_def by (rule silent_effect) (simp add: assms(1))
  with silent_reachable [OF assms(2)] show ?thesis by (simp add: silent_def quiet_def)
qed

section \<open>Witnesses\<close>

definition browser_env :: "string \<Rightarrow> jsstring option" where
  "browser_env v = (if v = ''NEXT_PUBLIC_SUPABASE_URL'' \<or> v = ''NEXT_PUBLIC_SUPABASE_ANON_KEY'' then Some (js ''k'') else None)"

abbreviation unit_client :: "jsstring \<Rightarrow> jsstring \<Rightarrow> unit" where
  "unit_client \<equiv> \<lambda>_ _. ()"

abbreviation demo_pane :: "unit livePane" where
  "demo_pane \<equiv> open_pane unit_client browser_env (js ''r'')"

lemma demo_opened:
  "lp_hook demo_pane = mount (js ''r'') [(js ''connecting'', CATCHING_UP)]"
  "\<exists>t. lp_transport demo_pane = Some t \<and> t_channel t \<and> \<not> t_closed t"
  by (simp_all add: open_pane_def buildTransport_def readBrowserConfig_def env_value_def given_def browser_env_def run_effect_def
      transport_subscribe_def new_transport_def createBrowserClient_def js_def Let_def)

text \<open>The same pane does go live when its effect runs once.\<close>

lemma first_run_goes_live: "\<exists>p. live_reachable unit_client browser_env (js ''r'') demo_pane p \<and> v_state (h_view (lp_hook p)) = LIVE"
proof -
  obtain t where t: "lp_transport demo_pane = Some t" "t_channel t" "\<not> t_closed t" using demo_opened(2) by blast
  obtain h where h: "hook_act (HBootstrapLoaded [demo_frame]) (lp_hook demo_pane) = Some h"
    by (simp add: demo_opened(1) demo_frame_def hook_eval)
  let ?p1 = "demo_pane\<lparr>lp_hook := h\<rparr>" and ?sub = "on_channel_status (js ''SUBSCRIBED'') t"
  have "live_reachable unit_client browser_env (js ''r'') demo_pane ?p1"
    by (rule stepped [OF here load [OF _ h]]) (simp add: is_load_def)
  moreover have "live_step unit_client browser_env (js ''r'') ?p1 (notify ?sub ?p1)"
    by (rule channel) (simp_all add: t)
  moreover have "v_state (h_view (lp_hook (notify ?sub ?p1))) = LIVE"
    using h by (auto simp: notify_def on_channel_status_def demo_opened(1) demo_frame_def hook_eval js_eval)
  ultimately show ?thesis using stepped by blast
qed

theorem rerun_pane_never_live_witness:
  "lp_transport (leave_pane demo_pane) \<noteq> None \<and>
   v_state (h_view (lp_hook (run_effect unit_client browser_env (js ''r'') (lp_transport (leave_pane demo_pane))))) \<noteq> LIVE"
  using demo_opened(2) rerun_pane_never_live [OF here, of unit_client browser_env "js ''r''" demo_pane] by (auto simp: leave_pane_def)

theorem inert_pane_never_live_witness:
  "v_state (h_view (lp_hook (open_pane unit_client (\<lambda>_. None) (js ''r'')))) \<noteq> LIVE"
  by (rule inert_pane_never_live [OF _ here])
    (simp add: buildTransport_def readBrowserConfig_def env_value_def given_def)

end
