(* ===== verification/JsonRead.thy ===== *)
theory JsonRead
  imports JsonText "HOL-Library.Monad_Syntax"
begin

text \<open>
  The reader of ECMAScript's \<open>JSON.parse\<close> on code units, for texts whose numbers are integers, and what
  \<open>JSON.stringify\<close> followed by \<open>JSON.parse\<close> does to a value: \<open>read_json\<close> is the reader, \<open>settled\<close> the value
  that comes back, \<open>reads\<close> what it means that a piece of text stands for a value wherever it is followed by
  something that ends it. \<open>None\<close> is the \<open>SyntaxError\<close> that \<open>JSON.parse\<close> throws, or a number outside the model.
\<close>

section \<open>White space, strings and numbers\<close>

definition json_space :: "code_unit \<Rightarrow> bool" where
  "json_space c \<longleftrightarrow> c = 32 \<or> c = 9 \<or> c = 10 \<or> c = 13"

definition skip :: "jsstring \<Rightarrow> jsstring" where
  "skip s = dropWhile json_space s"

definition hex_unit :: "code_unit \<Rightarrow> bool" where
  "hex_unit c \<longleftrightarrow> is_digit c \<or> (65 \<le> c \<and> c \<le> 70) \<or> (97 \<le> c \<and> c \<le> 102)"

definition hex_value :: "code_unit \<Rightarrow> nat" where
  "hex_value c = (if c < 58 then unat c - 48 else if c < 97 then unat c - 55 else unat c - 87)"

definition escaped :: "code_unit \<Rightarrow> bool" where
  "escaped x \<longleftrightarrow> x \<in> set [34, 92, 47, 98, 102, 110, 114, 116]"

text \<open>The body of a string literal after its opening quote, and what follows the closing one.\<close>

fun read_units :: "jsstring \<Rightarrow> (jsstring \<times> jsstring) option" where
  "read_units [] = None"
| "read_units (c # s) =
     (if c = 34 then Some ([], s)
      else if c = 92 then
        (case s of [] \<Rightarrow> None
         | x # s1 \<Rightarrow>
             if x = 117 then
               (case s1 of
                  a # b # d # e # s2 \<Rightarrow>
                    if list_all hex_unit [a, b, d, e] then
                      map_option (apfst ((#) (word_of_nat (hex_value a * 4096 + hex_value b * 256 + hex_value d * 16 + hex_value e))))
                        (read_units s2)
                    else None
                | _ \<Rightarrow> None)
             else if escaped x then map_option (apfst ((#) (unescape_unit x))) (read_units s1)
             else None)
      else if c < 32 then None
      else map_option (apfst ((#) c)) (read_units s))"

definition read_int :: "jsstring \<Rightarrow> (int \<times> jsstring) option" where
  "read_int s =
     (let neg = (s \<noteq> [] \<and> hd s = 45);
          t = (if neg then tl s else s);
          ds = takeWhile is_digit t;
          r = dropWhile is_digit t
      in if ds = [] \<or> (hd ds = 48 \<and> ds \<noteq> [48]) \<or> (r \<noteq> [] \<and> hd r \<in> set [46, 69, 101]) then None
         else Some (if neg then - int (nat_value ds) else int (nat_value ds), r))"

section \<open>Values\<close>

text \<open>A fixed word such as \<open>true\<close>.\<close>

definition next_unit :: "jsstring \<Rightarrow> (code_unit \<times> jsstring) option" where
  "next_unit s = (case skip s of [] \<Rightarrow> None | c # r \<Rightarrow> Some (c, r))"

definition read_word :: "jsstring \<Rightarrow> (json \<times> jsstring) option" where
  "read_word s =
     (if startsWith s (js ''null'') then Some (JNull, drop 4 s)
      else if startsWith s (js ''true'') then Some (JBool True, drop 4 s)
      else if startsWith s (js ''false'') then Some (JBool False, drop 5 s)
      else map_option (apfst JNum) (read_int s))"

text \<open>A repeated property name keeps its place and takes the last value.\<close>

definition object_of :: "(jsstring \<times> json) list \<Rightarrow> json" where
  "object_of kvs = JObj (fold (\<lambda>(k, v). dict_put k v) kvs [])"

text \<open>The first argument bounds the nesting of the calls.\<close>

fun read_value :: "nat \<Rightarrow> jsstring \<Rightarrow> (json \<times> jsstring) option"
  and read_elems :: "nat \<Rightarrow> jsstring \<Rightarrow> (json list \<times> jsstring) option"
  and read_members :: "nat \<Rightarrow> jsstring \<Rightarrow> ((jsstring \<times> json) list \<times> jsstring) option" where
  "read_value 0 s = None"
| "read_value (Suc n) s = do {
     (c, r) \<leftarrow> next_unit s;
     if c = 34 then map_option (apfst JStr) (read_units r)
     else if c = 91 then
       (if map_option fst (next_unit r) = Some 93 then Some (JArr [], snd (the (next_unit r)))
        else map_option (apfst JArr) (read_elems n r))
     else if c = 123 then
       (if map_option fst (next_unit r) = Some 125 then Some (JObj [], snd (the (next_unit r)))
        else map_option (apfst object_of) (read_members n r))
     else read_word (c # r)
   }"
| "read_elems 0 s = None"
| "read_elems (Suc n) s = do {
     (v, r) \<leftarrow> read_value n s;
     (c, r1) \<leftarrow> next_unit r;
     if c = 44 then map_option (apfst ((#) v)) (read_elems n r1)
     else if c = 93 then Some ([v], r1)
     else None
   }"
| "read_members 0 s = None"
| "read_members (Suc n) s = do {
     (q, r) \<leftarrow> next_unit s;
     (k, r1) \<leftarrow> if q = 34 then read_units r else None;
     (c, r2) \<leftarrow> next_unit r1;
     (v, r3) \<leftarrow> if c = 58 then read_value n r2 else None;
     (d, r4) \<leftarrow> next_unit r3;
     if d = 44 then map_option (apfst ((#) (k, v))) (read_members n r4)
     else if d = 125 then Some ([(k, v)], r4)
     else None
   }"

text \<open>The whole text: as many nested calls as it has code units are enough.\<close>

definition read_json :: "jsstring \<Rightarrow> json option" where
  "read_json s = do {
     (v, r) \<leftarrow> read_value (length s) s;
     if skip r = [] then Some v else None
   }"

section \<open>The bound never matters\<close>

lemma next_unit_rest: "next_unit s = Some (c, r) \<Longrightarrow> length r < length s"
proof -
  assume "next_unit s = Some (c, r)"
  then have "skip s = c # r" by (simp add: next_unit_def split: list.splits)
  moreover have "length (skip s) \<le> length s" unfolding skip_def by (rule length_dropWhile_le)
  ultimately show ?thesis by simp
qed

lemma read_units_rest: "read_units s = Some (x, r) \<Longrightarrow> length r < length s"
proof (induction s arbitrary: x rule: length_induct)
  case (1 s)
  have shorter: "map_option (apfst f) (read_units t) = Some (x, r) \<Longrightarrow> length t < length s \<Longrightarrow> length r < length s" for f t
    using 1(1) by fastforce
  from 1(2) obtain c s0 where s: "s = c # s0" by (cases s) auto
  show ?case
  proof (cases "c = 34 \<or> c \<noteq> 92")
    case True
    then show ?thesis using 1(2) shorter [of "(#) c" s0] by (auto simp: s split: if_splits)
  next
    case False
    with 1(2) obtain x1 s1 where s0: "s0 = x1 # s1" by (cases s0) (auto simp: s)
    show ?thesis
    proof (cases "x1 = 117")
      case True
      with 1(2) False obtain g s2 where "map_option (apfst g) (read_units s2) = Some (x, r)" "length s2 < length s"
        by (simp add: s s0 split: list.splits if_splits)
      then show ?thesis by (rule shorter)
    qed (use 1(2) False shorter [of _ s1] in \<open>simp add: s s0 split: if_splits\<close>)
  qed
qed

lemma read_int_rest: "read_int s = Some (n, r) \<Longrightarrow> length r < length s"
proof -
  assume a: "read_int s = Some (n, r)"
  define t where "t = (if s \<noteq> [] \<and> hd s = 45 then tl s else s)"
  have "takeWhile is_digit t \<noteq> []" "r = dropWhile is_digit t"
    using a by (auto simp: read_int_def t_def [symmetric] Let_def split: if_splits)
  then have "length r < length t"
    by (cases t) (auto simp: less_Suc_eq_le length_dropWhile_le split: if_splits)
  also have "length t \<le> length s" by (simp add: t_def)
  finally show ?thesis .
qed

lemma read_word_rest: "read_word s = Some (v, r) \<Longrightarrow> length r < length s"
proof -
  assume a: "read_word s = Some (v, r)"
  have "s \<noteq> []" using a by (auto simp: read_word_def startsWith_def read_int_def)
  then show ?thesis using a read_int_rest [of s _ r] by (auto simp: read_word_def split: if_splits)
qed

definition stable_read :: "(nat \<Rightarrow> jsstring \<Rightarrow> ('a \<times> jsstring) option) \<Rightarrow> nat \<Rightarrow> bool" where
  "stable_read f n \<longleftrightarrow> (\<forall>s v r. f n s = Some (v, r) \<longrightarrow>
     length r < length s \<and> (\<forall>m. length s \<le> m + length r \<longrightarrow> f m s = Some (v, r)))"

lemma stable_readD:
  "stable_read f n \<Longrightarrow> f n s = Some (v, r) \<Longrightarrow> length r < length s"
  "stable_read f n \<Longrightarrow> f n s = Some (v, r) \<Longrightarrow> length s \<le> m + length r \<Longrightarrow> f m s = Some (v, r)"
  unfolding stable_read_def by blast+

lemma stable_readI:
  assumes "\<And>s v r. f n s = Some (v, r) \<Longrightarrow> length r < length s"
    and "\<And>s v r m. f n s = Some (v, r) \<Longrightarrow> length s \<le> Suc m + length r \<Longrightarrow> f (Suc m) s = Some (v, r)"
  shows "stable_read f n"
  unfolding stable_read_def
proof (intro allI impI conjI)
  fix s v r m
  assume r: "f n s = Some (v, r)" and m: "length s \<le> m + length r"
  with assms(1) [OF r] obtain m' where "m = Suc m'" by (cases m) auto
  with assms(2) [OF r] m show "f m s = Some (v, r)" by simp
qed (use assms(1) in blast)

lemma stable_elems:
  assumes "stable_read read_value n" and "stable_read read_elems n"
  shows "stable_read read_elems (Suc n)"
proof (rule stable_readI)
  fix s vs r
  assume "read_elems (Suc n) s = Some (vs, r)"
  then obtain v r1 c r2 where a: "read_value n s = Some (v, r1)" "next_unit r1 = Some (c, r2)"
    and b: "c = 44 \<and> (\<exists>ws. read_elems n r2 = Some (ws, r) \<and> vs = v # ws) \<or> c = 93 \<and> vs = [v] \<and> r = r2"
    by (auto split: bind_splits if_splits)
  note len = stable_readD(1) [OF assms(1) a(1)] next_unit_rest [OF a(2)]
  show "length r < length s" using b len stable_readD(1) [OF assms(2), of r2 _ r] by fastforce
  fix m
  assume m: "length s \<le> Suc m + length r"
  have r: "length r \<le> length r2" using b stable_readD(1) [OF assms(2), of r2 _ r] by fastforce
  have "read_value m s = Some (v, r1)" by (rule stable_readD(2) [OF assms(1) a(1)]) (use m len r in simp)
  moreover have "read_elems n r2 = Some (ws, r) \<Longrightarrow> read_elems m r2 = Some (ws, r)" for ws
    by (erule stable_readD(2) [OF assms(2)]) (use m len r in simp)
  ultimately show "read_elems (Suc m) s = Some (vs, r)" using a b by auto
qed

lemma stable_members:
  assumes "stable_read read_value n" and "stable_read read_members n"
  shows "stable_read read_members (Suc n)"
proof (rule stable_readI)
  fix s vs r
  assume "read_members (Suc n) s = Some (vs, r)"
  then obtain k v r0 r1 r2 r3 c r4 where a: "next_unit s = Some (34, r0)" "read_units r0 = Some (k, r1)"
      "next_unit r1 = Some (58, r2)" "read_value n r2 = Some (v, r3)" "next_unit r3 = Some (c, r4)"
    and b: "c = 44 \<and> (\<exists>ws. read_members n r4 = Some (ws, r) \<and> vs = (k, v) # ws) \<or> c = 125 \<and> vs = [(k, v)] \<and> r = r4"
    by (auto split: bind_splits if_splits)
  note len = next_unit_rest [OF a(1)] read_units_rest [OF a(2)] next_unit_rest [OF a(3)]
    stable_readD(1) [OF assms(1) a(4)] next_unit_rest [OF a(5)]
  have r: "length r \<le> length r4" using b stable_readD(1) [OF assms(2), of r4 _ r] by fastforce
  then show "length r < length s" using len by simp
  fix m
  assume m: "length s \<le> Suc m + length r"
  have "read_value m r2 = Some (v, r3)" by (rule stable_readD(2) [OF assms(1) a(4)]) (use m len r in simp)
  moreover have "read_members n r4 = Some (ws, r) \<Longrightarrow> read_members m r4 = Some (ws, r)" for ws
    by (erule stable_readD(2) [OF assms(2)]) (use m len r in simp)
  ultimately show "read_members (Suc m) s = Some (vs, r)" using a b by auto
qed

lemma stable_value:
  assumes "stable_read read_elems n" and "stable_read read_members n"
  shows "stable_read read_value (Suc n)"
proof (rule stable_readI)
  fix s v r
  assume "read_value (Suc n) s = Some (v, r)"
  then obtain c r0 where a: "next_unit s = Some (c, r0)"
    and b: "(if c = 34 then map_option (apfst JStr) (read_units r0)
     else if c = 91 then
       (if map_option fst (next_unit r0) = Some 93 then Some (JArr [], snd (the (next_unit r0)))
        else map_option (apfst JArr) (read_elems n r0))
     else if c = 123 then
       (if map_option fst (next_unit r0) = Some 125 then Some (JObj [], snd (the (next_unit r0)))
        else map_option (apfst object_of) (read_members n r0))
     else read_word (c # r0)) = Some (v, r)"
    by (auto split: bind_splits)
  note len = next_unit_rest [OF a]
  show r: "length r < length s"
    using b len stable_readD(1) [OF assms(1), of r0] stable_readD(1) [OF assms(2), of r0]
      read_units_rest [of r0] next_unit_rest [of r0] read_word_rest [of "c # r0"]
    by (fastforce split: if_splits)
  fix m
  assume m: "length s \<le> Suc m + length r"
  have "read_elems n r0 = Some (ws, r) \<Longrightarrow> read_elems m r0 = Some (ws, r)" for ws
    by (erule stable_readD(2) [OF assms(1)]) (use m len in simp)
  moreover have "read_members n r0 = Some (ws, r) \<Longrightarrow> read_members m r0 = Some (ws, r)" for ws
    by (erule stable_readD(2) [OF assms(2)]) (use m len in simp)
  ultimately show "read_value (Suc m) s = Some (v, r)" using a b by (auto split: if_splits)
qed

lemma stable_reads: "stable_read read_value n \<and> stable_read read_elems n \<and> stable_read read_members n"
proof (induction n)
  case (Suc n)
  then show ?case using stable_elems stable_members stable_value by blast
qed (simp add: stable_read_def)

text \<open>Whatever bound lets the reader return, the length of the text does, with the same result.\<close>

theorem read_json_complete:
  assumes "read_value n s = Some (v, r)" and "skip r = []"
  shows "read_json s = Some v"
proof -
  have "read_value (length s) s = Some (v, r)"
    using stable_reads [of n] assms(1) by (auto intro: stable_readD(2))
  with assms(2) show ?thesis by (simp add: read_json_def)
qed

section \<open>Texts that stand for a value\<close>

text \<open>What ends a value: the end of the text, a comma, a closing bracket or a line feed.\<close>

definition stops :: "jsstring \<Rightarrow> bool" where
  "stops r \<longleftrightarrow> r = [] \<or> hd r \<in> set [44, 93, 125, 10]"

definition reads :: "jsstring \<Rightarrow> json \<Rightarrow> bool" where
  "reads t v \<longleftrightarrow> (\<forall>r. stops r \<longrightarrow> read_value (length t) (t @ r) = Some (v, r))"

lemma readsD: "reads t v \<Longrightarrow> stops r \<Longrightarrow> length t \<le> m \<Longrightarrow> read_value m (t @ r) = Some (v, r)"
  using stable_reads [of "length t"] by (auto simp: reads_def intro: stable_readD(2))

lemma readsI: "(\<And>r. stops r \<Longrightarrow> \<exists>m. read_value m (t @ r) = Some (v, r)) \<Longrightarrow> reads t v"
  unfolding reads_def using stable_reads by (metis le_refl length_append stable_readD(2))

lemma elems_more: "read_elems m s = Some (vs, r) \<Longrightarrow> length s \<le> n \<Longrightarrow> read_elems n s = Some (vs, r)"
  using stable_reads [of m] by (auto intro: stable_readD(2))

lemma members_more: "read_members m s = Some (vs, r) \<Longrightarrow> length s \<le> n \<Longrightarrow> read_members n s = Some (vs, r)"
  using stable_reads [of m] by (auto intro: stable_readD(2))

lemma next_unit_pad [simp]: "\<forall>c\<in>set p. json_space c \<Longrightarrow> next_unit (p @ s) = next_unit s"
  by (simp add: next_unit_def skip_def dropWhile_append3)

lemma next_unit_Cons [simp]: "\<not> json_space c \<Longrightarrow> next_unit (c # s) = Some (c, s)"
  by (simp add: next_unit_def skip_def)

lemma reads_pad: "\<forall>c\<in>set p. json_space c \<Longrightarrow> reads t v \<Longrightarrow> reads (p @ t) v"
proof (rule readsI)
  fix r
  assume p: "\<forall>c\<in>set p. json_space c" and t: "reads t v" and r: "stops r"
  have a: "read_value (Suc (length t)) (t @ r) = Some (v, r)" by (rule readsD [OF t r]) simp
  have "read_value (Suc (length t)) ((p @ t) @ r) = Some (v, r)"
    using a p by simp
  then show "\<exists>m. read_value m ((p @ t) @ r) = Some (v, r)" ..
qed

lemma reads_not_closing:
  assumes "reads t v" and "stops r"
  shows "map_option fst (next_unit (t @ r)) \<noteq> Some 93"
proof
  assume "map_option fst (next_unit (t @ r)) = Some 93"
  then obtain r' where "next_unit (t @ r) = Some (93, r')" by auto
  moreover have "read_word (93 # r') = None"
    by (simp add: read_word_def startsWith_def js_def unit_of_def read_int_def is_digit_def)
  ultimately have "read_value (Suc (length t)) (t @ r) = None" by simp
  with readsD [OF assms, of "Suc (length t)"] show False by simp
qed

section \<open>Scalars\<close>

lemma hex_digit_16: "d < 16 \<Longrightarrow> hex_unit (hex_digit d) \<and> hex_value (hex_digit d) = d"
  by (auto simp: hex_unit_def hex_value_def is_digit_def hex_digit_def unat_of_nat word_less_nat_alt word_le_nat_alt
      simp del: of_nat_add)

lemma read_units_hex: "read_units (92 # 117 # hex4 (unat c) @ s) = map_option (apfst ((#) c)) (read_units s)"
proof -
  have "unat c < 2 ^ LENGTH(16)" by (rule unsigned_less)
  then have "unat c < 65536" by simp
  note base = nat_base16 [OF this]
  show ?thesis by (simp add: hex4_def hex_digit_16 base del: of_nat_add of_nat_mult)
qed

lemma read_units_plain:
  "c \<noteq> 34 \<Longrightarrow> c \<noteq> 92 \<Longrightarrow> \<not> c < 32 \<Longrightarrow> read_units (c # s) = map_option (apfst ((#) c)) (read_units s)"
  by simp

lemma read_units_end: "read_units (34 # r) = Some ([], r)"
  by simp

lemma surrogate_not_control: "is_high_surrogate c \<or> is_low_surrogate c \<Longrightarrow> \<not> c < 32"
  by (auto simp: is_high_surrogate_def is_low_surrogate_def word_less_nat_alt word_le_nat_alt)

lemma read_units_escape_unit: "read_units (escape_unit c @ s) = map_option (apfst ((#) c)) (read_units s)"
  unfolding escape_unit_def using read_units_hex [of c s]
  by (simp add: escaped_def unescape_unit_def)

lemma read_units_escape: "read_units (escape_units s @ 34 # r) = Some (s, r)"
proof (induction s rule: escape_units.induct)
  case (2 c s)
  then show ?case
    by (cases s) (simp_all add: read_units_hex read_units_escape_unit read_units_plain surrogate_plain
        surrogate_not_control read_units_end del: read_units.simps(2))
qed simp

lemma digits_head: "n \<noteq> 0 \<Longrightarrow> hd (nat_digits n) \<noteq> 48"
proof (induction n rule: nat_digits.induct)
  case (1 n)
  show ?case
  proof (cases "n < 10")
    case True
    then show ?thesis using 1(2) digit_unit [of n] by (auto simp: nat_digits.simps [of n])
  next
    case False
    then have "hd (nat_digits (n div 10)) \<noteq> 48" using 1(1) by simp
    with False nat_digits_units [of "n div 10"] show ?thesis by (simp add: nat_digits.simps [of n])
  qed
qed

lemma digits_are_digits: "\<forall>c\<in>set (nat_digits n). is_digit c"
  using nat_digits_units [of n] by (auto simp: is_digit_def num_unit_def)

lemma digits_first: "nat_digits n = [48] \<or> hd (nat_digits n) \<noteq> 48"
  using digits_head [of n] by (cases "n = 0") (simp_all add: nat_digits.simps [of 0])

lemma read_int_digits:
  assumes "stops r"
  shows "read_int (nat_digits n @ r) = Some (int n, r)" "read_int (45 # nat_digits n @ r) = Some (- int n, r)"
proof -
  have r: "r = [] \<or> \<not> is_digit (hd r) \<and> hd r \<notin> set [46, 69, 101]" using assms by (auto simp: stops_def is_digit_def)
  have d: "takeWhile is_digit (nat_digits n @ r) = nat_digits n" "dropWhile is_digit (nat_digits n @ r) = r"
    using digits_are_digits [of n] r by (cases r; simp add: takeWhile_append2 dropWhile_append2)+
  have h: "hd (nat_digits n @ r) \<noteq> 45" "nat_digits n \<noteq> []"
    using nat_digits_units [of n] by (auto simp: hd_append dest: hd_in_set)
  show "read_int (nat_digits n @ r) = Some (int n, r)" "read_int (45 # nat_digits n @ r) = Some (- int n, r)"
    using d h r digits_first [of n] by (auto simp: read_int_def nat_value_digits Let_def)
qed

lemma reads_scalar:
  "reads (js ''null'') JNull" "reads (js ''true'') (JBool True)" "reads (js ''false'') (JBool False)"
  "reads (json_quote k) (JStr k)" "reads (show_int n) (JNum n)"
proof -
  have word: "reads (c # t) v"
    if "\<And>r. read_word ((c # t) @ r) = Some (v, r)" "c \<notin> {34, 91, 123}" "\<not> json_space c" for c t v
  proof (rule readsI)
    fix r
    have "read_value (Suc 0) ((c # t) @ r) = Some (v, r)" using that by simp
    then show "\<exists>m. read_value m ((c # t) @ r) = Some (v, r)" ..
  qed
  show "reads (js ''null'') JNull" "reads (js ''true'') (JBool True)" "reads (js ''false'') (JBool False)"
    unfolding js_def unit_of_def
    by (simp; rule word; simp add: read_word_def startsWith_def js_def unit_of_def json_space_def)+
  show "reads (json_quote k) (JStr k)"
  proof (rule readsI)
    fix r
    have "read_value (Suc 0) (json_quote k @ r) = Some (JStr k, r)"
      by (simp add: json_quote_def read_units_escape json_space_def)
    then show "\<exists>m. read_value m (json_quote k @ r) = Some (JStr k, r)" ..
  qed
  show "reads (show_int n) (JNum n)"
  proof (rule readsI)
    fix r
    assume r: "stops r"
    obtain c t where n: "show_int n = c # t" "num_unit c" using show_int_units [of n] by (cases "show_int n") auto
    have "read_int (show_int n @ r) = Some (n, r)"
      using read_int_digits [OF r] by (simp add: show_int_def js_minus)
    moreover have "c \<notin> {34, 91, 123, 110, 116, 102}" "\<not> json_space c"
      using n(2) by (auto simp: num_unit_def json_space_def word_le_nat_alt)
    ultimately have "read_value (Suc 0) (show_int n @ r) = Some (JNum n, r)"
      by (simp add: n read_word_def startsWith_def js_def unit_of_def)
    then show "\<exists>m. read_value m (show_int n @ r) = Some (JNum n, r)" ..
  qed
qed

section \<open>Arrays and objects\<close>

text \<open>The items of a list after the first one, each behind a comma.\<close>

abbreviation rest_items :: "jsstring list \<Rightarrow> jsstring" where
  "rest_items ts \<equiv> concat (map ((#) 44) ts)"

lemma join_items: "js_join (44 # p) (t # ts) = t @ rest_items (map ((@) p) ts)"
  by (induction ts arbitrary: t) (simp_all add: join_Cons)

lemma elems_read:
  assumes "reads t v" and "list_all2 reads ts vs" and "\<forall>c\<in>set p. json_space c" and "stops (p @ 93 # r)"
  shows "\<exists>m. read_elems m (t @ rest_items ts @ p @ 93 # r) = Some (v # vs, r)"
  using assms(2,1)
proof (induction ts vs arbitrary: t v rule: list_all2_induct)
  case Nil
  have "read_value (length t) (t @ p @ 93 # r) = Some (v, p @ 93 # r)" by (rule readsD [OF Nil.prems assms(4)]) simp
  then have "read_elems (Suc (length t)) (t @ p @ 93 # r) = Some ([v], r)"
    using assms(3) by (simp add: json_space_def)
  then show ?case by (auto simp del: read_elems.simps read_members.simps)
next
  case (Cons u us w ws)
  let ?u = "u @ rest_items us @ p @ 93 # r"
  obtain m where "read_elems m ?u = Some (w # ws, r)" using Cons by blast
  then have m: "read_elems n ?u = Some (w # ws, r)" if "length ?u \<le> n" for n using that by (rule elems_more)
  obtain n where n: "length t \<le> n" "length ?u \<le> n" using max.cobounded1 max.cobounded2 by blast
  have "read_value n (t @ 44 # ?u) = Some (v, 44 # ?u)" by (rule readsD [OF Cons.prems _ n(1)]) (simp add: stops_def)
  then have "read_elems (Suc n) (t @ 44 # ?u) = Some (v # w # ws, r)"
    using m [OF n(2)] by (simp add: json_space_def)
  then show ?case by (auto simp del: read_elems.simps read_members.simps)
qed

definition member_reads :: "jsstring \<Rightarrow> jsstring \<times> json \<Rightarrow> bool" where
  "member_reads e kv \<longleftrightarrow> (\<exists>p t. (\<forall>c\<in>set p. json_space c) \<and> e = p @ json_quote (fst kv) @ 58 # t \<and> reads t (snd kv))"

lemma member_read:
  assumes "member_reads e (k, v)" and "stops s"
  shows "\<exists>t u. length t \<le> length e \<and> next_unit (e @ s) = Some (34, u) \<and> read_units u = Some (k, 58 # t @ s) \<and> reads t v"
proof -
  obtain p t where p: "\<forall>c\<in>set p. json_space c" "e = p @ json_quote k @ 58 # t" "reads t v"
    using assms(1) by (auto simp: member_reads_def)
  then show ?thesis
    by (intro exI [of _ t] exI [of _ "escape_units k @ 34 # 58 # t @ s"])
      (simp add: json_quote_def read_units_escape json_space_def)
qed

lemma members_read:
  assumes "member_reads e kv" and "list_all2 member_reads es kvs" and "\<forall>c\<in>set p. json_space c" and "stops (p @ 125 # r)"
  shows "\<exists>m. read_members m (e @ rest_items es @ p @ 125 # r) = Some (kv # kvs, r)"
  using assms(2,1)
proof (induction es kvs arbitrary: e kv rule: list_all2_induct)
  case Nil
  obtain k v where kv: "kv = (k, v)" by (cases kv)
  obtain t u where e: "next_unit (e @ p @ 125 # r) = Some (34, u)" "read_units u = Some (k, 58 # t @ p @ 125 # r)" "reads t v"
    using member_read [OF _ assms(4)] Nil.prems kv by metis
  have "read_value (length t) (t @ p @ 125 # r) = Some (v, p @ 125 # r)" by (rule readsD [OF e(3) assms(4)]) simp
  then have "read_members (Suc (length t)) (e @ p @ 125 # r) = Some ([kv], r)"
    using e assms(3) by (simp add: json_space_def kv)
  then show ?case by (auto simp del: read_elems.simps read_members.simps)
next
  case (Cons f fs kw kws)
  let ?f = "f @ rest_items fs @ p @ 125 # r"
  obtain k v where kv: "kv = (k, v)" by (cases kv)
  obtain m where "read_members m ?f = Some (kw # kws, r)" using Cons by blast
  then have m: "read_members n ?f = Some (kw # kws, r)" if "length ?f \<le> n" for n using that by (rule members_more)
  have "stops (44 # ?f)" by (simp add: stops_def)
  from member_read [OF _ this] Cons.prems obtain t u where
    e: "next_unit (e @ 44 # ?f) = Some (34, u)" "read_units u = Some (k, 58 # t @ 44 # ?f)" "reads t v"
    using kv by metis
  obtain n where n: "length t \<le> n" "length ?f \<le> n" using max.cobounded1 max.cobounded2 by blast
  have "read_value n (t @ 44 # ?f) = Some (v, 44 # ?f)" by (rule readsD [OF e(3) _ n(1)]) (simp add: stops_def)
  then have "read_members (Suc n) (e @ 44 # ?f) = Some (kv # kw # kws, r)"
    using e m [OF n(2)] by (simp add: json_space_def kv)
  then show ?case by (auto simp del: read_elems.simps read_members.simps)
qed

lemma object_of_distinct: "distinct (map fst kvs) \<Longrightarrow> object_of kvs = JObj kvs"
proof -
  have put: "k \<notin> fst ` set m \<Longrightarrow> dict_put k v m = m @ [(k, v)]" for k and v :: json and m
    by (induction m) (auto simp: dict_put_def)
  have "distinct (map fst (m @ kvs)) \<Longrightarrow> fold (\<lambda>(k, v). dict_put k v) kvs m = m @ kvs" for m
    by (induction kvs arbitrary: m) (auto simp: put)
  from this [of "[]"] show "distinct (map fst kvs) \<Longrightarrow> object_of kvs = JObj kvs" by (simp add: object_of_def)
qed

lemma array_reads:
  assumes "list_all2 reads ts vs" and "\<forall>c\<in>set p. json_space c" and "\<And>r. stops (p @ 93 # r)" and "ts \<noteq> []"
  shows "reads (91 # hd ts @ rest_items (tl ts) @ p @ [93]) (JArr vs)"
proof (rule readsI)
  fix r
  from assms(1,4) obtain t us v ws where ts: "ts = t # us" "vs = v # ws" "reads t v" "list_all2 reads us ws"
    by (cases ts; cases vs) auto
  obtain m where m: "read_elems m (t @ rest_items us @ p @ 93 # r) = Some (vs, r)"
    using elems_read [OF ts(3,4) assms(2,3)] ts(2) by blast
  have "stops (rest_items us @ p @ 93 # r)" using assms(3) by (cases us) (simp_all add: stops_def)
  from reads_not_closing [OF ts(3) this] m
  have "read_value (Suc m) (91 # t @ rest_items us @ p @ 93 # r) = Some (JArr vs, r)" by (simp add: json_space_def)
  then show "\<exists>m. read_value m ((91 # hd ts @ rest_items (tl ts) @ p @ [93]) @ r) = Some (JArr vs, r)" using ts(1) by (auto simp del: read_value.simps)
qed

lemma object_reads:
  assumes "list_all2 member_reads es kvs" and "\<forall>c\<in>set p. json_space c" and "\<And>r. stops (p @ 125 # r)" and "es \<noteq> []"
    and "distinct (map fst kvs)"
  shows "reads (123 # hd es @ rest_items (tl es) @ p @ [125]) (JObj kvs)"
proof (rule readsI)
  fix r
  from assms(1,4) obtain e fs k v kws where es: "es = e # fs" "kvs = (k, v) # kws" "member_reads e (k, v)" "list_all2 member_reads fs kws"
    by (cases es; cases kvs) auto
  obtain m where m: "read_members m (e @ rest_items fs @ p @ 125 # r) = Some (kvs, r)"
    using members_read [OF es(3,4) assms(2,3)] es(2) by blast
  have "stops (rest_items fs @ p @ 125 # r)" using assms(3) by (cases fs) (simp_all add: stops_def)
  from member_read [OF es(3) this] m object_of_distinct [OF assms(5)]
  have "read_value (Suc m) (123 # e @ rest_items fs @ p @ 125 # r) = Some (JObj kvs, r)" by (auto simp: json_space_def)
  then show "\<exists>m. read_value m ((123 # hd es @ rest_items (tl es) @ p @ [125]) @ r) = Some (JObj kvs, r)" using es(1) by (auto simp del: read_value.simps)
qed

lemma empty_reads: "reads [91, 93] (JArr [])" "reads [123, 125] (JObj [])"
  by (rule readsI, rule exI [of _ "Suc 0"], simp add: json_space_def)+

lemma line_items:
  "ts \<noteq> [] \<Longrightarrow> js_join [44] ts = hd ts @ rest_items (tl ts)"
  using join_items [of "[]" "hd ts" "tl ts"] by (simp add: comp_def)

lemma block_items:
  "ts \<noteq> [] \<Longrightarrow> json_block a b n ts =
     a # hd (map ((@) (10 # indent (Suc n))) ts) @ rest_items (tl (map ((@) (10 # indent (Suc n))) ts)) @ (10 # indent n) @ [b]"
  using join_items [of "[10]" "indent (Suc n) @ hd ts" "map ((@) (indent (Suc n))) (tl ts)"]
  by (cases ts) (simp_all add: json_block_def comp_def)

lemma indent_space: "\<forall>c\<in>set (10 # indent n). json_space c"
  by (simp add: indent_def json_space_def)

lemma stops_more: "stops ((10 # p) @ s)" "stops ([] @ 93 # s)" "stops ([] @ 125 # s)"
  by (simp_all add: stops_def)

lemma member_pad: "\<forall>c\<in>set p. json_space c \<Longrightarrow> member_reads e kv \<Longrightarrow> member_reads (p @ e) kv"
  unfolding member_reads_def by (metis append.assoc set_append UnE)

lemma array_line: "list_all2 reads ts vs \<Longrightarrow> reads ([91] @ js_join [44] ts @ [93]) (JArr vs)"
  using array_reads [of ts vs "[]"] empty_reads(1) stops_more(2)
  by (cases "ts = []") (simp_all add: line_items)

lemma object_line:
  "list_all2 member_reads es kvs \<Longrightarrow> distinct (map fst kvs) \<Longrightarrow> reads ([123] @ js_join [44] es @ [125]) (JObj kvs)"
  using object_reads [of es kvs "[]"] empty_reads(2) stops_more(3)
  by (cases "es = []") (simp_all add: line_items)

lemma array_block: "list_all2 reads ts vs \<Longrightarrow> reads (json_block 91 93 n ts) (JArr vs)"
proof (cases "ts = []")
  case False
  assume a: "list_all2 reads ts vs"
  have "list_all2 reads (map ((@) (10 # indent (Suc n))) ts) vs"
    unfolding list_all2_map1 by (rule list_all2_mono [OF a], rule reads_pad [OF indent_space])
  from array_reads [OF this indent_space [of n] stops_more(1)] False
  show ?thesis unfolding block_items [OF False] by blast
qed (simp add: json_block_def empty_reads)

lemma object_block:
  "list_all2 member_reads es kvs \<Longrightarrow> distinct (map fst kvs) \<Longrightarrow> reads (json_block 123 125 n es) (JObj kvs)"
proof (cases "es = []")
  case False
  assume a: "list_all2 member_reads es kvs" and d: "distinct (map fst kvs)"
  have "list_all2 member_reads (map ((@) (10 # indent (Suc n))) es) kvs"
    unfolding list_all2_map1 by (rule list_all2_mono [OF a], rule member_pad [OF indent_space])
  from object_reads [OF this indent_space [of n] stops_more(1) _ d] False
  show ?thesis unfolding block_items [OF False] by blast
qed (simp add: json_block_def empty_reads)

section \<open>What comes back\<close>

text \<open>
  The value that is left of \<open>v\<close>: nothing of \<open>undefined\<close> itself, \<open>null\<close> for an \<open>undefined\<close> array element, an object
  without its \<open>undefined\<close> properties and listed in enumeration order.
\<close>

primrec settled :: "json \<Rightarrow> json option" where
  "settled JUndef = None"
| "settled JNull = Some JNull"
| "settled (JNum k) = Some (JNum k)"
| "settled (JBool b) = Some (JBool b)"
| "settled (JStr s) = Some (JStr s)"
| "settled (JArr vs) = Some (JArr (map (\<lambda>w. case w of Some x \<Rightarrow> x | None \<Rightarrow> JNull) (map settled vs)))"
| "settled (JObj kvs) = Some (JObj (
     let ws = map (map_prod id settled) kvs; ks = own_keys (filter (\<lambda>(k, w). w \<noteq> None) ws)
     in map (\<lambda>k. (k, the (the (map_of ws k)))) ks))"

lemma none_iff: "settled v = None \<longleftrightarrow> v = JUndef" "compact v = None \<longleftrightarrow> v = JUndef" "pretty v n = None \<longleftrightarrow> v = JUndef"
  by (cases v; simp)+

lemma own_keys_kept:
  assumes "\<And>v. f v = None \<longleftrightarrow> v = JUndef"
  shows "own_keys (filter (\<lambda>(k, w). w \<noteq> None) (map (map_prod id f) kvs)) = own_keys (filter (\<lambda>(k, v). v \<noteq> JUndef) kvs)"
proof -
  have u: "f JUndef = None" using assms by blast
  have "map fst (filter (\<lambda>(k, w). w \<noteq> None) (map (map_prod id f) kvs)) = map fst (filter (\<lambda>(k, v). v \<noteq> JUndef) kvs)"
    by (induction kvs) (auto simp: assms u simp del: not_None_eq)
  then show ?thesis by (simp only: own_keys_def)
qed

lemma map_of_prod: "map_of (map (map_prod id f) kvs) k = map_option f (map_of kvs k)"
  by (induction kvs) auto

lemma kept_value:
  assumes "k \<in> set (own_keys (filter (\<lambda>(k, v). v \<noteq> JUndef) kvs))" and "distinct (map fst kvs)"
  obtains v where "map_of kvs k = Some v" "v \<noteq> JUndef" "(k, v) \<in> set kvs"
proof -
  from assms(1) obtain v where "(k, v) \<in> set kvs" "v \<noteq> JUndef" by (auto simp: own_keys_set)
  with assms(2) that show ?thesis by simp
qed

lemma distinct_own_keys: "distinct (map fst kvs) \<Longrightarrow> distinct (own_keys kvs)"
  using own_keys_mset by (metis mset_eq_imp_distinct_iff)

lemma distinct_kept: "distinct (map fst kvs) \<Longrightarrow> distinct (own_keys (filter P kvs))"
  by (rule distinct_own_keys) (rule distinct_map_filter)

text \<open>The properties of an object, when the values of those that are kept read back.\<close>

lemma members_of_object:
  assumes "distinct (map fst kvs)" and "\<forall>c\<in>set sp. json_space c"
    and "\<And>v. f v = None \<longleftrightarrow> v = JUndef"
    and "\<And>k v t w. (k, v) \<in> set kvs \<Longrightarrow> f v = Some t \<Longrightarrow> settled v = Some w \<Longrightarrow> reads t w"
  shows "list_all2 member_reads
     (map (\<lambda>k. json_quote k @ 58 # sp @ the (the (map_of (map (map_prod id f) kvs) k))) (own_keys (filter (\<lambda>(k, v). v \<noteq> JUndef) kvs)))
     (map (\<lambda>k. (k, the (the (map_of (map (map_prod id settled) kvs) k)))) (own_keys (filter (\<lambda>(k, v). v \<noteq> JUndef) kvs)))"
  unfolding list_all2_map1 list_all2_map2
proof (rule list.rel_refl_strong)
  fix k
  assume "k \<in> set (own_keys (filter (\<lambda>(k, v). v \<noteq> JUndef) kvs))"
  then obtain v where v: "map_of kvs k = Some v" "v \<noteq> JUndef" "(k, v) \<in> set kvs" using assms(1) by (rule kept_value)
  then obtain t w where "f v = Some t" "settled v = Some w" using assms(3) none_iff(1) by (metis option.exhaust)
  with v assms(4) [OF v(3)] assms(2) show "member_reads (json_quote k @ 58 # sp @ the (the (map_of (map (map_prod id f) kvs) k)))
      (k, the (the (map_of (map (map_prod id settled) kvs) k)))"
    unfolding member_reads_def by (intro exI [of _ "[]"] exI [of _ "sp @ t"]) (simp add: map_of_prod reads_pad)
qed

lemma element_reads:
  assumes "\<And>v. f v = None \<longleftrightarrow> v = JUndef"
    and "\<And>v t w. v \<in> set vs \<Longrightarrow> f v = Some t \<Longrightarrow> settled v = Some w \<Longrightarrow> reads t w"
  shows "list_all2 reads (map (\<lambda>v. case f v of Some t \<Rightarrow> t | None \<Rightarrow> js ''null'') vs)
    (map (\<lambda>v. case settled v of Some x \<Rightarrow> x | None \<Rightarrow> JNull) vs)"
  unfolding list_all2_map1 list_all2_map2
proof (rule list.rel_refl_strong)
  fix v
  assume v: "v \<in> set vs"
  show "reads (case f v of Some t \<Rightarrow> t | None \<Rightarrow> js ''null'') (case settled v of Some x \<Rightarrow> x | None \<Rightarrow> JNull)"
    using assms(1) [of v] assms(2) [OF v] none_iff(1) [of v] reads_scalar(1)
    by (cases "v = JUndef") (auto split: option.splits)
qed

lemma js_marks: "js '','' = [44]" "js ''['' = [91]" "js '']'' = [93]" "js ''{'' = [123]" "js ''}'' = [125]"
  "js '':'' = [58]" "js '': '' = [58, 32]"
  by (simp_all add: js_def unit_of_def)

lemma compact_reads: "wf_json v \<Longrightarrow> compact v = Some t \<Longrightarrow> settled v = Some w \<Longrightarrow> reads t w"
proof (induction v arbitrary: t w)
  case (JArr vs)
  have "list_all2 reads (map (\<lambda>v. case compact v of Some t \<Rightarrow> t | None \<Rightarrow> js ''null'') vs)
    (map (\<lambda>v. case settled v of Some x \<Rightarrow> x | None \<Rightarrow> JNull) vs)"
    using JArr.IH JArr.prems(1) by (intro element_reads none_iff) (auto simp: list_all_iff)
  from array_line [OF this] JArr.prems(2,3) show ?case by (auto simp: js_marks comp_def)
next
  case (JObj kvs)
  have d: "distinct (map fst kvs)" using JObj.prems(1) by simp
  have "list_all2 member_reads
     (map (\<lambda>k. json_quote k @ 58 # [] @ the (the (map_of (map (map_prod id compact) kvs) k))) (own_keys (filter (\<lambda>(k, v). v \<noteq> JUndef) kvs)))
     (map (\<lambda>k. (k, the (the (map_of (map (map_prod id settled) kvs) k)))) (own_keys (filter (\<lambda>(k, v). v \<noteq> JUndef) kvs)))"
    using JObj.IH JObj.prems(1) by (intro members_of_object d none_iff) (force simp: list_all_iff snds.simps)+
  from object_line [OF this] JObj.prems(2,3) distinct_kept [OF d] show ?case
    by (auto simp: js_marks own_keys_kept none_iff Let_def comp_def simp del: not_None_eq)
qed (auto simp: reads_scalar)

lemma pretty_props:
  "map (map_prod id (\<lambda>f. f n)) (map (map_prod id pretty) kvs) = map (map_prod id (\<lambda>v. pretty v n)) kvs"
  by (induction kvs) auto

lemma pretty_reads: "wf_json v \<Longrightarrow> pretty v n = Some t \<Longrightarrow> settled v = Some w \<Longrightarrow> reads t w"
proof (induction v arbitrary: n t w)
  case (JArr vs)
  have "list_all2 reads (map (\<lambda>v. case pretty v (Suc n) of Some t \<Rightarrow> t | None \<Rightarrow> js ''null'') vs)
    (map (\<lambda>v. case settled v of Some x \<Rightarrow> x | None \<Rightarrow> JNull) vs)"
    using JArr.IH JArr.prems(1) by (intro element_reads none_iff) (auto simp: list_all_iff)
  from array_block [OF this] JArr.prems(2,3) show ?case by (auto simp: comp_def)
next
  case (JObj kvs)
  have d: "distinct (map fst kvs)" using JObj.prems(1) by simp
  have "list_all2 member_reads
     (map (\<lambda>k. json_quote k @ 58 # [32] @ the (the (map_of (map (map_prod id (\<lambda>v. pretty v (Suc n))) kvs) k)))
       (own_keys (filter (\<lambda>(k, v). v \<noteq> JUndef) kvs)))
     (map (\<lambda>k. (k, the (the (map_of (map (map_prod id settled) kvs) k)))) (own_keys (filter (\<lambda>(k, v). v \<noteq> JUndef) kvs)))"
    using JObj.IH JObj.prems(1) by (intro members_of_object d none_iff) (force simp: list_all_iff snds.simps json_space_def)+
  from object_block [OF this] JObj.prems(2,3) distinct_kept [OF d] show ?case
    using own_keys_kept [of "\<lambda>v. pretty v (Suc n)" kvs] own_keys_kept [of settled kvs]
    unfolding pretty.simps pretty_props Let_def
    by (auto simp: js_marks none_iff comp_def simp del: not_None_eq)
qed (auto simp: reads_scalar)

lemma reads_json: "reads t v \<Longrightarrow> read_json t = Some v"
  using readsD [of t v "[]" "length t"] by (simp add: read_json_def stops_def skip_def)

lemma undefined_unreadable: "read_json (js ''undefined'') = None"
  by (simp add: read_json_def next_unit_def skip_def json_space_def read_word_def startsWith_def js_def unit_of_def
      read_int_def is_digit_def)

text \<open>Reading back what \<open>JSON.stringify\<close> printed, in either layout, gives the settled value.\<close>

theorem stringify2_read: "wf_json v \<Longrightarrow> read_json (stringify2 v) = settled v"
  using pretty_reads [of v 0] none_iff(1,2) [of v] none_iff(3) [of v 0]
  by (cases "v = JUndef") (auto simp: stringify2_def undefined_unreadable reads_json split: option.splits)

theorem compact_read: "wf_json v \<Longrightarrow> compact v = Some t \<Longrightarrow> read_json t = settled v"
  using compact_reads [of v t] none_iff(1,2) [of v] none_iff(3) [of v 0] by (cases "settled v") (auto simp: reads_json)

section \<open>The canonical text of what comes back\<close>

lemma sorted_units: "sorted (js_sort cmp_units ks)"
  using unit_order.sort_sorted [of ks] by (rule sorted_wrt_mono_rel [rotated]) (auto simp: cmp_units_def split: if_splits)

lemma list_from_keys: "distinct (map fst l) \<Longrightarrow> l = map (\<lambda>k. (k, the (map_of l k))) (map fst l)"
  unfolding map_map by (rule map_idI [symmetric]) (auto simp: map_of_is_SomeI)

lemma sorted_object_eq:
  assumes "distinct (map fst xs)" and "distinct (map fst ys)"
  shows "js_sort key_cmp xs = js_sort key_cmp ys \<longleftrightarrow> map_of xs = map_of ys"
proof
  let ?s = "js_sort key_cmp"
  have fst: "map fst (?s zs) = js_sort cmp_units (map fst zs)" for zs :: "(jsstring \<times> 'a) list"
    by (rule sort_keys_eq [symmetric])
  have mo: "map_of (?s zs) = map_of zs" if "distinct (map fst zs)" for zs :: "(jsstring \<times> 'a) list"
    using that by (intro map_of_inject_set [THEN iffD2]) (metis fst mset_eq_imp_distinct_iff mset_js_sort, simp_all)
  have d: "distinct (map fst (?s zs))" if "distinct (map fst zs)" for zs :: "(jsstring \<times> 'a) list"
    unfolding fst using that by (metis mset_eq_imp_distinct_iff mset_js_sort)
  show "map_of xs = map_of ys" if "?s xs = ?s ys" using mo [OF assms(1)] mo [OF assms(2)] that by simp
  assume eq: "map_of xs = map_of ys"
  then have "set (map fst xs) = set (map fst ys)" by (metis dom_map_of_conv_image_fst list.set_map)
  then have "js_sort cmp_units (map fst xs) = js_sort cmp_units (map fst ys)"
    using assms by (intro sorted_distinct_set_unique sorted_units) (simp_all, (metis mset_eq_imp_distinct_iff mset_js_sort)+)
  then have "map fst (?s xs) = map fst (?s ys)" by (simp only: fst)
  then show "?s xs = ?s ys"
    using list_from_keys [OF d [OF assms(1)]] list_from_keys [OF d [OF assms(2)]] mo [OF assms(1)] mo [OF assms(2)] eq by metis
qed

text \<open>No property, at any depth, holds \<open>undefined\<close>.\<close>

primrec plain :: "json \<Rightarrow> bool" where
  "plain JUndef \<longleftrightarrow> True"
| "plain JNull \<longleftrightarrow> True"
| "plain (JNum k) \<longleftrightarrow> True"
| "plain (JBool b) \<longleftrightarrow> True"
| "plain (JStr s) \<longleftrightarrow> True"
| "plain (JArr vs) \<longleftrightarrow> list_all id (map plain vs)"
| "plain (JObj kvs) \<longleftrightarrow> list_all (\<lambda>kv. snd kv \<noteq> JUndef) kvs \<and> list_all snd (map (map_prod id plain) kvs)"

definition kept_props :: "(jsstring \<times> json) list \<Rightarrow> (jsstring \<times> json) list" where
  "kept_props kvs = map (\<lambda>k. (k, the (the (map_of (map (map_prod id settled) kvs) k)))) (own_keys (filter (\<lambda>(k, v). v \<noteq> JUndef) kvs))"

lemma settled_JObj: "settled (JObj kvs) = Some (JObj (kept_props kvs))"
  using own_keys_kept [of settled kvs] by (simp add: kept_props_def none_iff Let_def del: not_None_eq)

lemma kept_keys: "distinct (map fst kvs) \<Longrightarrow> distinct (map fst (kept_props kvs))"
  by (simp add: kept_props_def comp_def distinct_kept)

lemma map_of_kept:
  assumes "distinct (map fst kvs)"
  shows "map_of (kept_props kvs) k = Option.bind (map_of kvs k) settled"
proof -
  have "map_of (map (\<lambda>k. (k, f k)) ks) k = (if k \<in> set ks then Some (f k) else None)" for f :: "jsstring \<Rightarrow> json" and ks
    by (induction ks) auto
  then have kept: "map_of (kept_props kvs) k = (if k \<in> fst ` set (filter (\<lambda>(k, v). v \<noteq> JUndef) kvs)
      then Some (the (the (map_option settled (map_of kvs k)))) else None)"
    by (simp only: kept_props_def own_keys_set map_of_prod)
  show ?thesis
  proof (cases "map_of kvs k")
    case None
    then have "k \<notin> fst ` set (filter (\<lambda>(k, v). v \<noteq> JUndef) kvs)" by (auto simp: map_of_eq_None_iff)
    with kept None show ?thesis by simp
  next
    case (Some v)
    then have "(k, u) \<in> set kvs \<longleftrightarrow> u = v" for u using map_of_eq_Some_iff [OF assms, of k u] by auto
    then have "k \<in> fst ` set (filter (\<lambda>(k, v). v \<noteq> JUndef) kvs) \<longleftrightarrow> v \<noteq> JUndef" by (force simp: image_iff)
    with Some kept none_iff(1) [of v] show ?thesis by (cases "settled v") auto
  qed
qed

lemma in_kept:
  assumes "distinct (map fst kvs)" and "(k, w) \<in> set (kept_props kvs)"
  obtains v where "(k, v) \<in> set kvs" "settled v = Some w"
proof -
  have "map_of (kept_props kvs) k = Some w" using kept_keys [OF assms(1)] assms(2) by simp
  then obtain v where "map_of kvs k = Some v" "settled v = Some w"
    using map_of_kept [OF assms(1)] by (auto split: bind_splits)
  then show ?thesis by (intro that) (auto dest: map_of_SomeD)
qed

lemma wf_settled: "wf_json v \<Longrightarrow> settled v = Some w \<Longrightarrow> wf_json w"
proof (induction v arbitrary: w)
  case (JArr vs)
  then have "\<forall>v\<in>set vs. wf_json (case settled v of Some x \<Rightarrow> x | None \<Rightarrow> JNull)"
    by (auto simp: list_all_iff split: option.splits)
  with JArr.prems(2) show ?case by (auto simp: list_all_iff)
next
  case (JObj kvs)
  have d: "distinct (map fst kvs)" using JObj.prems(1) by simp
  have "wf_json x" if "(k, x) \<in> set (kept_props kvs)" for k x
    using JObj d that by (elim in_kept [OF d]) (force simp: list_all_iff snds.simps)
  then show ?case using JObj.prems(2) kept_keys [OF d] unfolding settled_JObj by (auto simp: list_all_iff)
qed auto

lemma canon_settled: "wf_json v \<Longrightarrow> settled v = Some w \<Longrightarrow> canon w = canon v \<longleftrightarrow> plain v"
proof (induction v arbitrary: w)
  case (JArr vs)
  have "canon (case settled v of Some x \<Rightarrow> x | None \<Rightarrow> JNull) = canon v \<longleftrightarrow> plain v" if "v \<in> set vs" for v
    using JArr.IH [OF that] JArr.prems(1) that none_iff(1) [of v] by (auto simp: list_all_iff split: option.split)
  with JArr.prems(2) show ?case by (auto simp: list_all_iff)
next
  case (JObj kvs)
  have d: "distinct (map fst kvs)" using JObj.prems(1) by simp
  have mo: "map_of (map (map_prod id canon) ks) k = map_option canon (map_of ks k)" for ks k by (rule map_of_prod)
  have w: "w = JObj (kept_props kvs)" using JObj.prems(2) unfolding settled_JObj by simp
  have "canon w = canon (JObj kvs) \<longleftrightarrow>
      map_of (map (map_prod id canon) (kept_props kvs)) = map_of (map (map_prod id canon) kvs)"
    unfolding w canon.simps json.inject by (rule sorted_object_eq) (simp_all add: kept_keys d comp_def)
  also have "\<dots> \<longleftrightarrow> (\<forall>k. map_option canon (Option.bind (map_of kvs k) settled) = map_option canon (map_of kvs k))"
    by (simp add: fun_eq_iff mo map_of_kept [OF d])
  also have "\<dots> \<longleftrightarrow> (\<forall>(k, v)\<in>set kvs. map_option canon (settled v) = Some (canon v))"
    (is "?L \<longleftrightarrow> ?R")
  proof
    assume l: ?L
    have "map_option canon (settled v) = Some (canon v)" if "(k, v) \<in> set kvs" for k v
      using l [rule_format, of k] map_of_is_SomeI [OF d that] by simp
    then show ?R by blast
  next
    assume r: ?R
    have "map_option canon (Option.bind (map_of kvs k) settled) = map_option canon (map_of kvs k)" for k
      using r by (cases "map_of kvs k") (auto dest!: map_of_SomeD)
    then show ?L by blast
  qed
  also have "\<dots> \<longleftrightarrow> (\<forall>(k, v)\<in>set kvs. v \<noteq> JUndef \<and> plain v)"
  proof -
    have "map_option canon (settled v) = Some (canon v) \<longleftrightarrow> v \<noteq> JUndef \<and> plain v" if "(k, v) \<in> set kvs" for k v
    proof -
      have "settled v = Some x \<Longrightarrow> canon x = canon v \<longleftrightarrow> plain v" for x
        using JObj that by (force simp: list_all_iff snds.simps)
      then show ?thesis using none_iff(1) [of v] by (cases "settled v") auto
    qed
    then show ?thesis by blast
  qed
  also have "\<dots> \<longleftrightarrow> plain (JObj kvs)" by (auto simp: list_all_iff)
  finally show ?case .
qed auto

text \<open>
  C20. What a value loses when it is stored as JSON text and parsed again. The canonical text of \<open>lib/replay.ts\<close>,
  and with it the digest, is the same before and after exactly when no property at any depth holds \<open>undefined\<close>:
  the canonical text prints such a property as \<open>null\<close>, the stored text leaves it out.
\<close>

theorem digest_survives_storage:
  assumes "wf_json v" and "v \<noteq> JUndef"
  shows "\<exists>w. read_json (the (compact v)) = Some w \<and> read_json (stringify2 v) = Some w \<and>
    (stableStringify w = stableStringify v \<longleftrightarrow> plain v) \<and> (plain v \<longrightarrow> digestOf w = digestOf v)"
proof -
  obtain w t where w: "settled v = Some w" "compact v = Some t" using none_iff assms(2) by (metis option.exhaust)
  have "stableStringify w = stableStringify v \<longleftrightarrow> canon w = canon v"
    using render_unique [OF defined_canon defined_canon, of "[]" "[]" w v] assms(1) wf_settled [OF assms(1) w(1)]
    by (auto simp: stableStringify_render delim_def)
  then have "stableStringify w = stableStringify v \<longleftrightarrow> plain v" using canon_settled [OF assms(1) w(1)] by simp
  with w compact_read [OF assms(1) w(2)] stringify2_read [OF assms(1)] show ?thesis by (auto simp: digestOf_def)
qed

theorem digest_survives_storage_witness:
  "\<exists>w. read_json (the (compact (JObj [(js ''xs'', JArr [JNum 1, JUndef, JObj [(js ''y'', JStr (js ''z''))]])]))) = Some w \<and>
     digestOf w = digestOf (JObj [(js ''xs'', JArr [JNum 1, JUndef, JObj [(js ''y'', JStr (js ''z''))]])])"
  using digest_survives_storage [of "JObj [(js ''xs'', JArr [JNum 1, JUndef, JObj [(js ''y'', JStr (js ''z''))]])]"]
  by simp (metis option.sel)

section \<open>The text that the canonical text is said to mirror\<close>

text \<open>
  Python's \<open>json.dumps(sort_keys=True, separators=(",", ":"))\<close> with its default \<open>ensure_ascii\<close>: every unit outside the
  printable ASCII range is escaped.
\<close>

definition py_unit :: "code_unit \<Rightarrow> jsstring" where
  "py_unit c = (if c < 127 then escape_unit c else [92, 117] @ hex4 (unat c))"

definition py_quote :: "jsstring \<Rightarrow> jsstring" where
  "py_quote s = [34] @ concat (map py_unit s) @ [34]"

primrec py_dumps :: "json \<Rightarrow> jsstring" where
  "py_dumps JUndef = js ''null''"
| "py_dumps JNull = js ''null''"
| "py_dumps (JNum n) = show_int n"
| "py_dumps (JBool b) = (if b then js ''true'' else js ''false'')"
| "py_dumps (JStr s) = py_quote s"
| "py_dumps (JArr vs) = js ''['' @ js_join (js '','') (map py_dumps vs) @ js '']''"
| "py_dumps (JObj kvs) = (let ts = map (map_prod id py_dumps) kvs in js ''{'' @ js_join (js '','')
     (map (\<lambda>k. py_quote k @ js '':'' @ the (map_of ts k)) (js_sort cmp_units (map fst ts))) @ js ''}'')"

definition ascii :: "jsstring \<Rightarrow> bool" where
  "ascii s \<longleftrightarrow> list_all (\<lambda>c. c < 127) s"

primrec ascii_json :: "json \<Rightarrow> bool" where
  "ascii_json JUndef \<longleftrightarrow> True"
| "ascii_json JNull \<longleftrightarrow> True"
| "ascii_json (JNum n) \<longleftrightarrow> True"
| "ascii_json (JBool b) \<longleftrightarrow> True"
| "ascii_json (JStr s) \<longleftrightarrow> ascii s"
| "ascii_json (JArr vs) \<longleftrightarrow> list_all id (map ascii_json vs)"
| "ascii_json (JObj kvs) \<longleftrightarrow> list_all ascii (map fst kvs) \<and> list_all snd (map (map_prod id ascii_json) kvs)"

lemma not_surrogate: "c < 127 \<Longrightarrow> \<not> is_high_surrogate c \<and> \<not> is_low_surrogate c"
  by (auto simp: is_high_surrogate_def is_low_surrogate_def word_less_nat_alt word_le_nat_alt)

lemma py_quote_ascii: "ascii s \<Longrightarrow> py_quote s = json_quote s"
proof -
  assume "ascii s"
  then have "concat (map py_unit s) = escape_units s"
    by (induction s) (simp_all add: ascii_def not_surrogate py_unit_def)
  then show ?thesis by (simp add: py_quote_def json_quote_def)
qed

lemma py_dumps_ascii: "ascii_json v \<Longrightarrow> py_dumps v = stableStringify v"
proof (induction v)
  case (JArr vs)
  then have "map py_dumps vs = map stableStringify vs" by (auto simp: list_all_iff)
  then show ?case by (simp only: py_dumps.simps stableStringify.simps)
next
  case (JObj kvs)
  have "map_prod id py_dumps kv = map_prod id stableStringify kv" if "kv \<in> set kvs" for kv
    using JObj that by (cases kv) (auto simp: list_all_iff snds.simps)
  then have "map (map_prod id py_dumps) kvs = map (map_prod id stableStringify) kvs" by simp
  moreover have "py_quote k = json_quote k" if "k \<in> set (js_sort cmp_units (map fst kvs))" for k
    using JObj.prems that by (auto simp: list_all_iff intro!: py_quote_ascii)
  then have "map (\<lambda>k. py_quote k @ f k) (js_sort cmp_units (map fst kvs)) = map (\<lambda>k. json_quote k @ f k) (js_sort cmp_units (map fst kvs))" for f
    by simp
  ultimately show ?case by (simp add: object_text_def Let_def comp_def del: map_eq_conv)
qed (auto simp: py_quote_ascii)

text \<open>
  The comment on \<open>stableStringify\<close> says that it mirrors that call. It does for values whose strings and property
  names are ASCII, and it does not for a single accented letter, which Python escapes.
\<close>

theorem canonical_text_mirrors_python_on_ascii:
  "ascii_json v \<Longrightarrow> stableStringify v = py_dumps v"
  "stableStringify (JStr [0xE9]) \<noteq> py_dumps (JStr [0xE9])"
  by (simp_all add: py_dumps_ascii py_quote_def py_unit_def json_quote_def escape_unit_def is_high_surrogate_def
      is_low_surrogate_def)

end
