(* ===== verification/JsonOut.thy ===== *)
theory JsonOut
  imports JsonRead BackfillMain SimUI EpicView
begin

text \<open>
  What the program prints as JSON, read back with the reader of \<open>JsonRead\<close>: the report that the dry run of
  \<open>scripts/backfillHistoricalRuns.ts\<close> writes to its standard output, and the texts that the inspectors and the
  artifact previews of the two simulated pages show.
\<close>

section \<open>Well-formed values\<close>

lemma wf_opt [simp]: "wf_json (strs xs)" "wf_json (opt_strs v)" "wf_json (opt_str s)" "wf_json (opt_num n)"
  by (simp_all add: strs_def opt_strs_def opt_str_def opt_num_def list_all_iff split: option.split)

lemma wf_arr [simp]: "(\<And>x. x \<in> set xs \<Longrightarrow> wf_json (f x)) \<Longrightarrow> list_all id (map (wf_json \<circ> f) xs)"
  by (simp add: list_all_iff)

text \<open>Property access on a value that was stored and read.\<close>

lemma fld_settled:
  assumes "distinct (map fst kvs)" and "settled (JObj kvs) = Some w"
  shows "fld w k = (case map_of kvs (js k) of None \<Rightarrow> JUndef | Some v \<Rightarrow> (case settled v of None \<Rightarrow> JUndef | Some x \<Rightarrow> x))"
proof -
  have "w = JObj (kept_props kvs)" using assms(2) unfolding settled_JObj by simp
  then show ?thesis by (simp add: fld_JObj map_of_kept [OF assms(1)] split: option.split)
qed

section \<open>The dry run of the backfill script\<close>

lemma wf_run_value: "wf_json (ru_payload r) \<Longrightarrow> wf_json (run_value r)"
  by (simp add: run_value_def)

lemma wf_counts: "distinct (map fst m) \<Longrightarrow> wf_json (counts_value m)"
  by (simp add: counts_value_def list_all_iff comp_def)

lemma distinct_incr: "distinct (map fst m) \<Longrightarrow> distinct (map fst (dict_incr k m))"
  by (simp add: dict_incr_def)

lemma distinct_fold_incr: "distinct (map fst m) \<Longrightarrow> distinct (map fst (fold (\<lambda>x. dict_incr (f x)) xs m))"
  by (induction xs arbitrary: m) (simp_all add: distinct_incr)

definition good_counts :: "nat dict dict \<Rightarrow> bool" where
  "good_counts m \<longleftrightarrow> distinct (map fst m) \<and> (\<forall>kc\<in>set m. distinct (map fst (snd kc)))"

lemma in_dict_put: "x \<in> set (dict_put k v m) \<Longrightarrow> x = (k, v) \<or> x \<in> set m"
  unfolding dict_put_def by (induction m) (auto split: if_splits)

lemma good_count_by_run: "good_counts m \<Longrightarrow> good_counts (count_by_run a m)"
proof -
  assume g: "good_counts m"
  have "distinct (map fst (case dict_get m k of Some c \<Rightarrow> c | None \<Rightarrow> []))" for k
    using g by (force simp: good_counts_def dict_get_def split: option.split dest: map_of_SomeD)
  with g show ?thesis
    by (auto simp: good_counts_def count_by_run_def distinct_incr dest!: in_dict_put)
qed

lemma good_counts_fold: "good_counts m \<Longrightarrow> good_counts (fold count_by_run as m)"
  by (induction as arbitrary: m) (simp_all add: good_count_by_run)

lemma wf_output:
  assumes "\<And>r. r \<in> set (br_runs b) \<Longrightarrow> wf_json (ru_payload r)"
  shows "wf_json (output_value ts b (validate runs events gates nodes sources artifacts) digest)"
proof -
  let ?r = "validate runs events gates nodes sources artifacts"
  have "distinct (map fst (dr_counts ?r))" "distinct (map fst (dr_byRunKind ?r))" "distinct (map fst (dr_byArtifactStatus ?r))"
    by (simp_all add: validate_def Let_def distinct_fold_incr)
  moreover have "good_counts (dr_artifactStatusByRun ?r)"
    using good_counts_fold [of "[]" artifacts] by (simp add: validate_def Let_def good_counts_def)
  then have "wf_json (JObj (map (map_prod id counts_value) (dr_artifactStatusByRun ?r)))"
    by (auto simp: good_counts_def list_all_iff comp_def intro!: wf_counts)
  ultimately show ?thesis
    using assms by (simp add: output_value_def report_fields_def wf_counts wf_run_value)
qed

lemma settled_strs: "settled (strs xs) = Some (strs xs)"
  by (simp add: strs_def comp_def)

lemma run_value_id:
  obtains w where "settled (run_value r) = Some w" "fld w ''run_id'' = JStr (ru_run_id r)"
proof -
  obtain kvs where kvs: "run_value r = JObj kvs" by (simp add: run_value_def)
  then obtain w where w: "settled (JObj kvs) = Some w" by simp
  have "distinct (map fst kvs)" "map_of kvs (js ''run_id'') = Some (JStr (ru_run_id r))"
    using kvs by (auto simp: run_value_def)
  with fld_settled [OF _ w, of "''run_id''"] that w kvs show ?thesis by simp
qed

lemma settled_runs:
  "\<exists>ws. settled (JArr (map run_value rs)) = Some (JArr ws) \<and> map (\<lambda>w. fld w ''run_id'') ws = map (JStr \<circ> ru_run_id) rs"
proof (induction rs)
  case (Cons r rs)
  then obtain ws where "settled (JArr (map run_value rs)) = Some (JArr ws)" "map (\<lambda>w. fld w ''run_id'') ws = map (JStr \<circ> ru_run_id) rs"
    by blast
  moreover obtain w where "settled (run_value r) = Some w" "fld w ''run_id'' = JStr (ru_run_id r)" by (rule run_value_id)
  ultimately show ?case by (intro exI [of _ "w # ws"]) simp
qed simp

lemma recon_loop_payload:
  "recon_loop ts digest ds b = Some b' \<Longrightarrow> \<forall>r\<in>set (br_runs b). wf_json (ru_payload r) \<Longrightarrow> r \<in> set (br_runs b') \<Longrightarrow> wf_json (ru_payload r)"
proof (induction ds arbitrary: b)
  case (Cons d ds)
  then obtain b1 where b1: "recon_step ts digest d b = Some b1" "recon_loop ts digest ds b1 = Some b'" by (auto split: option.splits)
  have "\<forall>r\<in>set (br_runs b1). wf_json (ru_payload r)"
    using b1(1) Cons.prems(2) by (auto simp: recon_step_def recon_run_def split: option.splits)
  from Cons.IH [OF b1(2) this] Cons.prems(3) show ?case .
qed simp

lemma read_line: "reads t v \<Longrightarrow> read_json (t @ [10]) = Some v"
  using readsD [of t v "[10]" "length (t @ [10])"] by (simp add: read_json_def stops_def skip_def json_space_def)

lemma stringify2_line: "wf_json v \<Longrightarrow> settled v = Some w \<Longrightarrow> read_json (stringify2 v @ [10]) = Some w"
  using none_iff(1) [of v] none_iff(3) [of v 0] pretty_reads [of v 0] by (auto simp: stringify2_def read_line split: option.split)

text \<open>
  C33. The output of a dry run can be read. Whenever the script ends normally without emitting SQL, what it
  wrote is one line-terminated JSON document; parsed again it says with \<open>ok\<close> and with an empty list of errors
  what the exit code says, carries the timestamp the script resolved, and lists exactly the reconstructed runs
  in their order.
\<close>

theorem dry_run_output_reads_back:
  assumes "backfill_main sha256 env meta digest fixture = Inr (n, out)" and "\<not> set_var (env ''DW_OBS_EMIT_DML'')"
  shows "\<exists>ts v rs. resolvedReconstructedAt (env ''DW_OBS_RECONSTRUCTED_AT'') meta = Inr ts \<and> read_json out = Some v \<and>
    fld v ''ok'' = JBool (n = 0) \<and> (fld v ''errors'' = JArr [] \<longleftrightarrow> n = 0) \<and> fld v ''reconstructed_at'' = JStr ts \<and>
    fld v ''runs'' = JArr rs \<and> map (\<lambda>r. fld r ''run_id'') rs = map (JStr \<circ> rd_run_id) RECONSTRUCTED"
proof -
  from assms(1) obtain ts tc gwc rec where ts: "resolvedReconstructedAt (env ''DW_OBS_RECONSTRUCTED_AT'') meta = Inr ts"
      and rec: "buildReconstructed ts digest = Some rec"
      and fin: "finish_script sha256 False ts (all_rows tc gwc rec) = (n, out)"
    using assms(2) by (auto simp: backfill_main_def split: sum.splits option.splits)
  let ?b = "all_rows tc gwc rec"
  let ?r = "validate (br_runs ?b) [] (br_gates ?b) (br_nodes ?b) (br_sources ?b) (br_artifacts ?b)"
  obtain dg where v: "out = stringify2 (output_value ts ?b ?r dg) @ [10]" and n: "n = 0 \<longleftrightarrow> dr_ok ?r"
    using fin by (auto simp: finish_script_def Let_def split: if_splits)
  have ids: "map ru_run_id (br_runs rec) = map rd_run_id RECONSTRUCTED"
    using backfill_validates [of ts digest tc gwc] rec by auto
  have runs: "br_runs ?b = br_runs rec" by (simp add: all_rows_def)
  have "wf_json (ru_payload r)" if "r \<in> set (br_runs rec)" for r
    using recon_loop_payload [OF rec [unfolded buildReconstructed_def]] that by (simp add: no_rows_def)
  then have wf: "wf_json (output_value ts ?b ?r dg)" by (intro wf_output) (simp add: runs)
  obtain kvs where kvs: "output_value ts ?b ?r dg = JObj kvs" by (simp add: output_value_def)
  then obtain w where w: "settled (JObj kvs) = Some w" by simp
  have f: "fld w k = (case map_of kvs (js k) of None \<Rightarrow> JUndef | Some v \<Rightarrow> (case settled v of None \<Rightarrow> JUndef | Some x \<Rightarrow> x))" for k
    using fld_settled [OF _ w] wf kvs by simp
  obtain rs where rs: "settled (JArr (map run_value (br_runs rec))) = Some (JArr rs)"
      "map (\<lambda>w. fld w ''run_id'') rs = map (JStr \<circ> rd_run_id) RECONSTRUCTED"
    using settled_runs [of "br_runs rec"] ids by (auto simp flip: map_map)
  have kv: "map_of kvs (js ''ok'') = Some (JBool (dr_ok ?r))" "map_of kvs (js ''errors'') = Some (strs (dr_errors ?r))"
      "map_of kvs (js ''reconstructed_at'') = Some (JStr ts)" "map_of kvs (js ''runs'') = Some (JArr (map run_value (br_runs rec)))"
    using kvs by (auto simp: output_value_def report_fields_def runs)
  have "dr_errors ?r = [] \<longleftrightarrow> dr_ok ?r" by (simp add: validate_def Let_def)
  then have "strs (dr_errors ?r) = JArr [] \<longleftrightarrow> n = 0" using n by (simp add: strs_def)
  moreover have "read_json out = Some w" unfolding v using wf w kvs by (intro stringify2_line) simp_all
  ultimately show ?thesis using ts rs n
    by (intro exI [of _ ts] exI [of _ w] exI [of _ rs]) (simp add: f kv settled_strs del: settled.simps(6))
qed

theorem dry_run_output_reads_back_witness:
  "\<exists>out v. backfill_main (\<lambda>t. t) (\<lambda>v. if v = ''DW_OBS_RECONSTRUCTED_AT'' then Some (js ''2026-08-23'') else None) None None
     (\<lambda>_. Some (js ''DW-OBS-M0-20260821-R2'')) = Inr (0, out) \<and> read_json out = Some v \<and> fld v ''ok'' = JBool True"
proof -
  let ?env = "\<lambda>v. if v = ''DW_OBS_RECONSTRUCTED_AT'' then Some (js ''2026-08-23'') else None"
  let ?fix = "\<lambda>_. Some (js ''DW-OBS-M0-20260821-R2'')"
  have in_table: "js ''DW-OBS-M0-20260821-R2'' \<in> rd_run_id ` set RECONSTRUCTED" by (simp add: RECONSTRUCTED_def recon_def)
  have emit: "\<not> set_var (?env ''DW_OBS_EMIT_DML'')" by (simp add: set_var_def)
  have "resolvedReconstructedAt (?env ''DW_OBS_RECONSTRUCTED_AT'') None = Inr (js ''2026-08-23'')"
    by (simp add: resolvedReconstructedAt_def set_var_def)
  with script_outcome [of ?fix "js ''DW-OBS-M0-20260821-R2''" "js ''DW-OBS-M0-20260821-R2''" ?env None "js ''2026-08-23''" None "\<lambda>t. t"]
    in_table emit
  obtain out where out: "backfill_main (\<lambda>t. t) ?env None None ?fix = Inr (0, out)" by auto
  from dry_run_output_reads_back [OF out emit] out show ?thesis by auto
qed

section \<open>What the pages show\<close>

lemma wf_history: "wf_json (history_json e)"
  by (simp add: history_json_def)

lemma wf_checkpoint: "wf_json (checkpoint_json c)"
  by (simp add: checkpoint_json_def)

lemma wf_node: "wf_json (node_json n)"
  by (simp add: node_json_def wf_history wf_checkpoint)

lemma wf_gate: "wf_json (gate_json g)"
  by (simp add: gate_json_def wf_history wf_node)

lemma wf_artifact: "wf_json (artifact_json run path kind gate node)"
  by (simp add: artifact_json_def wf_history split: option.split)

lemma wf_preview: "wf_json (preview_json b node)"
  by (simp add: preview_json_def)

lemma wf_rnode: "wf_json (rnode_json n)"
  by (simp add: rnode_json_def)

lemma not_index: "hd s \<notin> {48..57} \<Longrightarrow> \<not> is_index s"
  by (cases s) (auto simp: is_index_def is_digit_def)

lemma settled_rnode: "settled (rnode_json n) = Some (rnode_json n)"
  by (simp add: rnode_json_def own_keys_def Let_def not_index js_def unit_of_def settled_strs)

text \<open>
  Every JSON text that a page shows is one document that reads back as the data behind it, \<open>undefined\<close> properties left
  out: the Raw tab of the simulated run's inspector, the Raw tab of the Login Epic's panel (there nothing is lost), the
  preview of a \<open>.json\<close> artifact of the simulated run, and the Login Epic's preview of a file that is neither a source
  file nor YAML.
\<close>

theorem shown_json_reads_back:
  "\<exists>t. (\<exists>panes. Inspector gate node = El ''div'' [cls ''sr-inspector-body''] (panes @ [tab_pane ''raw'' [El ''pre'' [cls ''sr-raw''] [Txt t]]])) \<and>
     read_json t = settled (case node of Some n \<Rightarrow> node_json n | None \<Rightarrow> gate_json gate)"
  "\<exists>t. detail_pane ''raw'' rgate rn = [El ''pre'' [cls ''leg-raw''] [Txt t]] \<and> read_json t = Some (rnode_json rn)"
  "endsWith path (js ''.json'') \<Longrightarrow> \<not> endsWith path (js ''.yaml'') \<Longrightarrow> \<not> endsWith path (js ''.yml'') \<Longrightarrow>
     \<exists>t. artifactContent run path kind og on = Some t \<and> read_json t = settled (artifact_json run path kind og on)"
  "\<not> is_ts (after_last 46 path) \<Longrightarrow> after_last 46 path \<notin> {js ''yaml'', js ''yml''} \<Longrightarrow>
     read_json (makeArtifactPreview erun ogate onode path cursor) = settled (preview_json (preview_base erun ogate onode path) onode)"
proof -
  show "\<exists>t. (\<exists>panes. Inspector gate node = El ''div'' [cls ''sr-inspector-body''] (panes @ [tab_pane ''raw'' [El ''pre'' [cls ''sr-raw''] [Txt t]]])) \<and>
     read_json t = settled (case node of Some n \<Rightarrow> node_json n | None \<Rightarrow> gate_json gate)"
    by (intro exI conjI, simp add: Inspector_def, rule stringify2_read) (simp add: wf_node wf_gate split: option.split)
  show "\<exists>t. detail_pane ''raw'' rgate rn = [El ''pre'' [cls ''leg-raw''] [Txt t]] \<and> read_json t = Some (rnode_json rn)"
    using stringify2_read [OF wf_rnode] by (simp add: detail_pane_def settled_rnode)
  show "endsWith path (js ''.json'') \<Longrightarrow> \<not> endsWith path (js ''.yaml'') \<Longrightarrow> \<not> endsWith path (js ''.yml'') \<Longrightarrow>
     \<exists>t. artifactContent run path kind og on = Some t \<and> read_json t = settled (artifact_json run path kind og on)"
    by (simp add: artifactContent_def stringify2_read wf_artifact)
  show "\<not> is_ts (after_last 46 path) \<Longrightarrow> after_last 46 path \<notin> {js ''yaml'', js ''yml''} \<Longrightarrow>
     read_json (makeArtifactPreview erun ogate onode path cursor) = settled (preview_json (preview_base erun ogate onode path) onode)"
    by (simp add: makeArtifactPreview_def Let_def stringify2_read wf_preview)
qed

end
