(* ===== verification/Spec2Isabelle.thy ===== *)
theory Spec2Isabelle
  imports LiveProps Broadcast Store Realtime Digest Reducer Replay Review Observatory SimRun EpicGraph
    EpicLayout Backfill SimUI EpicView EpicFixture RunPage SimDom
    SimFixture AppShell UaApp BackfillMain LivePane JsonOut
begin

text \<open>
  The DW Run Observatory: a verification development of the web application under
  \<open>src/projects/dw-observation\<close>, a read-only observatory that shows what a governed workflow run did,
  live and in replay, and of the log page \<open>src/systems/test-ua-app\<close>.

  \<^bold>\<open>The program.\<close> A run is recorded as projection events in a database. The server side reads them
  (\<open>lib/serverRunRead.ts\<close>, \<open>lib/serverHistoricalRead.ts\<close>, \<open>lib/postgresEventStore.ts\<close>) and hands a
  snapshot to the page of a run. On that page three panes work on the snapshot: the live pane
  (\<open>lib/useLiveProjection.ts\<close> over the client \<open>lib/live.ts\<close>) loads it, subscribes to a broadcast channel
  (\<open>lib/supabaseRealtime.ts\<close>, contract in \<open>lib/broadcastContract.ts\<close>) and merges frames into it; the
  replay pane (\<open>lib/replay.ts\<close>) reduces any prefix of it to a projection; the review pane
  (\<open>lib/reviewIntelligence.ts\<close>) measures it. In mock mode the snapshot comes from fixtures
  (\<open>lib/observatory.ts\<close>, \<open>lib/mockDataSource.ts\<close>). Two further pages play recorded runs step by step: the
  simulated run (\<open>lib/simRun.ts\<close>, \<open>components/sim\<close>, \<open>fixtures/simRunG0G6.ts\<close>) and the Login Epic
  (\<open>lib/loginEpic*.ts\<close>, \<open>components/login-epic\<close>). A script reconstructs historical runs from an evidence
  table (\<open>scripts/backfillHistoricalRuns.ts\<close>).

  \<^bold>\<open>Theories.\<close>
  \<^item> \<open>Prelude\<close>, \<open>Digest\<close>, \<open>JsonText\<close>: the part of ECMAScript the sources use. Strings are lists of 16-bit
    words, values are the datatype \<open>json\<close>, dictionaries are association lists in insertion order,
    \<open>sort\<close> is a stable insertion sort by the sign of a comparator. Locale \<open>js_comparator\<close> is the contract
    of a comparator, locale \<open>tick_player\<close> that of a player driven by an interval. \<open>Digest\<close> has the
    canonical text and the 64-bit digest of \<open>lib/replay.ts\<close> with its halves at their width.
  \<^item> \<open>Live\<close>, \<open>LiveProps\<close>: \<open>LiveProjectionClient\<close>. The client is a record; a pending promise is a task and
    its completion a step, so that interleavings of frames, channel states, loads and failures are the
    sequences of an inductive relation. The theorems are invariants over all of them.
  \<^item> \<open>Broadcast\<close>, \<open>Store\<close>, \<open>Realtime\<close>, \<open>LivePane\<close>: the envelope, the database reads, the transport, the React
    hook, and the live pane that connects hook and transport through the callbacks of the channel. The
    hook is shown to render exactly the client's state.
  \<^item> \<open>Reducer\<close>, \<open>Replay\<close>, \<open>Review\<close>: the projection with its anomalies, the replay session and the review
    metrics.
  \<^item> \<open>Observatory\<close>: normalisation of bundles, run views, the hierarchy, mock events.
  \<^item> \<open>Dom\<close>: what a component renders, as a tree with handlers; \<open>actions\<close> is what a user can trigger on it.
    Locale \<open>ui_machine\<close> is the contract of a page with state: an invariant that the start, the timers
    and every offered action keep, under which the page renders and every offered action succeeds.
  \<^item> \<open>Panes\<close>, \<open>RunPage\<close>: the panes, the run list, the run page in mock and real mode and the sign-in form,
    with their markup.
  \<^item> \<open>SimRun\<close>, \<open>SimUI\<close>, \<open>SimDom\<close>, \<open>SimFixture\<close>, \<open>AppShell\<close>: the simulated run from its timeline to the
    document that the browser shows. \<open>SimUI\<close> is the page as React renders it; \<open>SimDom\<close> adds the edits that
    \<open>SimRunView\<close> makes behind React's back and is shown to refine it; \<open>SimFixture\<close> is the shipped run;
    \<open>AppShell\<close> has the root layout and the pages that hand over a fixture.
  \<^item> \<open>EpicGraph\<close>, \<open>EpicLayout\<close>, \<open>EpicPreview\<close>, \<open>EpicFixture\<close>, \<open>EpicUI\<close>, \<open>EpicView\<close>: the Login Epic: selectors and
    validation, layout, artifact previews, the fixture loader, the player with its intervals, and the
    page with its graph.
  \<^item> \<open>Backfill\<close>, \<open>BackfillMain\<close>: the evidence table, the reconstructed rows, their validation, the emitted
    SQL, and the script from its environment to its output and exit code.
  \<^item> \<open>UaApp\<close>: the log page.
  \<^item> \<open>JsonRead\<close>, \<open>JsonOut\<close>: the reader of \<open>JSON.parse\<close> and what becomes of a value that is printed with
    \<open>JSON.stringify\<close> and read again (\<open>settled\<close>): its digest, the output of the backfill script's dry run, the
    JSON texts that the pages show.

  \<^bold>\<open>Interfaces.\<close> Every locale is interpreted on the model: \<open>js_comparator\<close> by each comparator the sources
  pass to \<open>sort\<close>, \<open>tick_player\<close> by both players, \<open>ui_machine\<close> by the simulated run, its document, the Login
  Epic, the replay pane and the sign-in form. The properties of those pages are facts of the
  interpretations.

  \<^bold>\<open>Conventions.\<close> A definition has the name of the function it translates where that is free; a step of
  a long function has a name of its own and the map gives its lines. A thrown exception is \<open>None\<close>, or
  \<open>Inl\<close> with its message where something reads the message. A promise is a pending task. A React
  component is a function from its props to a tree, its state is a record, a handler is an action.
  Loops are structural recursion, so every modelled function terminates; only the JSON reader counts down,
  from the length of the text, and \<open>read_json_complete\<close> shows that no larger bound reads more. An interval
  is one step per firing; that a player visits every position and then stops is proved from the number
  of firings. Numbers are integers, except the zoom factor, which is rational.

  \<^bold>\<open>Parameters.\<close> Code outside the repository is an argument: the Supabase client and its answers, the
  environment, \<open>Date.parse\<close>, \<open>localeCompare\<close>, \<open>encodeURIComponent\<close>, the file system, \<open>JSON.parse\<close> in the loaders (\<open>JsonRead\<close> defines it), SHA-256,
  \<open>fetch\<close>, the clock, the JSON fixtures, and React Flow. Where a theorem relies on such a parameter the
  reliance is a hypothesis: \<open>flow_clicks\<close> says that React Flow offers the actions of the nodes it is given
  and no others.

  \<^bold>\<open>What the theorems show.\<close> LIVE is only shown on top of a completed durable read and never after the
  channel is lost; no event is held twice; high-water marks are exact; frames that arrive during a load
  are merged; the panes tell one history. Replaying and resuming is the same as never having replayed;
  the reducer reports exactly the duplicates there are, ledger by ledger. A failed or empty read is never
  presented as history, the service key is never used, and the run page says what the reads returned.
  The canonical text identifies values up to key order; SQL literals and fixture scripts are read back as
  what was written. A stored value keeps its digest exactly when no property holds \<open>undefined\<close>, and the output
  of a dry run reads back as what its exit code says. The validator accepts exactly the valid fixtures; cards lie in their gates and do not
  overlap. Each page renders in every state its own controls can lead to, exactly one card and one edge
  is highlighted, and both players visit every step and stop. Several theorems state what the code does
  where that is not what it means to do: an interval that nobody can clear, recorded states that are
  never shown, a Collapse button that the next step undoes, a live pane that a second run of its effect
  silences for good.

  \<^bold>\<open>Not modelled.\<close> Property names inherited from \<open>Object.prototype\<close> in lookups of untyped objects; numbers
  that are not integers; the viewport that React Flow keeps; style sheets, keys, refs and inline styles
  apart from the zoom; the order of effects of different components within one rendering; the framework's
  routing. The storybook bundles under \<open>storybook-static\<close> are generated, the configuration files are data
  for tools, the tests are not part of the program, and the Python tools beside the application are a
  separate program.
\<close>

section \<open>Properties across components\<close>

lemma mounted_pending: "TBootstrap \<in> set (c_pending (h_client (mount runId [])))"
  by (simp add: mount_def on_client_def bootstrap_def startLoad_def Let_def)

lemma mounted_buffer: "c_preBootstrapBuffer (h_client (mount runId [])) = []" "h_cancelled (mount runId []) = False"
  by (simp_all add: mount_def on_client_def bootstrap_def startLoad_def new_client_def Let_def)

lemma loaded_events:
  assumes "c_preBootstrapBuffer c = []"
  shows "c_events (bootstrap_loaded es c) = globalDurableOrder es"
  using assms by (simp add: bootstrap_loaded_def Let_def recomputeState_def emitChange_def)



end
